(* ===== verification/Platform_Prelude.thy ===== *)
theory Platform_Prelude
  imports Complex_Main
begin

text \<open>
  What every component of the platform model shares: identifiers and time stamps, Python
  exceptions with their class hierarchy, the string primitives of the standard library the
  validators use, binary64 values with their non-finite members, and the database tables the
  repositories under \<^verbatim>\<open>backend/app/repositories\<close> read and update.

  A table is the list of its committed rows. \<open>UPDATE ... WHERE p\<close> rewrites every row that
  satisfies \<open>p\<close> and \<open>RETURNING\<close> yields the rewritten rows. The last part states, as a
  locale, the discipline of conditional transitions that the repositories follow, and proves
  what such a discipline gives to a client that holds an old snapshot of a row.
\<close>

section \<open>Identifiers, time and hints\<close>

type_synonym uuid = nat

type_synonym timestamp = int \<comment> \<open>microseconds since the epoch, UTC\<close>

abbreviation second :: int where "second \<equiv> 1000000"

named_theorems table_simps "evaluation of table updates and look-ups"
named_theorems step_intros "the transitions of the life cycles"

section \<open>Exceptions\<close>

text \<open>
  The classes the modelled handlers raise or catch. \<open>superclasses\<close> lists the proper
  superclasses below \<^verbatim>\<open>Exception\<close>; \<open>OtherException\<close> stands for any
  class outside the list.
\<close>

datatype exc_class =
    ValueError | LookupError | KeyError | OSError | RuntimeError | ValidationError
  | SQLAlchemyError | IntegrityError | MultipleResultsFound
  | ModelRegistryError | ModelRegistryValidationError | RegisteredModelVersionNotFoundError
  | ModelRegistrationError | RegistryMetadataError
  | ExperimentTrackingError | TrackingValidationError
  | ModelPluginError | DuplicateModelPluginError | UnknownModelPluginError
  | ArtifactManagerError | MetricsDataValidationError | TrainerDataValidationError
  | TrainingModelTypeMismatchError
  | TrainingJobError | TrainingJobNotFoundError | TrainingJobConflictError
  | TrainingJobQuotaError | TrainingJobEnqueueError | TrainingJobQueuePersistenceError
  | ModelPromotionError | PromotionValidationError | PromotionPolicyRejectedError
  | PromotionPreconditionError | PromotionAuthorizationError
  | PromotionAliasVerificationError | PromotionAuditFinalizationError
  | RetrainingError | RetrainingValidationError | RetrainingNotFoundError
  | RetrainingPersistenceError | RetrainingDependencyError | RetrainingRegistryError
  | PredictionMonitoringError | MonitoringDataError | MonitoringNotFoundError
  | MonitoringPreconditionError | MonitoringWindowValidationError | MonitoringPersistenceError
  | AutoMLNotFoundError | AutoMLConflictError
  | DatasetStorageError | DatasetNotFoundError | DatasetConflictError | DatasetValidationError
  | DatasetQueueError | RetryableDatasetProcessingError | DatasetIngestionError
  | ChunkingError | EmbeddingInputError
  | RAGServiceError | RAGNotFoundError | RAGConflictError | RAGValidationError | RAGUnavailableError
  | OperationsError | OperationsNotFoundError | OperationsConflictError | OperationsPermissionError
  | OverflowError | OtherException

fun superclasses :: "exc_class \<Rightarrow> exc_class list" where
  "superclasses ValidationError = [ValueError]"
| "superclasses KeyError = [LookupError]"
| "superclasses ModelPluginError = [ValueError]"
| "superclasses DuplicateModelPluginError = [ModelPluginError, ValueError]"
| "superclasses UnknownModelPluginError = [ModelPluginError, ValueError]"
| "superclasses IntegrityError = [SQLAlchemyError]"
| "superclasses MultipleResultsFound = [SQLAlchemyError]"
| "superclasses ModelRegistryValidationError = [ModelRegistryError, ValueError]"
| "superclasses RegisteredModelVersionNotFoundError = [ModelRegistryError, LookupError]"
| "superclasses ModelRegistrationError = [ModelRegistryError]"
| "superclasses RegistryMetadataError = [ModelRegistryError]"
| "superclasses TrackingValidationError = [ExperimentTrackingError, ValueError]"
| "superclasses MetricsDataValidationError = [ValueError]"
| "superclasses TrainerDataValidationError = [ValueError]"
| "superclasses TrainingJobNotFoundError = [TrainingJobError]"
| "superclasses TrainingJobConflictError = [TrainingJobError]"
| "superclasses TrainingJobQuotaError = [TrainingJobError]"
| "superclasses TrainingJobEnqueueError = [TrainingJobError]"
| "superclasses TrainingJobQueuePersistenceError = [TrainingJobError]"
| "superclasses PromotionValidationError = [ModelPromotionError]"
| "superclasses PromotionPolicyRejectedError = [ModelPromotionError]"
| "superclasses PromotionPreconditionError = [ModelPromotionError]"
| "superclasses PromotionAuthorizationError = [ModelPromotionError]"
| "superclasses PromotionAliasVerificationError = [ModelPromotionError]"
| "superclasses PromotionAuditFinalizationError = [ModelPromotionError]"
| "superclasses RetrainingValidationError = [RetrainingError]"
| "superclasses RetrainingNotFoundError = [RetrainingError]"
| "superclasses RetrainingPersistenceError = [RetrainingError]"
| "superclasses RetrainingDependencyError = [RetrainingError]"
| "superclasses RetrainingRegistryError = [RetrainingDependencyError, RetrainingError]"
| "superclasses MonitoringDataError = [PredictionMonitoringError]"
| "superclasses MonitoringNotFoundError = [PredictionMonitoringError]"
| "superclasses MonitoringPreconditionError = [PredictionMonitoringError]"
| "superclasses MonitoringWindowValidationError = [PredictionMonitoringError]"
| "superclasses MonitoringPersistenceError = [PredictionMonitoringError]"
| "superclasses AutoMLNotFoundError = [RuntimeError]"
| "superclasses AutoMLConflictError = [RuntimeError]"
| "superclasses DatasetStorageError = [RuntimeError]"
| "superclasses DatasetQueueError = [RuntimeError]"
| "superclasses RetryableDatasetProcessingError = [RuntimeError]"
| "superclasses OperationsError = [RuntimeError]"
| "superclasses DatasetNotFoundError = [ValueError]"
| "superclasses DatasetConflictError = [ValueError]"
| "superclasses DatasetValidationError = [ValueError]"
| "superclasses DatasetIngestionError = [ValueError]"
| "superclasses ChunkingError = [ValueError]"
| "superclasses EmbeddingInputError = [ValueError]"
| "superclasses RAGNotFoundError = [RAGServiceError]"
| "superclasses RAGConflictError = [RAGServiceError]"
| "superclasses RAGValidationError = [RAGServiceError]"
| "superclasses RAGUnavailableError = [RAGServiceError]"
| "superclasses OperationsNotFoundError = [OperationsError, RuntimeError]"
| "superclasses OperationsConflictError = [OperationsError, RuntimeError]"
| "superclasses OperationsPermissionError = [OperationsError, RuntimeError]"
| "superclasses _ = []"

definition isinstance :: "exc_class \<Rightarrow> exc_class list \<Rightarrow> bool" where
  "isinstance c cs \<longleftrightarrow> list_ex (\<lambda>d. d = c \<or> d \<in> set (superclasses c)) cs"

datatype pyexc = Exc (exc_of: exc_class) (exc_message: string)

type_synonym 'a result = "pyexc + 'a"

fun bind_result :: "'a result \<Rightarrow> ('a \<Rightarrow> 'b result) \<Rightarrow> 'b result" where
  "bind_result (Inl e) f = Inl e"
| "bind_result (Inr x) f = f x"

lemma bind_result_eq_Inr [simp]:
  "bind_result r f = Inr y \<longleftrightarrow> (\<exists>x. r = Inr x \<and> f x = Inr y)"
  by (cases r) auto

lemma bind_result_eq_Inl: "bind_result r f = Inl e \<longleftrightarrow> r = Inl e \<or> (\<exists>x. r = Inr x \<and> f x = Inl e)"
  by (cases r) auto

definition guard_that :: "bool \<Rightarrow> pyexc \<Rightarrow> unit result" where
  "guard_that b e = (if b then Inr () else Inl e)"

lemma guard_that_Inr [simp]: "guard_that b e = Inr u \<longleftrightarrow> b"
  and guard_that_Inl [simp]: "guard_that b e = Inl e' \<longleftrightarrow> \<not> b \<and> e' = e"
  by (auto simp: guard_that_def)

fun is_ok :: "'a result \<Rightarrow> bool" where
  "is_ok (Inr x) = True"
| "is_ok (Inl e) = False"

lemma is_ok_iff: "is_ok r \<longleftrightarrow> (\<exists>x. r = Inr x)"
  by (cases r) auto

lemma is_ok_bind [simp]: "is_ok (bind_result r f) \<longleftrightarrow> (\<exists>x. r = Inr x \<and> is_ok (f x))"
  by (cases r) auto

lemma is_ok_guard [simp]: "is_ok (guard_that b e) \<longleftrightarrow> b"
  by (auto simp: guard_that_def)

section \<open>Strings\<close>

text \<open>
  A string is the list of its code points; the model has the code points below 256. On
  these \<open>str.isspace\<close> holds for the ten ASCII control separators and the blank listed
  here, for NEL and for the no-break space; \<open>str.isdigit\<close> holds for the ASCII digits and
  for the three superscript digits of Latin-1, which \<open>int()\<close> does not read.
\<close>

definition py_isspace :: "char \<Rightarrow> bool" where
  "py_isspace c \<longleftrightarrow> (of_char c :: nat) \<in> {9, 10, 11, 12, 13, 28, 29, 30, 31, 32, 133, 160}"

definition ascii_digit :: "char \<Rightarrow> bool" where
  "ascii_digit c \<longleftrightarrow> 48 \<le> (of_char c :: nat) \<and> (of_char c :: nat) \<le> 57"

definition digit_char :: "char \<Rightarrow> bool" where
  "digit_char c \<longleftrightarrow> ascii_digit c \<or> (of_char c :: nat) \<in> {178, 179, 185}"

definition lower_char :: "char \<Rightarrow> bool" where
  "lower_char c \<longleftrightarrow> 97 \<le> (of_char c :: nat) \<and> (of_char c :: nat) \<le> 122"

definition upper_char :: "char \<Rightarrow> bool" where
  "upper_char c \<longleftrightarrow> 65 \<le> (of_char c :: nat) \<and> (of_char c :: nat) \<le> 90"

definition lstrip :: "string \<Rightarrow> string" where
  "lstrip s = dropWhile py_isspace s"

definition strip :: "string \<Rightarrow> string" where
  "strip s = rev (lstrip (rev (lstrip s)))"

definition isdigit :: "string \<Rightarrow> bool" where
  "isdigit s \<longleftrightarrow> s \<noteq> [] \<and> list_all digit_char s"

fun decimal_value :: "nat \<Rightarrow> string \<Rightarrow> nat" where
  "decimal_value acc [] = acc"
| "decimal_value acc (c # cs) = decimal_value (10 * acc + (of_char c - 48)) cs"

text \<open>\<open>int(s)\<close> on a string that satisfies \<open>isdigit\<close>.\<close>

definition py_int :: "string \<Rightarrow> nat result" where
  "py_int s = (if s \<noteq> [] \<and> list_all ascii_digit s then Inr (decimal_value 0 s)
               else Inl (Exc ValueError ''invalid literal for int() with base 10''))"

lemma lstrip_idem [simp]: "lstrip (lstrip s) = lstrip s"
  by (simp add: lstrip_def dropWhile_idem)

lemma lstrip_suffix: "\<exists>us. s = us @ lstrip s \<and> list_all py_isspace us"
proof -
  have "s = takeWhile py_isspace s @ dropWhile py_isspace s" by simp
  moreover have "list_all py_isspace (takeWhile py_isspace s)"
    by (auto simp: list_all_iff dest: set_takeWhileD)
  ultimately show ?thesis unfolding lstrip_def by blast
qed

lemma strip_sandwich: "\<exists>us vs. s = us @ strip s @ vs \<and> list_all py_isspace us \<and> list_all py_isspace vs"
proof -
  obtain us where us: "s = us @ lstrip s" "list_all py_isspace us"
    using lstrip_suffix by blast
  obtain vs where vs: "rev (lstrip s) = vs @ lstrip (rev (lstrip s))" "list_all py_isspace vs"
    using lstrip_suffix by blast
  have "lstrip s = strip s @ rev vs"
    unfolding strip_def using arg_cong [OF vs(1), of rev] by simp
  moreover have "list_all py_isspace (rev vs)" using vs(2) by (simp add: list_all_iff)
  ultimately show ?thesis using us by metis
qed

lemma strip_length: "length (strip s) \<le> length s"
proof -
  obtain us vs where "s = us @ strip s @ vs" using strip_sandwich by blast
  then have "length s = length us + length (strip s) + length vs"
    by (metis add.assoc length_append)
  then show ?thesis by simp
qed

lemma lstrip_Nil_iff [simp]: "lstrip s = [] \<longleftrightarrow> list_all py_isspace s"
  by (auto simp: lstrip_def list_all_iff)

lemma strip_Nil_iff: "strip s = [] \<longleftrightarrow> list_all py_isspace s"
proof
  assume "strip s = []"
  then have "list_all py_isspace (lstrip s)"
    by (simp add: strip_def list_all_iff)
  moreover obtain us where "s = us @ lstrip s" "list_all py_isspace us"
    using lstrip_suffix by blast
  ultimately show "list_all py_isspace s" by (metis list_all_append)
next
  assume "list_all py_isspace s"
  then have "lstrip s = []" by (simp only: lstrip_Nil_iff)
  then show "strip s = []" by (simp add: strip_def del: lstrip_Nil_iff) (simp add: lstrip_def)
qed

lemma strip_Nil [simp]: "strip [] = []"
  by (simp add: strip_def lstrip_def)

lemma strip_hd: "strip s \<noteq> [] \<Longrightarrow> \<not> py_isspace (hd (strip s))"
proof -
  assume ne: "strip s \<noteq> []"
  obtain vs where vs: "rev (lstrip s) = vs @ lstrip (rev (lstrip s))"
    using lstrip_suffix by blast
  have eq: "lstrip s = strip s @ rev vs"
    unfolding strip_def using arg_cong [OF vs, of rev] by simp
  with ne have "lstrip s \<noteq> []" and "hd (lstrip s) = hd (strip s)" by auto
  then show ?thesis unfolding lstrip_def using hd_dropWhile by metis
qed

lemma lstrip_id: "s = [] \<or> \<not> py_isspace (hd s) \<Longrightarrow> lstrip s = s"
  by (cases s) (auto simp: lstrip_def)

lemma strip_idem [simp]: "strip (strip s) = strip s"
proof (cases "strip s = []")
  case False
  then have "lstrip (strip s) = strip s" by (intro lstrip_id) (simp add: strip_hd)
  then show ?thesis by (simp add: strip_def)
qed simp

section \<open>Binary64 values\<close>

text \<open>
  A Python float is a finite value, an infinity or a NaN. Finite values are reals: the
  model has exact arithmetic and leaves out the rounding of binary64. Comparisons with a NaN
  are false, as in Python.
\<close>

datatype pyfloat = Fin real | PosInf | NegInf | NotANumber

definition isfinite :: "pyfloat \<Rightarrow> bool" where
  "isfinite v \<longleftrightarrow> (case v of Fin x \<Rightarrow> True | _ \<Rightarrow> False)"

fun finite_value :: "pyfloat \<Rightarrow> real option" where
  "finite_value (Fin x) = Some x"
| "finite_value _ = None"

type_synonym metrics = "string \<rightharpoonup> pyfloat"

text \<open>JSON scalars, as \<^verbatim>\<open>json.loads\<close> gives them; integers are unbounded.\<close>

datatype pyval = JNone | JBool bool | JInt int | JFloat pyfloat | JStr string

text \<open>\<open>float(n)\<close> raises from the first integer that rounds to \<open>2 ^ 1024\<close>.\<close>

definition float_of_int :: "int \<Rightarrow> pyfloat result" where
  "float_of_int n = (if 2 ^ 1024 - 2 ^ 970 \<le> \<bar>n\<bar>
     then Inl (Exc OverflowError ''int too large to convert to float'')
     else Inr (Fin (real_of_int n)))"

text \<open>\<^verbatim>\<open>', '.join(parts)\<close>.\<close>

fun join_comma :: "string list \<Rightarrow> string" where
  "join_comma [] = []"
| "join_comma [s] = s"
| "join_comma (s # ss) = s @ '', '' @ join_comma ss"

text \<open>\<^verbatim>\<open>str(uuid)\<close>: 32 lower-case hexadecimal digits in five groups.\<close>

definition hex_char :: "nat \<Rightarrow> char" where
  "hex_char d = char_of (if d < 10 then 48 + d else 87 + d)"

fun hex_digits :: "nat \<Rightarrow> nat \<Rightarrow> string" where
  "hex_digits 0 n = []"
| "hex_digits (Suc k) n = hex_digits k (n div 16) @ [hex_char (n mod 16)]"

definition uuid_str :: "uuid \<Rightarrow> string" where
  "uuid_str u = (let h = hex_digits 32 u in
     take 8 h @ ''-'' @ take 4 (drop 8 h) @ ''-'' @ take 4 (drop 12 h) @ ''-'' @
     take 4 (drop 16 h) @ ''-'' @ drop 20 h)"

lemma length_hex_digits [simp]: "length (hex_digits k n) = k"
  by (induction k arbitrary: n) auto

lemma length_uuid_str [simp]: "length (uuid_str u) = 36"
  by (simp add: uuid_str_def Let_def)

lemma uuid_str_not_blank [simp]: "strip (uuid_str u) \<noteq> []"
  by (simp add: strip_Nil_iff uuid_str_def Let_def py_isspace_def)

section \<open>Tables\<close>

definition update_where :: "('r \<Rightarrow> bool) \<Rightarrow> ('r \<Rightarrow> 'r) \<Rightarrow> 'r list \<Rightarrow> 'r list" where
  "update_where p f rs = map (\<lambda>r. if p r then f r else r) rs"

definition returning :: "('r \<Rightarrow> bool) \<Rightarrow> ('r \<Rightarrow> 'r) \<Rightarrow> 'r list \<Rightarrow> 'r list" where
  "returning p f rs = map f (filter p rs)"

text \<open>
  \<open>scalar_one_or_none\<close>: the only row, nothing when there is none, and
  \<^verbatim>\<open>MultipleResultsFound\<close> otherwise. A statement that selects on the primary
  key never meets the last case; \<open>at_most_one\<close> is its value there.
\<close>

fun scalar_one_or_none :: "'r list \<Rightarrow> 'r option result" where
  "scalar_one_or_none [] = Inr None"
| "scalar_one_or_none [r] = Inr (Some r)"
| "scalar_one_or_none _ = Inl (Exc MultipleResultsFound ''Multiple rows were found'')"

fun at_most_one :: "'r list \<Rightarrow> 'r option" where
  "at_most_one [] = None"
| "at_most_one (r # rs) = Some r"

lemma update_where_simps [table_simps, simp]:
  "update_where p f [] = []"
  "update_where p f (r # rs) = (if p r then f r else r) # update_where p f rs"
  by (simp_all add: update_where_def)

lemma returning_simps [table_simps, simp]:
  "returning p f [] = []"
  "returning p f (r # rs) = (if p r then f r # returning p f rs else returning p f rs)"
  by (simp_all add: returning_def)

lemma length_update_where [simp]: "length (update_where p f rs) = length rs"
  by (simp add: update_where_def)

lemma set_update_where: "set (update_where p f rs) = f ` {r \<in> set rs. p r} \<union> {r \<in> set rs. \<not> p r}"
  by (auto simp: update_where_def)

lemma map_update_where:
  "(\<And>r. p r \<Longrightarrow> g (f r) = g r) \<Longrightarrow> map g (update_where p f rs) = map g rs"
  by (auto simp: update_where_def)

lemma update_where_none: "(\<And>r. r \<in> set rs \<Longrightarrow> \<not> p r) \<Longrightarrow> update_where p f rs = rs"
  by (induction rs) auto

lemma returning_Nil_iff [simp]: "returning p f rs = [] \<longleftrightarrow> (\<forall>r \<in> set rs. \<not> p r)"
  by (induction rs) auto

lemma at_most_one_Some: "at_most_one xs = Some x \<Longrightarrow> x \<in> set xs"
  by (cases xs) auto

lemma at_most_one_None [simp]: "at_most_one xs = None \<longleftrightarrow> xs = []"
  by (cases xs) auto

lemma returning_Some:
  "at_most_one (returning p f rs) = Some r' \<Longrightarrow> \<exists>r \<in> set rs. p r \<and> r' = f r"
  by (induction rs) (auto split: if_splits)

lemma scalar_one_or_none_Some: "scalar_one_or_none xs = Inr (Some x) \<longleftrightarrow> xs = [x]"
  by (cases xs rule: scalar_one_or_none.cases) auto

lemma scalar_one_or_none_None: "scalar_one_or_none xs = Inr None \<longleftrightarrow> xs = []"
  by (cases xs rule: scalar_one_or_none.cases) auto

lemma filter_unique:
  "distinct xs \<Longrightarrow> x \<in> set xs \<Longrightarrow> (\<And>y. y \<in> set xs \<Longrightarrow> P y \<longleftrightarrow> y = x) \<Longrightarrow> filter P xs = [x]"
proof (induction xs)
  case (Cons y ys)
  show ?case
  proof (cases "y = x")
    case True
    then have "filter P ys = []" using Cons.prems by (auto simp: filter_empty_conv)
    with True Cons.prems show ?thesis by simp
  next
    case False
    with Cons show ?thesis by simp
  qed
qed simp

lemma filter_single: "filter P xs = [x] \<Longrightarrow> x \<in> set xs \<and> P x"
proof -
  assume "filter P xs = [x]"
  then have "x \<in> set (filter P xs)" by simp
  then show ?thesis by simp
qed

lemma scalar_one_or_none_Inl: "scalar_one_or_none xs = Inl e \<Longrightarrow> exc_of e = MultipleResultsFound"
  by (cases xs rule: scalar_one_or_none.cases) auto

section \<open>Tables that evolve\<close>

definition lookup :: "('r \<Rightarrow> uuid) \<Rightarrow> uuid \<Rightarrow> 'r list \<Rightarrow> 'r option" where
  "lookup key k rs = find (\<lambda>r. key r = k) rs"

text \<open>
  \<open>evolves m T T'\<close>: every row of \<open>T\<close> is still at its place in \<open>T'\<close>, after some
  number of moves \<open>m\<close>, and \<open>T'\<close> may have new rows behind them.
\<close>

definition evolves :: "('r \<Rightarrow> 'r \<Rightarrow> bool) \<Rightarrow> 'r list \<Rightarrow> 'r list \<Rightarrow> bool" where
  "evolves m T T' \<longleftrightarrow> (\<exists>U V. T' = U @ V \<and> list_all2 (m\<^sup>*\<^sup>*) T U)"

lemma lookup_simps [table_simps, simp]:
  "lookup key k [] = None"
  "lookup key k (r # rs) = (if key r = k then Some r else lookup key k rs)"
  by (simp_all add: lookup_def)

lemma lookup_append: "lookup key k (rs @ ss) =
    (case lookup key k rs of None \<Rightarrow> lookup key k ss | Some r \<Rightarrow> Some r)"
  by (induction rs) auto

lemma lookup_SomeD: "lookup key k rs = Some r \<Longrightarrow> r \<in> set rs \<and> key r = k"
  by (induction rs) (auto split: if_splits)

lemma lookup_NoneD: "lookup key k rs = None \<Longrightarrow> r \<in> set rs \<Longrightarrow> key r \<noteq> k"
  by (induction rs) (auto split: if_splits)

lemma lookup_distinct:
  "distinct (map key rs) \<Longrightarrow> r \<in> set rs \<Longrightarrow> lookup key (key r) rs = Some r"
  by (induction rs) force+

lemma lookup_update_where:
  "(\<And>r. p r \<Longrightarrow> key (f r) = key r) \<Longrightarrow>
   lookup key k (update_where p f rs) = map_option (\<lambda>r. if p r then f r else r) (lookup key k rs)"
  by (induction rs) auto

lemma at_most_one_returning:
  assumes "distinct (map key rs)" and "\<And>r. p r \<longleftrightarrow> key r = k \<and> q r"
  shows "at_most_one (returning p f rs) =
    (case lookup key k rs of None \<Rightarrow> None | Some r \<Rightarrow> if q r then Some (f r) else None)"
  using assms(1)
proof (induction rs)
  case (Cons r rs)
  show ?case
  proof (cases "key r = k")
    case True
    then have "\<forall>s \<in> set rs. key s \<noteq> k" using Cons.prems by (metis distinct.simps(2) image_eqI list.set_map list.simps(9))
    then have "returning p f rs = []" by (simp add: assms(2))
    with True show ?thesis by (simp add: assms(2))
  next
    case False
    with Cons show ?thesis by (simp add: assms(2))
  qed
qed simp

lemma evolves_refl [simp, intro]: "evolves m T T"
proof -
  have "list_all2 (m\<^sup>*\<^sup>*) T T" by (simp add: list_all2_refl)
  then show ?thesis unfolding evolves_def by (metis append_Nil2)
qed

lemma evolves_trans [trans]:
  assumes "evolves m T T'" and "evolves m T' T''"
  shows "evolves m T T''"
proof -
  obtain U V where UV: "T' = U @ V" "list_all2 (m\<^sup>*\<^sup>*) T U"
    using assms(1) unfolding evolves_def by blast
  obtain X Y where XY: "T'' = X @ Y" "list_all2 (m\<^sup>*\<^sup>*) (U @ V) X"
    using assms(2) UV(1) unfolding evolves_def by blast
  obtain X1 X2 where X: "X = X1 @ X2" "list_all2 (m\<^sup>*\<^sup>*) U X1"
    using XY(2) by (auto simp: list_all2_append1)
  have "list_all2 (m\<^sup>*\<^sup>*) T X1"
    using UV(2) X(2) by (rule list_all2_trans [rotated]) (rule rtranclp_trans)
  then show ?thesis unfolding evolves_def using XY(1) X(1) by fastforce
qed

lemma evolves_update:
  assumes "\<And>r. r \<in> set T \<Longrightarrow> p r \<Longrightarrow> m r (f r)"
  shows "evolves m T (update_where p f T)"
proof -
  have "list_all2 (m\<^sup>*\<^sup>*) T (update_where p f T)"
    using assms by (induction T) auto
  then show ?thesis unfolding evolves_def by (metis append_Nil2)
qed

lemma evolves_append [intro]: "evolves m T (T @ N)"
  unfolding evolves_def by (auto simp: list_all2_refl)

text \<open>
  The interface of a table with conditional transitions: a row has an identity and a version;
  a move keeps the identity, raises the version by one and never leaves a final row.
\<close>

locale versioned_rows =
  fixes key :: "'r \<Rightarrow> uuid" and ver :: "'r \<Rightarrow> nat"
    and moves :: "'r \<Rightarrow> 'r \<Rightarrow> bool" and final :: "'r \<Rightarrow> bool"
  assumes moves_key: "moves r r' \<Longrightarrow> key r' = key r"
    and moves_ver: "moves r r' \<Longrightarrow> ver r' = Suc (ver r)"
    and moves_final: "moves r r' \<Longrightarrow> \<not> final r"
begin

lemma reach_key: "moves\<^sup>*\<^sup>* r r' \<Longrightarrow> key r' = key r"
  by (induction rule: rtranclp_induct) (auto dest: moves_key)

lemma reach_ver: "moves\<^sup>*\<^sup>* r r' \<Longrightarrow> ver r \<le> ver r'"
  by (induction rule: rtranclp_induct) (auto dest: moves_ver)

lemma reach_same_ver:
  assumes "moves\<^sup>*\<^sup>* r r'" and "ver r' = ver r"
  shows "r' = r"
  using assms(1)
proof (cases rule: converse_rtranclpE)
  case (step q)
  then have "Suc (ver r) \<le> ver r'" using moves_ver reach_ver by metis
  with assms(2) show ?thesis by simp
qed simp

lemma reach_final: "moves\<^sup>*\<^sup>* r r' \<Longrightarrow> final r \<Longrightarrow> r' = r"
  by (erule converse_rtranclpE) (auto dest: moves_final)

lemma evolves_keys: "evolves moves T T' \<Longrightarrow> \<exists>ks. map key T' = map key T @ ks"
proof -
  assume "evolves moves T T'"
  then obtain U V where UV: "T' = U @ V" "list_all2 (moves\<^sup>*\<^sup>*) T U"
    unfolding evolves_def by blast
  have "map key U = map key T" using UV(2)
    by (induction rule: list_all2_induct) (auto simp: reach_key)
  then show ?thesis using UV(1) by auto
qed

lemma evolves_lookup:
  assumes "evolves moves T T'" and "lookup key k T = Some r"
  shows "\<exists>r'. lookup key k T' = Some r' \<and> moves\<^sup>*\<^sup>* r r'"
proof -
  obtain U V where UV: "T' = U @ V" "list_all2 (moves\<^sup>*\<^sup>*) T U"
    using assms(1) unfolding evolves_def by blast
  have "\<exists>r'. lookup key k U = Some r' \<and> moves\<^sup>*\<^sup>* r r'"
    using UV(2) assms(2)
    by (induction rule: list_all2_induct) (auto simp: reach_key split: if_splits)
  then show ?thesis using UV(1) by (auto simp: lookup_append)
qed

lemma evolves_unchanged:
  assumes "evolves moves T T'" and "lookup key k T = Some r" and "lookup key k T' = Some r'"
    and "ver r' = ver r"
  shows "r' = r"
  using evolves_lookup [OF assms(1,2)] assms(3,4) by (auto dest: reach_same_ver)

lemma evolves_final:
  assumes "evolves moves T T'" and "lookup key k T = Some r" and "final r"
  shows "lookup key k T' = Some r"
  using evolves_lookup [OF assms(1,2)] assms(3) by (auto dest: reach_final)

end

end
