(* ===== verification/Model_Registry.thy ===== *)
theory Model_Registry
  imports Platform_Prelude "HOL-Library.List_Lexorder" "HOL-Library.Char_ord"
begin

text \<open>
  The domain enumerations (\<^verbatim>\<open>ml/domain/enums.py\<close>), the trainer identity
  (\<^verbatim>\<open>ml/base/identity.py\<close>), the safe names of registered models
  (\<^verbatim>\<open>ml/registry/naming.py\<close>), the immutable registry values
  (\<^verbatim>\<open>ml/registry/models.py\<close>) and the adapter that puts them in front of the
  MLflow client (\<^verbatim>\<open>ml/registry/mlflow.py\<close>). The client is a third-party
  package: it is a record of functions over an external state. The locale \<open>verified_registry\<close> is
  the interface of a registry whose assignments are read back; the adapter provides it.
\<close>

section \<open>Domain enumerations and trainer keys\<close>

datatype algorithm_type =
    RandomForest | LogisticRegression | DecisionTree | ExtraTrees | Knn | Svm
  | GradientBoosting | LinearRegression | Ridge | Lasso | ElasticNet
  | Xgboost | Lightgbm | Catboost

datatype task_type = Regression | Classification

fun algorithm_value :: "algorithm_type \<Rightarrow> string" where
  "algorithm_value RandomForest = ''random_forest''"
| "algorithm_value LogisticRegression = ''logistic_regression''"
| "algorithm_value DecisionTree = ''decision_tree''"
| "algorithm_value ExtraTrees = ''extra_trees''"
| "algorithm_value Knn = ''knn''"
| "algorithm_value Svm = ''svm''"
| "algorithm_value GradientBoosting = ''gradient_boosting''"
| "algorithm_value LinearRegression = ''linear_regression''"
| "algorithm_value Ridge = ''ridge''"
| "algorithm_value Lasso = ''lasso''"
| "algorithm_value ElasticNet = ''elastic_net''"
| "algorithm_value Xgboost = ''xgboost''"
| "algorithm_value Lightgbm = ''lightgbm''"
| "algorithm_value Catboost = ''catboost''"

fun task_value :: "task_type \<Rightarrow> string" where
  "task_value Regression = ''regression''"
| "task_value Classification = ''classification''"

definition all_algorithms :: "algorithm_type list" where
  "all_algorithms = [RandomForest, LogisticRegression, DecisionTree, ExtraTrees, Knn, Svm,
     GradientBoosting, LinearRegression, Ridge, Lasso, ElasticNet, Xgboost, Lightgbm, Catboost]"

text \<open>\<^verbatim>\<open>AlgorithmType(value)\<close> and \<^verbatim>\<open>TaskType(value)\<close>.\<close>

definition parse_algorithm :: "string \<Rightarrow> algorithm_type result" where
  "parse_algorithm s = (case find (\<lambda>a. algorithm_value a = s) all_algorithms of
     Some a \<Rightarrow> Inr a | None \<Rightarrow> Inl (Exc ValueError ''is not a valid AlgorithmType''))"

definition parse_task :: "string \<Rightarrow> task_type result" where
  "parse_task s = (case find (\<lambda>t. task_value t = s) [Regression, Classification] of
     Some t \<Rightarrow> Inr t | None \<Rightarrow> Inl (Exc ValueError ''is not a valid TaskType''))"

record trainer_key =
  key_algorithm :: algorithm_type
  key_task :: task_type

definition trainer_key_str :: "trainer_key \<Rightarrow> string" where
  "trainer_key_str k = algorithm_value (key_algorithm k) @ ''/'' @ task_value (key_task k)"

section \<open>Names\<close>

definition name_char :: "char \<Rightarrow> bool" where
  "name_char c \<longleftrightarrow> lower_char c \<or> ascii_digit c \<or> c = CHR ''_''"

definition alias_char :: "char \<Rightarrow> bool" where
  "alias_char c \<longleftrightarrow> lower_char c \<or> upper_char c \<or> ascii_digit c \<or>
     c = CHR ''_'' \<or> c = CHR ''.'' \<or> c = CHR ''-''"

text \<open>
  \<open>fullmatch\<close> of a pattern \<^verbatim>\<open>^[first][rest]{m,n}$\<close>: the whole string has a first
  character of one class and between \<open>m\<close> and \<open>n\<close> characters of another.
\<close>

fun matches_class :: "(char \<Rightarrow> bool) \<Rightarrow> (char \<Rightarrow> bool) \<Rightarrow> nat \<Rightarrow> nat \<Rightarrow> string \<Rightarrow> bool" where
  "matches_class first rest m n [] \<longleftrightarrow> False"
| "matches_class first rest m n (c # cs) \<longleftrightarrow>
     first c \<and> list_all rest cs \<and> m \<le> length cs \<and> length cs \<le> n"

definition model_name_pattern :: "string \<Rightarrow> bool" where
  "model_name_pattern = matches_class lower_char name_char 2 127"

definition model_prefix_pattern :: "string \<Rightarrow> bool" where
  "model_prefix_pattern = matches_class lower_char name_char 1 63"

definition model_alias_pattern :: "string \<Rightarrow> bool" where
  "model_alias_pattern = matches_class (\<lambda>c. lower_char c \<or> upper_char c) alias_char 0 127"

definition validate_registered_model_name :: "string \<Rightarrow> string result" where
  "validate_registered_model_name name =
     (if \<not> model_name_pattern name
      then Inl (Exc ModelRegistryValidationError
        (''Registered model names must be 3-128 lower-case letters, numbers, '' @
         ''or underscores and begin with a letter.''))
      else Inr name)"

definition build_registered_model_name :: "trainer_key \<Rightarrow> string \<Rightarrow> string result" where
  "build_registered_model_name k prefix =
     (if \<not> model_prefix_pattern prefix
      then Inl (Exc ModelRegistryValidationError
        (''Registered-model prefixes must use lower-case letters, numbers, '' @
         ''or underscores.''))
      else validate_registered_model_name
        (prefix @ ''_'' @ algorithm_value (key_algorithm k) @ ''_'' @ task_value (key_task k)))"

definition version_or_alias_error :: pyexc where
  "version_or_alias_error = Exc ModelRegistryValidationError
     ''version_or_alias must be a positive version or a safe alias.''"

definition validate_version_or_alias :: "string \<Rightarrow> string result" where
  "validate_version_or_alias value =
     (if isdigit value
      then bind_result (py_int value) (\<lambda>n. if 0 < n then Inr value else Inl version_or_alias_error)
      else if model_alias_pattern value then Inr value
      else Inl version_or_alias_error)"

section \<open>Registry values\<close>

datatype version_status = PendingRegistration | FailedRegistration | Ready

record registered_version =
  rv_name :: string
  rv_version :: string
  rv_run_id :: string
  rv_source_uri :: string
  rv_key :: trainer_key
  rv_status :: version_status
  rv_aliases :: "string list"

record registered_alias =
  ra_alias :: string
  ra_version :: string

record registration_request =
  rr_name :: string
  rr_run_id :: string
  rr_artifact_uri :: string
  rr_key :: trainer_key
  rr_description :: "string option"
  rr_tags :: "(string \<times> string) list"

definition registry_validate_text :: "string \<Rightarrow> string \<Rightarrow> nat \<Rightarrow> unit result" where
  "registry_validate_text name value max_length =
     guard_that (strip value \<noteq> [] \<and> length value \<le> max_length)
       (Exc ModelRegistryValidationError (name @ '' must be a non-empty string of at most''))"

definition positive_version :: "string \<Rightarrow> unit result" where
  "positive_version v =
     (let bad = Exc ModelRegistryValidationError
                  ''Registered model versions must be positive integer strings.'' in
      if \<not> isdigit v then Inl bad
      else bind_result (py_int v) (\<lambda>n. guard_that (0 < n) bad))"

definition make_registered_version :: "registered_version \<Rightarrow> registered_version result" where
  "make_registered_version v =
     bind_result (validate_registered_model_name (rv_name v)) (\<lambda>_.
     bind_result (positive_version (rv_version v)) (\<lambda>_.
     bind_result (registry_validate_text ''run_id'' (rv_run_id v) 255) (\<lambda>_.
     bind_result (registry_validate_text ''source_uri'' (rv_source_uri v) 4096) (\<lambda>_.
     Inr v))))"

definition make_registered_alias :: "registered_alias \<Rightarrow> registered_alias result" where
  "make_registered_alias a =
     bind_result (validate_version_or_alias (ra_alias a)) (\<lambda>alias.
     bind_result (guard_that (\<not> isdigit alias)
       (Exc ModelRegistryValidationError ''Model aliases must not be numeric.'')) (\<lambda>_.
     bind_result (positive_version (ra_version a)) (\<lambda>_. Inr a)))"

definition protected_version_tags :: "string list" where
  "protected_version_tags = [''algorithm'', ''task_type'', ''platform_component'']"

definition tag_name_pattern :: "string \<Rightarrow> bool" where
  "tag_name_pattern =
     matches_class (\<lambda>c. lower_char c \<or> upper_char c \<or> ascii_digit c) alias_char 0 249"

fun normalize_version_tags :: "(string \<times> string) list \<Rightarrow> (string \<times> string) list result" where
  "normalize_version_tags [] = Inr []"
| "normalize_version_tags ((k, v) # tags) =
     (if \<not> tag_name_pattern k
      then Inl (Exc ModelRegistryValidationError
             ''Model-version tag names contain unsupported characters.'')
      else if k \<in> set protected_version_tags
      then Inl (Exc ModelRegistryValidationError
             (''Model-version tag '' @ k @ '' is protected by the platform.''))
      else if v = [] \<or> length v > 5000
      then Inl (Exc ModelRegistryValidationError
             (''Model-version tag '' @ k @ '' must be a non-empty string.''))
      else bind_result (normalize_version_tags tags) (\<lambda>ts. Inr ((k, v) # ts)))"

definition make_registration_request :: "registration_request \<Rightarrow> registration_request result" where
  "make_registration_request r =
     bind_result (validate_registered_model_name (rr_name r)) (\<lambda>_.
     bind_result (registry_validate_text ''source_run_id'' (rr_run_id r) 255) (\<lambda>_.
     bind_result (registry_validate_text ''artifact_uri'' (rr_artifact_uri r) 4096) (\<lambda>_.
     bind_result (case rr_description r of None \<Rightarrow> Inr ()
                  | Some d \<Rightarrow> registry_validate_text ''description'' d 5000) (\<lambda>_.
     bind_result (normalize_version_tags (rr_tags r)) (\<lambda>ts.
     Inr (r\<lparr>rr_tags := ts\<rparr>))))))"

section \<open>The MLflow adapter\<close>

text \<open>
  What the adapter reads of an MLflow \<^verbatim>\<open>ModelVersion\<close>. A field whose dynamic
  type is checked before use is an option, \<open>None\<close> standing for a value of another type.
\<close>

record model_version =
  mv_name :: string
  mv_version :: string
  mv_run_id :: "string option"
  mv_source :: string
  mv_status :: string
  mv_tags :: "(string \<times> string) list option"
  mv_aliases :: "string list option"

text \<open>
  The third-party client, over a state \<open>'s\<close> of the tracking server. A failing call is an
  \<^verbatim>\<open>MlflowException\<close>, given by its error code.
\<close>

type_synonym mlflow_code = string

record 's mlflow_client =
  client_get_version :: "'s \<Rightarrow> string \<Rightarrow> string \<Rightarrow> mlflow_code + model_version"
  client_get_by_alias :: "'s \<Rightarrow> string \<Rightarrow> string \<Rightarrow> mlflow_code + model_version"
  client_get_model :: "'s \<Rightarrow> string \<Rightarrow> mlflow_code option"
  client_set_alias :: "'s \<Rightarrow> string \<Rightarrow> string \<Rightarrow> string \<Rightarrow> mlflow_code option \<times> 's"
  client_create_model :: "'s \<Rightarrow> string \<Rightarrow> (string \<times> string) list \<Rightarrow> mlflow_code option \<times> 's"
  client_create_version :: "'s \<Rightarrow> registration_request \<Rightarrow> (string \<times> string) list \<Rightarrow>
     (mlflow_code + model_version) \<times> 's"

definition parse_version_status :: "string \<Rightarrow> version_status result" where
  "parse_version_status s =
     (if s = ''PENDING_REGISTRATION'' then Inr PendingRegistration
      else if s = ''FAILED_REGISTRATION'' then Inr FailedRegistration
      else if s = ''READY'' then Inr Ready
      else Inl (Exc ValueError ''is not a valid RegisteredModelVersionStatus''))"

definition metadata_error :: "string \<Rightarrow> pyexc" where
  "metadata_error m = Exc RegistryMetadataError m"

definition platform_key :: "(string \<times> string) list \<Rightarrow> string \<Rightarrow> (trainer_key \<times> version_status) result" where
  "platform_key tags status =
     (case (map_of tags ''algorithm'', map_of tags ''task_type'') of
        (Some a, Some t) \<Rightarrow>
          bind_result (parse_algorithm a) (\<lambda>algorithm.
          bind_result (parse_task t) (\<lambda>task.
          bind_result (parse_version_status status) (\<lambda>st.
          Inr (\<lparr>key_algorithm = algorithm, key_task = task\<rparr>, st))))
      | _ \<Rightarrow> Inl (Exc KeyError ''missing tag''))"

definition to_platform_version :: "model_version \<Rightarrow> registered_version result" where
  "to_platform_version mv =
     (case (mv_run_id mv, mv_tags mv, mv_aliases mv) of
        (None, _, _) \<Rightarrow> Inl (metadata_error
           ''The registered model version is not linked to a source run.'')
      | (Some run, None, _) \<Rightarrow> Inl (metadata_error
           ''The registered model version has invalid tag metadata.'')
      | (Some run, Some tags, None) \<Rightarrow> Inl (metadata_error
           ''The registered model version has invalid alias metadata.'')
      | (Some run, Some tags, Some aliases) \<Rightarrow>
          (case platform_key tags (mv_status mv) of
             Inl _ \<Rightarrow> Inl (metadata_error
               ''The registered model version lacks valid AI Core metadata.'')
           | Inr (k, st) \<Rightarrow> make_registered_version
               \<lparr>rv_name = mv_name mv, rv_version = mv_version mv, rv_run_id = run,
                rv_source_uri = mv_source mv, rv_key = k, rv_status = st,
                rv_aliases = sort aliases\<rparr>))"

definition mlflow_resolve ::
    "'s mlflow_client \<Rightarrow> 's \<Rightarrow> string \<Rightarrow> string \<Rightarrow> registered_version result" where
  "mlflow_resolve c s name ref0 =
     bind_result (validate_registered_model_name name) (\<lambda>n.
     bind_result (validate_version_or_alias ref0) (\<lambda>ref.
     (case (if isdigit ref then client_get_version c s n ref
            else client_get_by_alias c s n ref) of
        Inl code \<Rightarrow>
          if code = ''RESOURCE_DOES_NOT_EXIST'' \<or>
             (\<not> isdigit ref \<and> code = ''INVALID_PARAMETER_VALUE'')
          then Inl (Exc RegisteredModelVersionNotFoundError
             ''The requested registered model version or alias was not found.'')
          else Inl (Exc ModelRegistryError
             ''MLflow could not resolve the requested model version.'')
      | Inr mv \<Rightarrow> to_platform_version mv)))"

definition mlflow_assign_alias ::
    "'s mlflow_client \<Rightarrow> 's \<Rightarrow> string \<Rightarrow> string \<Rightarrow> string \<Rightarrow> registered_version result \<times> 's" where
  "mlflow_assign_alias c s name alias version =
     (case bind_result (validate_registered_model_name name) (\<lambda>n.
           bind_result (validate_version_or_alias alias) (\<lambda>a.
           bind_result (validate_version_or_alias version) (\<lambda>v.
           bind_result (guard_that (\<not> isdigit a \<and> isdigit v)
             (Exc ModelRegistryValidationError
               ''Alias assignment requires a named alias and exact version.'')) (\<lambda>_.
           Inr (n, a, v))))) of
        Inl e \<Rightarrow> (Inl e, s)
      | Inr (n, a, v) \<Rightarrow>
          (case client_set_alias c s n a v of
             (Some code, s') \<Rightarrow>
               (if code = ''RESOURCE_DOES_NOT_EXIST''
                then Inl (Exc RegisteredModelVersionNotFoundError
                  ''The requested registered model version was not found.'')
                else Inl (Exc ModelRegistryError
                  ''MLflow could not assign the requested model alias.''), s')
           | (None, s') \<Rightarrow>
               (case mlflow_resolve c s' n a of
                  Inl e \<Rightarrow> (Inl e, s')
                | Inr r \<Rightarrow>
                    (if rv_version r \<noteq> v \<or> a \<notin> set (rv_aliases r)
                     then Inl (Exc ModelRegistryError
                       ''MLflow alias verification did not match the requested version.'')
                     else Inr r, s'))))"

definition governed_aliases :: "string list" where
  "governed_aliases = [''candidate'', ''challenger'', ''champion'']"

fun collect_aliases ::
    "'s mlflow_client \<Rightarrow> 's \<Rightarrow> string \<Rightarrow> string list \<Rightarrow> registered_alias list result" where
  "collect_aliases c s n [] = Inr []"
| "collect_aliases c s n (a # as) =
     (case mlflow_resolve c s n a of
        Inl e \<Rightarrow> if isinstance (exc_of e) [RegisteredModelVersionNotFoundError]
                 then collect_aliases c s n as else Inl e
      | Inr r \<Rightarrow>
          bind_result (make_registered_alias \<lparr>ra_alias = a, ra_version = rv_version r\<rparr>) (\<lambda>al.
          bind_result (collect_aliases c s n as) (\<lambda>rest. Inr (al # rest))))"

definition mlflow_list_aliases ::
    "'s mlflow_client \<Rightarrow> 's \<Rightarrow> string \<Rightarrow> registered_alias list result" where
  "mlflow_list_aliases c s name =
     bind_result (validate_registered_model_name name) (\<lambda>n.
     (case client_get_model c s n of
        Some code \<Rightarrow>
          if code = ''RESOURCE_DOES_NOT_EXIST''
          then Inl (Exc RegisteredModelVersionNotFoundError
            ''The requested registered model was not found.'')
          else Inl (Exc ModelRegistryError
            ''MLflow could not inspect the requested registered model.'')
      | None \<Rightarrow> collect_aliases c s n governed_aliases))"

definition ensure_registered_model ::
    "'s mlflow_client \<Rightarrow> 's \<Rightarrow> string \<Rightarrow> (string \<times> string) list \<Rightarrow> unit result \<times> 's" where
  "ensure_registered_model c s n tags =
     (case client_get_model c s n of
        None \<Rightarrow> (Inr (), s)
      | Some code \<Rightarrow>
          if code \<noteq> ''RESOURCE_DOES_NOT_EXIST''
          then (Inl (Exc ModelRegistryError ''MLflow could not inspect the registered model.''), s)
          else (case client_create_model c s n tags of
                  (None, s') \<Rightarrow> (Inr (), s')
                | (Some code', s') \<Rightarrow>
                    (if code' \<noteq> ''RESOURCE_ALREADY_EXISTS''
                     then Inl (Exc ModelRegistrationError
                       ''MLflow could not create the registered model.'')
                     else Inr (), s')))"

definition registration_tags :: "registration_request \<Rightarrow> (string \<times> string) list" where
  "registration_tags r =
     [(''algorithm'', algorithm_value (key_algorithm (rr_key r))),
      (''task_type'', task_value (key_task (rr_key r))),
      (''platform_component'', ''ai_core'')]"

text \<open>\<^verbatim>\<open>{**request.tags, **protected_tags}\<close>: the protected tags win.\<close>

definition merged_tags :: "registration_request \<Rightarrow> (string \<times> string) list" where
  "merged_tags r = filter (\<lambda>(k, v). k \<notin> fst ` set (registration_tags r)) (rr_tags r) @ registration_tags r"

definition mlflow_register ::
    "'s mlflow_client \<Rightarrow> 's \<Rightarrow> registration_request \<Rightarrow> registered_version result \<times> 's" where
  "mlflow_register c s r =
     (case ensure_registered_model c s (rr_name r) (registration_tags r) of
        (Inl e, s1) \<Rightarrow> (Inl e, s1)
      | (Inr _, s1) \<Rightarrow>
          (case client_create_version c s1 r (merged_tags r) of
             (Inl code, s2) \<Rightarrow> (Inl (Exc ModelRegistrationError
               ''MLflow could not register the completed AI Core model.''), s2)
           | (Inr mv, s2) \<Rightarrow> (to_platform_version mv, s2)))"

section \<open>Lemmas on names and keys\<close>

lemma lower_not_digit: "lower_char c \<Longrightarrow> \<not> digit_char c"
  by (auto simp: lower_char_def digit_char_def ascii_digit_def)

lemma upper_not_digit: "upper_char c \<Longrightarrow> \<not> digit_char c"
  by (auto simp: upper_char_def digit_char_def ascii_digit_def)

lemma parse_algorithm_value [simp]: "parse_algorithm (algorithm_value a) = Inr a"
  by (cases a) (simp_all add: parse_algorithm_def all_algorithms_def)

lemma parse_task_value [simp]: "parse_task (task_value t) = Inr t"
  by (cases t) (simp_all add: parse_task_def)

lemma algorithm_value_inject: "algorithm_value a = algorithm_value b \<longleftrightarrow> a = b"
  by (metis parse_algorithm_value sum.inject(2))

lemma task_value_inject: "task_value t = task_value u \<longleftrightarrow> t = u"
  by (metis parse_task_value sum.inject(2))

lemma algorithm_value_chars: "list_all name_char (algorithm_value a)"
  by (cases a) (simp_all add: name_char_def lower_char_def)

lemma task_value_chars: "list_all name_char (task_value t)"
  by (cases t) (simp_all add: name_char_def lower_char_def)

lemma algorithm_value_length: "3 \<le> length (algorithm_value a) \<and> length (algorithm_value a) \<le> 19"
  by (cases a) simp_all

lemma task_value_length: "10 \<le> length (task_value t) \<and> length (task_value t) \<le> 14"
  by (cases t) simp_all

lemma task_suffix_inject:
  assumes "xs @ task_value t = ys @ task_value u"
  shows "t = u \<and> xs = ys"
proof -
  have "t = u"
  proof (rule ccontr)
    assume "t \<noteq> u"
    moreover from assms have "rev (task_value t) @ rev xs = rev (task_value u) @ rev ys"
      by (metis rev_append)
    ultimately show False by (cases t; cases u) simp_all
  qed
  with assms show ?thesis by simp
qed

lemma trainer_key_suffix_inject:
  assumes "algorithm_value (key_algorithm k) @ CHR ''_'' # task_value (key_task k) =
           algorithm_value (key_algorithm k') @ CHR ''_'' # task_value (key_task k')"
  shows "k = (k' :: trainer_key)"
proof -
  from assms have "(algorithm_value (key_algorithm k) @ ''_'') @ task_value (key_task k) =
      (algorithm_value (key_algorithm k') @ ''_'') @ task_value (key_task k')" by simp
  from task_suffix_inject [OF this] show ?thesis
    by (simp add: algorithm_value_inject)
qed

lemma built_name_valid:
  assumes "model_prefix_pattern p"
  shows "model_name_pattern (p @ ''_'' @ algorithm_value a @ ''_'' @ task_value t)"
proof -
  from assms obtain c cs where p: "p = c # cs" "lower_char c" "list_all name_char cs" "length cs \<le> 63"
    unfolding model_prefix_pattern_def by (cases p) auto
  have "name_char CHR ''_''" by (simp add: name_char_def)
  with p show ?thesis
    using algorithm_value_chars [of a] task_value_chars [of t]
      algorithm_value_length [of a] task_value_length [of t]
    by (simp add: model_name_pattern_def)
qed

lemma model_name_pattern_chars: "model_name_pattern n \<Longrightarrow> list_all name_char n \<and> length n \<le> 128"
  by (cases n) (auto simp: model_name_pattern_def name_char_def)

lemma make_registered_version_Inr:
  "make_registered_version v = Inr w \<longleftrightarrow> w = v \<and> model_name_pattern (rv_name v) \<and>
     positive_version (rv_version v) = Inr () \<and>
     strip (rv_run_id v) \<noteq> [] \<and> length (rv_run_id v) \<le> 255 \<and>
     strip (rv_source_uri v) \<noteq> [] \<and> length (rv_source_uri v) \<le> 4096"
  by (auto simp: make_registered_version_def validate_registered_model_name_def
      registry_validate_text_def)

lemma positive_version_Inr:
  "positive_version v = Inr u \<longleftrightarrow> v \<noteq> [] \<and> list_all ascii_digit v \<and> 0 < decimal_value 0 v"
  by (cases v) (auto simp: positive_version_def py_int_def isdigit_def digit_char_def Let_def
      list_all_iff)

lemma map_of_filter_fst:
  "map_of (filter (\<lambda>(k, v). P k) xs) k = (if P k then map_of xs k else None)"
  by (induction xs) auto

lemma merged_tag_lookup:
  "k \<in> fst ` set (registration_tags r) \<Longrightarrow> map_of (merged_tags r) k = map_of (registration_tags r) k"
  by (simp add: merged_tags_def map_add_def map_of_filter_fst split: option.splits)

lemma registration_tag_values [simp]:
  "map_of (merged_tags r) ''algorithm'' = Some (algorithm_value (key_algorithm (rr_key r)))"
  "map_of (merged_tags r) ''task_type'' = Some (task_value (key_task (rr_key r)))"
  by (subst merged_tag_lookup, simp_all add: registration_tags_def)+

section \<open>Properties\<close>

text \<open>
  For every valid prefix the deterministic registered-model name of every trainer key
  exists and is itself a valid registered-model name, and two trainer keys never share one.
\<close>

theorem registered_model_names_identify_keys:
  assumes "model_prefix_pattern p"
  shows "\<exists>n. build_registered_model_name k p = Inr n \<and> model_name_pattern n \<and>
    (\<forall>k'. build_registered_model_name k' p = Inr n \<longrightarrow> k' = k)"
proof -
  have "k' = k" if "algorithm_value (key_algorithm k') @ CHR ''_'' # task_value (key_task k') =
     algorithm_value (key_algorithm k) @ CHR ''_'' # task_value (key_task k)" for k' :: trainer_key
    using trainer_key_suffix_inject [OF that] .
  with assms show ?thesis
    by (simp add: build_registered_model_name_def validate_registered_model_name_def
        built_name_valid [simplified])
qed

theorem registered_model_names_identify_keys_witness:
  "\<exists>n. build_registered_model_name \<lparr>key_algorithm = Ridge, key_task = Regression\<rparr> ''ai_core'' = Inr n \<and>
     model_name_pattern n \<and>
     (\<forall>k'. build_registered_model_name k' ''ai_core'' = Inr n \<longrightarrow>
        k' = \<lparr>key_algorithm = Ridge, key_task = Regression\<rparr>)"
  by (rule registered_model_names_identify_keys)
     (simp add: model_prefix_pattern_def lower_char_def name_char_def)

text \<open>
  A version reference is rejected with the registry's own validation error, except on the
  strings that \<open>isdigit\<close> accepts and \<open>int\<close> does not read (those with a superscript
  digit): there the bare \<open>ValueError\<close> of \<open>int\<close> escapes, which no
  \<open>ModelRegistryError\<close> handler catches.
\<close>

theorem version_reference_error_class:
  assumes "validate_version_or_alias v = Inl e"
  shows "isinstance (exc_of e) [ModelRegistryError] \<longleftrightarrow>
    \<not> (v \<noteq> [] \<and> list_all digit_char v \<and> \<not> list_all ascii_digit v)"
  using assms
  by (auto simp: validate_version_or_alias_def py_int_def isdigit_def version_or_alias_error_def
      isinstance_def split: if_splits)

theorem version_reference_error_class_witness:
  "isinstance (exc_of (Exc ValueError ''invalid literal for int() with base 10''))
     [ModelRegistryError] \<longleftrightarrow>
   \<not> ([CHR 0xB2] \<noteq> [] \<and> list_all digit_char [CHR 0xB2] \<and> \<not> list_all ascii_digit [CHR 0xB2])"
  by (rule version_reference_error_class [of "[CHR 0xB2]"])
     (simp add: validate_version_or_alias_def py_int_def isdigit_def digit_char_def ascii_digit_def)

text \<open>
  C0: The key a registered version is read back with is the key it was registered under:
  the protected tags win over any tag of the request, and \<open>platform_key\<close> inverts
  them whatever the caller's own tags were.
\<close>

theorem registration_key_roundtrip:
  "platform_key (merged_tags r) ''READY'' = Inr (rr_key r, Ready)"
  by (simp add: platform_key_def parse_version_status_def)

text \<open>
  A successful alias assignment has been read back: the named alias, resolved in the
  resulting server state, gives the returned version, which is the requested one and carries
  the alias; an invalid name, alias or version leaves the server untouched.
\<close>

lemma alias_assignment_is_verified:
  "case mlflow_assign_alias c s name alias version of
     (Inr r, s') \<Rightarrow> mlflow_resolve c s' name alias = Inr r \<and> rv_version r = version \<and>
        alias \<in> set (rv_aliases r) \<and> positive_version version = Inr () \<and> \<not> isdigit alias
   | (Inl e, s') \<Rightarrow> model_name_pattern name \<and> is_ok (validate_version_or_alias alias) \<and>
        is_ok (validate_version_or_alias version) \<or> s' = s"
proof -
  have same: "validate_version_or_alias v = Inr w \<Longrightarrow> w = v" for v w
    by (auto simp: validate_version_or_alias_def split: if_splits)
  have digits: "validate_version_or_alias v = Inr v \<Longrightarrow> isdigit v \<Longrightarrow> positive_version v = Inr ()" for v
    by (auto simp: validate_version_or_alias_def positive_version_Inr py_int_def split: if_splits)
  show ?thesis
    unfolding mlflow_assign_alias_def
    by (auto simp: validate_registered_model_name_def is_ok_iff dest: same digits
        split: sum.splits prod.splits option.splits if_splits)
qed

text \<open>
  What a client may rely on: an alias that was assigned successfully is held by the version that
  was asked for.
\<close>

locale verified_registry =
  fixes resolve :: "'s \<Rightarrow> string \<Rightarrow> string \<Rightarrow> registered_version result"
    and assign :: "'s \<Rightarrow> string \<Rightarrow> string \<Rightarrow> string \<Rightarrow> registered_version result \<times> 's"
  assumes assign_read_back: "assign s name alias version = (Inr r, s') \<Longrightarrow>
      resolve s' name alias = Inr r \<and> rv_version r = version"
begin

definition held_by :: "'s \<Rightarrow> string \<Rightarrow> string \<Rightarrow> string \<Rightarrow> bool" where
  "held_by s name alias version \<longleftrightarrow> (\<exists>r. resolve s name alias = Inr r \<and> rv_version r = version)"

lemma assigned_is_held: "assign s name alias version = (Inr r, s') \<Longrightarrow> held_by s' name alias version"
  using assign_read_back unfolding held_by_def by blast

lemma held_once: "held_by s name alias v \<Longrightarrow> held_by s name alias w \<Longrightarrow> v = w"
  by (auto simp: held_by_def)

end

interpretation mlflow: verified_registry "mlflow_resolve cl" "mlflow_assign_alias cl" for cl :: "'s mlflow_client"
  by unfold_locales (use alias_assignment_is_verified in \<open>force split: prod.splits sum.splits\<close>)

end
