(* ===== verification/Search_Space.thy ===== *)
theory Search_Space
  imports Model_Registry
begin

text \<open>
  The typed AutoML search spaces of \<^verbatim>\<open>ml/automl/search_space.py\<close>: their validators
  and the check that a narrowed space only restricts the space a plugin owns. Bounds, steps and
  defaults of float parameters are reals; the code aligns them with \<^verbatim>\<open>Decimal\<close>, so
  the exact quotient of the model is the one the code forms.
\<close>

section \<open>Scalars and names\<close>

definition name_head :: "char \<Rightarrow> bool" where
  "name_head c \<longleftrightarrow> lower_char c \<or> upper_char c"

definition safe_name :: "string \<Rightarrow> string result" where
  "safe_name s = (let t = strip s in
     if matches_class name_head (\<lambda>c. name_head c \<or> ascii_digit c \<or> c = CHR ''_'') 0 63 t
     then Inr t else Inl (Exc ValidationError ''SafeName''))"

definition safe_choice :: "string \<Rightarrow> string result" where
  "safe_choice s = (let t = strip s in
     if matches_class (\<lambda>c. lower_char c \<or> ascii_digit c)
          (\<lambda>c. lower_char c \<or> ascii_digit c \<or> c = CHR ''_'' \<or> c = CHR ''-'') 0 63 t
     then Inr t else Inl (Exc ValidationError ''SafeChoice''))"

fun search_scalar :: "pyval \<Rightarrow> pyval result" where
  "search_scalar (JBool b) = Inr (JBool b)"
| "search_scalar (JInt n) = Inr (JInt n)"
| "search_scalar (JFloat v) = (if isfinite v then Inr (JFloat v)
     else Inl (Exc ValidationError ''SearchScalar''))"
| "search_scalar (JStr s) = bind_result (safe_choice s) (\<lambda>t. Inr (JStr t))"
| "search_scalar JNone = Inl (Exc ValidationError ''SearchScalar'')"

fun type_name :: "pyval \<Rightarrow> string" where
  "type_name JNone = ''NoneType''"
| "type_name (JBool b) = ''bool''"
| "type_name (JInt n) = ''int''"
| "type_name (JFloat v) = ''float''"
| "type_name (JStr s) = ''str''"

text \<open>
  The code pairs the type name with \<^verbatim>\<open>str(value)\<close>, which is injective on each of
  the types; the value itself stands for its rendering.
\<close>

definition scalar_identity :: "pyval \<Rightarrow> string \<times> pyval" where
  "scalar_identity v = (type_name v, v)"

lemma scalar_identity_inject [simp]: "scalar_identity v = scalar_identity w \<longleftrightarrow> v = w"
  by (auto simp: scalar_identity_def)

section \<open>Parameters\<close>

datatype search_parameter =
    IntegerSearch (parameter_name: string) (int_low: int) (int_high: int) (int_step: int)
      (int_default: int)
  | FloatSearch (parameter_name: string) (float_low: real) (float_high: real)
      (float_step: "real option") (float_default: real) (log_scale: bool)
  | CategoricalSearch (parameter_name: string) (choices: "pyval list") (choice_default: pyval)

definition aligned :: "real \<Rightarrow> real \<Rightarrow> real \<Rightarrow> bool" where
  "aligned value origin step \<longleftrightarrow> (value - origin) / step \<in> \<int>"

fun scalars :: "pyval list \<Rightarrow> pyval list result" where
  "scalars [] = Inr []"
| "scalars (v # vs) = bind_result (search_scalar v) (\<lambda>w. bind_result (scalars vs) (\<lambda>ws. Inr (w # ws)))"

definition search_error :: "string \<Rightarrow> pyexc" where
  "search_error m = Exc ValidationError m"

fun make_search_parameter :: "search_parameter \<Rightarrow> search_parameter result" where
  "make_search_parameter (IntegerSearch name low high step dflt) =
     bind_result (safe_name name) (\<lambda>n.
     bind_result (guard_that (0 < step) (search_error ''step'')) (\<lambda>_.
     bind_result (guard_that (\<not> low > high)
       (search_error ''Integer search-space low must not exceed high.'')) (\<lambda>_.
     bind_result (guard_that (low \<le> dflt \<and> dflt \<le> high)
       (search_error ''Integer search-space default must be within bounds.'')) (\<lambda>_.
     bind_result (guard_that ((dflt - low) mod step = 0)
       (search_error ''Integer search-space default must align with step.'')) (\<lambda>_.
     Inr (IntegerSearch n low high step dflt))))))"
| "make_search_parameter (FloatSearch name low high step dflt logs) =
     bind_result (safe_name name) (\<lambda>n.
     bind_result (guard_that (case step of None \<Rightarrow> True | Some s \<Rightarrow> 0 < s) (search_error ''step'')) (\<lambda>_.
     bind_result (guard_that (\<not> low > high)
       (search_error ''Float search-space low must not exceed high.'')) (\<lambda>_.
     bind_result (guard_that (low \<le> dflt \<and> dflt \<le> high)
       (search_error ''Float search-space default must be within bounds.'')) (\<lambda>_.
     bind_result (guard_that (\<not> (logs \<and> low \<le> 0))
       (search_error ''Log-scaled search-space bounds must be positive.'')) (\<lambda>_.
     bind_result (guard_that (\<not> (logs \<and> step \<noteq> None))
       (search_error ''Log-scaled float spaces cannot define a linear step.'')) (\<lambda>_.
     bind_result (guard_that (case step of None \<Rightarrow> True | Some s \<Rightarrow> aligned dflt low s)
       (search_error ''Float search-space default must align with step.'')) (\<lambda>_.
     Inr (FloatSearch n low high step dflt logs))))))))"
| "make_search_parameter (CategoricalSearch name cs dflt) =
     bind_result (safe_name name) (\<lambda>n.
     bind_result (guard_that (1 \<le> length cs \<and> length cs \<le> 32) (search_error ''choices'')) (\<lambda>_.
     bind_result (scalars cs) (\<lambda>ws.
     bind_result (search_scalar dflt) (\<lambda>d.
     bind_result (guard_that (distinct (map scalar_identity ws))
       (search_error ''Categorical search-space choices must be unique.'')) (\<lambda>_.
     bind_result (guard_that (scalar_identity d \<in> set (map scalar_identity ws))
       (search_error ''Categorical search-space default must be a choice.'')) (\<lambda>_.
     Inr (CategoricalSearch n ws d)))))))"

fun make_search_parameters :: "search_parameter list \<Rightarrow> search_parameter list result" where
  "make_search_parameters [] = Inr []"
| "make_search_parameters (p # ps) =
     bind_result (make_search_parameter p) (\<lambda>q.
     bind_result (make_search_parameters ps) (\<lambda>qs. Inr (q # qs)))"

record search_space =
  ss_plugin :: string
  ss_task :: task_type
  ss_parameters :: "search_parameter list"
  ss_probability :: bool

definition make_search_space :: "search_space \<Rightarrow> search_space result" where
  "make_search_space sp =
     bind_result (safe_name (ss_plugin sp)) (\<lambda>n.
     bind_result (guard_that (1 \<le> length (ss_parameters sp) \<and> length (ss_parameters sp) \<le> 32)
       (search_error ''parameters'')) (\<lambda>_.
     bind_result (make_search_parameters (ss_parameters sp)) (\<lambda>ps.
     bind_result (guard_that (distinct (map parameter_name ps))
       (search_error ''AutoML search parameter names must be unique.'')) (\<lambda>_.
     Inr (sp\<lparr>ss_plugin := n, ss_parameters := ps\<rparr>)))))"

section \<open>Narrowing\<close>

definition narrow_error :: "string \<Rightarrow> pyexc" where
  "narrow_error m = Exc ValueError m"

fun validate_narrowed_parameter :: "search_parameter \<Rightarrow> search_parameter \<Rightarrow> unit result" where
  "validate_narrowed_parameter (IntegerSearch _ olow ohigh ostep _) (IntegerSearch _ low high step _) =
     bind_result (guard_that (\<not> (low < olow \<or> high > ohigh))
       (narrow_error ''A narrowed integer range cannot broaden its bounds.'')) (\<lambda>_.
     bind_result (guard_that (\<not> (step < ostep \<or> step mod ostep \<noteq> 0))
       (narrow_error ''A narrowed integer step must be a multiple of the owner step.'')) (\<lambda>_.
     guard_that ((low - olow) mod ostep = 0)
       (narrow_error ''A narrowed integer range must align with the owner grid.'')))"
| "validate_narrowed_parameter (FloatSearch _ olow ohigh ostep _ olog) (FloatSearch _ low high step _ logs) =
     bind_result (guard_that (\<not> (low < olow \<or> high > ohigh))
       (narrow_error ''A narrowed float range cannot broaden its bounds.'')) (\<lambda>_.
     bind_result (guard_that (logs = olog)
       (narrow_error ''A narrowed float range cannot change logs scaling.'')) (\<lambda>_.
     (case ostep of
        None \<Rightarrow> guard_that (case step of None \<Rightarrow> True | Some s \<Rightarrow> \<not> s \<le> 0)
          (narrow_error ''A narrowed float step must be positive.'')
      | Some os \<Rightarrow> guard_that
          (case step of None \<Rightarrow> False
           | Some s \<Rightarrow> \<not> s < os \<and> aligned s 0 os \<and> aligned low olow os)
          (narrow_error ''A narrowed float grid must align with the owner grid.''))))"
| "validate_narrowed_parameter (CategoricalSearch _ ocs _) (CategoricalSearch _ cs _) =
     guard_that (set (map scalar_identity cs) \<subseteq> set (map scalar_identity ocs))
       (narrow_error ''A narrowed categorical space cannot add choices.'')"
| "validate_narrowed_parameter _ _ =
     Inl (narrow_error ''A narrowed parameter cannot change its kind.'')"

definition parameter_named :: "search_space \<Rightarrow> string \<Rightarrow> search_parameter option" where
  "parameter_named sp n = map_of (map (\<lambda>p. (parameter_name p, p)) (rev (ss_parameters sp))) n"

fun validate_narrowed_list :: "search_space \<Rightarrow> search_parameter list \<Rightarrow> unit result" where
  "validate_narrowed_list owned [] = Inr ()"
| "validate_narrowed_list owned (q # qs) =
     (case parameter_named owned (parameter_name q) of
        None \<Rightarrow> Inl (Exc KeyError (parameter_name q))
      | Some p \<Rightarrow> bind_result (validate_narrowed_parameter p q) (\<lambda>_. validate_narrowed_list owned qs))"

definition validate_narrowed_search_space :: "search_space \<Rightarrow> search_space \<Rightarrow> search_space result" where
  "validate_narrowed_search_space owned narrowed =
     bind_result (guard_that (ss_plugin owned = ss_plugin narrowed \<and> ss_task owned = ss_task narrowed)
       (narrow_error ''A narrowed search space must target the same plugin and task.'')) (\<lambda>_.
     bind_result (guard_that (ss_probability owned = ss_probability narrowed)
       (narrow_error ''A narrowed search space cannot change plugin capabilities.'')) (\<lambda>_.
     bind_result (guard_that (set (map parameter_name (ss_parameters narrowed)) =
                              set (map parameter_name (ss_parameters owned)))
       (narrow_error ''A narrowed search space must retain every owned parameter.'')) (\<lambda>_.
     bind_result (validate_narrowed_list owned (ss_parameters narrowed)) (\<lambda>_.
     Inr narrowed))))"

section \<open>The points of a space\<close>

text \<open>
  The abstract meaning of a parameter: the set of values a trial may draw from it. A space
  denotes the assignments that draw every parameter from its own set.
\<close>

fun points :: "search_parameter \<Rightarrow> pyval set" where
  "points (IntegerSearch _ low high step _) =
     {JInt n | n. low \<le> n \<and> n \<le> high \<and> (n - low) mod step = 0}"
| "points (FloatSearch _ low high step _ _) =
     {JFloat (Fin x) | x. low \<le> x \<and> x \<le> high \<and>
        (case step of None \<Rightarrow> True | Some s \<Rightarrow> aligned x low s)}"
| "points (CategoricalSearch _ cs _) = set cs"

definition assignments :: "search_space \<Rightarrow> (string \<Rightarrow> pyval) set" where
  "assignments sp = {f. \<forall>p \<in> set (ss_parameters sp). f (parameter_name p) \<in> points p}"

section \<open>Lemmas\<close>

inductive wf_parameter :: "search_parameter \<Rightarrow> bool" where
  wf_integer: "0 < step \<Longrightarrow> low \<le> dflt \<Longrightarrow> dflt \<le> high \<Longrightarrow> (dflt - low) mod step = 0 \<Longrightarrow>
     wf_parameter (IntegerSearch n low high step dflt)"
| wf_float: "(\<forall>s. step = Some s \<longrightarrow> 0 < s \<and> aligned dflt low s) \<Longrightarrow> low \<le> dflt \<Longrightarrow> dflt \<le> high \<Longrightarrow>
     (logs \<longrightarrow> 0 < low \<and> step = None) \<Longrightarrow> wf_parameter (FloatSearch n low high step dflt logs)"
| wf_categorical: "distinct cs \<Longrightarrow> dflt \<in> set cs \<Longrightarrow> wf_parameter (CategoricalSearch n cs dflt)"

inductive_simps wf_parameter_simps [simp]:
  "wf_parameter (IntegerSearch n low high step dflt)"
  "wf_parameter (FloatSearch n low high step dflt logs)"
  "wf_parameter (CategoricalSearch n cs dflt)"

lemma distinct_identities [simp]: "distinct (map scalar_identity vs) \<longleftrightarrow> distinct vs"
  by (simp add: distinct_map inj_on_def)

lemma identity_mem [simp]: "scalar_identity v \<in> scalar_identity ` A \<longleftrightarrow> v \<in> A"
  by (auto simp: image_iff)

lemma made_parameter_wf: "make_search_parameter p = Inr q \<Longrightarrow> wf_parameter q"
  by (cases p) (auto split: option.splits)

lemma made_parameters_wf: "make_search_parameters ps = Inr qs \<Longrightarrow> \<forall>q \<in> set qs. wf_parameter q"
  by (induction ps arbitrary: qs) (auto dest: made_parameter_wf)

lemma made_space_wf:
  assumes "make_search_space sp = Inr t"
  shows "distinct (map parameter_name (ss_parameters t))" "\<forall>p \<in> set (ss_parameters t). wf_parameter p"
  using assms by (auto simp: make_search_space_def dest: made_parameters_wf)

lemma wf_points_nonempty: "wf_parameter p \<Longrightarrow> points p \<noteq> {}"
  by (induction rule: wf_parameter.induct) (auto split: option.splits)

lemma aligned_trans:
  assumes "aligned x low s" and "aligned s 0 os" and "aligned low olow os" and "0 < os" and "\<not> s < os"
  shows "aligned x olow os"
proof -
  have "(x - olow) / os = (x - low) / s * ((s - 0) / os) + (low - olow) / os"
    using assms(4,5) by (simp add: field_simps)
  also have "\<dots> \<in> \<int>" using assms(1-3) unfolding aligned_def by (intro Ints_add Ints_mult)
  finally show ?thesis unfolding aligned_def .
qed

lemma grid_trans:
  assumes "step dvd n - low" and "ostep dvd step" and "ostep dvd low - (olow::int)"
  shows "(n - olow) mod ostep = 0"
proof -
  have "ostep dvd (n - low) + (low - olow)" using assms by (intro dvd_add) (auto intro: dvd_trans)
  then show ?thesis by (simp add: mod_eq_0_iff_dvd)
qed

lemma narrowed_parameter_points:
  assumes "validate_narrowed_parameter p q = Inr ()" and "wf_parameter p" and "wf_parameter q"
  shows "points q \<subseteq> points p"
proof (cases p)
  case (IntegerSearch n olow ohigh ostep od)
  with assms(1) obtain n' low high step d where q: "q = IntegerSearch n' low high step d"
    by (cases q) auto
  show ?thesis using assms IntegerSearch q
    by (auto intro: grid_trans)
next
  case (FloatSearch n olow ohigh ostep od olog)
  with assms(1) obtain n' low high step d logs where q: "q = FloatSearch n' low high step d logs"
    by (cases q) auto
  show ?thesis using assms FloatSearch q
    by (auto split: option.splits intro: aligned_trans)
next
  case (CategoricalSearch n ocs od)
  with assms(1) obtain n' cs d where q: "q = CategoricalSearch n' cs d"
    by (cases q) auto
  show ?thesis using assms CategoricalSearch q by (auto simp: image_subset_iff)
qed

lemma parameter_named_Some:
  "parameter_named sp n = Some p \<Longrightarrow> p \<in> set (ss_parameters sp) \<and> parameter_name p = n"
  unfolding parameter_named_def by (drule map_of_SomeD) auto

lemma narrowed_list_points:
  assumes "validate_narrowed_list owned qs = Inr ()" and "q \<in> set qs"
  shows "\<exists>p. parameter_named owned (parameter_name q) = Some p \<and> validate_narrowed_parameter p q = Inr ()"
  using assms by (induction qs) (auto split: option.splits)

lemma parameter_named_distinct:
  assumes "distinct (map parameter_name (ss_parameters sp))" and "p \<in> set (ss_parameters sp)"
  shows "parameter_named sp (parameter_name p) = Some p"
proof -
  have "distinct (map fst (map (\<lambda>p. (parameter_name p, p)) (rev (ss_parameters sp))))"
    using assms(1) by (simp add: comp_def rev_map [symmetric])
  with assms(2) show ?thesis
    unfolding parameter_named_def by (intro map_of_is_SomeI) auto
qed

section \<open>Properties\<close>

text \<open>
  A narrowed AutoML search space that passes validation against the space its plugin owns
  denotes a non-empty subset of the owner's assignments: narrowing never lets a trial draw a
  value outside the plugin's own grid, interval or choices.
\<close>

theorem narrowed_space_refines_owner:
  assumes "make_search_space o0 = Inr owned" and "make_search_space n0 = Inr narrowed"
    and "validate_narrowed_search_space owned narrowed = Inr r"
  shows "assignments r \<subseteq> assignments owned \<and> assignments r \<noteq> {}"
proof -
  have r: "r = narrowed" and list: "validate_narrowed_list owned (ss_parameters narrowed) = Inr ()"
    and names: "parameter_name ` set (ss_parameters narrowed) = parameter_name ` set (ss_parameters owned)"
    using assms(3) by (auto simp: validate_narrowed_search_space_def)
  note wfo = made_space_wf [OF assms(1)] and wfn = made_space_wf [OF assms(2)]
  have "assignments narrowed \<subseteq> assignments owned"
  proof (clarsimp simp: assignments_def)
    fix f p
    assume f: "\<forall>q \<in> set (ss_parameters narrowed). f (parameter_name q) \<in> points q"
      and p: "p \<in> set (ss_parameters owned)"
    then obtain q where q: "q \<in> set (ss_parameters narrowed)" "parameter_name q = parameter_name p"
      using names by (metis imageE image_eqI)
    obtain p' where "parameter_named owned (parameter_name q) = Some p'"
      "validate_narrowed_parameter p' q = Inr ()"
      using narrowed_list_points [OF list q(1)] by blast
    moreover have "parameter_named owned (parameter_name q) = Some p"
      using parameter_named_distinct [OF wfo(1) p] q(2) by simp
    ultimately have "points q \<subseteq> points p"
      using narrowed_parameter_points wfo(2) wfn(2) p q(1) by auto
    then show "f (parameter_name p) \<in> points p" using f q by auto
  qed
  moreover have "assignments narrowed \<noteq> {}"
  proof -
    define f where "f n = (case parameter_named narrowed n of Some q \<Rightarrow> (SOME v. v \<in> points q) | None \<Rightarrow> JNone)" for n
    have "f (parameter_name q) \<in> points q" if "q \<in> set (ss_parameters narrowed)" for q
      using parameter_named_distinct [OF wfn(1) that] wf_points_nonempty wfn(2) that
      by (auto simp: f_def some_in_eq)
    then show ?thesis unfolding assignments_def by blast
  qed
  ultimately show ?thesis using r by simp
qed

text \<open>An owned integer grid with step 2 and a narrowing with step 4, for the witness.\<close>

definition sample_owned :: search_space where
  "sample_owned = \<lparr>ss_plugin = ''knn'', ss_task = Regression,
     ss_parameters = [IntegerSearch ''depth'' 2 32 2 8], ss_probability = False\<rparr>"

definition sample_narrowed :: search_space where
  "sample_narrowed = \<lparr>ss_plugin = ''knn'', ss_task = Regression,
     ss_parameters = [IntegerSearch ''depth'' 4 16 4 8], ss_probability = False\<rparr>"

lemma sample_spaces_valid:
  "make_search_space sample_owned = Inr sample_owned"
  "make_search_space sample_narrowed = Inr sample_narrowed"
  "validate_narrowed_search_space sample_owned sample_narrowed = Inr sample_narrowed"
  by (simp_all add: make_search_space_def sample_owned_def sample_narrowed_def safe_name_def
      strip_def lstrip_def py_isspace_def name_head_def lower_char_def guard_that_def
      validate_narrowed_search_space_def parameter_named_def)

theorem narrowed_space_refines_owner_witness:
  "assignments sample_narrowed \<subseteq> assignments sample_owned \<and> assignments sample_narrowed \<noteq> {}"
  by (rule narrowed_space_refines_owner [OF sample_spaces_valid])

end
