(* ===== verification/Model_Plugins.thy ===== *)
theory Model_Plugins
  imports Search_Space "HOL-Library.AList"
begin

text \<open>
  The allowlisted model plugins of \<^verbatim>\<open>ml/plugins/core.py\<close>: parameter definitions
  and their validation, the plugin contract with its AutoML search space, the registry, and
  the default catalog entry by entry. The estimators themselves are scikit-learn classes; an
  estimator factory is the constructor call it makes, as a term over the validated parameters
  and the seed. Numbers that the code interpolates into an error message are left out of it.
\<close>

section \<open>Parameter definitions\<close>

datatype parameter_kind = KInteger | KNumber | KBoolean | KChoice

record parameter_definition =
  pd_name :: string
  pd_kind :: parameter_kind
  pd_default :: pyval
  pd_minimum :: "real option"
  pd_maximum :: "real option"
  pd_choices :: "string list"

definition plugin_error :: "string \<Rightarrow> pyexc" where
  "plugin_error m = Exc ModelPluginError m"

definition within_bounds :: "parameter_definition \<Rightarrow> real \<Rightarrow> pyval \<Rightarrow> pyval result" where
  "within_bounds d x v =
     (if (case pd_minimum d of None \<Rightarrow> False | Some m \<Rightarrow> x < m)
      then Inl (plugin_error (pd_name d @ '' must be at least''))
      else if (case pd_maximum d of None \<Rightarrow> False | Some m \<Rightarrow> x > m)
      then Inl (plugin_error (pd_name d @ '' must be at most''))
      else Inr v)"

fun validate_number :: "parameter_definition \<Rightarrow> pyfloat \<Rightarrow> pyval result" where
  "validate_number d (Fin x) = within_bounds d x (JFloat (Fin x))"
| "validate_number d _ = Inl (plugin_error (pd_name d @ '' must be finite.''))"

definition pd_validate :: "parameter_definition \<Rightarrow> pyval \<Rightarrow> pyval result" where
  "pd_validate d v =
     (case pd_kind d of
        KBoolean \<Rightarrow>
          (case v of JBool b \<Rightarrow> Inr v | _ \<Rightarrow> Inl (plugin_error (pd_name d @ '' must be a boolean.'')))
      | KChoice \<Rightarrow>
          (case v of
             JStr s \<Rightarrow> if s \<in> set (pd_choices d) then Inr v
               else Inl (plugin_error (pd_name d @ '' must be one of: '' @ join_comma (pd_choices d) @ ''.''))
           | _ \<Rightarrow> Inl (plugin_error (pd_name d @ '' must be one of: '' @ join_comma (pd_choices d) @ ''.'')))
      | KInteger \<Rightarrow>
          (case v of
             JInt n \<Rightarrow> within_bounds d (real_of_int n) v
           | JFloat _ \<Rightarrow> Inl (plugin_error (pd_name d @ '' must be an integer.''))
           | _ \<Rightarrow> Inl (plugin_error (pd_name d @ '' must be numeric.'')))
      | KNumber \<Rightarrow>
          (case v of
             JInt n \<Rightarrow> bind_result (float_of_int n) (validate_number d)
           | JFloat f \<Rightarrow> validate_number d f
           | _ \<Rightarrow> Inl (plugin_error (pd_name d @ '' must be numeric.''))))"

definition int_param :: "string \<Rightarrow> int \<Rightarrow> int \<Rightarrow> int \<Rightarrow> parameter_definition" where
  "int_param name dflt minimum maximum =
     \<lparr>pd_name = name, pd_kind = KInteger, pd_default = JInt dflt,
      pd_minimum = Some (real_of_int minimum), pd_maximum = Some (real_of_int maximum), pd_choices = []\<rparr>"

definition number_param :: "string \<Rightarrow> real \<Rightarrow> real \<Rightarrow> real \<Rightarrow> parameter_definition" where
  "number_param name dflt minimum maximum =
     \<lparr>pd_name = name, pd_kind = KNumber, pd_default = JFloat (Fin dflt),
      pd_minimum = Some minimum, pd_maximum = Some maximum, pd_choices = []\<rparr>"

definition bool_param :: "string \<Rightarrow> bool \<Rightarrow> parameter_definition" where
  "bool_param name dflt =
     \<lparr>pd_name = name, pd_kind = KBoolean, pd_default = JBool dflt,
      pd_minimum = None, pd_maximum = None, pd_choices = []\<rparr>"

definition choice_param :: "string \<Rightarrow> string \<Rightarrow> string list \<Rightarrow> parameter_definition" where
  "choice_param name dflt cs =
     \<lparr>pd_name = name, pd_kind = KChoice, pd_default = JStr dflt,
      pd_minimum = None, pd_maximum = None, pd_choices = cs\<rparr>"

section \<open>Estimator factories\<close>

datatype factory =
    Param string                       \<comment> \<open>\<open>p[name]\<close>\<close>
  | NoneIfNone string                  \<comment> \<open>\<open>None if p[name] == "none" else p[name]\<close>\<close>
  | SeedArg                            \<comment> \<open>\<open>_seed(s)\<close>\<close>
  | Lit pyval
  | Call string "(string \<times> factory) list"  \<comment> \<open>a constructor with keyword arguments\<close>

datatype estimator = Value pyval | Estimator string "(string \<times> estimator) list"

definition seed_value :: "int option \<Rightarrow> int" where
  "seed_value s = (case s of None \<Rightarrow> 17 | Some n \<Rightarrow> n)"

definition subscript :: "(string \<times> pyval) list \<Rightarrow> string \<Rightarrow> pyval result" where
  "subscript p n = (case map_of p n of None \<Rightarrow> Inl (Exc KeyError n) | Some v \<Rightarrow> Inr v)"

fun build_estimator :: "(string \<times> pyval) list \<Rightarrow> int option \<Rightarrow> factory \<Rightarrow> estimator result"
  and build_arguments :: "(string \<times> pyval) list \<Rightarrow> int option \<Rightarrow> (string \<times> factory) list \<Rightarrow>
        (string \<times> estimator) list result" where
  "build_estimator p s (Param n) = bind_result (subscript p n) (\<lambda>v. Inr (Value v))"
| "build_estimator p s (NoneIfNone n) = bind_result (subscript p n)
     (\<lambda>v. Inr (Value (if v = JStr ''none'' then JNone else v)))"
| "build_estimator p s SeedArg = Inr (Value (JInt (seed_value s)))"
| "build_estimator p s (Lit v) = Inr (Value v)"
| "build_estimator p s (Call c args) = bind_result (build_arguments p s args) (\<lambda>es. Inr (Estimator c es))"
| "build_arguments p s [] = Inr []"
| "build_arguments p s ((n, f) # fs) =
     bind_result (build_estimator p s f) (\<lambda>e.
     bind_result (build_arguments p s fs) (\<lambda>es. Inr ((n, e) # es)))"

fun factory_params :: "factory \<Rightarrow> string list"
  and argument_params :: "(string \<times> factory) list \<Rightarrow> string list" where
  "factory_params (Param n) = [n]"
| "factory_params (NoneIfNone n) = [n]"
| "factory_params SeedArg = []"
| "factory_params (Lit v) = []"
| "factory_params (Call c args) = argument_params args"
| "argument_params [] = []"
| "argument_params ((n, f) # fs) = factory_params f @ argument_params fs"

section \<open>Plugins\<close>

datatype scaler_choice = ScalerAuto | ScalerNone | ScalerStandard | ScalerMinmax | ScalerRobust

record model_plugin =
  plugin_id :: string
  plugin_display_name :: string
  plugin_description :: string
  plugin_key :: trainer_key
  plugin_factory :: factory
  plugin_parameters :: "parameter_definition list"
  plugin_scaler :: scaler_choice
  plugin_probability :: bool
  plugin_decision_function :: bool
  plugin_feature_importance :: bool
  plugin_coefficient :: bool
  plugin_search_space :: "search_space option"

text \<open>\<^verbatim>\<open>{item.name: item for item in self.parameters}\<close>.\<close>

definition definitions :: "model_plugin \<Rightarrow> (string \<times> parameter_definition) list" where
  "definitions pl = fold (\<lambda>d. AList.update (pd_name d) d) (plugin_parameters pl) []"

fun validate_definitions ::
    "(string \<times> parameter_definition) list \<Rightarrow> (string \<times> pyval) list \<Rightarrow> (string \<times> pyval) list result" where
  "validate_definitions [] supplied = Inr []"
| "validate_definitions ((n, d) # ds) supplied =
     bind_result (pd_validate d (case map_of supplied n of None \<Rightarrow> pd_default d | Some v \<Rightarrow> v)) (\<lambda>v.
     bind_result (validate_definitions ds supplied) (\<lambda>vs. Inr ((n, v) # vs)))"

definition unknown_names :: "model_plugin \<Rightarrow> (string \<times> pyval) list \<Rightarrow> string list" where
  "unknown_names pl supplied =
     sort (filter (\<lambda>n. n \<notin> set (map fst (definitions pl))) (remdups (map fst supplied)))"

definition validate_parameters :: "model_plugin \<Rightarrow> (string \<times> pyval) list \<Rightarrow> (string \<times> pyval) list result" where
  "validate_parameters pl supplied =
     (if unknown_names pl supplied \<noteq> []
      then Inl (plugin_error (''Unsupported hyperparameters: '' @ join_comma (unknown_names pl supplied) @ ''.''))
      else validate_definitions (definitions pl) supplied)"

fun validate_each :: "parameter_definition \<Rightarrow> pyval list \<Rightarrow> unit result" where
  "validate_each d [] = Inr ()"
| "validate_each d (v # vs) = bind_result (pd_validate d v) (\<lambda>_. validate_each d vs)"

definition incompatible_kind :: pyexc where
  "incompatible_kind = plugin_error ''The AutoML parameter kind is incompatible.''"

fun validate_space_parameter :: "parameter_definition \<Rightarrow> search_parameter \<Rightarrow> unit result" where
  "validate_space_parameter d (IntegerSearch _ low high _ dflt) =
     (if pd_kind d \<noteq> KInteger then Inl incompatible_kind
      else validate_each d [JInt low, JInt high, JInt dflt])"
| "validate_space_parameter d (FloatSearch _ low high _ dflt _) =
     (if pd_kind d \<noteq> KNumber then Inl incompatible_kind
      else validate_each d [JFloat (Fin low), JFloat (Fin high), JFloat (Fin dflt)])"
| "validate_space_parameter d (CategoricalSearch _ cs dflt) =
     (if pd_kind d \<noteq> (case dflt of JBool _ \<Rightarrow> KBoolean | _ \<Rightarrow> KChoice) then Inl incompatible_kind
      else validate_each d (cs @ [dflt]))"

fun validate_space_parameters ::
    "(string \<times> parameter_definition) list \<Rightarrow> search_parameter list \<Rightarrow> unit result" where
  "validate_space_parameters ds [] = Inr ()"
| "validate_space_parameters ds (q # qs) =
     (case map_of ds (parameter_name q) of
        None \<Rightarrow> Inl (plugin_error ''The AutoML search space contains an unknown parameter.'')
      | Some d \<Rightarrow> bind_result (validate_space_parameter d q) (\<lambda>_. validate_space_parameters ds qs))"

definition validate_automl_search_space :: "model_plugin \<Rightarrow> search_space \<Rightarrow> unit result" where
  "validate_automl_search_space pl sp =
     (if ss_plugin sp \<noteq> plugin_id pl \<or> ss_task sp \<noteq> key_task (plugin_key pl)
      then Inl (plugin_error ''The AutoML search space does not match the plugin.'')
      else validate_space_parameters (definitions pl) (ss_parameters sp))"

definition make_plugin :: "model_plugin \<Rightarrow> model_plugin result" where
  "make_plugin pl = (case plugin_search_space pl of
     None \<Rightarrow> Inr pl
   | Some sp \<Rightarrow> bind_result (validate_automl_search_space pl sp) (\<lambda>_. Inr pl))"

section \<open>The registry\<close>

record plugin_registry =
  registry_plugins :: "(string \<times> model_plugin) list"
  registry_keys :: "(trainer_key \<times> model_plugin) list"

definition empty_registry :: plugin_registry where
  "empty_registry = \<lparr>registry_plugins = [], registry_keys = []\<rparr>"

definition register :: "plugin_registry \<Rightarrow> model_plugin \<Rightarrow> plugin_registry result" where
  "register reg pl =
     (if plugin_id pl \<in> fst ` set (registry_plugins reg) \<or> plugin_key pl \<in> fst ` set (registry_keys reg)
      then Inl (Exc DuplicateModelPluginError
             (''A model plugin is already registered for '' @ plugin_id pl @ ''.''))
      else Inr (reg\<lparr>registry_plugins := registry_plugins reg @ [(plugin_id pl, pl)],
                    registry_keys := registry_keys reg @ [(plugin_key pl, pl)]\<rparr>))"

definition registry_get :: "plugin_registry \<Rightarrow> string \<Rightarrow> task_type option \<Rightarrow> model_plugin result" where
  "registry_get reg i task =
     (case map_of (registry_plugins reg) i of
        None \<Rightarrow> Inl (Exc UnknownModelPluginError ''The requested algorithm is not available.'')
      | Some pl \<Rightarrow>
          (if task \<noteq> None \<and> Some (key_task (plugin_key pl)) \<noteq> task
           then Inl (plugin_error ''The selected algorithm does not support this task.'')
           else Inr pl))"

definition registry_get_by_key :: "plugin_registry \<Rightarrow> trainer_key \<Rightarrow> model_plugin result" where
  "registry_get_by_key reg k =
     (case map_of (registry_keys reg) k of
        None \<Rightarrow> Inl (Exc UnknownModelPluginError ''The model algorithm is not available.'')
      | Some pl \<Rightarrow> Inr pl)"

definition registry_all :: "plugin_registry \<Rightarrow> model_plugin list" where
  "registry_all reg = sort_key plugin_id (map snd (registry_plugins reg))"

fun register_all :: "plugin_registry \<Rightarrow> model_plugin result list \<Rightarrow> plugin_registry result" where
  "register_all reg [] = Inr reg"
| "register_all reg (r # rs) =
     bind_result r (\<lambda>pl. bind_result (register reg pl) (\<lambda>reg'. register_all reg' rs))"

section \<open>Lemmas\<close>

lemma within_bounds_Inr: "within_bounds d x v = Inr w \<longleftrightarrow> w = v \<and>
    (\<forall>m. pd_minimum d = Some m \<longrightarrow> m \<le> x) \<and> (\<forall>m. pd_maximum d = Some m \<longrightarrow> x \<le> m)"
  by (auto simp: within_bounds_def split: option.splits)

lemma validate_number_Inr: "validate_number d f = Inr w \<longleftrightarrow>
    (\<exists>x. f = Fin x \<and> within_bounds d x (JFloat (Fin x)) = Inr w)"
  by (cases f) auto

lemma pd_validate_idem: "pd_validate d v = Inr w \<Longrightarrow> pd_validate d w = Inr w"
  by (cases v) (auto simp: pd_validate_def validate_number_Inr within_bounds_Inr
      split: parameter_kind.splits if_splits)

lemma is_ok_between:
  assumes "pd_kind d = KInteger" "is_ok (pd_validate d (JInt a))" "is_ok (pd_validate d (JInt b))"
    and "a \<le> n" "n \<le> b"
  shows "is_ok (pd_validate d (JInt n))"
  using assms by (fastforce simp: pd_validate_def is_ok_iff within_bounds_Inr)

lemma is_ok_between_float:
  assumes "pd_kind d = KNumber" "is_ok (pd_validate d (JFloat (Fin a)))"
    "is_ok (pd_validate d (JFloat (Fin b)))" and "a \<le> x" "x \<le> b"
  shows "is_ok (pd_validate d (JFloat (Fin x)))"
  using assms by (fastforce simp: pd_validate_def is_ok_iff within_bounds_Inr)

lemma validate_each_Inr: "validate_each d vs = Inr u \<longleftrightarrow> (\<forall>v \<in> set vs. is_ok (pd_validate d v))"
  by (induction vs) (auto simp: is_ok_iff)

lemma updated_distinct:
  "distinct (map fst al) \<Longrightarrow> distinct (map fst (fold (\<lambda>d. AList.update (pd_name d) d) ds al))"
  by (induction ds arbitrary: al) (simp_all add: AList.distinct_update)

lemma updated_keys:
  "fst ` set (fold (\<lambda>d. AList.update (pd_name d) d) ds al) = fst ` set al \<union> pd_name ` set ds"
proof (induction ds arbitrary: al)
  case (Cons d ds)
  have "fst ` set (AList.update (pd_name d) d al) = insert (pd_name d) (fst ` set al)"
    using arg_cong [OF AList.update_keys [of "pd_name d" d al], of set] by auto
  with Cons [of "AList.update (pd_name d) d al"] show ?case by simp
qed simp

lemma definitions_distinct: "distinct (map fst (definitions pl))"
  unfolding definitions_def by (simp add: updated_distinct)

lemma definitions_names: "fst ` set (definitions pl) = pd_name ` set (plugin_parameters pl)"
  using updated_keys [of "plugin_parameters pl" "[]"] by (simp add: definitions_def)

lemma updated_values:
  "(n, d) \<in> set (fold (\<lambda>d. AList.update (pd_name d) d) ds al) \<Longrightarrow>
    (n, d) \<in> set al \<or> n = pd_name d \<and> d \<in> set ds"
proof (induction ds arbitrary: al)
  case (Cons e ds)
  have "(n, d) \<in> set (AList.update (pd_name e) e al) \<Longrightarrow> (n, d) = (pd_name e, e) \<or> (n, d) \<in> set al"
    by (induction al) (auto split: if_splits)
  with Cons show ?case by fastforce
qed simp

lemma definitions_value: "(n, d) \<in> set (definitions pl) \<Longrightarrow> n = pd_name d \<and> d \<in> set (plugin_parameters pl)"
  using updated_values [of n d "plugin_parameters pl" "[]"] by (simp add: definitions_def)

lemma validate_definitions_Inr:
  "validate_definitions ds given = Inr vs \<Longrightarrow>
     map fst vs = map fst ds \<and> list_all2 (\<lambda>(n, d) (m, v). n = m \<and> pd_validate d v = Inr v) ds vs"
  by (induction ds arbitrary: vs) (auto dest: pd_validate_idem)

lemma validate_definitions_ok:
  "is_ok (validate_definitions ds given) \<longleftrightarrow>
    (\<forall>(n, d) \<in> set ds. is_ok (pd_validate d (case map_of given n of None \<Rightarrow> pd_default d | Some v \<Rightarrow> v)))"
  by (induction ds) (auto simp: is_ok_iff)

lemma validate_definitions_again:
  assumes "list_all2 (\<lambda>(n, d) (m, v). n = m \<and> pd_validate d v = Inr v) ds vs"
    and "distinct (map fst ds)" and "\<forall>(n, v) \<in> set vs. map_of given n = Some v"
  shows "validate_definitions ds given = Inr vs"
  using assms by (induction rule: list_all2_induct) auto

lemma unknown_names_Nil [simp]:
  "unknown_names pl given = [] \<longleftrightarrow> fst ` set given \<subseteq> pd_name ` set (plugin_parameters pl)"
  by (auto simp: unknown_names_def filter_empty_conv definitions_names simp flip: set_empty)

lemma build_total:
  "set (factory_params f) \<subseteq> fst ` set p \<Longrightarrow> is_ok (build_estimator p s f)"
  "set (argument_params fs) \<subseteq> fst ` set p \<Longrightarrow> is_ok (build_arguments p s fs)"
proof (induction p s f and p s fs rule: build_estimator_build_arguments.induct)
  case (1 p s n)
  then show ?case by (auto simp: subscript_def is_ok_iff map_of_eq_None_iff split: option.splits)
next
  case (2 p s n)
  then show ?case by (auto simp: subscript_def is_ok_iff map_of_eq_None_iff split: option.splits)
qed (auto simp: is_ok_iff)

lemma space_parameter_points:
  assumes "validate_space_parameter d q = Inr ()" and "v \<in> points q"
  shows "is_ok (pd_validate d v)"
proof (cases q)
  case (IntegerSearch n low high step dflt)
  with assms show ?thesis
    using is_ok_between [of d low high] by (auto simp: validate_each_Inr split: if_splits)
next
  case (FloatSearch n low high step dflt l)
  with assms show ?thesis
    using is_ok_between_float [of d low high] by (auto simp: validate_each_Inr split: if_splits)
next
  case (CategoricalSearch n cs dflt)
  with assms show ?thesis by (auto simp: validate_each_Inr split: if_splits)
qed

lemma validated_space_points:
  assumes "validate_space_parameters ds qs = Inr ()" and "q \<in> set qs" and "v \<in> points q"
  shows "\<exists>d. map_of ds (parameter_name q) = Some d \<and> is_ok (pd_validate d v)"
  using assms by (induction qs) (auto split: option.splits intro: space_parameter_points)

text \<open>The hyperparameters a trial supplies for an assignment of its space.\<close>

definition trial_values :: "search_space \<Rightarrow> (string \<Rightarrow> pyval) \<Rightarrow> (string \<times> pyval) list" where
  "trial_values sp f = map (\<lambda>q. (parameter_name q, f (parameter_name q))) (ss_parameters sp)"

lemma trial_lookup:
  "map_of (trial_values sp f) n =
    (if n \<in> parameter_name ` set (ss_parameters sp) then Some (f n) else None)"
proof -
  have "map_of (map (\<lambda>q. (parameter_name q, f (parameter_name q))) qs) n =
      (if n \<in> parameter_name ` set qs then Some (f n) else None)" for qs
    by (induction qs) auto
  then show ?thesis by (simp add: trial_values_def)
qed

lemma trial_values_validate:
  assumes "validate_automl_search_space pl sp = Inr ()" and "f \<in> assignments sp"
    and "\<forall>d \<in> set (plugin_parameters pl). is_ok (pd_validate d (pd_default d))"
  shows "is_ok (validate_parameters pl (trial_values sp f))"
proof -
  have sp: "validate_space_parameters (definitions pl) (ss_parameters sp) = Inr ()"
    using assms(1) by (auto simp: validate_automl_search_space_def split: if_splits)
  have each: "\<exists>d. map_of (definitions pl) (parameter_name q) = Some d \<and> is_ok (pd_validate d (f (parameter_name q)))"
    if "q \<in> set (ss_parameters sp)" for q
    using validated_space_points [OF sp that] assms(2) that by (auto simp: assignments_def)
  have "parameter_name ` set (ss_parameters sp) \<subseteq> pd_name ` set (plugin_parameters pl)"
    using each by (auto simp flip: definitions_names dest: map_of_SomeD) (metis fst_conv imageI map_of_SomeD)
  then have known: "unknown_names pl (trial_values sp f) = []"
    by (auto simp: trial_values_def)
  have "is_ok (pd_validate d (case map_of (trial_values sp f) n of None \<Rightarrow> pd_default d | Some v \<Rightarrow> v))"
    if nd: "(n, d) \<in> set (definitions pl)" for n d
  proof (cases "n \<in> parameter_name ` set (ss_parameters sp)")
    case True
    then obtain q where q: "q \<in> set (ss_parameters sp)" "n = parameter_name q" by auto
    have "map_of (definitions pl) n = Some d"
      using map_of_is_SomeI [OF definitions_distinct nd] .
    with each [OF q(1)] q show ?thesis by (auto simp: trial_lookup)
  next
    case False
    with assms(3) definitions_value [OF nd] show ?thesis by (simp add: trial_lookup)
  qed
  then show ?thesis using known
    by (auto simp: validate_parameters_def validate_definitions_ok)
qed

lemma validated_names:
  "validate_parameters pl given = Inr vs \<Longrightarrow> fst ` set vs = pd_name ` set (plugin_parameters pl)"
proof -
  assume "validate_parameters pl given = Inr vs"
  then have "validate_definitions (definitions pl) given = Inr vs"
    by (auto simp: validate_parameters_def split: if_splits)
  then have "map fst vs = map fst (definitions pl)" by (blast dest: validate_definitions_Inr)
  from arg_cong [OF this, of set] show ?thesis by (simp add: definitions_names)
qed

lemma validate_space_update [simp]:
  "validate_automl_search_space (p\<lparr>plugin_search_space := s\<rparr>) x = validate_automl_search_space p x"
  by (simp add: validate_automl_search_space_def definitions_def)

section \<open>Properties\<close>

text \<open>
  Hyperparameter validation is a normalisation: an accepted request yields exactly the
  plugin's parameters in their declared order, each value valid as it stands, and validating
  the result again returns it unchanged. Unknown names are always rejected.
\<close>

theorem parameter_validation_normalises:
  assumes "validate_parameters pl supplied = Inr vs"
  shows "map fst vs = map fst (definitions pl) \<and> validate_parameters pl vs = Inr vs \<and>
    fst ` set supplied \<subseteq> pd_name ` set (plugin_parameters pl)"
proof -
  from assms have known: "fst ` set supplied \<subseteq> pd_name ` set (plugin_parameters pl)"
    and vs: "validate_definitions (definitions pl) supplied = Inr vs"
    by (auto simp: validate_parameters_def split: if_splits)
  from validate_definitions_Inr [OF vs] have keys: "map fst vs = map fst (definitions pl)"
    and all2: "list_all2 (\<lambda>(n, d) (m, v). n = m \<and> pd_validate d v = Inr v) (definitions pl) vs" by auto
  have "distinct (map fst vs)" using keys definitions_distinct by metis
  then have "\<forall>(n, v) \<in> set vs. map_of vs n = Some v" by (auto intro: map_of_is_SomeI)
  from validate_definitions_again [OF all2 definitions_distinct this]
  have "validate_definitions (definitions pl) vs = Inr vs" .
  moreover have "fst ` set vs = pd_name ` set (plugin_parameters pl)"
    using arg_cong [OF keys, of set] by (simp add: definitions_names)
  ultimately show ?thesis using keys known by (simp add: validate_parameters_def)
qed

definition sample_plugin :: model_plugin where
  "sample_plugin = \<lparr>plugin_id = ''knn'', plugin_display_name = ''K'', plugin_description = ''K'',
     plugin_key = \<lparr>key_algorithm = Knn, key_task = Regression\<rparr>,
     plugin_factory = Call ''KNeighborsRegressor'' [(''n_neighbors'', Param ''n'')],
     plugin_parameters = [int_param ''n'' 5 1 100, bool_param ''w'' True], plugin_scaler = ScalerNone,
     plugin_probability = False, plugin_decision_function = False,
     plugin_feature_importance = False, plugin_coefficient = False, plugin_search_space = None\<rparr>"

lemma sample_plugin_validates:
  "validate_parameters sample_plugin [(''w'', JBool False)] = Inr [(''n'', JInt 5), (''w'', JBool False)]"
  by (simp add: validate_parameters_def definitions_def sample_plugin_def
      int_param_def bool_param_def pd_validate_def within_bounds_def)

theorem parameter_validation_normalises_witness:
  "map fst [(''n'', JInt 5), (''w'', JBool False)] = map fst (definitions sample_plugin) \<and>
   validate_parameters sample_plugin [(''n'', JInt 5), (''w'', JBool False)] =
     Inr [(''n'', JInt 5), (''w'', JBool False)] \<and>
   fst ` set [(''w'', JBool False)] \<subseteq> pd_name ` set (plugin_parameters sample_plugin)"
  by (rule parameter_validation_normalises [OF sample_plugin_validates])



end
