(* ===== verification/Plugin_Catalog.thy ===== *)
theory Plugin_Catalog
  imports Model_Plugins
begin

text \<open>
  The default catalog that \<^verbatim>\<open>create_default_plugin_registry\<close> builds, one
  definition for each of its seventeen \<^verbatim>\<open>add\<close> calls, and the registry that
  results. An entry is passed through the constructors of its search space and of the plugin,
  which validate it, and then registered in the order of the source.
\<close>

section \<open>Entries\<close>

definition plugin_logistic_regression :: model_plugin where
  "plugin_logistic_regression =
     \<lparr>plugin_id = ''logistic_regression'', plugin_display_name = ''Logistic Regression'',
      plugin_description = ''Regularized linear classifier.'',
      plugin_key = \<lparr>key_algorithm = LogisticRegression, key_task = Classification\<rparr>,
      plugin_factory = Call ''LogisticRegression'' [(''C'', Param ''C''), (''max_iter'', Param ''max_iter''), (''class_weight'', NoneIfNone ''class_weight''), (''random_state'', SeedArg)],
      plugin_parameters = [number_param ''C'' 1 (1/10000) 10000,
        int_param ''max_iter'' 500 50 5000,
        choice_param ''class_weight'' ''none'' [''none'', ''balanced'']],
      plugin_scaler = ScalerStandard, plugin_probability = True,
      plugin_decision_function = True, plugin_feature_importance = False,
      plugin_coefficient = True,
      plugin_search_space = Some
        \<lparr>ss_plugin = ''logistic_regression'', ss_task = Classification,
         ss_parameters = [FloatSearch ''C'' (1/100) 100 None 1 True,
          CategoricalSearch ''class_weight'' [JStr ''none'', JStr ''balanced''] (JStr ''none'')],
         ss_probability = True\<rparr>\<rparr>"

definition plugin_decision_tree_classification :: model_plugin where
  "plugin_decision_tree_classification =
     \<lparr>plugin_id = ''decision_tree_classification'', plugin_display_name = ''Decision Tree'',
      plugin_description = ''Bounded decision-tree classifier.'',
      plugin_key = \<lparr>key_algorithm = DecisionTree, key_task = Classification\<rparr>,
      plugin_factory = Call ''DecisionTreeClassifier'' [(''max_depth'', Param ''max_depth''), (''min_samples_leaf'', Param ''min_samples_leaf''), (''random_state'', SeedArg)],
      plugin_parameters = [int_param ''max_depth'' 8 1 64,
        int_param ''min_samples_leaf'' 1 1 100],
      plugin_scaler = ScalerNone, plugin_probability = True,
      plugin_decision_function = False, plugin_feature_importance = True,
      plugin_coefficient = False,
      plugin_search_space = Some
        \<lparr>ss_plugin = ''decision_tree_classification'', ss_task = Classification,
         ss_parameters = [IntegerSearch ''max_depth'' 2 32 2 8,
          IntegerSearch ''min_samples_leaf'' 1 10 1 1],
         ss_probability = True\<rparr>\<rparr>"

definition plugin_extra_trees_classification :: model_plugin where
  "plugin_extra_trees_classification =
     \<lparr>plugin_id = ''extra_trees_classification'', plugin_display_name = ''Extra Trees'',
      plugin_description = ''Randomized tree ensemble classifier.'',
      plugin_key = \<lparr>key_algorithm = ExtraTrees, key_task = Classification\<rparr>,
      plugin_factory = Call ''ExtraTreesClassifier'' [(''n_estimators'', Param ''n_estimators''), (''max_depth'', Param ''max_depth''), (''min_samples_leaf'', Param ''min_samples_leaf''), (''n_jobs'', Lit (JInt 1)), (''random_state'', SeedArg)],
      plugin_parameters = [int_param ''n_estimators'' 100 1 500,
        int_param ''max_depth'' 12 1 64,
        int_param ''min_samples_leaf'' 1 1 100],
      plugin_scaler = ScalerNone, plugin_probability = True,
      plugin_decision_function = False, plugin_feature_importance = True,
      plugin_coefficient = False,
      plugin_search_space = Some
        \<lparr>ss_plugin = ''extra_trees_classification'', ss_task = Classification,
         ss_parameters = [IntegerSearch ''n_estimators'' 50 200 25 100,
          IntegerSearch ''max_depth'' 4 32 4 12,
          IntegerSearch ''min_samples_leaf'' 1 10 1 1],
         ss_probability = True\<rparr>\<rparr>"

definition plugin_knn_classification :: model_plugin where
  "plugin_knn_classification =
     \<lparr>plugin_id = ''knn_classification'', plugin_display_name = ''K-Nearest Neighbors'',
      plugin_description = ''Distance-based nearest-neighbor classifier.'',
      plugin_key = \<lparr>key_algorithm = Knn, key_task = Classification\<rparr>,
      plugin_factory = Call ''KNeighborsClassifier'' [(''n_neighbors'', Param ''n_neighbors''), (''weights'', Param ''weights''), (''n_jobs'', Lit (JInt 1))],
      plugin_parameters = [int_param ''n_neighbors'' 5 1 100,
        choice_param ''weights'' ''uniform'' [''uniform'', ''distance'']],
      plugin_scaler = ScalerStandard, plugin_probability = True,
      plugin_decision_function = False, plugin_feature_importance = False,
      plugin_coefficient = False,
      plugin_search_space = None\<rparr>"

definition plugin_svm_classification :: model_plugin where
  "plugin_svm_classification =
     \<lparr>plugin_id = ''svm_classification'', plugin_display_name = ''Support Vector Machine'',
      plugin_description = ''Kernel support-vector classifier with bounded probability output.'',
      plugin_key = \<lparr>key_algorithm = Svm, key_task = Classification\<rparr>,
      plugin_factory = Call ''SafeCalibratedSVC'' [(''estimator'', Call ''SVC'' [(''C'', Param ''C''), (''kernel'', Param ''kernel''), (''gamma'', Param ''gamma''), (''max_iter'', Lit (JInt 10000)), (''random_state'', SeedArg)]), (''ensemble'', Lit (JBool False)), (''cv'', Lit (JInt 5))],
      plugin_parameters = [number_param ''C'' 1 (1/10000) 10000,
        choice_param ''kernel'' ''rbf'' [''linear'', ''rbf'', ''poly'', ''sigmoid''],
        choice_param ''gamma'' ''scale'' [''scale'', ''auto'']],
      plugin_scaler = ScalerStandard, plugin_probability = True,
      plugin_decision_function = False, plugin_feature_importance = False,
      plugin_coefficient = False,
      plugin_search_space = None\<rparr>"

definition plugin_gradient_boosting_classification :: model_plugin where
  "plugin_gradient_boosting_classification =
     \<lparr>plugin_id = ''gradient_boosting_classification'', plugin_display_name = ''Gradient Boosting'',
      plugin_description = ''Sequential boosted-tree classifier.'',
      plugin_key = \<lparr>key_algorithm = GradientBoosting, key_task = Classification\<rparr>,
      plugin_factory = Call ''GradientBoostingClassifier'' [(''n_estimators'', Param ''n_estimators''), (''learning_rate'', Param ''learning_rate''), (''max_depth'', Param ''max_depth''), (''random_state'', SeedArg)],
      plugin_parameters = [int_param ''n_estimators'' 100 1 500,
        number_param ''learning_rate'' (1/10) (1/1000) 1,
        int_param ''max_depth'' 3 1 16],
      plugin_scaler = ScalerNone, plugin_probability = True,
      plugin_decision_function = False, plugin_feature_importance = True,
      plugin_coefficient = False,
      plugin_search_space = Some
        \<lparr>ss_plugin = ''gradient_boosting_classification'', ss_task = Classification,
         ss_parameters = [IntegerSearch ''n_estimators'' 50 200 25 100,
          FloatSearch ''learning_rate'' (1/100) (3/10) None (1/10) True,
          IntegerSearch ''max_depth'' 1 5 1 3],
         ss_probability = True\<rparr>\<rparr>"

definition plugin_random_forest_classification :: model_plugin where
  "plugin_random_forest_classification =
     \<lparr>plugin_id = ''random_forest_classification'', plugin_display_name = ''Random Forest'',
      plugin_description = ''Backward-compatible random-forest classifier.'',
      plugin_key = \<lparr>key_algorithm = RandomForest, key_task = Classification\<rparr>,
      plugin_factory = Call ''RandomForestClassifier'' [(''n_estimators'', Param ''n_estimators''), (''max_depth'', Param ''max_depth''), (''min_samples_leaf'', Param ''min_samples_leaf''), (''n_jobs'', Lit (JInt 1)), (''random_state'', SeedArg)],
      plugin_parameters = [int_param ''n_estimators'' 100 1 500,
        int_param ''max_depth'' 12 1 64,
        int_param ''min_samples_leaf'' 1 1 100],
      plugin_scaler = ScalerNone, plugin_probability = True,
      plugin_decision_function = False, plugin_feature_importance = True,
      plugin_coefficient = False,
      plugin_search_space = Some
        \<lparr>ss_plugin = ''random_forest_classification'', ss_task = Classification,
         ss_parameters = [IntegerSearch ''n_estimators'' 50 200 25 100,
          IntegerSearch ''max_depth'' 4 32 4 12,
          IntegerSearch ''min_samples_leaf'' 1 10 1 1],
         ss_probability = True\<rparr>\<rparr>"

definition plugin_linear_regression :: model_plugin where
  "plugin_linear_regression =
     \<lparr>plugin_id = ''linear_regression'', plugin_display_name = ''Linear Regression'',
      plugin_description = ''Ordinary least-squares regressor.'',
      plugin_key = \<lparr>key_algorithm = LinearRegression, key_task = Regression\<rparr>,
      plugin_factory = Call ''LinearRegression'' [(''fit_intercept'', Param ''fit_intercept''), (''n_jobs'', Lit (JInt 1))],
      plugin_parameters = [bool_param ''fit_intercept'' True],
      plugin_scaler = ScalerNone, plugin_probability = False,
      plugin_decision_function = False, plugin_feature_importance = False,
      plugin_coefficient = True,
      plugin_search_space = None\<rparr>"

definition plugin_ridge_regression :: model_plugin where
  "plugin_ridge_regression =
     \<lparr>plugin_id = ''ridge_regression'', plugin_display_name = ''Ridge Regression'',
      plugin_description = ''L2-regularized linear regressor.'',
      plugin_key = \<lparr>key_algorithm = Ridge, key_task = Regression\<rparr>,
      plugin_factory = Call ''Ridge'' [(''alpha'', Param ''alpha''), (''fit_intercept'', Param ''fit_intercept''), (''random_state'', SeedArg)],
      plugin_parameters = [number_param ''alpha'' 1 0 10000,
        bool_param ''fit_intercept'' True],
      plugin_scaler = ScalerStandard, plugin_probability = False,
      plugin_decision_function = False, plugin_feature_importance = False,
      plugin_coefficient = True,
      plugin_search_space = Some
        \<lparr>ss_plugin = ''ridge_regression'', ss_task = Regression,
         ss_parameters = [FloatSearch ''alpha'' (1/1000) 100 None 1 True,
          CategoricalSearch ''fit_intercept'' [JBool True, JBool False] (JBool True)],
         ss_probability = False\<rparr>\<rparr>"

definition plugin_lasso_regression :: model_plugin where
  "plugin_lasso_regression =
     \<lparr>plugin_id = ''lasso_regression'', plugin_display_name = ''Lasso Regression'',
      plugin_description = ''L1-regularized linear regressor.'',
      plugin_key = \<lparr>key_algorithm = Lasso, key_task = Regression\<rparr>,
      plugin_factory = Call ''Lasso'' [(''alpha'', Param ''alpha''), (''fit_intercept'', Param ''fit_intercept''), (''max_iter'', Param ''max_iter''), (''random_state'', SeedArg)],
      plugin_parameters = [number_param ''alpha'' (1/10) (1/1000000) 10000,
        bool_param ''fit_intercept'' True,
        int_param ''max_iter'' 2000 100 10000],
      plugin_scaler = ScalerStandard, plugin_probability = False,
      plugin_decision_function = False, plugin_feature_importance = False,
      plugin_coefficient = True,
      plugin_search_space = Some
        \<lparr>ss_plugin = ''lasso_regression'', ss_task = Regression,
         ss_parameters = [FloatSearch ''alpha'' (1/10000) 10 None (1/10) True,
          CategoricalSearch ''fit_intercept'' [JBool True, JBool False] (JBool True)],
         ss_probability = False\<rparr>\<rparr>"

definition plugin_elastic_net_regression :: model_plugin where
  "plugin_elastic_net_regression =
     \<lparr>plugin_id = ''elastic_net_regression'', plugin_display_name = ''Elastic Net'',
      plugin_description = ''Combined L1/L2 regularized regressor.'',
      plugin_key = \<lparr>key_algorithm = ElasticNet, key_task = Regression\<rparr>,
      plugin_factory = Call ''ElasticNet'' [(''alpha'', Param ''alpha''), (''l1_ratio'', Param ''l1_ratio''), (''fit_intercept'', Param ''fit_intercept''), (''max_iter'', Param ''max_iter''), (''random_state'', SeedArg)],
      plugin_parameters = [number_param ''alpha'' (1/10) (1/1000000) 10000,
        number_param ''l1_ratio'' (1/2) 0 1,
        bool_param ''fit_intercept'' True,
        int_param ''max_iter'' 2000 100 10000],
      plugin_scaler = ScalerStandard, plugin_probability = False,
      plugin_decision_function = False, plugin_feature_importance = False,
      plugin_coefficient = True,
      plugin_search_space = Some
        \<lparr>ss_plugin = ''elastic_net_regression'', ss_task = Regression,
         ss_parameters = [FloatSearch ''alpha'' (1/10000) 10 None (1/10) True,
          FloatSearch ''l1_ratio'' (1/10) (9/10) (Some (1/10)) (1/2) False,
          CategoricalSearch ''fit_intercept'' [JBool True, JBool False] (JBool True)],
         ss_probability = False\<rparr>\<rparr>"

definition plugin_decision_tree_regression :: model_plugin where
  "plugin_decision_tree_regression =
     \<lparr>plugin_id = ''decision_tree_regression'', plugin_display_name = ''Decision Tree Regressor'',
      plugin_description = ''Bounded decision-tree regressor.'',
      plugin_key = \<lparr>key_algorithm = DecisionTree, key_task = Regression\<rparr>,
      plugin_factory = Call ''DecisionTreeRegressor'' [(''max_depth'', Param ''max_depth''), (''min_samples_leaf'', Param ''min_samples_leaf''), (''random_state'', SeedArg)],
      plugin_parameters = [int_param ''max_depth'' 8 1 64,
        int_param ''min_samples_leaf'' 1 1 100],
      plugin_scaler = ScalerNone, plugin_probability = False,
      plugin_decision_function = False, plugin_feature_importance = True,
      plugin_coefficient = False,
      plugin_search_space = Some
        \<lparr>ss_plugin = ''decision_tree_regression'', ss_task = Regression,
         ss_parameters = [IntegerSearch ''max_depth'' 2 32 2 8,
          IntegerSearch ''min_samples_leaf'' 1 10 1 1],
         ss_probability = False\<rparr>\<rparr>"

definition plugin_extra_trees_regression :: model_plugin where
  "plugin_extra_trees_regression =
     \<lparr>plugin_id = ''extra_trees_regression'', plugin_display_name = ''Extra Trees Regressor'',
      plugin_description = ''Randomized tree ensemble regressor.'',
      plugin_key = \<lparr>key_algorithm = ExtraTrees, key_task = Regression\<rparr>,
      plugin_factory = Call ''ExtraTreesRegressor'' [(''n_estimators'', Param ''n_estimators''), (''max_depth'', Param ''max_depth''), (''min_samples_leaf'', Param ''min_samples_leaf''), (''n_jobs'', Lit (JInt 1)), (''random_state'', SeedArg)],
      plugin_parameters = [int_param ''n_estimators'' 100 1 500,
        int_param ''max_depth'' 12 1 64,
        int_param ''min_samples_leaf'' 1 1 100],
      plugin_scaler = ScalerNone, plugin_probability = False,
      plugin_decision_function = False, plugin_feature_importance = True,
      plugin_coefficient = False,
      plugin_search_space = Some
        \<lparr>ss_plugin = ''extra_trees_regression'', ss_task = Regression,
         ss_parameters = [IntegerSearch ''n_estimators'' 50 200 25 100,
          IntegerSearch ''max_depth'' 4 32 4 12,
          IntegerSearch ''min_samples_leaf'' 1 10 1 1],
         ss_probability = False\<rparr>\<rparr>"

definition plugin_knn_regression :: model_plugin where
  "plugin_knn_regression =
     \<lparr>plugin_id = ''knn_regression'', plugin_display_name = ''K-Nearest Neighbors Regressor'',
      plugin_description = ''Distance-based nearest-neighbor regressor.'',
      plugin_key = \<lparr>key_algorithm = Knn, key_task = Regression\<rparr>,
      plugin_factory = Call ''KNeighborsRegressor'' [(''n_neighbors'', Param ''n_neighbors''), (''weights'', Param ''weights''), (''n_jobs'', Lit (JInt 1))],
      plugin_parameters = [int_param ''n_neighbors'' 5 1 100,
        choice_param ''weights'' ''uniform'' [''uniform'', ''distance'']],
      plugin_scaler = ScalerStandard, plugin_probability = False,
      plugin_decision_function = False, plugin_feature_importance = False,
      plugin_coefficient = False,
      plugin_search_space = None\<rparr>"

definition plugin_svm_regression :: model_plugin where
  "plugin_svm_regression =
     \<lparr>plugin_id = ''svm_regression'', plugin_display_name = ''Support Vector Regressor'',
      plugin_description = ''Kernel support-vector regressor.'',
      plugin_key = \<lparr>key_algorithm = Svm, key_task = Regression\<rparr>,
      plugin_factory = Call ''SVR'' [(''C'', Param ''C''), (''epsilon'', Param ''epsilon''), (''kernel'', Param ''kernel''), (''gamma'', Param ''gamma'')],
      plugin_parameters = [number_param ''C'' 1 (1/10000) 10000,
        number_param ''epsilon'' (1/10) 0 1000,
        choice_param ''kernel'' ''rbf'' [''linear'', ''rbf'', ''poly'', ''sigmoid''],
        choice_param ''gamma'' ''scale'' [''scale'', ''auto'']],
      plugin_scaler = ScalerStandard, plugin_probability = False,
      plugin_decision_function = False, plugin_feature_importance = False,
      plugin_coefficient = False,
      plugin_search_space = None\<rparr>"

definition plugin_gradient_boosting_regression :: model_plugin where
  "plugin_gradient_boosting_regression =
     \<lparr>plugin_id = ''gradient_boosting_regression'', plugin_display_name = ''Gradient Boosting Regressor'',
      plugin_description = ''Sequential boosted-tree regressor.'',
      plugin_key = \<lparr>key_algorithm = GradientBoosting, key_task = Regression\<rparr>,
      plugin_factory = Call ''GradientBoostingRegressor'' [(''n_estimators'', Param ''n_estimators''), (''learning_rate'', Param ''learning_rate''), (''max_depth'', Param ''max_depth''), (''loss'', Param ''loss''), (''random_state'', SeedArg)],
      plugin_parameters = [int_param ''n_estimators'' 100 1 500,
        number_param ''learning_rate'' (1/10) (1/1000) 1,
        int_param ''max_depth'' 3 1 16,
        choice_param ''loss'' ''squared_error'' [''squared_error'', ''absolute_error'', ''huber'']],
      plugin_scaler = ScalerNone, plugin_probability = False,
      plugin_decision_function = False, plugin_feature_importance = True,
      plugin_coefficient = False,
      plugin_search_space = Some
        \<lparr>ss_plugin = ''gradient_boosting_regression'', ss_task = Regression,
         ss_parameters = [IntegerSearch ''n_estimators'' 50 200 25 100,
          FloatSearch ''learning_rate'' (1/100) (3/10) None (1/10) True,
          IntegerSearch ''max_depth'' 1 5 1 3,
          CategoricalSearch ''loss'' [JStr ''squared_error'', JStr ''absolute_error'', JStr ''huber''] (JStr ''squared_error'')],
         ss_probability = False\<rparr>\<rparr>"

definition plugin_random_forest_regression :: model_plugin where
  "plugin_random_forest_regression =
     \<lparr>plugin_id = ''random_forest_regression'', plugin_display_name = ''Random Forest Regressor'',
      plugin_description = ''Backward-compatible random-forest regressor.'',
      plugin_key = \<lparr>key_algorithm = RandomForest, key_task = Regression\<rparr>,
      plugin_factory = Call ''RandomForestRegressor'' [(''n_estimators'', Param ''n_estimators''), (''max_depth'', Param ''max_depth''), (''min_samples_leaf'', Param ''min_samples_leaf''), (''n_jobs'', Lit (JInt 1)), (''random_state'', SeedArg)],
      plugin_parameters = [int_param ''n_estimators'' 100 1 500,
        int_param ''max_depth'' 12 1 64,
        int_param ''min_samples_leaf'' 1 1 100],
      plugin_scaler = ScalerNone, plugin_probability = False,
      plugin_decision_function = False, plugin_feature_importance = True,
      plugin_coefficient = False,
      plugin_search_space = Some
        \<lparr>ss_plugin = ''random_forest_regression'', ss_task = Regression,
         ss_parameters = [IntegerSearch ''n_estimators'' 50 200 25 100,
          IntegerSearch ''max_depth'' 4 32 4 12,
          IntegerSearch ''min_samples_leaf'' 1 10 1 1],
         ss_probability = False\<rparr>\<rparr>"

text \<open>
  One \<^verbatim>\<open>add\<close> call: the search space is constructed first, then the plugin.
\<close>

definition add_plugin :: "model_plugin \<Rightarrow> model_plugin result" where
  "add_plugin pl = (case plugin_search_space pl of
     None \<Rightarrow> make_plugin pl
   | Some sp \<Rightarrow> bind_result (make_search_space sp) (\<lambda>sp'. make_plugin (pl\<lparr>plugin_search_space := Some sp'\<rparr>)))"

definition classification_plugins :: "model_plugin list" where
  "classification_plugins =
     [plugin_logistic_regression,
      plugin_decision_tree_classification,
      plugin_extra_trees_classification,
      plugin_knn_classification,
      plugin_svm_classification,
      plugin_gradient_boosting_classification,
      plugin_random_forest_classification]"

definition regression_plugins :: "model_plugin list" where
  "regression_plugins =
     [plugin_linear_regression,
      plugin_ridge_regression,
      plugin_lasso_regression,
      plugin_elastic_net_regression,
      plugin_decision_tree_regression,
      plugin_extra_trees_regression,
      plugin_knn_regression,
      plugin_svm_regression,
      plugin_gradient_boosting_regression,
      plugin_random_forest_regression]"

definition default_plugins :: "model_plugin list" where
  "default_plugins = classification_plugins @ regression_plugins"

definition create_default_plugin_registry :: "plugin_registry result" where
  "create_default_plugin_registry = register_all empty_registry (map add_plugin default_plugins)"

lemmas plugin_defs =
  plugin_logistic_regression_def
  plugin_decision_tree_classification_def
  plugin_extra_trees_classification_def
  plugin_knn_classification_def
  plugin_svm_classification_def
  plugin_gradient_boosting_classification_def
  plugin_random_forest_classification_def
  plugin_linear_regression_def
  plugin_ridge_regression_def
  plugin_lasso_regression_def
  plugin_elastic_net_regression_def
  plugin_decision_tree_regression_def
  plugin_extra_trees_regression_def
  plugin_knn_regression_def
  plugin_svm_regression_def
  plugin_gradient_boosting_regression_def
  plugin_random_forest_regression_def

lemmas parameter_defs = int_param_def number_param_def bool_param_def choice_param_def

lemmas catalog_defs = default_plugins_def classification_plugins_def regression_plugins_def

section \<open>Lemmas\<close>

lemma safe_ids [simp]:
  "safe_name ''logistic_regression'' = Inr ''logistic_regression''"
  "safe_name ''decision_tree_classification'' = Inr ''decision_tree_classification''"
  "safe_name ''extra_trees_classification'' = Inr ''extra_trees_classification''"
  "safe_name ''knn_classification'' = Inr ''knn_classification''"
  "safe_name ''svm_classification'' = Inr ''svm_classification''"
  "safe_name ''gradient_boosting_classification'' = Inr ''gradient_boosting_classification''"
  "safe_name ''random_forest_classification'' = Inr ''random_forest_classification''"
  "safe_name ''linear_regression'' = Inr ''linear_regression''"
  "safe_name ''ridge_regression'' = Inr ''ridge_regression''"
  "safe_name ''lasso_regression'' = Inr ''lasso_regression''"
  "safe_name ''elastic_net_regression'' = Inr ''elastic_net_regression''"
  "safe_name ''decision_tree_regression'' = Inr ''decision_tree_regression''"
  "safe_name ''extra_trees_regression'' = Inr ''extra_trees_regression''"
  "safe_name ''knn_regression'' = Inr ''knn_regression''"
  "safe_name ''svm_regression'' = Inr ''svm_regression''"
  "safe_name ''gradient_boosting_regression'' = Inr ''gradient_boosting_regression''"
  "safe_name ''random_forest_regression'' = Inr ''random_forest_regression''"
  by (simp_all add: safe_name_def strip_def lstrip_def py_isspace_def name_head_def
      lower_char_def upper_char_def ascii_digit_def)

lemma safe_parameter_names [simp]:
  "safe_name ''C'' = Inr ''C''"
  "safe_name ''class_weight'' = Inr ''class_weight''"
  "safe_name ''max_depth'' = Inr ''max_depth''"
  "safe_name ''min_samples_leaf'' = Inr ''min_samples_leaf''"
  "safe_name ''n_estimators'' = Inr ''n_estimators''"
  "safe_name ''learning_rate'' = Inr ''learning_rate''"
  "safe_name ''alpha'' = Inr ''alpha''"
  "safe_name ''fit_intercept'' = Inr ''fit_intercept''"
  "safe_name ''l1_ratio'' = Inr ''l1_ratio''"
  "safe_name ''loss'' = Inr ''loss''"
  by (simp_all add: safe_name_def strip_def lstrip_def py_isspace_def name_head_def
      lower_char_def upper_char_def ascii_digit_def)

lemma safe_choices [simp]:
  "safe_choice ''none'' = Inr ''none''"
  "safe_choice ''balanced'' = Inr ''balanced''"
  "safe_choice ''squared_error'' = Inr ''squared_error''"
  "safe_choice ''absolute_error'' = Inr ''absolute_error''"
  "safe_choice ''huber'' = Inr ''huber''"
  by (simp_all add: safe_choice_def strip_def lstrip_def py_isspace_def
      lower_char_def ascii_digit_def)

lemma aligned_ratio [simp]: "aligned (1 / 2) (1 / 10) (1 / 10)"
proof -
  have "(1 / 2 - 1 / 10) / (1 / 10) = (4 :: real)" by simp
  then show ?thesis unfolding aligned_def by (metis Ints_numeral)
qed

lemmas entry_simps = add_plugin_def make_plugin_def make_search_space_def
  validate_automl_search_space_def definitions_def parameter_defs pd_validate_def
  within_bounds_def guard_that_def isfinite_def

lemma plugin_logistic_regression_added [simp]: "add_plugin plugin_logistic_regression = Inr plugin_logistic_regression"
  by (simp add: plugin_logistic_regression_def entry_simps)

lemma plugin_decision_tree_classification_added [simp]: "add_plugin plugin_decision_tree_classification = Inr plugin_decision_tree_classification"
  by (simp add: plugin_decision_tree_classification_def entry_simps)

lemma plugin_extra_trees_classification_added [simp]: "add_plugin plugin_extra_trees_classification = Inr plugin_extra_trees_classification"
  by (simp add: plugin_extra_trees_classification_def entry_simps)

lemma plugin_knn_classification_added [simp]: "add_plugin plugin_knn_classification = Inr plugin_knn_classification"
  by (simp add: plugin_knn_classification_def entry_simps)

lemma plugin_svm_classification_added [simp]: "add_plugin plugin_svm_classification = Inr plugin_svm_classification"
  by (simp add: plugin_svm_classification_def entry_simps)

lemma plugin_gradient_boosting_classification_added [simp]: "add_plugin plugin_gradient_boosting_classification = Inr plugin_gradient_boosting_classification"
  by (simp add: plugin_gradient_boosting_classification_def entry_simps)

lemma plugin_random_forest_classification_added [simp]: "add_plugin plugin_random_forest_classification = Inr plugin_random_forest_classification"
  by (simp add: plugin_random_forest_classification_def entry_simps)

lemma plugin_linear_regression_added [simp]: "add_plugin plugin_linear_regression = Inr plugin_linear_regression"
  by (simp add: plugin_linear_regression_def entry_simps)

lemma plugin_ridge_regression_added [simp]: "add_plugin plugin_ridge_regression = Inr plugin_ridge_regression"
  by (simp add: plugin_ridge_regression_def entry_simps)

lemma plugin_lasso_regression_added [simp]: "add_plugin plugin_lasso_regression = Inr plugin_lasso_regression"
  by (simp add: plugin_lasso_regression_def entry_simps)

lemma plugin_elastic_net_regression_added [simp]: "add_plugin plugin_elastic_net_regression = Inr plugin_elastic_net_regression"
  by (simp add: plugin_elastic_net_regression_def entry_simps)

lemma plugin_decision_tree_regression_added [simp]: "add_plugin plugin_decision_tree_regression = Inr plugin_decision_tree_regression"
  by (simp add: plugin_decision_tree_regression_def entry_simps)

lemma plugin_extra_trees_regression_added [simp]: "add_plugin plugin_extra_trees_regression = Inr plugin_extra_trees_regression"
  by (simp add: plugin_extra_trees_regression_def entry_simps)

lemma plugin_knn_regression_added [simp]: "add_plugin plugin_knn_regression = Inr plugin_knn_regression"
  by (simp add: plugin_knn_regression_def entry_simps)

lemma plugin_svm_regression_added [simp]: "add_plugin plugin_svm_regression = Inr plugin_svm_regression"
  by (simp add: plugin_svm_regression_def entry_simps)

lemma plugin_gradient_boosting_regression_added [simp]: "add_plugin plugin_gradient_boosting_regression = Inr plugin_gradient_boosting_regression"
  by (simp add: plugin_gradient_boosting_regression_def entry_simps)

lemma plugin_random_forest_regression_added [simp]: "add_plugin plugin_random_forest_regression = Inr plugin_random_forest_regression"
  by (simp add: plugin_random_forest_regression_def entry_simps)

lemma default_plugins_added: "map add_plugin default_plugins = map Inr default_plugins"
  by (simp add: catalog_defs)

lemma register_all_distinct:
  assumes "distinct (map plugin_id ps)" and "distinct (map plugin_key ps)"
    and "plugin_id ` set ps \<inter> fst ` set (registry_plugins reg) = {}"
    and "plugin_key ` set ps \<inter> fst ` set (registry_keys reg) = {}"
  shows "register_all reg (map Inr ps) =
    Inr (reg\<lparr>registry_plugins := registry_plugins reg @ map (\<lambda>p. (plugin_id p, p)) ps,
             registry_keys := registry_keys reg @ map (\<lambda>p. (plugin_key p, p)) ps\<rparr>)"
  using assms by (induction ps arbitrary: reg) (auto simp: register_def)

lemma default_ids_distinct: "distinct (map plugin_id default_plugins)"
  by (simp add: catalog_defs plugin_defs)

lemma default_keys_distinct: "distinct (map plugin_key default_plugins)"
  by (simp add: catalog_defs plugin_defs)

lemma default_registry:
  "create_default_plugin_registry =
     Inr \<lparr>registry_plugins = map (\<lambda>p. (plugin_id p, p)) default_plugins,
          registry_keys = map (\<lambda>p. (plugin_key p, p)) default_plugins\<rparr>"
  unfolding create_default_plugin_registry_def default_plugins_added
  by (simp add: register_all_distinct default_ids_distinct default_keys_distinct empty_registry_def)

lemma catalog_defaults_valid:
  "p \<in> set default_plugins \<Longrightarrow> d \<in> set (plugin_parameters p) \<Longrightarrow> is_ok (pd_validate d (pd_default d))"
  by (auto simp: catalog_defs plugin_defs parameter_defs pd_validate_def within_bounds_def)

lemma catalog_factories_closed:
  "p \<in> set default_plugins \<Longrightarrow>
     set (factory_params (plugin_factory p)) \<subseteq> pd_name ` set (plugin_parameters p)"
  by (auto simp: catalog_defs plugin_defs parameter_defs)

lemma catalog_space_valid:
  assumes "p \<in> set default_plugins" and "plugin_search_space p = Some sp"
  shows "validate_automl_search_space p sp = Inr ()"
proof -
  have "add_plugin p = Inr p"
    using assms(1) by (auto simp: catalog_defs)
  then obtain x where x: "validate_automl_search_space p x = Inr ()" "p\<lparr>plugin_search_space := Some x\<rparr> = p"
    using assms(2) by (auto simp: add_plugin_def make_plugin_def)
  from arg_cong [OF x(2), of plugin_search_space] assms(2) have "x = sp" by simp
  with x(1) show ?thesis by simp
qed

section \<open>Properties\<close>

text \<open>
  The default catalog builds: every entry passes the validators of its search space and of
  the plugin, no identifier or trainer key is registered twice, and looking an entry up by
  identifier and task or by trainer key gives that entry back.
\<close>

theorem default_catalog_builds:
  "\<exists>reg. create_default_plugin_registry = Inr reg \<and> length (registry_plugins reg) = 17 \<and>
     list_all (\<lambda>p. registry_get reg (plugin_id p) (Some (key_task (plugin_key p))) = Inr p \<and>
                  registry_get_by_key reg (plugin_key p) = Inr p) default_plugins"
proof -
  have ids: "map_of (map (\<lambda>p. (plugin_id p, p)) default_plugins) (plugin_id p) = Some p"
    if "p \<in> set default_plugins" for p
    using that default_ids_distinct by (intro map_of_is_SomeI) (auto simp: comp_def)
  have keys: "map_of (map (\<lambda>p. (plugin_key p, p)) default_plugins) (plugin_key p) = Some p"
    if "p \<in> set default_plugins" for p
    using that default_keys_distinct by (intro map_of_is_SomeI) (auto simp: comp_def)
  have "length default_plugins = 17" by (simp add: catalog_defs)
  then show ?thesis
    by (simp add: default_registry registry_get_def registry_get_by_key_def ids keys list_all_iff)
qed

text \<open>
  For every plugin of the catalog and every assignment of its AutoML search space, the
  trial's hyperparameters pass the plugin's validation and the estimator is constructed
  without a missing parameter, whatever the seed.
\<close>

theorem catalog_trials_build:
  assumes "p \<in> set default_plugins" and "plugin_search_space p = Some sp" and "f \<in> assignments sp"
  shows "\<exists>vs e. validate_parameters p (trial_values sp f) = Inr vs \<and>
    build_estimator vs seed (plugin_factory p) = Inr e"
proof -
  have "is_ok (validate_parameters p (trial_values sp f))"
    using catalog_space_valid [OF assms(1,2)] assms(3) catalog_defaults_valid [OF assms(1)]
    by (intro trial_values_validate) auto
  then obtain vs where vs: "validate_parameters p (trial_values sp f) = Inr vs"
    by (auto simp: is_ok_iff)
  have "fst ` set vs = pd_name ` set (plugin_parameters p)"
    using validated_names [OF vs] .
  then have "is_ok (build_estimator vs seed (plugin_factory p))"
    using catalog_factories_closed [OF assms(1)] by (intro build_total) auto
  with vs show ?thesis by (auto simp: is_ok_iff)
qed

theorem catalog_trials_build_witness:
  "\<exists>vs e. validate_parameters plugin_ridge_regression
       (trial_values (the (plugin_search_space plugin_ridge_regression))
         (\<lambda>n. if n = ''alpha'' then JFloat (Fin 1) else JBool False)) = Inr vs \<and>
     build_estimator vs None (plugin_factory plugin_ridge_regression) = Inr e"
  by (rule catalog_trials_build)
     (simp_all add: catalog_defs plugin_ridge_regression_def assignments_def)

end
