(* ===== verification/Job_Specs.thy ===== *)
theory Job_Specs
  imports Plugin_Catalog
begin

text \<open>
  The persisted specification of a training job: the bounds of
  \<^verbatim>\<open>ml/training_limits.py\<close>, the restricted Random Forest parameters of
  \<^verbatim>\<open>ml/trainers/random_forest/parameters.py\<close>, the four specification classes of
  \<^verbatim>\<open>ml/jobs/models.py\<close> with their validators, and the parser that selects the
  class of a persisted payload. The class of a specification is its task together with the
  kind of its hyperparameters. Validators run inside Pydantic, which turns a
  \<open>ValueError\<close> into its own \<open>ValidationError\<close> and lets every other exception
  through. The payload of a specification is the record of its field values.
\<close>

section \<open>Limits\<close>

definition max_training_rows :: nat where "max_training_rows = 10000"
definition max_evaluation_rows :: nat where "max_evaluation_rows = 5000"
definition max_prediction_rows :: nat where "max_prediction_rows = 10000"
definition max_feature_columns :: nat where "max_feature_columns = 256"
definition max_total_feature_cells :: nat where "max_total_feature_cells = 1000000"
definition max_training_tags :: nat where "max_training_tags = 32"

lemmas limit_defs = max_training_rows_def max_evaluation_rows_def max_prediction_rows_def
  max_feature_columns_def max_total_feature_cells_def max_training_tags_def

definition value_error :: "string \<Rightarrow> pyexc" where
  "value_error m = Exc ValueError m"

definition validate_training_matrix_limits :: "nat \<Rightarrow> nat \<Rightarrow> nat \<Rightarrow> unit result" where
  "validate_training_matrix_limits training_rows evaluation_rows feature_columns =
     (if training_rows > max_training_rows
      then Inl (value_error ''training_features may contain at most 10000 rows.'')
      else if evaluation_rows > max_evaluation_rows
      then Inl (value_error ''evaluation_features may contain at most 5000 rows.'')
      else if feature_columns > max_feature_columns
      then Inl (value_error ''feature matrices may contain at most 256 columns.'')
      else let total_cells = (training_rows + evaluation_rows) * feature_columns in
        if total_cells > max_total_feature_cells
        then Inl (value_error
          (''training and evaluation feature matrices may contain at most '' @
           ''1000000 total cells.''))
        else Inr ())"

definition validate_prediction_matrix_limits :: "nat \<Rightarrow> nat \<Rightarrow> unit result" where
  "validate_prediction_matrix_limits rows feature_columns =
     (if rows > max_prediction_rows
      then Inl (value_error ''prediction features may contain at most 10000 rows.'')
      else if feature_columns > max_feature_columns
      then Inl (value_error ''prediction features may contain at most 256 columns.'')
      else if rows * feature_columns > max_total_feature_cells
      then Inl (value_error ''prediction features may contain at most 1000000 total cells.'')
      else Inr ())"

section \<open>Random Forest parameters\<close>

datatype max_features = MaxSqrt | MaxLog2 | MaxFraction pyfloat | MaxCount int

record forest_parameters =
  n_estimators :: int
  max_depth :: "int option"
  min_samples_split :: int
  min_samples_leaf :: int
  max_features :: max_features
  bootstrap :: bool
  n_jobs :: "int option"
  random_state :: "int option"
  criterion :: string

definition forest_criteria :: "task_type \<Rightarrow> string list" where
  "forest_criteria t = (case t of
     Regression \<Rightarrow> [''squared_error'', ''absolute_error'', ''friedman_mse'', ''poisson'']
   | Classification \<Rightarrow> [''gini'', ''entropy'', ''log_loss''])"

fun valid_max_features :: "max_features \<Rightarrow> bool" where
  "valid_max_features MaxSqrt = True"
| "valid_max_features MaxLog2 = True"
| "valid_max_features (MaxFraction (Fin x)) \<longleftrightarrow> 0 < x \<and> x \<le> 1"
| "valid_max_features (MaxFraction _) = False"
| "valid_max_features (MaxCount n) = False"

definition validation_error :: "string \<Rightarrow> pyexc" where
  "validation_error m = Exc ValidationError m"

definition validate_forest_parameters :: "task_type \<Rightarrow> forest_parameters \<Rightarrow> unit result" where
  "validate_forest_parameters t p =
     guard_that (0 < n_estimators p \<and> (\<forall>d \<in> set_option (max_depth p). 0 < d) \<and>
       2 \<le> min_samples_split p \<and> 0 < min_samples_leaf p \<and> valid_max_features (max_features p) \<and>
       n_jobs p \<noteq> Some 0 \<and> criterion p \<in> set (forest_criteria t))
       (validation_error ''RandomForestParameters'')"

definition common_random_state :: "int option \<Rightarrow> forest_parameters \<Rightarrow> int option" where
  "common_random_state seed p = (if seed \<noteq> None then seed else random_state p)"

text \<open>\<^verbatim>\<open>to_sklearn_kwargs\<close>: the workflow seed takes precedence over the stored one.\<close>

definition to_sklearn_kwargs :: "int option \<Rightarrow> forest_parameters \<Rightarrow> forest_parameters" where
  "to_sklearn_kwargs seed p = p\<lparr>random_state := common_random_state seed p\<rparr>"

section \<open>Specifications\<close>

datatype targets = FloatTargets "pyfloat list" | LabelTargets "int list"

datatype imputer_choice = ImputerNone | ImputerMean | ImputerMedian | ImputerMostFrequent

datatype hyperparameters =
    ForestParameters forest_parameters
  | PluginParameters string "(string \<times> pyval) list" scaler_choice imputer_choice

record job_spec =
  spec_task :: task_type
  spec_training_features :: "pyfloat list list"
  spec_evaluation_features :: "pyfloat list list"
  spec_training_targets :: targets
  spec_evaluation_targets :: targets
  spec_dataset_version_id :: "uuid option"
  spec_random_seed :: "int option"
  spec_experiment_name :: string
  spec_run_name :: "string option"
  spec_registered_model_name :: string
  spec_tags :: "(string \<times> string) list"
  spec_model_description :: "string option"
  spec_hyperparameters :: hyperparameters

fun targets_length :: "targets \<Rightarrow> nat" where
  "targets_length (FloatTargets vs) = length vs"
| "targets_length (LabelTargets ls) = length ls"

fun is_plugin :: "hyperparameters \<Rightarrow> bool" where
  "is_plugin (PluginParameters _ _ _ _) = True"
| "is_plugin (ForestParameters _) = False"

fun target_type_ok :: "task_type \<Rightarrow> targets \<Rightarrow> bool" where
  "target_type_ok Regression (FloatTargets vs) = list_all isfinite vs"
| "target_type_ok Classification (LabelTargets ls) = True"
| "target_type_ok _ _ = False"

definition matrix_width :: "string \<Rightarrow> pyfloat list list \<Rightarrow> nat result" where
  "matrix_width name matrix =
     (if matrix = [] \<or> hd matrix = []
      then Inl (value_error (name @ '' must be non-empty and contain feature columns.''))
      else let width = length (hd matrix) in
        if list_ex (\<lambda>row. length row \<noteq> width) matrix
        then Inl (value_error (name @ '' must be rectangular.''))
        else Inr width)"

definition bounded_text :: "string \<Rightarrow> string \<Rightarrow> nat \<Rightarrow> unit result" where
  "bounded_text name value maximum =
     guard_that (strip value \<noteq> [] \<and> length value \<le> maximum)
       (value_error (name @ '' must be non-empty and at most''))"

fun validate_tags :: "(string \<times> string) list \<Rightarrow> unit result" where
  "validate_tags [] = Inr ()"
| "validate_tags ((k, v) # tags) =
     bind_result (bounded_text ''tag key'' k 250) (\<lambda>_.
     bind_result (bounded_text ''tag value'' v 5000) (\<lambda>_. validate_tags tags))"

definition optional_text :: "string \<Rightarrow> string option \<Rightarrow> nat \<Rightarrow> unit result" where
  "optional_text name value maximum =
     (case value of None \<Rightarrow> Inr () | Some v \<Rightarrow> bounded_text name v maximum)"

definition validate_common_values :: "job_spec \<Rightarrow> unit result" where
  "validate_common_values s =
     bind_result (matrix_width ''training_features'' (spec_training_features s)) (\<lambda>training_width.
     bind_result (matrix_width ''evaluation_features'' (spec_evaluation_features s)) (\<lambda>evaluation_width.
     bind_result (guard_that (training_width = evaluation_width)
       (value_error ''training and evaluation features must have equal column counts.'')) (\<lambda>_.
     bind_result (validate_training_matrix_limits (length (spec_training_features s))
        (length (spec_evaluation_features s)) training_width) (\<lambda>_.
     bind_result (bounded_text ''experiment_name'' (spec_experiment_name s) 255) (\<lambda>_.
     bind_result (optional_text ''run_name'' (spec_run_name s) 255) (\<lambda>_.
     bind_result (optional_text ''model_description'' (spec_model_description s) 5000) (\<lambda>_.
     bind_result (validate_registered_model_name (spec_registered_model_name s)) (\<lambda>_.
     validate_tags (spec_tags s)))))))))"

text \<open>The field constraints of the class, checked before the validators run.\<close>

definition minimum_targets :: "hyperparameters \<Rightarrow> nat" where
  "minimum_targets h = (if is_plugin h then 2 else 1)"

definition field_constraints :: "job_spec \<Rightarrow> bool" where
  "field_constraints s \<longleftrightarrow>
     1 \<le> length (spec_training_features s) \<and> length (spec_training_features s) \<le> max_training_rows \<and>
     1 \<le> length (spec_evaluation_features s) \<and> length (spec_evaluation_features s) \<le> max_evaluation_rows \<and>
     list_all (list_all isfinite) (spec_training_features s) \<and>
     list_all (list_all isfinite) (spec_evaluation_features s) \<and>
     length (spec_tags s) \<le> max_training_tags \<and>
     minimum_targets (spec_hyperparameters s) \<le> targets_length (spec_training_targets s) \<and>
     targets_length (spec_training_targets s) \<le> max_training_rows \<and>
     minimum_targets (spec_hyperparameters s) \<le> targets_length (spec_evaluation_targets s) \<and>
     targets_length (spec_evaluation_targets s) \<le> max_evaluation_rows \<and>
     target_type_ok (spec_task s) (spec_training_targets s) \<and>
     target_type_ok (spec_task s) (spec_evaluation_targets s) \<and>
     (case spec_hyperparameters s of
        ForestParameters p \<Rightarrow> is_ok (validate_forest_parameters (spec_task s) p)
      | PluginParameters i h _ _ \<Rightarrow> 3 \<le> length i \<and> length i \<le> 64 \<and> length h \<le> 32)"

fun class_count :: "targets \<Rightarrow> nat" where
  "class_count (LabelTargets ls) = card (set ls)"
| "class_count (FloatTargets vs) = card (set vs)"

definition validate_target_lengths :: "job_spec \<Rightarrow> unit result" where
  "validate_target_lengths s =
     bind_result (guard_that (length (spec_training_features s) = targets_length (spec_training_targets s))
       (value_error ''training feature and target row counts must match.'')) (\<lambda>_.
     bind_result (guard_that (length (spec_evaluation_features s) = targets_length (spec_evaluation_targets s))
       (value_error ''evaluation feature and target row counts must match.'')) (\<lambda>_.
     guard_that (spec_task s = Classification \<longrightarrow> 2 \<le> class_count (spec_training_targets s))
       (value_error ''classification training requires at least two classes.'')))"

definition plugin_registry_get :: "string \<Rightarrow> task_type option \<Rightarrow> model_plugin result" where
  "plugin_registry_get i task =
     bind_result create_default_plugin_registry (\<lambda>reg. registry_get reg i task)"

definition validate_plugin :: "job_spec \<Rightarrow> unit result" where
  "validate_plugin s =
     (case spec_hyperparameters s of
        ForestParameters _ \<Rightarrow> Inr ()
      | PluginParameters i h _ _ \<Rightarrow>
          bind_result (plugin_registry_get i (Some (spec_task s))) (\<lambda>pl.
          bind_result (validate_parameters pl h) (\<lambda>_. Inr ())))"

fun pydantic_wrap :: "'a result \<Rightarrow> 'a result" where
  "pydantic_wrap (Inr x) = Inr x"
| "pydantic_wrap (Inl e) = Inl (if isinstance (exc_of e) [ValueError]
     then validation_error (exc_message e) else e)"

text \<open>\<^verbatim>\<open>model_validate\<close> of the class the specification belongs to.\<close>

definition validate_spec :: "job_spec \<Rightarrow> job_spec result" where
  "validate_spec s =
     (if \<not> field_constraints s then Inl (validation_error ''field constraints'')
      else bind_result (pydantic_wrap
        (bind_result (validate_common_values s) (\<lambda>_.
         bind_result (validate_plugin s) (\<lambda>_. validate_target_lengths s))))
        (\<lambda>_. Inr s))"

definition plugin_key_of :: "job_spec \<Rightarrow> trainer_key result" where
  "plugin_key_of s = (case spec_hyperparameters s of
     ForestParameters _ \<Rightarrow> Inr \<lparr>key_algorithm = RandomForest, key_task = spec_task s\<rparr>
   | PluginParameters i _ _ _ \<Rightarrow>
       bind_result (plugin_registry_get i None) (\<lambda>pl. Inr (plugin_key pl)))"

definition parse_training_job_spec ::
    "task_type \<Rightarrow> algorithm_type \<Rightarrow> job_spec \<Rightarrow> job_spec result" where
  "parse_training_job_spec task algorithm payload =
     (let s = payload\<lparr>spec_task := task\<rparr> in
      if algorithm \<noteq> RandomForest \<or> is_plugin (spec_hyperparameters payload)
      then if \<not> is_plugin (spec_hyperparameters payload)
        then Inl (validation_error ''plugin_id'')
        else bind_result (validate_spec s) (\<lambda>spec.
          bind_result (plugin_key_of spec) (\<lambda>k.
          if key_algorithm k \<noteq> algorithm
          then Inl (value_error ''Persisted algorithm does not match its plugin specification.'')
          else Inr spec))
      else validate_spec s)"

definition random_forest_key :: "task_type \<Rightarrow> trainer_key" where
  "random_forest_key t = \<lparr>key_algorithm = RandomForest, key_task = t\<rparr>"

section \<open>Lemmas\<close>

lemma matrix_width_Inr:
  "matrix_width n m = Inr w \<longleftrightarrow> m \<noteq> [] \<and> 0 < w \<and> list_all (\<lambda>row. length row = w) m"
  by (cases m) (auto simp: matrix_width_def list_ex_iff list_all_iff Let_def split: if_splits)

lemma matrix_limits_Inr:
  "validate_training_matrix_limits t e c = Inr u \<longleftrightarrow>
     t \<le> 10000 \<and> e \<le> 5000 \<and> c \<le> 256 \<and> (t + e) * c \<le> 1000000"
  by (auto simp: validate_training_matrix_limits_def limit_defs Let_def)

lemma bounded_text_Inr [simp]:
  "bounded_text n v m = Inr u \<longleftrightarrow> strip v \<noteq> [] \<and> length v \<le> m"
  by (simp add: bounded_text_def)

lemma validate_tags_Inr:
  "validate_tags tags = Inr u \<longleftrightarrow>
     (\<forall>(k, v) \<in> set tags. strip k \<noteq> [] \<and> length k \<le> 250 \<and> strip v \<noteq> [] \<and> length v \<le> 5000)"
  by (induction tags rule: validate_tags.induct) auto

lemma validate_name_Inr [simp]:
  "validate_registered_model_name n = Inr m \<longleftrightarrow> m = n \<and> model_name_pattern n"
  by (auto simp: validate_registered_model_name_def)

lemma pydantic_wrap_Inr [simp]: "pydantic_wrap r = Inr x \<longleftrightarrow> r = Inr x"
  by (cases r) auto

lemma registry_get_task:
  "registry_get reg i (Some t) = Inr pl \<Longrightarrow> registry_get reg i None = Inr pl \<and> key_task (plugin_key pl) = t"
  by (auto simp: registry_get_def split: option.splits if_splits)

lemma plugin_get_task:
  "plugin_registry_get i (Some t) = Inr pl \<Longrightarrow>
     plugin_registry_get i None = Inr pl \<and> key_task (plugin_key pl) = t"
  by (auto simp: plugin_registry_get_def dest: registry_get_task)

lemma validate_spec_Inr:
  "validate_spec s = Inr t \<longleftrightarrow> t = s \<and> field_constraints s \<and>
     validate_common_values s = Inr () \<and> validate_plugin s = Inr () \<and> validate_target_lengths s = Inr ()"
  by (auto simp: validate_spec_def)

lemma validated_key:
  assumes "validate_spec s = Inr t"
  shows "\<exists>k. plugin_key_of s = Inr k \<and> key_task k = spec_task s \<and>
    (\<not> is_plugin (spec_hyperparameters s) \<longrightarrow> key_algorithm k = RandomForest)"
  using assms
  by (auto simp: validate_spec_Inr validate_plugin_def plugin_key_of_def
      split: hyperparameters.splits dest!: plugin_get_task)

section \<open>Properties\<close>

text \<open>
  A specification that passes its validators meets the contract the trainers rely on:
  both matrices are rectangular with one common width between 1 and 256, together they hold at
  most a million cells, there is one target per row, a classification has at least two
  classes, the model name is safe, and the specification has a trainer key of its own task.
\<close>

theorem validated_spec_contract:
  assumes "validate_spec s = Inr t"
  shows "t = s \<and>
    (\<exists>w. 1 \<le> w \<and> w \<le> 256 \<and>
       list_all (\<lambda>row. length row = w) (spec_training_features s @ spec_evaluation_features s) \<and>
       (length (spec_training_features s) + length (spec_evaluation_features s)) * w \<le> 1000000) \<and>
    length (spec_training_features s) = targets_length (spec_training_targets s) \<and>
    length (spec_evaluation_features s) = targets_length (spec_evaluation_targets s) \<and>
    (spec_task s = Classification \<longrightarrow> 2 \<le> class_count (spec_training_targets s)) \<and>
    model_name_pattern (spec_registered_model_name s) \<and>
    (\<exists>k. plugin_key_of s = Inr k \<and> key_task k = spec_task s)"
proof -
  from assms have t: "t = s" and common: "validate_common_values s = Inr ()"
    and lengths: "validate_target_lengths s = Inr ()"
    by (auto simp: validate_spec_Inr)
  from common obtain w where "0 < w" "w \<le> 256"
    "list_all (\<lambda>row. length row = w) (spec_training_features s)"
    "list_all (\<lambda>row. length row = w) (spec_evaluation_features s)"
    "(length (spec_training_features s) + length (spec_evaluation_features s)) * w \<le> 1000000"
    "model_name_pattern (spec_registered_model_name s)"
    by (auto simp: validate_common_values_def matrix_width_Inr matrix_limits_Inr)
  moreover from this have "1 \<le> w" by simp
  ultimately show ?thesis
    using t lengths validated_key [OF assms]
    by (auto simp: validate_target_lengths_def intro!: exI [of _ w])
qed

text \<open>A small classification specification for the witnesses.\<close>

definition sample_spec :: job_spec where
  "sample_spec = \<lparr>spec_task = Classification,
     spec_training_features = [[Fin 1], [Fin 2]], spec_evaluation_features = [[Fin 3], [Fin 4]],
     spec_training_targets = LabelTargets [0, 1], spec_evaluation_targets = LabelTargets [1, 1],
     spec_dataset_version_id = None, spec_random_seed = Some 7, spec_experiment_name = ''exp'',
     spec_run_name = None, spec_registered_model_name = ''pump_model'',
     spec_tags = [(''team'', ''a'')], spec_model_description = None,
     spec_hyperparameters = ForestParameters
       \<lparr>n_estimators = 100, max_depth = None, min_samples_split = 2, min_samples_leaf = 1,
        max_features = MaxSqrt, bootstrap = True, n_jobs = None, random_state = None,
        criterion = ''gini''\<rparr>\<rparr>"

lemma sample_spec_valid: "validate_spec sample_spec = Inr sample_spec"
  by (simp add: validate_spec_Inr sample_spec_def field_constraints_def limit_defs isfinite_def
      minimum_targets_def validate_forest_parameters_def forest_criteria_def
      validate_common_values_def matrix_width_Inr matrix_limits_Inr optional_text_def
      model_name_pattern_def lower_char_def name_char_def strip_def lstrip_def py_isspace_def
      validate_plugin_def validate_target_lengths_def)

theorem validated_spec_contract_witness:
  "2 \<le> class_count (spec_training_targets sample_spec) \<and>
    (\<exists>k. plugin_key_of sample_spec = Inr k \<and> key_task k = Classification)"
proof -
  have "spec_task sample_spec = Classification" by (simp add: sample_spec_def)
  then show ?thesis using validated_spec_contract [OF sample_spec_valid] by simp
qed

text \<open>
  A validated specification survives persistence: parsed under the trainer key it was
  stored with, the payload selects the same class, passes the validators again and gives the
  specification back.
\<close>

theorem spec_persistence_roundtrip:
  assumes "validate_spec s = Inr s" and "plugin_key_of s = Inr k"
  shows "parse_training_job_spec (key_task k) (key_algorithm k) s = Inr s"
proof -
  have key: "key_task k = spec_task s" "\<not> is_plugin (spec_hyperparameters s) \<longrightarrow> key_algorithm k = RandomForest"
    using validated_key [OF assms(1)] assms(2) by auto
  have "s\<lparr>spec_task := key_task k\<rparr> = s" using key(1) by simp
  with assms key(2) show ?thesis by (simp add: parse_training_job_spec_def Let_def)
qed

theorem spec_persistence_roundtrip_witness:
  "parse_training_job_spec (key_task (random_forest_key Classification))
     (key_algorithm (random_forest_key Classification)) sample_spec = Inr sample_spec"
  by (rule spec_persistence_roundtrip [OF sample_spec_valid])
     (simp add: plugin_key_of_def sample_spec_def random_forest_key_def)

end
