(* ===== verification/Job_Repository.thy ===== *)
theory Job_Repository
  imports Job_Specs "HOL-Library.Product_Lexorder"
begin

text \<open>
  The table of background training jobs and the operations of
  \<^verbatim>\<open>TrainingJobRepository\<close> (\<^verbatim>\<open>repositories/ai_governance.py\<close>): creation
  under the table's constraints, the conditional life-cycle updates, and the queries, which the
  tenant guard of \<^verbatim>\<open>db/tenant_scope.py\<close> restricts to one company. The second half
  gives the life cycle of a single row as an inductive relation, shows that every operation
  only makes such moves, and derives what holds in every table that any interleaving of
  services, workers and administrators can reach.
\<close>

section \<open>The table\<close>

datatype job_status = Queued | Running | Succeeded | Failed | Cancelled

record training_job =
  job_id :: uuid
  job_company_id :: uuid
  job_requested_by :: uuid
  job_dataset_version_id :: "uuid option"
  job_key :: trainer_key
  job_status :: job_status
  job_specification :: job_spec
  job_idempotency_key :: "string option"
  job_fingerprint :: string
  job_queue_message_id :: "string option"
  job_attempt_count :: nat
  job_max_attempts :: nat
  job_state_version :: nat
  job_created_at :: timestamp
  job_queued_at :: timestamp
  job_started_at :: "timestamp option"
  job_finished_at :: "timestamp option"
  job_cancelled_at :: "timestamp option"
  job_error_code :: "string option"
  job_safe_error_message :: "string option"
  job_local_execution_run_id :: "uuid option"
  job_mlflow_experiment_id :: "string option"
  job_mlflow_run_id :: "string option"
  job_registered_model_version :: "string option"
  job_metrics :: "metrics option"

abbreviation job_model_name :: "training_job \<Rightarrow> string" where
  "job_model_name r \<equiv> spec_registered_model_name (job_specification r)"

text \<open>The company a request runs for; \<open>None\<close> outside a tenant request (workers).\<close>

type_synonym tenant = "uuid option"

definition visible :: "tenant \<Rightarrow> training_job \<Rightarrow> bool" where
  "visible tn r \<longleftrightarrow> (case tn of None \<Rightarrow> True | Some t \<Rightarrow> job_company_id r = t)"

section \<open>Creation\<close>

record create_args =
  ca_job_id :: uuid
  ca_requested_by :: uuid
  ca_key :: trainer_key
  ca_specification :: job_spec
  ca_idempotency_key :: "string option"
  ca_fingerprint :: string
  ca_max_attempts :: nat
  ca_queued_at :: timestamp
  ca_created_at :: timestamp \<comment> \<open>the server default \<open>now()\<close> of the insert\<close>

definition new_job :: "uuid \<Rightarrow> create_args \<Rightarrow> training_job" where
  "new_job company a =
     \<lparr>job_id = ca_job_id a, job_company_id = company, job_requested_by = ca_requested_by a,
      job_dataset_version_id = spec_dataset_version_id (ca_specification a),
      job_key = ca_key a, job_status = Queued, job_specification = ca_specification a,
      job_idempotency_key = ca_idempotency_key a, job_fingerprint = ca_fingerprint a,
      job_queue_message_id = None, job_attempt_count = 0, job_max_attempts = ca_max_attempts a,
      job_state_version = 0, job_created_at = ca_created_at a, job_queued_at = ca_queued_at a,
      job_started_at = None, job_finished_at = None, job_cancelled_at = None,
      job_error_code = None, job_safe_error_message = None, job_local_execution_run_id = None,
      job_mlflow_experiment_id = None, job_mlflow_run_id = None,
      job_registered_model_version = None, job_metrics = None\<rparr>"

text \<open>
  The primary key, the scoped idempotency constraint (a \<^verbatim>\<open>NULL\<close> key never
  conflicts) and the check on the attempts.
\<close>

definition same_idempotency_scope :: "training_job \<Rightarrow> training_job \<Rightarrow> bool" where
  "same_idempotency_scope r s \<longleftrightarrow> job_idempotency_key r \<noteq> None \<and>
     job_idempotency_key r = job_idempotency_key s \<and>
     job_requested_by r = job_requested_by s \<and> job_key r = job_key s"

definition insert_allowed :: "training_job list \<Rightarrow> training_job \<Rightarrow> bool" where
  "insert_allowed T n \<longleftrightarrow> job_id n \<notin> job_id ` set T \<and>
     (\<forall>r \<in> set T. \<not> same_idempotency_scope n r) \<and> 0 < job_max_attempts n"

text \<open>
  \<open>company_of\<close> reads the users table. The usage references are rows of another table,
  inserted in the same transaction.
\<close>

type_synonym usage_reference = "uuid \<times> string \<times> uuid"

definition create_job ::
    "(uuid \<Rightarrow> uuid option) \<Rightarrow> create_args \<Rightarrow> training_job list \<Rightarrow>
     (training_job \<times> usage_reference list) result \<times> training_job list" where
  "create_job company_of a T =
     (case company_of (ca_requested_by a) of
        None \<Rightarrow> (Inl (Exc ValueError ''A tenant-scoped user is required.''), T)
      | Some company \<Rightarrow>
          let n = new_job company a in
          if insert_allowed T n
          then (Inr (n, case spec_dataset_version_id (ca_specification a) of
                          None \<Rightarrow> []
                        | Some v \<Rightarrow> [(v, ''training_job'', job_id n)]), T @ [n])
          else (Inl (Exc IntegrityError ''constraint''), T))"

section \<open>Conditional updates\<close>

definition bump :: "(training_job \<Rightarrow> training_job) \<Rightarrow> training_job \<Rightarrow> training_job" where
  "bump values r = (values r)\<lparr>job_state_version := Suc (job_state_version r)\<rparr>"

definition expects :: "uuid \<Rightarrow> job_status \<Rightarrow> nat option \<Rightarrow> training_job \<Rightarrow> bool" where
  "expects i st v r \<longleftrightarrow> job_id r = i \<and> job_status r = st \<and>
     (case v of None \<Rightarrow> True | Some n \<Rightarrow> job_state_version r = n)"

definition conditional_update ::
    "uuid \<Rightarrow> job_status \<Rightarrow> nat option \<Rightarrow> (training_job \<Rightarrow> training_job) \<Rightarrow>
     training_job list \<Rightarrow> training_job option \<times> training_job list" where
  "conditional_update i st v values T =
     (at_most_one (returning (expects i st v) (bump values) T),
      update_where (expects i st v) (bump values) T)"

definition set_queue_identifier ::
    "uuid \<Rightarrow> string \<Rightarrow> nat \<Rightarrow> training_job list \<Rightarrow> training_job option result \<times> training_job list" where
  "set_queue_identifier i message expected_version T =
     (let p = (\<lambda>r. expects i Queued (Some expected_version) r \<and> job_queue_message_id r = None);
          f = bump (\<lambda>r. r\<lparr>job_queue_message_id := Some message, job_error_code := None,
                         job_safe_error_message := None\<rparr>) in
      if list_ex p T \<and> list_ex (\<lambda>r. job_queue_message_id r = Some message) T
      then (Inl (Exc IntegrityError ''ix_training_jobs_queue_message_id''), T)
      else (Inr (at_most_one (returning p f T)), update_where p f T))"

definition mark_queue_identifier_pending ::
    "uuid \<Rightarrow> nat \<Rightarrow> training_job list \<Rightarrow> training_job option \<times> training_job list" where
  "mark_queue_identifier_pending i expected_version =
     conditional_update i Queued (Some expected_version)
       (\<lambda>r. r\<lparr>job_error_code := Some ''queue_message_persistence_pending'',
             job_safe_error_message := Some ''The queue message identifier requires reconciliation.''\<rparr>)"

definition claim_queued ::
    "uuid \<Rightarrow> timestamp \<Rightarrow> training_job list \<Rightarrow> training_job option \<times> training_job list" where
  "claim_queued i started_at T =
     (let p = (\<lambda>r. expects i Queued None r \<and> job_attempt_count r < job_max_attempts r);
          f = bump (\<lambda>r. r\<lparr>job_status := Running, job_started_at := Some started_at,
                job_attempt_count := Suc (job_attempt_count r),
                job_error_code := None, job_safe_error_message := None\<rparr>) in
      (at_most_one (returning p f T), update_where p f T))"

definition release_for_retry ::
    "uuid \<Rightarrow> nat \<Rightarrow> string \<Rightarrow> string \<Rightarrow> timestamp \<Rightarrow> training_job list \<Rightarrow>
     training_job option \<times> training_job list" where
  "release_for_retry i expected_version code message queued_at =
     conditional_update i Running (Some expected_version)
       (\<lambda>r. r\<lparr>job_status := Queued, job_queued_at := queued_at,
             job_error_code := Some code, job_safe_error_message := Some message\<rparr>)"

record training_outcome =
  out_run_id :: uuid
  out_experiment_id :: string
  out_mlflow_run_id :: string
  out_model_version :: string
  out_metrics :: metrics

definition with_outcome :: "training_outcome \<Rightarrow> training_job \<Rightarrow> training_job" where
  "with_outcome o' r = r\<lparr>job_local_execution_run_id := Some (out_run_id o'),
     job_mlflow_experiment_id := Some (out_experiment_id o'),
     job_mlflow_run_id := Some (out_mlflow_run_id o'),
     job_registered_model_version := Some (out_model_version o'),
     job_metrics := Some (out_metrics o')\<rparr>"

definition mark_succeeded ::
    "uuid \<Rightarrow> nat \<Rightarrow> timestamp \<Rightarrow> training_outcome \<Rightarrow> training_job list \<Rightarrow>
     training_job option \<times> training_job list" where
  "mark_succeeded i expected_version finished_at o' =
     conditional_update i Running (Some expected_version)
       (\<lambda>r. (with_outcome o' r)\<lparr>job_status := Succeeded, job_finished_at := Some finished_at,
             job_error_code := None, job_safe_error_message := None\<rparr>)"

definition record_external_result ::
    "uuid \<Rightarrow> nat \<Rightarrow> training_outcome \<Rightarrow> training_job list \<Rightarrow> training_job option \<times> training_job list" where
  "record_external_result i expected_version o' =
     conditional_update i Running (Some expected_version) (with_outcome o')"

definition mark_failed ::
    "uuid \<Rightarrow> job_status \<Rightarrow> string \<Rightarrow> string \<Rightarrow> timestamp \<Rightarrow> nat option \<Rightarrow> training_job list \<Rightarrow>
     training_job option \<times> training_job list" where
  "mark_failed i expected_status code message finished_at expected_version =
     conditional_update i expected_status expected_version
       (\<lambda>r. r\<lparr>job_status := Failed, job_finished_at := Some finished_at,
             job_error_code := Some code, job_safe_error_message := Some message\<rparr>)"

definition cancel_queued ::
    "uuid \<Rightarrow> timestamp \<Rightarrow> training_job list \<Rightarrow> training_job option \<times> training_job list" where
  "cancel_queued i cancelled_at =
     conditional_update i Queued None
       (\<lambda>r. r\<lparr>job_status := Cancelled, job_cancelled_at := Some cancelled_at,
             job_finished_at := Some cancelled_at\<rparr>)"

definition reset_orphaned_queued ::
    "uuid \<Rightarrow> nat \<Rightarrow> timestamp \<Rightarrow> training_job list \<Rightarrow> training_job option \<times> training_job list" where
  "reset_orphaned_queued i expected_version queued_at =
     conditional_update i Queued (Some expected_version)
       (\<lambda>r. r\<lparr>job_queued_at := queued_at, job_queue_message_id := None,
             job_error_code := Some ''broker_message_stale'',
             job_safe_error_message :=
               Some ''The queued broker delivery became stale and was resubmitted.''\<rparr>)"

definition started_before :: "timestamp \<Rightarrow> training_job \<Rightarrow> bool" where
  "started_before t r \<longleftrightarrow> (case job_started_at r of None \<Rightarrow> False | Some s \<Rightarrow> s < t)"

definition requeue_stale ::
    "timestamp \<Rightarrow> timestamp \<Rightarrow> training_job list \<Rightarrow> uuid list \<times> training_job list" where
  "requeue_stale stale_before queued_at T =
     (let p = (\<lambda>r. job_status r = Running \<and> started_before stale_before r \<and>
                  job_attempt_count r < job_max_attempts r);
          f = bump (\<lambda>r. r\<lparr>job_status := Queued, job_queued_at := queued_at,
                job_queue_message_id := None, job_error_code := Some ''worker_stale'',
                job_safe_error_message :=
                  Some ''The worker execution became stale and was requeued.''\<rparr>) in
      (map job_id (returning p f T), update_where p f T))"

definition fail_exhausted_stale ::
    "timestamp \<Rightarrow> timestamp \<Rightarrow> training_job list \<Rightarrow> uuid list \<times> training_job list" where
  "fail_exhausted_stale stale_before finished_at T =
     (let p = (\<lambda>r. job_status r = Running \<and> started_before stale_before r \<and>
                  \<not> job_attempt_count r < job_max_attempts r);
          f = bump (\<lambda>r. r\<lparr>job_status := Failed, job_finished_at := Some finished_at,
                job_error_code := Some ''retry_exhausted'',
                job_safe_error_message :=
                  Some ''The stale training job exhausted its configured attempts.''\<rparr>) in
      (map job_id (returning p f T), update_where p f T))"

section \<open>Queries\<close>

definition get_by_id :: "tenant \<Rightarrow> uuid \<Rightarrow> training_job list \<Rightarrow> training_job option" where
  "get_by_id tn i T = at_most_one (filter (\<lambda>r. visible tn r \<and> job_id r = i) T)"

definition get_idempotent ::
    "tenant \<Rightarrow> uuid \<Rightarrow> trainer_key \<Rightarrow> string \<Rightarrow> training_job list \<Rightarrow> training_job option result" where
  "get_idempotent tn user k ikey T =
     scalar_one_or_none (filter (\<lambda>r. visible tn r \<and> job_requested_by r = user \<and>
        job_key r = k \<and> job_idempotency_key r = Some ikey) T)"

definition quota_usage :: "tenant \<Rightarrow> uuid \<Rightarrow> timestamp \<Rightarrow> training_job list \<Rightarrow> nat \<times> nat" where
  "quota_usage tn user created_since T =
     (let mine = filter (\<lambda>r. visible tn r \<and> job_requested_by r = user) T in
      (length (filter (\<lambda>r. job_status r \<in> {Queued, Running}) mine),
       length (filter (\<lambda>r. job_created_at r \<ge> created_since) mine)))"

record job_page =
  page_items :: "training_job list"
  page_total :: nat

definition list_jobs ::
    "tenant \<Rightarrow> uuid option \<Rightarrow> job_status option \<Rightarrow> nat \<Rightarrow> nat \<Rightarrow> training_job list \<Rightarrow> job_page" where
  "list_jobs tn user st limit offset T =
     (let rows = filter (\<lambda>r. visible tn r \<and>
            (case user of None \<Rightarrow> True | Some u \<Rightarrow> job_requested_by r = u) \<and>
            (case st of None \<Rightarrow> True | Some s \<Rightarrow> job_status r = s)) T in
      \<lparr>page_items = take limit (drop offset
          (sort_key (\<lambda>r. (- job_created_at r, job_id r)) rows)),
       page_total = length rows\<rparr>)"

definition find_succeeded_model_version ::
    "tenant \<Rightarrow> string \<Rightarrow> string \<Rightarrow> training_job list \<Rightarrow> training_job option result" where
  "find_succeeded_model_version tn name version T =
     scalar_one_or_none (filter (\<lambda>r. visible tn r \<and> job_status r = Succeeded \<and>
        job_model_name r = name \<and> job_registered_model_version r = Some version) T)"

definition list_orphaned_queued :: "tenant \<Rightarrow> timestamp \<Rightarrow> training_job list \<Rightarrow> training_job list" where
  "list_orphaned_queued tn queued_before T =
     sort_key (\<lambda>r. (job_queued_at r, job_id r))
       (filter (\<lambda>r. visible tn r \<and> job_status r = Queued \<and> job_queued_at r < queued_before) T)"

end
