(* ===== verification/Job_Lifecycle.thy ===== *)
theory Job_Lifecycle
  imports Job_Repository
begin

text \<open>
  The life cycle of training jobs. \<open>job_move\<close> is the transition relation of one row, with
  one rule for each conditional update; \<open>apply_event\<close> runs one repository operation, with
  any arguments, against the table, and \<open>run\<close> a whole interleaving of them. Every
  operation only makes moves of the relation, so the table is a model of the
  \<open>versioned_rows\<close> interface, and the invariants of a row hold in every reachable table.
\<close>

section \<open>Moves of a row\<close>

definition terminal :: "training_job \<Rightarrow> bool" where
  "terminal r \<longleftrightarrow> job_status r \<in> {Succeeded, Failed, Cancelled}"

inductive job_move :: "training_job \<Rightarrow> training_job \<Rightarrow> bool" where
  identify: "job_status r = Queued \<Longrightarrow> job_queue_message_id r = None \<Longrightarrow>
     job_move r (bump (\<lambda>r. r\<lparr>job_queue_message_id := Some m, job_error_code := None,
                              job_safe_error_message := None\<rparr>) r)"
| note_pending: "job_status r = Queued \<Longrightarrow>
     job_move r (bump (\<lambda>r. r\<lparr>job_error_code := Some c, job_safe_error_message := Some m\<rparr>) r)"
| claim: "job_status r = Queued \<Longrightarrow> job_attempt_count r < job_max_attempts r \<Longrightarrow>
     job_move r (bump (\<lambda>r. r\<lparr>job_status := Running, job_started_at := Some t,
        job_attempt_count := Suc (job_attempt_count r),
        job_error_code := None, job_safe_error_message := None\<rparr>) r)"
| release: "job_status r = Running \<Longrightarrow>
     job_move r (bump (\<lambda>r. r\<lparr>job_status := Queued, job_queued_at := t,
        job_error_code := Some c, job_safe_error_message := Some m\<rparr>) r)"
| checkpoint: "job_status r = Running \<Longrightarrow> job_move r (bump (with_outcome o') r)"
| succeed: "job_status r = Running \<Longrightarrow>
     job_move r (bump (\<lambda>r. (with_outcome o' r)\<lparr>job_status := Succeeded,
        job_finished_at := Some t, job_error_code := None, job_safe_error_message := None\<rparr>) r)"
| fail: "job_status r = Queued \<or> job_status r = Running \<Longrightarrow>
     job_move r (bump (\<lambda>r. r\<lparr>job_status := Failed, job_finished_at := Some t,
        job_error_code := Some c, job_safe_error_message := Some m\<rparr>) r)"
| cancel: "job_status r = Queued \<Longrightarrow>
     job_move r (bump (\<lambda>r. r\<lparr>job_status := Cancelled, job_cancelled_at := Some t,
        job_finished_at := Some t\<rparr>) r)"
| requeue: "job_status r = Running \<Longrightarrow>
     job_move r (bump (\<lambda>r. r\<lparr>job_status := Queued, job_queued_at := t,
        job_queue_message_id := None, job_error_code := Some c, job_safe_error_message := Some m\<rparr>) r)"
| resubmit: "job_status r = Queued \<Longrightarrow>
     job_move r (bump (\<lambda>r. r\<lparr>job_queued_at := t, job_queue_message_id := None,
        job_error_code := Some c, job_safe_error_message := Some m\<rparr>) r)"

declare job_move.intros [step_intros]

inductive_cases job_moveE: "job_move r r'"

lemma bump_simps [simp]:
  "job_state_version (bump f r) = Suc (job_state_version r)"
  "job_status (bump f r) = job_status (f r)"
  "job_id (bump f r) = job_id (f r)"
  "job_attempt_count (bump f r) = job_attempt_count (f r)"
  "job_max_attempts (bump f r) = job_max_attempts (f r)"
  "job_started_at (bump f r) = job_started_at (f r)"
  "job_finished_at (bump f r) = job_finished_at (f r)"
  "job_cancelled_at (bump f r) = job_cancelled_at (f r)"
  "job_error_code (bump f r) = job_error_code (f r)"
  "job_queue_message_id (bump f r) = job_queue_message_id (f r)"
  "job_specification (bump f r) = job_specification (f r)"
  "job_key (bump f r) = job_key (f r)"
  "job_requested_by (bump f r) = job_requested_by (f r)"
  "job_company_id (bump f r) = job_company_id (f r)"
  "job_idempotency_key (bump f r) = job_idempotency_key (f r)"
  "job_registered_model_version (bump f r) = job_registered_model_version (f r)"
  "job_metrics (bump f r) = job_metrics (f r)"
  "job_local_execution_run_id (bump f r) = job_local_execution_run_id (f r)"
  "job_mlflow_experiment_id (bump f r) = job_mlflow_experiment_id (f r)"
  "job_mlflow_run_id (bump f r) = job_mlflow_run_id (f r)"
  by (simp_all add: bump_def)

lemma with_outcome_simps [simp]:
  "job_state_version (with_outcome o' r) = job_state_version r"
  "job_status (with_outcome o' r) = job_status r"
  "job_id (with_outcome o' r) = job_id r"
  "job_attempt_count (with_outcome o' r) = job_attempt_count r"
  "job_max_attempts (with_outcome o' r) = job_max_attempts r"
  "job_started_at (with_outcome o' r) = job_started_at r"
  "job_finished_at (with_outcome o' r) = job_finished_at r"
  "job_cancelled_at (with_outcome o' r) = job_cancelled_at r"
  "job_error_code (with_outcome o' r) = job_error_code r"
  "job_queue_message_id (with_outcome o' r) = job_queue_message_id r"
  "job_specification (with_outcome o' r) = job_specification r"
  "job_key (with_outcome o' r) = job_key r"
  "job_requested_by (with_outcome o' r) = job_requested_by r"
  "job_company_id (with_outcome o' r) = job_company_id r"
  "job_idempotency_key (with_outcome o' r) = job_idempotency_key r"
  "job_registered_model_version (with_outcome o' r) = Some (out_model_version o')"
  "job_metrics (with_outcome o' r) = Some (out_metrics o')"
  "job_local_execution_run_id (with_outcome o' r) = Some (out_run_id o')"
  "job_mlflow_experiment_id (with_outcome o' r) = Some (out_experiment_id o')"
  "job_mlflow_run_id (with_outcome o' r) = Some (out_mlflow_run_id o')"
  by (simp_all add: with_outcome_def)

text \<open>The columns no operation writes after the insert.\<close>

definition immutable_part where
  "immutable_part r = (job_id r, job_company_id r, job_requested_by r, job_key r,
     job_specification r, job_idempotency_key r, job_max_attempts r)"

lemma job_move_immutable: "job_move r r' \<Longrightarrow> immutable_part r' = immutable_part r"
  by (erule job_moveE) (simp_all add: immutable_part_def)

lemma job_move_version: "job_move r r' \<Longrightarrow> job_state_version r' = Suc (job_state_version r)"
  by (erule job_moveE) simp_all

lemma job_move_not_terminal: "job_move r r' \<Longrightarrow> \<not> terminal r"
  by (erule job_moveE) (auto simp: terminal_def)

interpretation jobs: versioned_rows job_id job_state_version job_move terminal
proof unfold_locales
  fix r r' assume m: "job_move r r'"
  show "job_id r' = job_id r" using job_move_immutable [OF m] by (simp add: immutable_part_def)
  show "job_state_version r' = Suc (job_state_version r)" using job_move_version [OF m] .
  show "\<not> terminal r" using job_move_not_terminal [OF m] .
qed

section \<open>Every operation makes moves\<close>

lemma conditional_update_evolves:
  assumes "\<And>r. expects i st v r \<Longrightarrow> job_move r (bump f r)"
  shows "evolves job_move T (snd (conditional_update i st v f T))"
  using assms by (auto simp: conditional_update_def intro: evolves_update)

lemma expects_status: "expects i st v r \<Longrightarrow> job_status r = st"
  by (simp add: expects_def)

lemmas operation_defs = mark_queue_identifier_pending_def release_for_retry_def
  mark_succeeded_def record_external_result_def mark_failed_def cancel_queued_def
  reset_orphaned_queued_def

lemma set_queue_identifier_evolves:
  "evolves job_move T (snd (set_queue_identifier i m v T))"
  by (auto simp: set_queue_identifier_def Let_def
      intro!: evolves_update job_move.identify dest: expects_status)

lemma claim_queued_evolves: "evolves job_move T (snd (claim_queued i t T))"
  by (auto simp: claim_queued_def Let_def intro!: evolves_update job_move.claim dest: expects_status)

lemma requeue_stale_evolves: "evolves job_move T (snd (requeue_stale b t T))"
  by (auto simp: requeue_stale_def Let_def intro!: evolves_update job_move.requeue)

lemma fail_exhausted_evolves: "evolves job_move T (snd (fail_exhausted_stale b t T))"
  by (auto simp: fail_exhausted_stale_def Let_def intro!: evolves_update job_move.fail)

lemma create_job_evolves: "evolves job_move T (snd (create_job company_of a T))"
  by (auto simp: create_job_def Let_def split: option.splits)

lemma conditional_operations_evolve:
  "evolves job_move T (snd (mark_queue_identifier_pending i v T))"
  "evolves job_move T (snd (release_for_retry i v c m t T))"
  "evolves job_move T (snd (mark_succeeded i v t o' T))"
  "evolves job_move T (snd (record_external_result i v o' T))"
  "evolves job_move T (snd (cancel_queued i t T))"
  "evolves job_move T (snd (reset_orphaned_queued i v t T))"
  "st \<in> {Queued, Running} \<Longrightarrow> evolves job_move T (snd (mark_failed i st c m t ov T))"
  unfolding operation_defs
  by (auto intro!: conditional_update_evolves job_move.intros dest: expects_status)

section \<open>Interleavings\<close>

text \<open>
  One committed repository operation of any actor. \<^verbatim>\<open>mark_failed\<close> is called by the
  services for a queued job and by the worker for a running one.
\<close>

datatype job_event =
    Create "uuid \<Rightarrow> uuid option" create_args
  | SetIdentifier uuid string nat
  | MarkPending uuid nat
  | Claim uuid timestamp
  | Release uuid nat string string timestamp
  | Checkpoint uuid nat training_outcome
  | Succeed uuid nat timestamp training_outcome
  | FailQueued uuid string string timestamp "nat option"
  | FailRunning uuid string string timestamp "nat option"
  | Cancel uuid timestamp
  | RequeueStale timestamp timestamp
  | FailExhausted timestamp timestamp
  | ResetOrphaned uuid nat timestamp

fun apply_event :: "job_event \<Rightarrow> training_job list \<Rightarrow> training_job list" where
  "apply_event (Create company_of a) T = snd (create_job company_of a T)"
| "apply_event (SetIdentifier i m v) T = snd (set_queue_identifier i m v T)"
| "apply_event (MarkPending i v) T = snd (mark_queue_identifier_pending i v T)"
| "apply_event (Claim i t) T = snd (claim_queued i t T)"
| "apply_event (Release i v c m t) T = snd (release_for_retry i v c m t T)"
| "apply_event (Checkpoint i v o') T = snd (record_external_result i v o' T)"
| "apply_event (Succeed i v t o') T = snd (mark_succeeded i v t o' T)"
| "apply_event (FailQueued i c m t v) T = snd (mark_failed i Queued c m t v T)"
| "apply_event (FailRunning i c m t v) T = snd (mark_failed i Running c m t v T)"
| "apply_event (Cancel i t) T = snd (cancel_queued i t T)"
| "apply_event (RequeueStale b t) T = snd (requeue_stale b t T)"
| "apply_event (FailExhausted b t) T = snd (fail_exhausted_stale b t T)"
| "apply_event (ResetOrphaned i v t) T = snd (reset_orphaned_queued i v t T)"

fun run :: "job_event list \<Rightarrow> training_job list \<Rightarrow> training_job list" where
  "run [] T = T"
| "run (e # es) T = run es (apply_event e T)"

inductive reachable :: "training_job list \<Rightarrow> bool" where
  reach_empty: "reachable []"
| reach_event: "reachable T \<Longrightarrow> reachable (apply_event e T)"

lemma apply_event_evolves: "evolves job_move T (apply_event e T)"
  by (cases e) (auto simp: set_queue_identifier_evolves claim_queued_evolves
      requeue_stale_evolves fail_exhausted_evolves create_job_evolves conditional_operations_evolve)

lemma run_evolves: "evolves job_move T (run es T)"
  by (induction es arbitrary: T) (auto intro: evolves_trans apply_event_evolves)

lemma run_reachable: "reachable T \<Longrightarrow> reachable (run es T)"
  by (induction es arbitrary: T) (auto intro: reach_event)

lemma run_append [simp]: "run (es @ fs) T = run fs (run es T)"
  by (induction es arbitrary: T) auto

end
