(* ===== verification/Job_Invariants.thy ===== *)
theory Job_Invariants
  imports Job_Lifecycle
begin

text \<open>
  What holds of the training jobs in every reachable table: the consistency of a row with its
  status, the constraints of the table, the bound on the number of claims, and the fencing of
  workers by the state version.
\<close>

section \<open>Consistency of a row\<close>

definition outcome_recorded :: "training_job \<Rightarrow> bool" where
  "outcome_recorded r \<longleftrightarrow> job_local_execution_run_id r \<noteq> None \<and> job_mlflow_experiment_id r \<noteq> None \<and>
     job_mlflow_run_id r \<noteq> None \<and> job_registered_model_version r \<noteq> None \<and> job_metrics r \<noteq> None"

definition outcome_absent :: "training_job \<Rightarrow> bool" where
  "outcome_absent r \<longleftrightarrow> job_local_execution_run_id r = None \<and> job_mlflow_experiment_id r = None \<and>
     job_mlflow_run_id r = None \<and> job_registered_model_version r = None \<and> job_metrics r = None"

definition row_ok :: "training_job \<Rightarrow> bool" where
  "row_ok r \<longleftrightarrow>
     job_attempt_count r \<le> job_max_attempts r \<and> job_attempt_count r \<le> job_state_version r \<and>
     (outcome_recorded r \<or> outcome_absent r) \<and>
     (job_status r = Running \<longrightarrow> job_started_at r \<noteq> None \<and> 0 < job_attempt_count r) \<and>
     (job_status r = Succeeded \<longrightarrow> outcome_recorded r \<and> job_finished_at r \<noteq> None \<and> job_error_code r = None) \<and>
     (job_status r = Failed \<longrightarrow> job_finished_at r \<noteq> None \<and> job_error_code r \<noteq> None) \<and>
     (job_status r = Cancelled \<longrightarrow> job_cancelled_at r \<noteq> None \<and> job_finished_at r = job_cancelled_at r) \<and>
     (\<not> terminal r \<longrightarrow> job_finished_at r = None \<and> job_cancelled_at r = None)"

lemma outcome_bump [simp]:
  "outcome_recorded (bump f r) \<longleftrightarrow> outcome_recorded (f r)"
  "outcome_absent (bump f r) \<longleftrightarrow> outcome_absent (f r)"
  "terminal (bump f r) \<longleftrightarrow> terminal (f r)"
  by (simp_all add: outcome_recorded_def outcome_absent_def terminal_def)

lemma outcome_with_outcome [simp]: "outcome_recorded (with_outcome o' r)"
  by (simp add: outcome_recorded_def)

lemma outcome_other_fields [simp]:
  "outcome_recorded (r\<lparr>job_status := a\<rparr>) = outcome_recorded r"
  "outcome_recorded (r\<lparr>job_error_code := c\<rparr>) = outcome_recorded r"
  "outcome_recorded (r\<lparr>job_safe_error_message := c\<rparr>) = outcome_recorded r"
  "outcome_recorded (r\<lparr>job_finished_at := d\<rparr>) = outcome_recorded r"
  "outcome_recorded (r\<lparr>job_cancelled_at := d\<rparr>) = outcome_recorded r"
  "outcome_recorded (r\<lparr>job_started_at := d\<rparr>) = outcome_recorded r"
  "outcome_recorded (r\<lparr>job_queued_at := t\<rparr>) = outcome_recorded r"
  "outcome_recorded (r\<lparr>job_attempt_count := n\<rparr>) = outcome_recorded r"
  "outcome_recorded (r\<lparr>job_queue_message_id := c\<rparr>) = outcome_recorded r"
  "outcome_absent (r\<lparr>job_status := a\<rparr>) = outcome_absent r"
  "outcome_absent (r\<lparr>job_error_code := c\<rparr>) = outcome_absent r"
  "outcome_absent (r\<lparr>job_safe_error_message := c\<rparr>) = outcome_absent r"
  "outcome_absent (r\<lparr>job_finished_at := d\<rparr>) = outcome_absent r"
  "outcome_absent (r\<lparr>job_cancelled_at := d\<rparr>) = outcome_absent r"
  "outcome_absent (r\<lparr>job_started_at := d\<rparr>) = outcome_absent r"
  "outcome_absent (r\<lparr>job_queued_at := t\<rparr>) = outcome_absent r"
  "outcome_absent (r\<lparr>job_attempt_count := n\<rparr>) = outcome_absent r"
  "outcome_absent (r\<lparr>job_queue_message_id := c\<rparr>) = outcome_absent r"
  by (simp_all add: outcome_recorded_def outcome_absent_def)

lemma job_move_row_ok: "job_move r r' \<Longrightarrow> row_ok r \<Longrightarrow> row_ok r'"
  by (erule job_moveE) (auto simp: row_ok_def terminal_def)

lemma job_moves_row_ok: "job_move\<^sup>*\<^sup>* r r' \<Longrightarrow> row_ok r \<Longrightarrow> row_ok r'"
  by (induction rule: rtranclp_induct) (auto intro: job_move_row_ok)

lemma new_job_row_ok: "row_ok (new_job company a)"
  by (simp add: row_ok_def new_job_def outcome_absent_def terminal_def)

section \<open>Consistency of a table\<close>

definition table_ok :: "training_job list \<Rightarrow> bool" where
  "table_ok T \<longleftrightarrow> distinct (map job_id T) \<and> list_all row_ok T \<and>
     (\<forall>r \<in> set T. \<forall>s \<in> set T. same_idempotency_scope r s \<longrightarrow> job_id r = job_id s)"

lemma same_scope_immutable:
  "immutable_part r = immutable_part r' \<Longrightarrow> immutable_part s = immutable_part s' \<Longrightarrow>
    same_idempotency_scope r s = same_idempotency_scope r' s'"
  by (simp add: immutable_part_def same_idempotency_scope_def)

lemma moves_immutable: "job_move\<^sup>*\<^sup>* r r' \<Longrightarrow> immutable_part r' = immutable_part r"
  by (induction rule: rtranclp_induct) (auto dest: job_move_immutable)

lemma table_ok_moves:
  assumes "list_all2 (job_move\<^sup>*\<^sup>*) T U" and "table_ok T"
  shows "table_ok U"
proof -
  have ids: "map job_id U = map job_id T"
    using assms(1) by (induction rule: list_all2_induct) (auto simp: jobs.reach_key)
  have "list_all row_ok T" using assms(2) unfolding table_ok_def by blast
  with assms(1) have rows: "list_all row_ok U"
    by (induction rule: list_all2_induct) (simp_all add: job_moves_row_ok)
  have origin: "\<exists>r \<in> set T. job_move\<^sup>*\<^sup>* r u" if "u \<in> set U" for u
    using assms(1) that by (metis in_set_conv_nth list_all2_conv_all_nth)
  have "job_id u = job_id v" if "u \<in> set U" "v \<in> set U" "same_idempotency_scope u v" for u v
  proof -
    obtain r s where rs: "r \<in> set T" "job_move\<^sup>*\<^sup>* r u" "s \<in> set T" "job_move\<^sup>*\<^sup>* s v"
      using origin \<open>u \<in> set U\<close> \<open>v \<in> set U\<close> by metis
    then have "same_idempotency_scope r s"
      using that(3) moves_immutable same_scope_immutable by metis
    then have "job_id r = job_id s" using assms(2) rs by (auto simp: table_ok_def)
    then show ?thesis using rs by (simp add: jobs.reach_key)
  qed
  then show ?thesis using ids rows assms(2) unfolding table_ok_def by metis
qed

lemma same_scope_sym: "same_idempotency_scope r s \<Longrightarrow> same_idempotency_scope s r"
  by (auto simp: same_idempotency_scope_def)

lemma table_ok_insert:
  assumes "table_ok T" and "insert_allowed T n" and "row_ok n"
  shows "table_ok (T @ [n])"
  using assms by (auto simp: table_ok_def insert_allowed_def dest: same_scope_sym)

lemma create_job_cases:
  "snd (create_job company_of a T) = T \<or>
   (\<exists>company. snd (create_job company_of a T) = T @ [new_job company a] \<and>
      insert_allowed T (new_job company a))"
  by (auto simp: create_job_def Let_def split: option.splits)

lemma update_rows:
  assumes "length U = length T" and "evolves m T U"
  shows "list_all2 (m\<^sup>*\<^sup>*) T U"
proof -
  obtain U' V where "U = U' @ V" and moves: "list_all2 (m\<^sup>*\<^sup>*) T U'"
    using assms(2) unfolding evolves_def by blast
  moreover have "length U' = length T" using list_all2_lengthD [OF moves] by simp
  ultimately show ?thesis using assms(1) by simp
qed

lemma conditional_update_length [simp]: "length (snd (conditional_update i st v f T)) = length T"
  by (simp add: conditional_update_def)

lemma apply_event_length: "(\<And>c a. e \<noteq> Create c a) \<Longrightarrow> length (apply_event e T) = length T"
  by (cases e) (auto simp: operation_defs set_queue_identifier_def claim_queued_def
      requeue_stale_def fail_exhausted_stale_def Let_def)

lemma apply_event_table_ok: "table_ok T \<Longrightarrow> table_ok (apply_event e T)"
proof (cases "\<exists>c a. e = Create c a")
  case True
  then obtain c a where "e = Create c a" by blast
  then have "apply_event e T = snd (create_job c a T)" by simp
  then show "table_ok T \<Longrightarrow> ?thesis"
    using create_job_cases [of c a T] table_ok_insert [OF _ _ new_job_row_ok] by metis
next
  case False
  then have "length (apply_event e T) = length T" using apply_event_length [of e T] by blast
  then show "table_ok T \<Longrightarrow> ?thesis"
    by (rule table_ok_moves [OF update_rows [OF _ apply_event_evolves]])
qed

lemma run_table_ok: "table_ok T \<Longrightarrow> table_ok (run es T)"
  by (induction es arbitrary: T) (auto intro: apply_event_table_ok)

lemma table_ok_empty [simp]: "table_ok []"
  by (simp add: table_ok_def)

section \<open>Operations by look-up\<close>

lemma conditional_update_result:
  assumes "distinct (map job_id T)"
  shows "fst (conditional_update i st v f T) =
    (case lookup job_id i T of None \<Rightarrow> None
     | Some r \<Rightarrow> if expects i st v r then Some (bump f r) else None)"
proof -
  have "at_most_one (returning (expects i st v) (bump f) T) =
    (case lookup job_id i T of None \<Rightarrow> None
     | Some r \<Rightarrow> if expects i st v r then Some (bump f r) else None)"
    using assms by (intro at_most_one_returning) (auto simp: expects_def)
  then show ?thesis by (simp add: conditional_update_def)
qed

lemma claim_queued_result:
  assumes "distinct (map job_id T)"
  shows "fst (claim_queued i t T) =
    (case lookup job_id i T of None \<Rightarrow> None
     | Some r \<Rightarrow> if job_status r = Queued \<and> job_attempt_count r < job_max_attempts r
        then Some (bump (\<lambda>r. r\<lparr>job_status := Running, job_started_at := Some t,
                job_attempt_count := Suc (job_attempt_count r),
                job_error_code := None, job_safe_error_message := None\<rparr>) r) else None)"
  unfolding claim_queued_def Let_def fst_conv
  by (subst at_most_one_returning [OF assms, where k = i
        and q = "\<lambda>r. job_status r = Queued \<and> job_attempt_count r < job_max_attempts r"])
     (auto simp: expects_def split: option.splits)

lemma conditional_update_lookup:
  assumes "\<And>r. job_id (f r) = job_id r"
  shows "lookup job_id k (snd (conditional_update i st v f T)) =
    map_option (\<lambda>r. if expects i st v r then bump f r else r) (lookup job_id k T)"
  unfolding conditional_update_def using assms by (simp add: lookup_update_where)

lemma claim_queued_lookup:
  "lookup job_id k (snd (claim_queued i t T)) =
    map_option (\<lambda>r. if expects i Queued None r \<and> job_attempt_count r < job_max_attempts r
        then bump (\<lambda>r. r\<lparr>job_status := Running, job_started_at := Some t,
                job_attempt_count := Suc (job_attempt_count r),
                job_error_code := None, job_safe_error_message := None\<rparr>) r else r) (lookup job_id k T)"
  unfolding claim_queued_def Let_def by (simp add: lookup_update_where)

lemma claim_returns_stored_row:
  assumes "distinct (map job_id T)" and "fst (claim_queued i t T) = Some c"
  shows "lookup job_id i (snd (claim_queued i t T)) = Some c \<and> job_status c = Running"
  using assms by (auto simp: claim_queued_result claim_queued_lookup expects_def
      dest: lookup_SomeD split: option.splits if_splits)

section \<open>Counting claims\<close>

definition claims_now :: "uuid \<Rightarrow> job_event \<Rightarrow> training_job list \<Rightarrow> nat" where
  "claims_now i e T = (case e of
     Claim j t \<Rightarrow> if j = i \<and> fst (claim_queued j t T) \<noteq> None then 1 else 0
   | _ \<Rightarrow> 0)"

fun successful_claims :: "uuid \<Rightarrow> job_event list \<Rightarrow> training_job list \<Rightarrow> nat" where
  "successful_claims i [] T = 0"
| "successful_claims i (e # es) T = claims_now i e T + successful_claims i es (apply_event e T)"

lemma moves_attempts:
  "job_move\<^sup>*\<^sup>* r r' \<Longrightarrow> job_attempt_count r \<le> job_attempt_count r' \<and> job_max_attempts r' = job_max_attempts r"
proof (induction rule: rtranclp_induct)
  case (step q s)
  from step.hyps(2) have "job_attempt_count q \<le> job_attempt_count s \<and> job_max_attempts s = job_max_attempts q"
    by (rule job_moveE) auto
  with step.IH show ?case by simp
qed simp

lemma event_attempts:
  assumes "distinct (map job_id T)" and "lookup job_id i T = Some r"
  shows "\<exists>r'. lookup job_id i (apply_event e T) = Some r' \<and>
    job_attempt_count r + claims_now i e T \<le> job_attempt_count r' \<and>
    job_max_attempts r' = job_max_attempts r"
proof (cases "claims_now i e T = 0")
  case True
  then show ?thesis
    using jobs.evolves_lookup [OF apply_event_evolves assms(2)] moves_attempts by fastforce
next
  case False
  then obtain t where "e = Claim i t" "fst (claim_queued i t T) \<noteq> None"
    by (auto simp: claims_now_def split: job_event.splits if_splits)
  with assms show ?thesis
    by (auto simp: claims_now_def claim_queued_result claim_queued_lookup expects_def
        dest: lookup_SomeD split: if_splits)
qed

lemma run_attempts:
  assumes "table_ok T" and "lookup job_id i T = Some r"
  shows "\<exists>r'. lookup job_id i (run es T) = Some r' \<and>
    job_attempt_count r + successful_claims i es T \<le> job_attempt_count r' \<and>
    job_max_attempts r' = job_max_attempts r"
  using assms
proof (induction es arbitrary: T r)
  case (Cons e es)
  obtain q where q: "lookup job_id i (apply_event e T) = Some q"
    "job_attempt_count r + claims_now i e T \<le> job_attempt_count q" "job_max_attempts q = job_max_attempts r"
    using event_attempts Cons.prems by (metis table_ok_def)
  from Cons.IH [OF apply_event_table_ok [OF Cons.prems(1)] q(1)] q(2,3) show ?case by fastforce
qed auto

lemma conditional_update_none: "fst (conditional_update i st v f T) = None \<Longrightarrow> snd (conditional_update i st v f T) = T"
  by (auto simp: conditional_update_def intro: update_where_none)

lemma reachable_table_ok: "reachable T \<Longrightarrow> table_ok T"
  by (induction rule: reachable.induct) (auto intro: apply_event_table_ok)

lemma lookup_row_ok: "table_ok T \<Longrightarrow> lookup job_id i T = Some r \<Longrightarrow> row_ok r"
  by (auto simp: table_ok_def list_all_iff dest: lookup_SomeD)

section \<open>Properties\<close>

text \<open>A job created by user 5 of company 9, and its claim, for the witnesses.\<close>

definition sample_args :: create_args where
  "sample_args = \<lparr>ca_job_id = 7, ca_requested_by = 5, ca_key = random_forest_key Classification,
     ca_specification = sample_spec, ca_idempotency_key = Some ''k'', ca_fingerprint = ''f'',
     ca_max_attempts = 2, ca_queued_at = 10, ca_created_at = 10\<rparr>"

definition sample_job :: training_job where
  "sample_job = new_job 9 sample_args"

definition sample_running :: training_job where
  "sample_running = bump (\<lambda>r. r\<lparr>job_status := Running, job_started_at := Some 20,
     job_attempt_count := Suc (job_attempt_count r), job_error_code := None,
     job_safe_error_message := None\<rparr>) sample_job"

definition sample_outcome :: training_outcome where
  "sample_outcome = \<lparr>out_run_id = 3, out_experiment_id = ''e'', out_mlflow_run_id = ''r'',
     out_model_version = ''1'', out_metrics = Map.empty\<rparr>"

lemma sample_job_simps [simp]:
  "job_id sample_job = 7" "job_company_id sample_job = 9" "job_requested_by sample_job = 5"
  "job_status sample_job = Queued" "job_attempt_count sample_job = 0" "job_max_attempts sample_job = 2"
  "job_state_version sample_job = 0" "job_queue_message_id sample_job = None"
  "job_idempotency_key sample_job = Some ''k''" "job_specification sample_job = sample_spec"
  "job_queued_at sample_job = 10" "job_key sample_job = random_forest_key Classification"
  "job_local_execution_run_id sample_job = None" "job_metrics sample_job = None"
  by (simp_all add: sample_job_def new_job_def sample_args_def)

lemma sample_running_simps [simp]:
  "job_id sample_running = 7" "job_status sample_running = Running" "job_attempt_count sample_running = 1"
  "job_max_attempts sample_running = 2" "job_state_version sample_running = 1"
  "job_started_at sample_running = Some 20"
  by (simp_all add: sample_running_def)

lemma sample_created: "create_job (\<lambda>_. Some 9) sample_args [] = (Inr (sample_job, []), [sample_job])"
  by (simp add: create_job_def Let_def insert_allowed_def sample_job_def [symmetric])
     (simp add: sample_args_def sample_spec_def)

lemma sample_reachable: "reachable [sample_job]"
  using reach_event [OF reach_empty, of "Create (\<lambda>_. Some 9) sample_args"] by (simp add: sample_created)

lemma sample_claimed: "claim_queued 7 20 [sample_job] = (Some sample_running, [sample_running])"
  by (simp add: claim_queued_def Let_def expects_def sample_running_def)

text \<open>
  C1: In every table that any interleaving of submissions, workers, cancellations and
  recovery passes can reach, job identifiers are unique, no two jobs share a user, trainer key
  and idempotency key, and every row is consistent with its status: a running job has been
  started, a succeeded one has its complete outcome and no error, a failed one has an error code,
  finish times belong to finished jobs, an outcome is recorded completely or not at all, and
  the attempts never exceed the maximum.
\<close>

theorem reachable_jobs_consistent:
  assumes "reachable T"
  shows "table_ok T"
  by (rule reachable_table_ok [OF assms])

theorem reachable_jobs_consistent_witness: "table_ok (run [Claim 7 20, Succeed 7 1 30 sample_outcome] [sample_job])"
  by (rule reachable_jobs_consistent [OF run_reachable [OF sample_reachable]])

text \<open>
  A job that has succeeded, failed or been cancelled never changes again, whatever is
  attempted on it afterwards.
\<close>

theorem finished_jobs_are_immutable:
  assumes "lookup job_id i T = Some r" and "terminal r"
  shows "lookup job_id i (run es T) = Some r"
  using jobs.evolves_final [OF run_evolves assms] .

theorem finished_jobs_are_immutable_witness:
  "lookup job_id 7 (run [Claim 7 40, Cancel 7 50] (run [Cancel 7 30] [sample_job])) =
     lookup job_id 7 (run [Cancel 7 30] [sample_job])"
proof -
  let ?r = "bump (\<lambda>r. r\<lparr>job_status := Cancelled, job_cancelled_at := Some 30, job_finished_at := Some 30\<rparr>)
     sample_job"
  have "lookup job_id 7 (run [Cancel 7 30] [sample_job]) = Some ?r"
    by (simp add: cancel_queued_def conditional_update_def expects_def)
  moreover have "terminal ?r" by (simp add: terminal_def)
  ultimately show ?thesis using finished_jobs_are_immutable by metis
qed

text \<open>
  C0: A job is never executed more often than its maximum: over any interleaving, the claims
  that succeed on it, added to the attempts it already has, stay within \<open>max_attempts\<close>.
\<close>

theorem claims_within_max_attempts:
  assumes "reachable T" and "lookup job_id i T = Some r"
  shows "job_attempt_count r + successful_claims i es T \<le> job_max_attempts r"
proof -
  have ok: "table_ok T" using reachable_table_ok [OF assms(1)] .
  obtain r' where r': "lookup job_id i (run es T) = Some r'"
    "job_attempt_count r + successful_claims i es T \<le> job_attempt_count r'"
    "job_max_attempts r' = job_max_attempts r"
    using run_attempts [OF ok assms(2)] by blast
  have "row_ok r'" using lookup_row_ok [OF run_table_ok [OF ok] r'(1)] .
  then show ?thesis using r' by (simp add: row_ok_def)
qed

theorem claims_within_max_attempts_witness:
  "job_attempt_count sample_job +
     successful_claims 7 [Claim 7 20, RequeueStale 25 30, Claim 7 40, RequeueStale 45 50, Claim 7 60]
       [sample_job] \<le> job_max_attempts sample_job"
  by (rule claims_within_max_attempts [OF sample_reachable]) simp

text \<open>
  C5: The state version fences workers. After a claim, and whatever happened since, the worker
  can complete the job exactly when the row is still the one it claimed; when the job was
  claimed again in the meantime, its completion is refused and writes nothing.
\<close>

theorem claim_fences_stale_workers:
  assumes "reachable T" and "fst (claim_queued i t T) = Some c"
    and "U = run es (snd (claim_queued i t T))"
  shows "(fst (mark_succeeded i (job_state_version c) t' o' U) \<noteq> None \<longleftrightarrow> lookup job_id i U = Some c) \<and>
    (0 < successful_claims i es (snd (claim_queued i t T)) \<longrightarrow>
       mark_succeeded i (job_state_version c) t' o' U = (None, U))"
proof -
  let ?T = "snd (claim_queued i t T)"
  have ok: "table_ok ?T" and okU: "table_ok U"
    using reachable_table_ok [OF run_reachable [OF assms(1), of "[Claim i t]"]]
    by (simp_all add: assms(3) run_table_ok)
  have c: "lookup job_id i ?T = Some c" "job_status c = Running"
    using claim_returns_stored_row [OF _ assms(2)] reachable_table_ok [OF assms(1)]
    by (auto simp: table_ok_def)
  obtain r' where r': "lookup job_id i U = Some r'"
    "job_attempt_count c + successful_claims i es ?T \<le> job_attempt_count r'"
    using run_attempts [OF ok c(1)] assms(3) by blast
  have same: "job_state_version r' = job_state_version c \<Longrightarrow> r' = c"
    using jobs.evolves_unchanged [OF run_evolves c(1)] r'(1) assms(3) by blast
  have iff: "fst (mark_succeeded i (job_state_version c) t' o' U) \<noteq> None \<longleftrightarrow> r' = c"
    using okU same c(2) r'(1)
    by (auto simp: mark_succeeded_def conditional_update_result table_ok_def expects_def
        dest: lookup_SomeD)
  moreover have "0 < successful_claims i es ?T \<Longrightarrow> r' \<noteq> c" using r'(2) by auto
  ultimately show ?thesis
    using r'(1) conditional_update_none unfolding mark_succeeded_def by (metis option.inject prod.collapse)
qed

theorem claim_fences_stale_workers_witness:
  "0 < successful_claims 7 [RequeueStale 25 30, Claim 7 40] [sample_running] \<and>
   mark_succeeded 7 1 50 sample_outcome (run [RequeueStale 25 30, Claim 7 40] [sample_running]) =
     (None, run [RequeueStale 25 30, Claim 7 40] [sample_running])"
proof -
  have "0 < successful_claims 7 [RequeueStale 25 30, Claim 7 40] [sample_running]"
    by (simp add: claims_now_def claim_queued_def requeue_stale_def Let_def started_before_def expects_def)
  then show ?thesis
    using claim_fences_stale_workers [OF sample_reachable, of 7 20 sample_running _ _ 50 sample_outcome] sample_claimed
    by (metis fst_conv snd_conv sample_running_simps(5))
qed

end
