(* ===== verification/Job_Service.thy ===== *)
theory Job_Service
  imports Job_Invariants
begin

text \<open>
  The submission, query, cancellation and recovery services of
  \<^verbatim>\<open>ml/jobs/service.py\<close>. A service runs several transactions on the job table; between
  two of them any other actor may commit. The operations therefore take, for each point between
  their transactions, the events other actors commit there, and every property holds for all
  of them. The fingerprint, the broker and the clock are parameters.
\<close>

section \<open>Submission\<close>

record submission =
  sub_job :: training_job
  sub_created :: bool

record service_config =
  cfg_max_attempts :: nat
  cfg_demo_max_active :: nat
  cfg_demo_max_per_day :: nat

text \<open>
  \<open>se_store_fault\<close> and \<open>se_marker_fault\<close> are database failures while the message
  identifier, or the marker that it is missing, is written.
\<close>

record submit_env =
  se_company_of :: "uuid \<Rightarrow> uuid option"
  se_fingerprint :: "job_spec \<Rightarrow> string"
  se_new_id :: uuid
  se_enqueue :: "uuid \<Rightarrow> string result"
  se_clock :: "nat \<Rightarrow> timestamp"
  se_store_fault :: "pyexc option"
  se_marker_fault :: bool
  se_others :: "nat \<Rightarrow> job_event list"

definition normalize_idempotency_key :: "string option \<Rightarrow> string option result" where
  "normalize_idempotency_key value = (case value of
     None \<Rightarrow> Inr None
   | Some s \<Rightarrow> (let normalized = strip s in
       if normalized = [] \<or> length normalized > 128
       then Inl (Exc TrainingJobConflictError
         ''Idempotency-Key must be non-empty and at most 128 characters.'')
       else Inr (Some normalized)))"

definition match_fingerprint :: "(job_spec \<Rightarrow> string) \<Rightarrow> training_job \<Rightarrow> string \<Rightarrow> training_job result" where
  "match_fingerprint fp existing fingerprint =
     (if fp (job_specification existing) \<noteq> fingerprint
      then Inl (Exc TrainingJobConflictError
        ''The idempotency key was already used with a different request.'')
      else Inr existing)"

definition ensure_normal_submission_state :: "training_job \<Rightarrow> unit result" where
  "ensure_normal_submission_state existing =
     (if job_status existing = Queued \<and> job_queue_message_id existing = None
      then Inl (Exc TrainingJobQueuePersistenceError
        ''The queued job requires message identifier reconciliation.'')
      else Inr ())"

definition existing_submission :: "(job_spec \<Rightarrow> string) \<Rightarrow> string \<Rightarrow> training_job \<Rightarrow> submission result" where
  "existing_submission fp fingerprint existing =
     bind_result (match_fingerprint fp existing fingerprint) (\<lambda>matched.
     bind_result (ensure_normal_submission_state matched) (\<lambda>_.
       Inr \<lparr>sub_job = matched, sub_created = False\<rparr>))"

definition find_submission ::
    "submit_env \<Rightarrow> tenant \<Rightarrow> uuid \<Rightarrow> trainer_key \<Rightarrow> string option \<Rightarrow> job_spec \<Rightarrow> training_job list \<Rightarrow>
     submission option result" where
  "find_submission env tn user k nkey spec T = (case nkey of
     None \<Rightarrow> Inr None
   | Some ik \<Rightarrow>
       bind_result (get_idempotent tn user k ik T) (\<lambda>existing. case existing of
         None \<Rightarrow> Inr None
       | Some r \<Rightarrow> bind_result (existing_submission (se_fingerprint env) (se_fingerprint env spec) r)
                     (\<lambda>s. Inr (Some s))))"

definition day :: int where "day = 86400 * second"

definition check_quota ::
    "service_config \<Rightarrow> bool \<Rightarrow> tenant \<Rightarrow> uuid \<Rightarrow> timestamp \<Rightarrow> training_job list \<Rightarrow> unit result" where
  "check_quota cfg enforce tn user now T =
     (if enforce then
        let (active, recent) = quota_usage tn user (now - day) T in
        if active \<ge> cfg_demo_max_active cfg
        then Inl (Exc TrainingJobQuotaError ''Finish the active training job before starting another.'')
        else if recent \<ge> cfg_demo_max_per_day cfg
        then Inl (Exc TrainingJobQuotaError
          ''The public demo training quota has been reached for this 24-hour period.'')
        else Inr ()
      else Inr ())"

definition store_identifier ::
    "submit_env \<Rightarrow> training_job \<Rightarrow> string \<Rightarrow> training_job list \<Rightarrow> training_job result \<times> training_job list" where
  "store_identifier env job message T = (case se_store_fault env of
     Some e \<Rightarrow> (Inl e, T)
   | None \<Rightarrow> (case set_queue_identifier (job_id job) message (job_state_version job) T of
         (Inl e, T') \<Rightarrow> (Inl e, T)
       | (Inr None, T') \<Rightarrow> (Inl (Exc RuntimeError
           ''The enqueued job changed before its message ID was persisted.''), T)
       | (Inr (Some persisted), T') \<Rightarrow> (Inr persisted, T')))"

definition record_queue_identifier_pending ::
    "submit_env \<Rightarrow> training_job \<Rightarrow> training_job list \<Rightarrow> training_job list" where
  "record_queue_identifier_pending env job T =
     (if se_marker_fault env then T
      else snd (mark_queue_identifier_pending (job_id job) (job_state_version job) T))"

definition enqueue_created ::
    "submit_env \<Rightarrow> training_job \<Rightarrow> training_job list \<Rightarrow> submission result \<times> training_job list" where
  "enqueue_created env job T = (case se_enqueue env (job_id job) of
     Inl e \<Rightarrow>
       (Inl (Exc TrainingJobEnqueueError ''The training job could not be submitted to the worker queue.''),
        snd (mark_failed (job_id job) Queued ''enqueue_failed''
          ''The training job could not be submitted to the worker queue.'' (se_clock env 1) None
          (run (se_others env 2) T)))
   | Inr message \<Rightarrow> (case store_identifier env job message (run (se_others env 3) T) of
         (Inr persisted, T') \<Rightarrow> (Inr \<lparr>sub_job = persisted, sub_created = True\<rparr>, T')
       | (Inl e, T') \<Rightarrow>
           (Inl (Exc TrainingJobQueuePersistenceError
              ''The queued job requires message identifier reconciliation.''),
            record_queue_identifier_pending env job (run (se_others env 4) T'))))"

definition submit ::
    "submit_env \<Rightarrow> service_config \<Rightarrow> tenant \<Rightarrow> uuid \<Rightarrow> trainer_key \<Rightarrow> job_spec \<Rightarrow> string option \<Rightarrow> bool \<Rightarrow>
     training_job list \<Rightarrow> submission result \<times> training_job list" where
  "submit env cfg tn user k spec ikey enforce T =
     (case normalize_idempotency_key ikey of Inl e \<Rightarrow> (Inl e, T) | Inr nkey \<Rightarrow>
     (case find_submission env tn user k nkey spec T of
        Inl e \<Rightarrow> (Inl e, T)
      | Inr (Some s) \<Rightarrow> (Inr s, T)
      | Inr None \<Rightarrow>
         let T0 = run (se_others env 0) T; now = se_clock env 0 in
         (case check_quota cfg enforce tn user now T0 of Inl e \<Rightarrow> (Inl e, T0) | Inr u \<Rightarrow>
         (let T1 = run (se_others env 1) T0 in
          case create_job (se_company_of env)
             \<lparr>ca_job_id = se_new_id env, ca_requested_by = user, ca_key = k, ca_specification = spec,
              ca_idempotency_key = nkey, ca_fingerprint = se_fingerprint env spec,
              ca_max_attempts = cfg_max_attempts cfg, ca_queued_at = now, ca_created_at = now\<rparr> T1 of
            (Inr (job, refs), T2) \<Rightarrow> enqueue_created env job T2
          | (Inl e, T2) \<Rightarrow>
              if isinstance (exc_of e) [IntegrityError] then
                (case nkey of None \<Rightarrow> (Inl e, T2)
                 | Some ik \<Rightarrow> (case find_submission env tn user k nkey spec T2 of
                      Inl e' \<Rightarrow> (Inl e', T2)
                    | Inr (Some s) \<Rightarrow> (Inr s, T2)
                    | Inr None \<Rightarrow> (Inl e, T2)))
              else (Inl e, T2)))))"

section \<open>Queries and cancellation\<close>

definition get_authorized ::
    "tenant \<Rightarrow> uuid \<Rightarrow> uuid \<Rightarrow> bool \<Rightarrow> training_job list \<Rightarrow> training_job result" where
  "get_authorized tn i user is_admin T = (case get_by_id tn i T of
     None \<Rightarrow> Inl (Exc TrainingJobNotFoundError ''Training job not found.'')
   | Some job \<Rightarrow> if \<not> is_admin \<and> job_requested_by job \<noteq> user
       then Inl (Exc TrainingJobNotFoundError ''Training job not found.'') else Inr job)"

definition list_authorized ::
    "tenant \<Rightarrow> uuid \<Rightarrow> bool \<Rightarrow> job_status option \<Rightarrow> nat \<Rightarrow> nat \<Rightarrow> training_job list \<Rightarrow> job_page" where
  "list_authorized tn user is_admin st limit offset T =
     list_jobs tn (if is_admin then None else Some user) st limit offset T"

fun status_value :: "job_status \<Rightarrow> string" where
  "status_value Queued = ''queued''"
| "status_value Running = ''running''"
| "status_value Succeeded = ''succeeded''"
| "status_value Failed = ''failed''"
| "status_value Cancelled = ''cancelled''"

definition cancel ::
    "tenant \<Rightarrow> uuid \<Rightarrow> uuid \<Rightarrow> bool \<Rightarrow> timestamp \<Rightarrow> job_event list \<Rightarrow> training_job list \<Rightarrow>
     training_job result \<times> training_job list" where
  "cancel tn i user is_admin now others T = (case get_authorized tn i user is_admin T of
     Inl e \<Rightarrow> (Inl e, T)
   | Inr current \<Rightarrow>
       if job_status current \<noteq> Queued
       then (Inl (Exc TrainingJobConflictError
          (''A '' @ status_value (job_status current) @ '' training job cannot be cancelled.'')), T)
       else (case cancel_queued i now (run others T) of
            (None, T') \<Rightarrow> (Inl (Exc TrainingJobConflictError
               ''The training job was claimed before cancellation completed.''), T')
          | (Some cancelled, T') \<Rightarrow> (Inr cancelled, T')))"

section \<open>Recovery\<close>

text \<open>
  One pass of \<^verbatim>\<open>StaleTrainingJobRecoveryService.reconcile\<close>. The dictionary of
  recovered jobs keeps insertion order; a job in it twice has the later snapshot at the first
  position.
\<close>

record recovery_env =
  re_enqueue :: "uuid \<Rightarrow> string result"
  re_now :: timestamp
  re_failed_at :: timestamp
  re_store_fault :: "uuid \<Rightarrow> pyexc option"
  re_marker_fault :: "uuid \<Rightarrow> bool"
  re_others :: "nat \<Rightarrow> job_event list"

fun dict_put :: "training_job \<Rightarrow> training_job list \<Rightarrow> training_job list" where
  "dict_put r [] = [r]"
| "dict_put r (s # ss) = (if job_id s = job_id r then r # ss else s # dict_put r ss)"

definition collect_stale :: "tenant \<Rightarrow> uuid list \<Rightarrow> training_job list \<Rightarrow> training_job list" where
  "collect_stale tn ids T = fold (\<lambda>i jobs. case get_by_id tn i T of
     None \<Rightarrow> jobs | Some r \<Rightarrow> dict_put r jobs) ids []"

fun reset_orphans ::
    "timestamp \<Rightarrow> training_job list \<Rightarrow> training_job list \<Rightarrow> training_job list \<Rightarrow>
     training_job list \<times> training_job list" where
  "reset_orphans now [] jobs T = (jobs, T)"
| "reset_orphans now (r # rs) jobs T =
     (case reset_orphaned_queued (job_id r) (job_state_version r) now T of
        (None, T') \<Rightarrow> reset_orphans now rs jobs T'
      | (Some reset, T') \<Rightarrow> reset_orphans now rs (dict_put reset jobs) T')"

definition requeue_one :: "recovery_env \<Rightarrow> training_job \<Rightarrow> training_job list \<Rightarrow> training_job list" where
  "requeue_one env job T = (case re_enqueue env (job_id job) of
     Inl e \<Rightarrow> snd (mark_failed (job_id job) Queued ''requeue_failed''
        ''The orphaned training job could not be resubmitted.'' (re_failed_at env)
        (Some (job_state_version job)) T)
   | Inr message \<Rightarrow> (case re_store_fault env (job_id job) of
        None \<Rightarrow> (case set_queue_identifier (job_id job) message (job_state_version job) T of
            (Inr None, T') \<Rightarrow> T
          | (Inr (Some updated), T') \<Rightarrow> T'
          | (Inl e, T') \<Rightarrow> if re_marker_fault env (job_id job) then T
              else snd (mark_queue_identifier_pending (job_id job) (job_state_version job) T))
      | Some e \<Rightarrow> if re_marker_fault env (job_id job) then T
          else snd (mark_queue_identifier_pending (job_id job) (job_state_version job) T)))"

fun requeue_all :: "recovery_env \<Rightarrow> nat \<Rightarrow> training_job list \<Rightarrow> training_job list \<Rightarrow> training_job list" where
  "requeue_all env n [] T = T"
| "requeue_all env n (r # rs) T =
     requeue_all env (Suc n) rs (requeue_one env r (run (re_others env n) T))"

definition reconcile ::
    "recovery_env \<Rightarrow> nat \<Rightarrow> nat \<Rightarrow> tenant \<Rightarrow> training_job list \<Rightarrow> uuid list \<times> training_job list" where
  "reconcile env stale_after orphaned_after tn T =
     (let now = re_now env; stale_before = now - int stale_after * second;
          (stale_ids, T1) = requeue_stale stale_before now T;
          (_, T2) = fail_exhausted_stale stale_before now T1;
          T3 = run (re_others env 0) T2;
          stale_jobs = collect_stale tn stale_ids T3;
          orphans = list_orphaned_queued tn (now - int orphaned_after * second) T3;
          (jobs, T4) = reset_orphans now orphans stale_jobs T3 in
      (map job_id jobs, requeue_all env 1 jobs T4))"

end
