(* ===== verification/Job_Service_Correct.thy ===== *)
theory Job_Service_Correct
  imports Job_Service
begin

text \<open>
  What the training-job services guarantee. First every service is shown to refine a sequence of
  committed repository operations, so that the invariants of reachable tables hold across
  services; then the submission, authorization and recovery contracts.
\<close>

section \<open>Services are sequences of repository operations\<close>

definition runs_to :: "training_job list \<Rightarrow> training_job list \<Rightarrow> bool" where
  "runs_to T U \<longleftrightarrow> (\<exists>es. U = run es T)"

named_theorems runs_intros "services as sequences of repository operations"

lemma runs_refl [runs_intros]: "runs_to T T"
  unfolding runs_to_def by (rule exI [of _ "[]"]) simp

lemma runs_run [runs_intros]: "runs_to T U \<Longrightarrow> runs_to T (run es U)"
  unfolding runs_to_def using run_append by metis

lemma runs_trans: "runs_to T U \<Longrightarrow> runs_to U V \<Longrightarrow> runs_to T V"
  unfolding runs_to_def using run_append by metis

lemma runs_event: "runs_to T U \<Longrightarrow> runs_to T (apply_event e U)"
  using runs_run [of T U "[e]"] by simp

lemma runs_operations [runs_intros]:
  "runs_to T U \<Longrightarrow> runs_to T (snd (create_job company_of a U))"
  "runs_to T U \<Longrightarrow> runs_to T (snd (set_queue_identifier i m v U))"
  "runs_to T U \<Longrightarrow> runs_to T (snd (mark_queue_identifier_pending i v U))"
  "runs_to T U \<Longrightarrow> runs_to T (snd (mark_failed i Queued c m t ov U))"
  "runs_to T U \<Longrightarrow> runs_to T (snd (cancel_queued i t U))"
  "runs_to T U \<Longrightarrow> runs_to T (snd (requeue_stale b t U))"
  "runs_to T U \<Longrightarrow> runs_to T (snd (fail_exhausted_stale b t U))"
  "runs_to T U \<Longrightarrow> runs_to T (snd (reset_orphaned_queued i v t U))"
  using runs_event [of T U "Create company_of a"] runs_event [of T U "SetIdentifier i m v"]
    runs_event [of T U "MarkPending i v"] runs_event [of T U "FailQueued i c m t ov"]
    runs_event [of T U "Cancel i t"] runs_event [of T U "RequeueStale b t"]
    runs_event [of T U "FailExhausted b t"] runs_event [of T U "ResetOrphaned i v t"]
  by simp_all

lemma runs_reachable: "runs_to T U \<Longrightarrow> reachable T \<Longrightarrow> reachable U"
  unfolding runs_to_def using run_reachable by blast

lemma runs_table_ok: "runs_to T U \<Longrightarrow> table_ok T \<Longrightarrow> table_ok U"
  unfolding runs_to_def using run_table_ok by blast

lemma runs_evolves: "runs_to T U \<Longrightarrow> evolves job_move T U"
  unfolding runs_to_def using run_evolves by blast

lemma snd_of: "f = (x, y) \<Longrightarrow> y = snd f"
  by simp

lemma store_identifier_runs: "runs_to T (snd (store_identifier env job m T))"
  by (auto simp: store_identifier_def split: option.splits sum.splits prod.splits
      intro!: runs_intros dest!: snd_of)

lemma enqueue_created_runs: "runs_to T (snd (enqueue_created env job T))"
proof (cases "se_enqueue env (job_id job)")
  case (Inl e)
  then show ?thesis by (simp add: enqueue_created_def runs_intros)
next
  case (Inr m)
  have "runs_to T (snd (store_identifier env job m (run (se_others env 3) T)))"
    using runs_trans [OF runs_run [OF runs_refl] store_identifier_runs] .
  then show ?thesis
    by (auto simp: enqueue_created_def Inr record_queue_identifier_pending_def
        split: sum.splits prod.splits intro!: runs_intros)
qed

lemma create_job_unchanged: "create_job company_of a T = (Inl e, U) \<Longrightarrow> U = T"
  by (auto simp: create_job_def Let_def split: option.splits if_splits)

lemma create_job_created:
  "create_job company_of a T = (Inr (job, refs), U) \<Longrightarrow>
    \<exists>company. company_of (ca_requested_by a) = Some company \<and> job = new_job company a \<and>
      U = T @ [job] \<and> insert_allowed T job"
  by (auto simp: create_job_def Let_def split: option.splits if_splits)

lemma submit_runs: "runs_to T (snd (submit env cfg tn user k spec ikey enforce T))"
proof -
  let ?T1 = "run (se_others env 1) (run (se_others env 0) T)"
  have T1: "runs_to T ?T1" by (intro runs_intros)
  have created: "runs_to T (snd (enqueue_created env job U))"
    if "create_job c a ?T1 = (Inr (job, refs), U)" for c a job refs U
    using runs_trans [OF _ enqueue_created_runs] runs_operations(1) [OF T1, of c a] that by simp
  show ?thesis
    by (auto simp: submit_def Let_def split: sum.splits option.splits prod.splits if_splits
        intro!: runs_intros created dest!: create_job_unchanged)
qed

lemma cancel_runs: "runs_to T (snd (cancel tn i user is_admin now others T))"
  by (auto simp: cancel_def split: sum.splits option.splits prod.splits
      intro!: runs_intros dest!: snd_of)

lemma reset_orphans_runs: "runs_to T (snd (reset_orphans now rs jobs T))"
proof (induction rs arbitrary: jobs T)
  case (Cons r rs)
  have "runs_to T (snd (reset_orphaned_queued (job_id r) (job_state_version r) now T))"
    by (intro runs_intros)
  then show ?case using Cons.IH
    by (cases "reset_orphaned_queued (job_id r) (job_state_version r) now T")
       (auto split: option.splits intro: runs_trans)
qed (simp add: runs_intros)

lemma requeue_one_runs: "runs_to T (requeue_one env job T)"
  by (auto simp: requeue_one_def split: option.splits sum.splits prod.splits
      intro!: runs_intros dest!: snd_of)

lemma requeue_all_runs: "runs_to T (requeue_all env n rs T)"
proof (induction rs arbitrary: n T)
  case (Cons r rs)
  have "runs_to T (requeue_one env r (run (re_others env n) T))"
    using runs_trans [OF runs_run [OF runs_refl] requeue_one_runs] .
  then show ?case using Cons.IH runs_trans by simp
qed (simp add: runs_intros)

lemma reconcile_runs: "runs_to T (snd (reconcile env stale_after orphaned_after tn T))"
proof -
  let ?now = "re_now env" and ?b = "re_now env - int stale_after * second"
  let ?T3 = "run (re_others env 0) (snd (fail_exhausted_stale ?b ?now (snd (requeue_stale ?b ?now T))))"
  have "runs_to T ?T3" by (intro runs_intros)
  then have "runs_to T (requeue_all env 1 rs (snd (reset_orphans ?now os js ?T3)))" for rs os js
    using runs_trans [OF runs_trans [OF _ reset_orphans_runs] requeue_all_runs] by blast
  then show ?thesis by (simp add: reconcile_def Let_def case_prod_beta)
qed

section \<open>Finding an earlier submission\<close>

lemma table_ok_lookup: "table_ok T \<Longrightarrow> r \<in> set T \<Longrightarrow> lookup job_id (job_id r) T = Some r"
  by (simp add: table_ok_def lookup_distinct)

lemma table_ok_id_eq: "table_ok T \<Longrightarrow> r \<in> set T \<Longrightarrow> s \<in> set T \<Longrightarrow> job_id r = job_id s \<Longrightarrow> r = s"
  by (metis table_ok_lookup option.inject)

lemma table_ok_distinct: "table_ok T \<Longrightarrow> distinct T"
  by (auto simp: table_ok_def distinct_map)

lemma table_ok_scope: "table_ok T \<Longrightarrow> s \<in> set T \<Longrightarrow> r \<in> set T \<Longrightarrow> same_idempotency_scope s r \<Longrightarrow> s = r"
proof -
  assume a: "table_ok T" "s \<in> set T" "r \<in> set T" "same_idempotency_scope s r"
  then have "job_id s = job_id r" unfolding table_ok_def by blast
  with a show ?thesis using table_ok_id_eq by blast
qed

lemma get_idempotent_stored:
  assumes "table_ok T" and "r \<in> set T" and "visible tn r" and "job_idempotency_key r = Some ik"
  shows "get_idempotent tn (job_requested_by r) (job_key r) ik T = Inr (Some r)"
proof -
  have "(visible tn s \<and> job_requested_by s = job_requested_by r \<and> job_key s = job_key r \<and>
      job_idempotency_key s = Some ik) \<longleftrightarrow> s = r" if "s \<in> set T" for s
    using assms(3,4) table_ok_scope [OF assms(1) that assms(2)]
    by (auto simp: same_idempotency_scope_def)
  then show ?thesis
    unfolding get_idempotent_def scalar_one_or_none_Some
    using assms by (intro filter_unique table_ok_distinct) auto
qed

lemma find_submission_Some:
  assumes "find_submission env tn user k nkey spec T = Inr (Some s)"
  shows "\<not> sub_created s \<and> sub_job s \<in> set T \<and> visible tn (sub_job s) \<and> job_requested_by (sub_job s) = user \<and>
    job_key (sub_job s) = k \<and> nkey = job_idempotency_key (sub_job s) \<and>
    se_fingerprint env (job_specification (sub_job s)) = se_fingerprint env spec \<and>
    \<not> (job_status (sub_job s) = Queued \<and> job_queue_message_id (sub_job s) = None)"
proof -
  obtain ik r where r: "nkey = Some ik" "get_idempotent tn user k ik T = Inr (Some r)"
    "existing_submission (se_fingerprint env) (se_fingerprint env spec) r = Inr s"
    using assms by (auto simp: find_submission_def split: option.splits)
  then have "r \<in> set T" "visible tn r" "job_requested_by r = user" "job_key r = k"
      "job_idempotency_key r = Some ik"
    by (auto simp: get_idempotent_def scalar_one_or_none_Some dest: filter_single)
  moreover have "sub_job s = r" "\<not> sub_created s" "se_fingerprint env (job_specification r) = se_fingerprint env spec"
    "\<not> (job_status r = Queued \<and> job_queue_message_id r = None)"
    using r(3) by (auto simp: existing_submission_def match_fingerprint_def
        ensure_normal_submission_state_def split: if_splits)
  ultimately show ?thesis using r(1) by simp
qed

lemma find_submission_stored:
  assumes "table_ok T" and "r \<in> set T" and "visible tn r" and "job_idempotency_key r = Some ik"
  shows "find_submission env tn (job_requested_by r) (job_key r) (Some ik) spec T =
    bind_result (existing_submission (se_fingerprint env) (se_fingerprint env spec) r) (\<lambda>s. Inr (Some s))"
  by (simp add: find_submission_def get_idempotent_stored [OF assms])

section \<open>Storing the message identifier\<close>

lemma set_queue_identifier_Some:
  assumes "distinct (map job_id T)" and "set_queue_identifier i m v T = (Inr (Some r), U)"
  shows "\<exists>q. lookup job_id i T = Some q \<and> job_status q = Queued \<and> job_state_version q = v \<and>
    job_queue_message_id q = None \<and> lookup job_id i U = Some r \<and>
    r = bump (\<lambda>r. r\<lparr>job_queue_message_id := Some m, job_error_code := None, job_safe_error_message := None\<rparr>) q"
proof -
  let ?p = "\<lambda>r. expects i Queued (Some v) r \<and> job_queue_message_id r = None"
  let ?f = "bump (\<lambda>r. r\<lparr>job_queue_message_id := Some m, job_error_code := None, job_safe_error_message := None\<rparr>)"
  from assms(2) have res: "at_most_one (returning ?p ?f T) = Some r" "U = update_where ?p ?f T"
    by (auto simp: set_queue_identifier_def Let_def split: if_splits)
  have "at_most_one (returning ?p ?f T) = (case lookup job_id i T of None \<Rightarrow> None
      | Some r \<Rightarrow> if ?p r then Some (?f r) else None)"
    using assms(1) by (intro at_most_one_returning) (auto simp: expects_def)
  with res(1) obtain q where q: "lookup job_id i T = Some q" "?p q" "r = ?f q"
    by (auto split: option.splits if_splits)
  moreover have "lookup job_id i U = Some r"
    using q res(2) by (simp add: lookup_update_where)
  ultimately show ?thesis by (auto simp: expects_def)
qed

lemma store_identifier_Inr:
  assumes "table_ok T" and "store_identifier env job m T = (Inr r, U)"
  shows "\<exists>q. lookup job_id (job_id job) T = Some q \<and> job_status q = Queued \<and>
    job_state_version q = job_state_version job \<and> lookup job_id (job_id job) U = Some r \<and>
    r = bump (\<lambda>r. r\<lparr>job_queue_message_id := Some m, job_error_code := None, job_safe_error_message := None\<rparr>) q"
  using assms by (auto simp: store_identifier_def table_ok_def split: option.splits sum.splits prod.splits
      dest: set_queue_identifier_Some)

section \<open>The submission contract\<close>

definition accepted :: "submit_env \<Rightarrow> uuid \<Rightarrow> trainer_key \<Rightarrow> job_spec \<Rightarrow> string option \<Rightarrow> training_job \<Rightarrow> bool" where
  "accepted env user k spec ikey j \<longleftrightarrow>
     job_requested_by j = user \<and> job_key j = k \<and>
     normalize_idempotency_key ikey = Inr (job_idempotency_key j) \<and>
     se_fingerprint env (job_specification j) = se_fingerprint env spec \<and>
     \<not> (job_status j = Queued \<and> job_queue_message_id j = None)"

abbreviation submitted_args where
  "submitted_args env cfg user k spec nkey \<equiv>
     \<lparr>ca_job_id = se_new_id env, ca_requested_by = user, ca_key = k, ca_specification = spec,
      ca_idempotency_key = nkey, ca_fingerprint = se_fingerprint env spec,
      ca_max_attempts = cfg_max_attempts cfg, ca_queued_at = se_clock env 0, ca_created_at = se_clock env 0\<rparr>"

lemma submit_Inr:
  assumes "submit env cfg tn user k spec ikey enforce T = (Inr s, U)"
  shows "\<exists>nkey. normalize_idempotency_key ikey = Inr nkey \<and>
    (runs_to T U \<and> find_submission env tn user k nkey spec U = Inr (Some s) \<or>
     (\<exists>job company V. runs_to T V \<and> insert_allowed V job \<and>
        job = new_job company (submitted_args env cfg user k spec nkey) \<and>
        enqueue_created env job (V @ [job]) = (Inr s, U)))"
proof -
  let ?T1 = "run (se_others env 1) (run (se_others env 0) T)"
  have T1: "runs_to T ?T1" by (intro runs_intros)
  obtain nkey where n: "normalize_idempotency_key ikey = Inr nkey"
    using assms by (auto simp: submit_def split: sum.splits)
  show ?thesis
  proof (cases "find_submission env tn user k nkey spec T = Inr None")
    case False
    then have "find_submission env tn user k nkey spec T = Inr (Some s)" "U = T"
      using assms n by (auto simp: submit_def split: sum.splits option.splits)
    then show ?thesis using n runs_refl by blast
  next
    case True
    then obtain c where create: "c = create_job (se_company_of env) (submitted_args env cfg user k spec nkey) ?T1"
      "(case c of (Inr (job, refs), T2) \<Rightarrow> enqueue_created env job T2 = (Inr s, U)
         | (Inl e, T2) \<Rightarrow> find_submission env tn user k nkey spec T2 = Inr (Some s) \<and> U = T2)"
      using assms n by (auto simp: submit_def Let_def split: sum.splits option.splits prod.splits if_splits)
    show ?thesis
    proof (cases "fst c")
      case (Inl e)
      then have "c = (Inl e, ?T1)" using create(1) create_job_unchanged by (metis prod.collapse)
      then show ?thesis using create(2) n T1 by simp
    next
      case (Inr v)
      then obtain job refs where c: "c = (Inr (job, refs), snd c)" by (cases c, cases v) auto
      then obtain company where "job = new_job company (submitted_args env cfg user k spec nkey)"
        "snd c = ?T1 @ [job]" "insert_allowed ?T1 job"
        using create_job_created create(1) by metis
      moreover have "enqueue_created env job (snd c) = (Inr s, U)"
        using create(2) by (subst (asm) c) simp
      ultimately show ?thesis using n T1 by metis
    qed
  qed
qed

lemma enqueue_created_Inr:
  assumes "enqueue_created env job V = (Inr s, U)" and "table_ok V"
    and "lookup job_id (job_id job) V = Some job"
  shows "sub_created s \<and> (\<exists>m. se_enqueue env (job_id job) = Inr m \<and>
      sub_job s = bump (\<lambda>r. r\<lparr>job_queue_message_id := Some m, job_error_code := None,
        job_safe_error_message := None\<rparr>) job) \<and>
    job_status job = Queued \<and> lookup job_id (job_id job) U = Some (sub_job s)"
proof -
  let ?W = "run (se_others env 3) V"
  obtain m r where m: "se_enqueue env (job_id job) = Inr m" "store_identifier env job m ?W = (Inr r, U)"
    "s = \<lparr>sub_job = r, sub_created = True\<rparr>"
    using assms(1) by (auto simp: enqueue_created_def split: sum.splits prod.splits)
  obtain q where q: "lookup job_id (job_id job) ?W = Some q" "job_status q = Queued"
    "job_state_version q = job_state_version job" "lookup job_id (job_id job) U = Some r"
    "r = bump (\<lambda>r. r\<lparr>job_queue_message_id := Some m, job_error_code := None, job_safe_error_message := None\<rparr>) q"
    using store_identifier_Inr [OF run_table_ok [OF assms(2)] m(2)] by blast
  have "q = job" using jobs.evolves_unchanged [OF run_evolves assms(3) q(1) q(3)] .
  then show ?thesis using m q by simp
qed

lemma submission_tells_truth_core:
  assumes "reachable T" and "submit env cfg tn user k spec ikey enforce T = (Inr s, U)"
  shows "lookup job_id (job_id (sub_job s)) U = Some (sub_job s) \<and>
    accepted env user k spec ikey (sub_job s) \<and>
    (sub_created s \<longrightarrow> job_id (sub_job s) = se_new_id env \<and> se_new_id env \<notin> job_id ` set T \<and>
       job_status (sub_job s) = Queued \<and>
       (\<exists>m. se_enqueue env (se_new_id env) = Inr m \<and> job_queue_message_id (sub_job s) = Some m))"
proof -
  have ok: "table_ok T" using reachable_table_ok [OF assms(1)] .
  obtain nkey where n: "normalize_idempotency_key ikey = Inr nkey"
    and branch: "runs_to T U \<and> find_submission env tn user k nkey spec U = Inr (Some s) \<or>
     (\<exists>job company V. runs_to T V \<and> insert_allowed V job \<and>
        job = new_job company (submitted_args env cfg user k spec nkey) \<and>
        enqueue_created env job (V @ [job]) = (Inr s, U))"
    using submit_Inr [OF assms(2)] by blast
  from branch show ?thesis
  proof
    assume "runs_to T U \<and> find_submission env tn user k nkey spec U = Inr (Some s)"
    then show ?thesis using n ok runs_table_ok table_ok_lookup
      by (auto simp: accepted_def dest!: find_submission_Some)
  next
    assume "\<exists>job company V. runs_to T V \<and> insert_allowed V job \<and>
        job = new_job company (submitted_args env cfg user k spec nkey) \<and>
        enqueue_created env job (V @ [job]) = (Inr s, U)"
    then obtain job company V where V: "runs_to T V" "insert_allowed V job"
      "job = new_job company (submitted_args env cfg user k spec nkey)"
      "enqueue_created env job (V @ [job]) = (Inr s, U)" by blast
    have okV: "table_ok (V @ [job])"
      using table_ok_insert [OF runs_table_ok [OF V(1) ok] V(2)] V(3) new_job_row_ok by simp
    have stored: "lookup job_id (job_id job) (V @ [job]) = Some job"
      using table_ok_lookup [OF okV] by simp
    have fresh: "job_id job \<notin> job_id ` set T"
      using V(2) jobs.evolves_keys [OF runs_evolves [OF V(1)]]
      by (metis Un_iff image_set insert_allowed_def set_append)
    show ?thesis using enqueue_created_Inr [OF V(4) okV stored] n V(3) fresh
      by (auto simp: accepted_def new_job_def)
  qed
qed

text \<open>
  C3: A successful submission tells the truth. The job it returns is the stored row, requested
  by the caller for the given trainer with the normalised idempotency key and a specification
  of the same fingerprint, and it is not waiting for its message identifier. When it says
  the job was created, the job is new, queued, and carries the identifier the broker returned
  for it: the submission was persisted before the message was sent, and no success is reported
  without the broker's acceptance.
\<close>

theorem submission_tells_truth:
  assumes "reachable T" and "submit env cfg tn user k spec ikey enforce T = (Inr s, U)"
  shows "lookup job_id (job_id (sub_job s)) U = Some (sub_job s) \<and>
    accepted env user k spec ikey (sub_job s) \<and>
    (sub_created s \<longrightarrow> job_id (sub_job s) = se_new_id env \<and> se_new_id env \<notin> job_id ` set T \<and>
       job_status (sub_job s) = Queued \<and>
       (\<exists>m. se_enqueue env (se_new_id env) = Inr m \<and> job_queue_message_id (sub_job s) = Some m))"
  by (rule submission_tells_truth_core [OF assms])

text \<open>An environment without disturbance, whose broker names messages after their job.\<close>

definition sample_env :: submit_env where
  "sample_env = \<lparr>se_company_of = (\<lambda>_. Some 9), se_fingerprint = spec_experiment_name, se_new_id = 7,
     se_enqueue = (\<lambda>_. Inr ''m''), se_clock = (\<lambda>_. 10), se_store_fault = None,
     se_marker_fault = False, se_others = (\<lambda>_. [])\<rparr>"

definition sample_config :: service_config where
  "sample_config = \<lparr>cfg_max_attempts = 2, cfg_demo_max_active = 1, cfg_demo_max_per_day = 3\<rparr>"

definition sample_queued :: training_job where
  "sample_queued = bump (\<lambda>r. r\<lparr>job_queue_message_id := Some ''m'', job_error_code := None,
     job_safe_error_message := None\<rparr>) (new_job 9 (submitted_args sample_env sample_config 5
       (random_forest_key Classification) sample_spec (Some ''k'')))"

lemma sample_submit:
  "submit sample_env sample_config None 5 (random_forest_key Classification) sample_spec (Some '' k'') True [] =
     (Inr \<lparr>sub_job = sample_queued, sub_created = True\<rparr>, [sample_queued])"
  by (simp add: submit_def normalize_idempotency_key_def strip_def lstrip_def py_isspace_def Let_def
      find_submission_def get_idempotent_def check_quota_def quota_usage_def sample_env_def sample_config_def
      create_job_def insert_allowed_def new_job_def enqueue_created_def store_identifier_def
      set_queue_identifier_def expects_def sample_queued_def day_def)

theorem submission_tells_truth_witness:
  "lookup job_id (job_id sample_queued) [sample_queued] = Some sample_queued \<and>
    accepted sample_env 5 (random_forest_key Classification) sample_spec (Some '' k'') sample_queued"
  using submission_tells_truth [OF reach_empty sample_submit] by simp

lemma bind_existing_accepted:
  assumes "fp (job_specification r) = f" and "\<not> (job_status r = Queued \<and> job_queue_message_id r = None)"
  shows "existing_submission fp f r = Inr \<lparr>sub_job = r, sub_created = False\<rparr>"
  using assms by (auto simp: existing_submission_def match_fingerprint_def ensure_normal_submission_state_def)

lemma resubmission_core:
  assumes "reachable T" and "submit env cfg tn user k spec (Some ik) enforce T = (Inr s, U)"
    and "lookup job_id (job_id (sub_job s)) (run es U) = Some r"
    and "\<not> (job_status r = Queued \<and> job_queue_message_id r = None)" and "visible tn r"
    and "se_fingerprint env' = se_fingerprint env"
  shows "submit env' cfg' tn user k spec (Some ik) enforce' (run es U) =
    (Inr \<lparr>sub_job = r, sub_created = False\<rparr>, run es U)"
proof -
  have s: "lookup job_id (job_id (sub_job s)) U = Some (sub_job s)" "accepted env user k spec (Some ik) (sub_job s)"
    using submission_tells_truth_core [OF assms(1,2)] by auto
  have "reachable U" using runs_reachable [OF submit_runs assms(1)] assms(2) by (metis snd_conv)
  then have ok: "table_ok (run es U)" by (intro reachable_table_ok run_reachable)
  have "immutable_part r = immutable_part (sub_job s)"
    using jobs.evolves_lookup [OF run_evolves s(1), of es] assms(3) moves_immutable by auto
  then have r: "job_requested_by r = user" "job_key r = k" "job_specification r = job_specification (sub_job s)"
      "normalize_idempotency_key (Some ik) = Inr (job_idempotency_key r)"
    using s(2) by (auto simp: accepted_def immutable_part_def)
  then obtain nk where nk: "job_idempotency_key r = Some nk"
    by (cases "job_idempotency_key r") (auto simp: normalize_idempotency_key_def Let_def split: if_splits)
  have "existing_submission (se_fingerprint env') (se_fingerprint env' spec) r = Inr \<lparr>sub_job = r, sub_created = False\<rparr>"
    using s(2) r(3) assms(4,6) by (intro bind_existing_accepted) (auto simp: accepted_def)
  then have "find_submission env' tn user k (Some nk) spec (run es U) = Inr (Some \<lparr>sub_job = r, sub_created = False\<rparr>)"
    using find_submission_stored [OF ok _ assms(5) nk, of env' spec] lookup_SomeD [OF assms(3)] r(1,2) by auto
  then show ?thesis using r(4) nk by (simp add: submit_def)
qed

text \<open>
  C4: Submission is idempotent. When a request with an idempotency key was accepted, and any
  interleaving of events followed, the same request is answered with the row as it is then, as
  not created, and the table is not touched, as long as the row is not waiting for its message
  identifier: no second job is ever created for the key.
\<close>

theorem resubmission_is_idempotent:
  assumes "reachable T" and "submit env cfg tn user k spec (Some ik) enforce T = (Inr s, U)"
    and "lookup job_id (job_id (sub_job s)) (run es U) = Some r"
    and "\<not> (job_status r = Queued \<and> job_queue_message_id r = None)" and "visible tn r"
    and "se_fingerprint env' = se_fingerprint env"
  shows "submit env' cfg' tn user k spec (Some ik) enforce' (run es U) =
    (Inr \<lparr>sub_job = r, sub_created = False\<rparr>, run es U)"
  by (rule resubmission_core [OF assms])

theorem resubmission_is_idempotent_witness:
  "submit (sample_env\<lparr>se_new_id := 8\<rparr>) sample_config None 5 (random_forest_key Classification) sample_spec
     (Some '' k'') False (run [] [sample_queued]) =
   (Inr \<lparr>sub_job = sample_queued, sub_created = False\<rparr>, run [] [sample_queued])"
  by (rule resubmission_is_idempotent [OF reach_empty sample_submit])
     (simp_all add: visible_def sample_queued_def)

end
