(* ===== verification/Job_Service_Safety.thy ===== *)
theory Job_Service_Safety
  imports Job_Service_Correct
begin

text \<open>
  The error paths of the training-job services: refusals by the broker, submissions that race
  with a worker, authorization of queries and cancellations, and the recovery pass.
\<close>

section \<open>Failures of the broker\<close>

lemma existing_submission_error:
  "existing_submission fp f r = Inl e \<Longrightarrow>
    exc_of e \<in> {TrainingJobConflictError, TrainingJobQueuePersistenceError}"
  by (auto simp: existing_submission_def match_fingerprint_def ensure_normal_submission_state_def
      split: if_splits)

lemma get_idempotent_error: "get_idempotent tn user k ik V = Inl e \<Longrightarrow> exc_of e = MultipleResultsFound"
  by (auto simp: get_idempotent_def dest: scalar_one_or_none_Inl)

lemma find_submission_error:
  "find_submission env tn user k nkey spec V = Inl e \<Longrightarrow>
    exc_of e \<in> {MultipleResultsFound, TrainingJobConflictError, TrainingJobQueuePersistenceError}"
  by (auto simp: find_submission_def bind_result_eq_Inl
      split: option.splits dest!: get_idempotent_error existing_submission_error)

lemma create_job_error:
  "create_job company_of a T = (Inl e, U) \<Longrightarrow> exc_of e \<in> {ValueError, IntegrityError}"
  by (auto simp: create_job_def Let_def split: option.splits if_splits)

lemma check_quota_error: "check_quota cfg enforce tn user now T = Inl e \<Longrightarrow> exc_of e = TrainingJobQuotaError"
  by (auto simp: check_quota_def split: if_splits prod.splits)

lemma normalize_error: "normalize_idempotency_key ik = Inl e \<Longrightarrow> exc_of e = TrainingJobConflictError"
  by (auto simp: normalize_idempotency_key_def Let_def split: option.splits if_splits)

lemma mark_failed_row:
  assumes "lookup job_id i T = Some q"
  shows "\<exists>r. lookup job_id i (snd (mark_failed i Queued c m t None T)) = Some r \<and> job_status r \<noteq> Queued \<and>
    (job_status q = Queued \<longrightarrow> job_status r = Failed \<and> job_error_code r = Some c)"
  using assms lookup_SomeD [OF assms]
  by (simp add: mark_failed_def conditional_update_lookup expects_def)

lemma submit_enqueue_error:
  assumes "submit env cfg tn user k spec ikey enforce T = (Inl e, U)"
    and "exc_of e = TrainingJobEnqueueError"
  shows "\<exists>V job. runs_to T V \<and> insert_allowed V job \<and>
    (\<exists>company nkey. job = new_job company (submitted_args env cfg user k spec nkey)) \<and>
    enqueue_created env job (V @ [job]) = (Inl e, U)"
proof -
  let ?T1 = "run (se_others env 1) (run (se_others env 0) T)"
  have T1: "runs_to T ?T1" by (intro runs_intros)
  obtain nkey where n: "normalize_idempotency_key ikey = Inr nkey"
    using assms normalize_error by (fastforce simp: submit_def split: sum.splits)
  have find: "find_submission env tn user k nkey spec V \<noteq> Inl e" for V
    using assms(2) find_submission_error by fastforce
  obtain job refs V where "create_job (se_company_of env) (submitted_args env cfg user k spec nkey) ?T1 =
      (Inr (job, refs), V) \<and> enqueue_created env job V = (Inl e, U)"
    using assms n find check_quota_error create_job_error
    by (fastforce simp: submit_def Let_def split: sum.splits option.splits prod.splits if_splits)
  then show ?thesis using T1 create_job_created by blast
qed

text \<open>
  When submission reports that the broker refused the message, the broker did refuse it,
  and the job that was persisted first is not left queued: unless somebody else moved it in
  the meantime it is failed with the code \<open>enqueue_failed\<close>.
\<close>

theorem broker_refusal_fails_job:
  assumes "reachable T" and "submit env cfg tn user k spec ikey enforce T = (Inl e, U)"
    and "exc_of e = TrainingJobEnqueueError"
  shows "\<exists>r. lookup job_id (se_new_id env) U = Some r \<and> job_status r \<noteq> Queued \<and>
    \<not> is_ok (se_enqueue env (se_new_id env)) \<and>
    (se_others env 2 = [] \<longrightarrow> job_status r = Failed \<and> job_error_code r = Some ''enqueue_failed'')"
proof -
  obtain V job company nkey where V: "runs_to T V" "insert_allowed V job"
    "job = new_job company (submitted_args env cfg user k spec nkey)"
    "enqueue_created env job (V @ [job]) = (Inl e, U)"
    using submit_enqueue_error [OF assms(2,3)] by blast
  let ?W = "run (se_others env 2) (V @ [job])"
  have id: "job_id job = se_new_id env" "job_status job = Queued" using V(3) by (simp_all add: new_job_def)
  have okV: "table_ok (V @ [job])"
    using table_ok_insert [OF runs_table_ok [OF V(1) reachable_table_ok [OF assms(1)]] V(2)]
      V(3) new_job_row_ok by simp
  then have stored: "lookup job_id (se_new_id env) (V @ [job]) = Some job"
    using table_ok_lookup [OF okV, of job] id by simp
  obtain q where q: "lookup job_id (se_new_id env) ?W = Some q"
    using jobs.evolves_lookup [OF run_evolves stored] by blast
  have refused: "\<not> is_ok (se_enqueue env (se_new_id env))"
    "U = snd (mark_failed (se_new_id env) Queued ''enqueue_failed''
          ''The training job could not be submitted to the worker queue.'' (se_clock env 1) None ?W)"
    using V(4) assms(3) id by (auto simp: enqueue_created_def split: sum.splits prod.splits)
  moreover have "se_others env 2 = [] \<Longrightarrow> job_status q = Queued" using q stored id by simp
  ultimately show ?thesis using mark_failed_row [OF q] by metis
qed

theorem broker_refusal_fails_job_witness:
  "\<exists>e U r. submit (sample_env\<lparr>se_enqueue := (\<lambda>_. Inl (Exc OSError ''redis''))\<rparr>) sample_config None 5
      (random_forest_key Classification) sample_spec None False [] = (Inl e, U) \<and>
    lookup job_id 7 U = Some r \<and> job_status r = Failed"
proof -
  let ?env = "sample_env\<lparr>se_enqueue := (\<lambda>_. Inl (Exc OSError ''redis''))\<rparr>"
  obtain e U where sub: "submit ?env sample_config None 5 (random_forest_key Classification) sample_spec None False [] =
      (Inl e, U)" "exc_of e = TrainingJobEnqueueError"
    by (simp add: submit_def normalize_idempotency_key_def Let_def find_submission_def check_quota_def
        sample_env_def sample_config_def create_job_def insert_allowed_def new_job_def enqueue_created_def)
  show ?thesis using broker_refusal_fails_job [OF reach_empty sub] sub by (auto simp: sample_env_def)
qed

section \<open>Submissions that race with a worker\<close>

text \<open>
  C26: The message is sent before its identifier is stored. If a worker claims the job in
  between, the submission is answered with a persistence error although the job was accepted
  and is being executed; the row is left exactly as the others made it.
\<close>

theorem fast_worker_breaks_submission:
  assumes "reachable V" and "lookup job_id (job_id job) V = Some job" and "se_enqueue env (job_id job) = Inr m"
    and "0 < successful_claims (job_id job) (se_others env 3) V"
  shows "enqueue_created env job V =
    (Inl (Exc TrainingJobQueuePersistenceError ''The queued job requires message identifier reconciliation.''),
     run (se_others env 4) (run (se_others env 3) V))"
proof -
  let ?W = "run (se_others env 3) V"
  let ?X = "run (se_others env 4) ?W"
  have ok: "table_ok V" "table_ok ?W" "table_ok ?X"
    using reachable_table_ok [OF assms(1)] run_table_ok by blast+
  obtain q where q: "lookup job_id (job_id job) ?W = Some q" "job_attempt_count q \<noteq> job_attempt_count job"
    using run_attempts [OF ok(1) assms(2), of "se_others env 3"] assms(4) by auto
  obtain x where x: "lookup job_id (job_id job) ?X = Some x" "job_attempt_count q \<le> job_attempt_count x"
    using run_attempts [OF ok(2) q(1)] by (metis le_add1 order_trans)
  have vq: "job_state_version q \<noteq> job_state_version job"
    using jobs.evolves_unchanged [OF run_evolves assms(2) q(1)] q(2) by blast
  moreover have "job_state_version job \<le> job_state_version q" "job_state_version q \<le> job_state_version x"
    using jobs.evolves_lookup [OF run_evolves assms(2)] jobs.evolves_lookup [OF run_evolves q(1)] q(1) x(1)
    by (metis jobs.reach_ver option.inject)+
  ultimately have vx: "job_state_version x \<noteq> job_state_version job" by simp
  have "\<exists>e. store_identifier env job m ?W = (Inl e, ?W)"
  proof (cases "store_identifier env job m ?W")
    case (Pair r U)
    have "\<nexists>v. r = Inr v" using store_identifier_Inr [OF ok(2)] Pair q(1) vq by fastforce
    then show ?thesis using Pair
      by (cases r) (auto simp: store_identifier_def split: option.splits sum.splits prod.splits)
  qed
  moreover have "snd (mark_queue_identifier_pending (job_id job) (job_state_version job) ?X) = ?X"
    using ok(3) x(1) vx conditional_update_none
    by (simp add: mark_queue_identifier_pending_def conditional_update_result table_ok_def expects_def)
  ultimately show ?thesis using assms(3)
    by (auto simp: enqueue_created_def record_queue_identifier_pending_def)
qed

theorem fast_worker_breaks_submission_witness:
  "\<exists>e U r. enqueue_created (sample_env\<lparr>se_others := (\<lambda>n. if n = 3 then [Claim 7 20] else [])\<rparr>)
      sample_job [sample_job] = (Inl e, U) \<and> lookup job_id 7 U = Some r \<and> job_status r = Running"
proof -
  let ?env = "sample_env\<lparr>se_others := (\<lambda>n. if n = 3 then [Claim 7 20] else [])\<rparr>"
  have "enqueue_created ?env sample_job [sample_job] =
    (Inl (Exc TrainingJobQueuePersistenceError ''The queued job requires message identifier reconciliation.''),
     run (se_others ?env 4) (run (se_others ?env 3) [sample_job]))"
    by (rule fast_worker_breaks_submission [OF sample_reachable])
       (simp_all add: sample_env_def claims_now_def sample_claimed)
  then show ?thesis by (simp add: sample_claimed)
qed

section \<open>Authorization\<close>

lemma get_by_id_lookup:
  assumes "table_ok T"
  shows "get_by_id tn i T = (case lookup job_id i T of None \<Rightarrow> None
    | Some r \<Rightarrow> if visible tn r then Some r else None)"
proof -
  have "distinct (map job_id T)" using assms by (simp add: table_ok_def)
  then have "at_most_one (returning (\<lambda>r. visible tn r \<and> job_id r = i) id T) =
      (case lookup job_id i T of None \<Rightarrow> None | Some r \<Rightarrow> if visible tn r then Some (id r) else None)"
    by (intro at_most_one_returning) auto
  then show ?thesis by (auto simp: get_by_id_def returning_def split: option.splits)
qed

lemma get_authorized_iff:
  assumes "table_ok T"
  shows "get_authorized tn i user is_admin T = Inr r \<longleftrightarrow>
    lookup job_id i T = Some r \<and> visible tn r \<and> (is_admin \<or> job_requested_by r = user)"
  by (auto simp: get_authorized_def get_by_id_lookup [OF assms] split: option.splits if_splits)

text \<open>
  A job is shown to a caller exactly when it exists, belongs to the caller's company, and
  the caller requested it or is an administrator; in every other case the answer is the same
  not-found error, so that nobody learns which foreign jobs exist.
\<close>

theorem job_access_is_scoped:
  assumes "reachable T"
  shows "get_authorized tn i user is_admin T =
    (case lookup job_id i T of
       None \<Rightarrow> Inl (Exc TrainingJobNotFoundError ''Training job not found.'')
     | Some r \<Rightarrow> if visible tn r \<and> (is_admin \<or> job_requested_by r = user) then Inr r
         else Inl (Exc TrainingJobNotFoundError ''Training job not found.''))"
  by (auto simp: get_authorized_def get_by_id_lookup [OF reachable_table_ok [OF assms]]
      split: option.splits)

theorem job_access_is_scoped_witness:
  "get_authorized (Some 9) 7 5 False [sample_job] = Inr sample_job \<and>
   get_authorized (Some 9) 7 6 False [sample_job] =
     Inl (Exc TrainingJobNotFoundError ''Training job not found.'') \<and>
   get_authorized (Some 8) 7 5 True [sample_job] =
     Inl (Exc TrainingJobNotFoundError ''Training job not found.'')"
  by (simp add: job_access_is_scoped [OF sample_reachable] visible_def)

lemma cancel_queued_none: "cancel_queued i now T = (None, U) \<Longrightarrow> U = T"
  using conditional_update_none unfolding cancel_queued_def by (metis fst_conv snd_conv)

lemma cancel_queued_row:
  assumes "table_ok T" and "cancel_queued i now T = (Some c, U)"
  shows "lookup job_id i U = Some c \<and> job_status c = Cancelled \<and>
    (\<exists>q. lookup job_id i T = Some q \<and> job_status q = Queued \<and> immutable_part c = immutable_part q)"
proof -
  let ?f = "\<lambda>r. r\<lparr>job_status := Cancelled, job_cancelled_at := Some now, job_finished_at := Some now\<rparr>"
  have d: "distinct (map job_id T)" using assms(1) by (simp add: table_ok_def)
  have res: "fst (conditional_update i Queued None ?f T) = Some c" "U = snd (conditional_update i Queued None ?f T)"
    using assms(2) by (simp_all add: cancel_queued_def)
  then obtain q where q: "lookup job_id i T = Some q" "expects i Queued None q" "c = bump ?f q"
    using conditional_update_result [OF d, of i Queued None ?f] by (auto split: option.splits if_splits)
  then show ?thesis using res(2)
    by (simp add: conditional_update_lookup expects_def immutable_part_def)
qed

text \<open>
  Cancellation either cancels a queued job inside the caller's scope, which is then stored
  as cancelled, or it reports an error and leaves every row as the others made it. Whatever
  happens concurrently, a job that another actor claimed or finished is never overwritten.
\<close>

theorem cancellation_contract:
  assumes "reachable T" and "cancel tn i user is_admin now others T = (res, U)"
  shows "case res of
      Inr c \<Rightarrow> lookup job_id i U = Some c \<and> job_status c = Cancelled \<and> visible tn c \<and>
        (is_admin \<or> job_requested_by c = user) \<and>
        (\<exists>q. lookup job_id i (run others T) = Some q \<and> job_status q = Queued)
    | Inl e \<Rightarrow> exc_of e \<in> {TrainingJobNotFoundError, TrainingJobConflictError} \<and>
        (U = T \<or> U = run others T)"
proof (cases res)
  case (Inl e)
  then show ?thesis using assms(2)
    by (auto simp: cancel_def get_authorized_def dest: cancel_queued_none
        split: option.splits sum.splits prod.splits if_splits)
next
  case (Inr c)
  have ok: "table_ok T" "table_ok (run others T)"
    using reachable_table_ok [OF assms(1)] run_table_ok by blast+
  obtain r where r: "get_authorized tn i user is_admin T = Inr r" "cancel_queued i now (run others T) = (Some c, U)"
    using assms(2) Inr by (auto simp: cancel_def split: sum.splits option.splits prod.splits if_splits)
  obtain q where q: "lookup job_id i (run others T) = Some q" "job_status q = Queued"
    "immutable_part c = immutable_part q" "lookup job_id i U = Some c" "job_status c = Cancelled"
    using cancel_queued_row [OF ok(2) r(2)] by blast
  have a: "lookup job_id i T = Some r" "visible tn r" "is_admin \<or> job_requested_by r = user"
    using get_authorized_iff [OF ok(1)] r(1) by auto
  then have "immutable_part q = immutable_part r"
    using jobs.evolves_lookup [OF run_evolves a(1), of others] q(1) moves_immutable by auto
  then show ?thesis using Inr q a
    by (cases tn) (auto simp: immutable_part_def visible_def)
qed

theorem cancellation_contract_witness:
  "\<exists>c U. cancel (Some 9) 7 5 False 30 [] [sample_job] = (Inr c, U) \<and> job_status c = Cancelled \<and>
     lookup job_id 7 U = Some c"
proof -
  obtain c U where c: "cancel (Some 9) 7 5 False 30 [] [sample_job] = (Inr c, U)"
    by (simp add: cancel_def get_authorized_def get_by_id_def visible_def cancel_queued_def
        conditional_update_def expects_def)
  show ?thesis using cancellation_contract [OF sample_reachable c] c by auto
qed

section \<open>Recovery\<close>

definition stale_running :: "timestamp \<Rightarrow> training_job \<Rightarrow> bool" where
  "stale_running b r \<longleftrightarrow> job_status r = Running \<and> started_before b r"

definition no_stale :: "timestamp \<Rightarrow> training_job list \<Rightarrow> bool" where
  "no_stale b T \<longleftrightarrow> list_all (\<lambda>r. \<not> stale_running b r) T"

lemma no_stale_update:
  "no_stale b T \<Longrightarrow> (\<And>r. p r \<Longrightarrow> job_status (f r) \<noteq> Running) \<Longrightarrow> no_stale b (update_where p f T)"
  by (auto simp: no_stale_def list_all_iff update_where_def stale_running_def)

lemma no_stale_queued_update:
  assumes "no_stale b T" and "\<And>r. job_status r = Queued \<Longrightarrow> job_status (f r) \<noteq> Running"
  shows "no_stale b (snd (conditional_update i Queued v f T))"
  unfolding conditional_update_def snd_conv
  by (rule no_stale_update [OF assms(1)]) (auto simp: expects_def assms(2))

lemma no_stale_operations:
  assumes "no_stale b T"
  shows "no_stale b (snd (reset_orphaned_queued i v t T))"
    and "no_stale b (snd (mark_failed i Queued c m t ov T))"
    and "no_stale b (snd (mark_queue_identifier_pending i v T))"
    and "no_stale b (snd (set_queue_identifier i m v T))"
  unfolding reset_orphaned_queued_def mark_failed_def mark_queue_identifier_pending_def
     apply (rule no_stale_queued_update [OF assms], simp)+
  using assms by (auto simp: set_queue_identifier_def Let_def expects_def intro: no_stale_update)

lemma no_stale_requeue_one: "no_stale b T \<Longrightarrow> no_stale b (requeue_one env job T)"
  by (auto simp: requeue_one_def no_stale_operations split: option.splits sum.splits prod.splits
      dest!: snd_of)

lemma no_stale_requeue_all:
  "no_stale b T \<Longrightarrow> (\<And>n. re_others env n = []) \<Longrightarrow> no_stale b (requeue_all env n rs T)"
  by (induction rs arbitrary: n T) (auto intro: no_stale_requeue_one)

lemma no_stale_reset: "no_stale b T \<Longrightarrow> no_stale b (snd (reset_orphans now rs jobs T))"
proof (induction rs arbitrary: jobs T)
  case (Cons r rs)
  have "no_stale b (snd (reset_orphaned_queued (job_id r) (job_state_version r) now T))"
    using no_stale_operations(1) [OF Cons.prems] .
  then show ?case using Cons.IH
    by (cases "reset_orphaned_queued (job_id r) (job_state_version r) now T") (auto split: option.splits)
qed simp

lemma requeue_fail_clears: "no_stale b (snd (fail_exhausted_stale b t' (snd (requeue_stale b t T))))"
proof -
  let ?T1 = "snd (requeue_stale b t T)"
  have exhausted: "\<not> job_attempt_count r < job_max_attempts r" if r: "r \<in> set ?T1" "stale_running b r" for r
  proof -
    obtain q where "q \<in> set T" and q: "r = q \<and> \<not> (stale_running b q \<and> job_attempt_count q < job_max_attempts q) \<or>
        job_status r = Queued"
      using r(1) by (auto simp: requeue_stale_def Let_def set_update_where stale_running_def)
    with r(2) show ?thesis by (auto simp: stale_running_def)
  qed
  show ?thesis unfolding no_stale_def list_all_iff
  proof
    fix x assume "x \<in> set (snd (fail_exhausted_stale b t' ?T1))"
    then obtain q where "q \<in> set ?T1" "job_status x = Failed \<or>
        x = q \<and> \<not> (stale_running b q \<and> \<not> job_attempt_count q < job_max_attempts q)"
      by (auto simp: fail_exhausted_stale_def Let_def set_update_where stale_running_def)
    then show "\<not> stale_running b x" using exhausted [of q] by (auto simp: stale_running_def)
  qed
qed

lemma set_dict_put:
  "distinct (map job_id js) \<Longrightarrow> job_id ` set (dict_put r js) = insert (job_id r) (job_id ` set js)"
  by (induction js) auto

lemma distinct_dict_put: "distinct (map job_id js) \<Longrightarrow> distinct (map job_id (dict_put r js))"
proof (induction js)
  case (Cons s ss)
  then show ?case using set_dict_put [of ss r] by auto
qed simp

lemma collect_stale_ids:
  assumes "table_ok T"
  shows "job_id ` set (collect_stale None ids T) = {i \<in> set ids. lookup job_id i T \<noteq> None}"
proof -
  let ?step = "\<lambda>i js. case get_by_id None i T of None \<Rightarrow> js | Some r \<Rightarrow> dict_put r js"
  have step: "distinct (map job_id (?step i js)) \<and>
      job_id ` set (?step i js) = job_id ` set js \<union> {j. j = i \<and> lookup job_id i T \<noteq> None}"
    if "distinct (map job_id js)" for i js
    using that by (auto simp: get_by_id_lookup [OF assms] visible_def set_dict_put
        distinct_dict_put dest: lookup_SomeD split: option.splits)
  have "distinct (map job_id js) \<Longrightarrow> distinct (map job_id (fold ?step ids js)) \<and>
      job_id ` set (fold ?step ids js) = job_id ` set js \<union> {i \<in> set ids. lookup job_id i T \<noteq> None}" for js
  proof (induction ids arbitrary: js)
    case (Cons i ids)
    from Cons.IH [of "?step i js"] step [OF Cons.prems, of i] show ?case by auto
  qed simp
  from this [of "[]"] show ?thesis by (simp add: collect_stale_def)
qed

lemma collect_stale_all:
  "table_ok T \<Longrightarrow> (\<And>i. i \<in> set ids \<Longrightarrow> lookup job_id i T \<noteq> None) \<Longrightarrow>
    job_id ` set (collect_stale None ids T) = set ids"
  by (auto simp: collect_stale_ids)

lemma reset_orphaned_row:
  assumes "table_ok T" and "lookup job_id (job_id r) T = Some r" and "job_status r = Queued"
  shows "\<exists>c U. reset_orphaned_queued (job_id r) (job_state_version r) now T = (Some c, U) \<and> job_id c = job_id r \<and>
    table_ok U \<and> (\<forall>k. k \<noteq> job_id r \<longrightarrow> lookup job_id k U = lookup job_id k T)"
proof -
  let ?f = "\<lambda>r. r\<lparr>job_queued_at := now, job_queue_message_id := None, job_error_code := Some ''broker_message_stale'',
             job_safe_error_message := Some ''The queued broker delivery became stale and was resubmitted.''\<rparr>"
  let ?c = "conditional_update (job_id r) Queued (Some (job_state_version r)) ?f T"
  have d: "distinct (map job_id T)" using assms(1) by (simp add: table_ok_def)
  have "fst ?c = Some (bump ?f r)"
    using conditional_update_result [OF d] assms(2,3) by (simp add: expects_def)
  moreover have "lookup job_id k (snd ?c) = lookup job_id k T" if "k \<noteq> job_id r" for k
    using that by (auto simp: conditional_update_lookup expects_def option.map_ident_strong dest!: lookup_SomeD
        intro!: option.map_ident_strong)
  moreover have "table_ok (snd ?c)"
    using apply_event_table_ok [OF assms(1), of "ResetOrphaned (job_id r) (job_state_version r) now"]
    by (simp add: reset_orphaned_queued_def)
  ultimately show ?thesis unfolding reset_orphaned_queued_def by (cases ?c) auto
qed

lemma reset_orphans_ids:
  assumes "table_ok T" and "distinct (map job_id rs)" and "distinct (map job_id js)"
    and "\<And>r. r \<in> set rs \<Longrightarrow> lookup job_id (job_id r) T = Some r \<and> job_status r = Queued"
  shows "job_id ` set (fst (reset_orphans now rs js T)) = job_id ` set js \<union> job_id ` set rs"
  using assms
proof (induction rs arbitrary: js T)
  case (Cons r rs)
  obtain c U where c: "reset_orphaned_queued (job_id r) (job_state_version r) now T = (Some c, U)"
    "job_id c = job_id r" "table_ok U" "\<forall>k. k \<noteq> job_id r \<longrightarrow> lookup job_id k U = lookup job_id k T"
    using reset_orphaned_row Cons.prems(1,4) by (metis list.set_intros(1))
  have "job_id ` set (fst (reset_orphans now rs (dict_put c js) U)) =
      job_id ` set (dict_put c js) \<union> job_id ` set rs"
    using Cons.prems c(4) by (intro Cons.IH c(3) distinct_dict_put) (auto simp: image_iff)
  then show ?case using c(1,2) set_dict_put [OF Cons.prems(3)] by simp
qed simp

lemma collect_stale_distinct: "distinct (map job_id (collect_stale tn ids T))"
proof -
  have "distinct (map job_id js) \<Longrightarrow> distinct (map job_id (fold (\<lambda>i jobs. case get_by_id tn i T of
     None \<Rightarrow> jobs | Some r \<Rightarrow> dict_put r jobs) ids js))" for js
    by (induction ids arbitrary: js) (auto simp: distinct_dict_put split: option.splits)
  from this [of "[]"] show ?thesis by (simp add: collect_stale_def)
qed

lemma orphans_after_recovery:
  assumes "0 \<le> age"
  shows "job_id ` {r \<in> set (snd (fail_exhausted_stale b now (snd (requeue_stale b now T)))).
      job_status r = Queued \<and> job_queued_at r < now - age} =
    job_id ` {r \<in> set T. job_status r = Queued \<and> job_queued_at r < now - age}" (is "_ ` ?A = _ ` ?B")
proof -
  have "?A = ?B"
    using assms by (auto simp: fail_exhausted_stale_def requeue_stale_def Let_def set_update_where bump_def)
  then show ?thesis by simp
qed

lemma lookup_None_iff: "lookup key k X = None \<longleftrightarrow> k \<notin> key ` set X"
  by (auto simp: lookup_def find_None_iff)

lemma evolves_lookup_None_iff:
  "length U = length T \<Longrightarrow> runs_to T U \<Longrightarrow> lookup job_id i U = None \<longleftrightarrow> lookup job_id i T = None"
proof -
  assume len: "length U = length T" and runs: "runs_to T U"
  obtain ks where ks: "map job_id U = map job_id T @ ks"
    using jobs.evolves_keys [OF runs_evolves [OF runs]] by blast
  have "length (map job_id U) = length (map job_id T @ ks)" by (simp only: ks)
  then have "ks = []" using len by simp
  with ks have "set (map job_id U) = set (map job_id T)" by simp
  then have "job_id ` set U = job_id ` set T" by (simp only: set_map)
  then show ?thesis by (simp only: lookup_None_iff)
qed

lemma list_orphaned_distinct:
  "distinct (map job_id T) \<Longrightarrow> distinct (map job_id (list_orphaned_queued tn b T))"
  by (auto simp: list_orphaned_queued_def distinct_map intro: inj_on_subset)

lemma reset_all_orphans:
  assumes "table_ok U" and "distinct (map job_id js)"
  shows "job_id ` set (fst (reset_orphans now (list_orphaned_queued None b U) js U)) =
    job_id ` set js \<union> job_id ` {r \<in> set U. job_status r = Queued \<and> job_queued_at r < b}"
proof -
  have orphans: "set (list_orphaned_queued None b U) = {r \<in> set U. job_status r = Queued \<and> job_queued_at r < b}"
    by (auto simp: list_orphaned_queued_def visible_def)
  have "distinct (map job_id (list_orphaned_queued None b U))"
    using assms(1) unfolding table_ok_def by (intro list_orphaned_distinct) blast
  from reset_orphans_ids [OF assms(1) this assms(2)] orphans table_ok_lookup [OF assms(1)]
  show ?thesis by auto
qed


definition sample_recovery :: recovery_env where
  "sample_recovery = \<lparr>re_enqueue = (\<lambda>_. Inr ''n''), re_now = 100 * second, re_failed_at = 100 * second,
     re_store_fault = (\<lambda>_. None), re_marker_fault = (\<lambda>_. False), re_others = (\<lambda>_. [])\<rparr>"


end
