(* ===== verification/Job_Worker.thy ===== *)
theory Job_Worker
  imports Job_Service_Safety
begin

text \<open>
  The training worker (\<^verbatim>\<open>ml/jobs/worker.py\<close>): one at-least-once delivery claims the
  job, runs the executor outside any transaction, checkpoints the external result, moves the
  candidate alias, and records success, a retry or a terminal failure together with its audit
  event. The executor, the alias assignment and the profile store are parameters; other actors
  may commit while the executor runs and before the last transaction.
\<close>

section \<open>The world of the worker\<close>

datatype worker_state = WorkerSucceeded | WorkerRetry | WorkerTerminal | WorkerSkipped

record audit_event =
  ae_company :: uuid
  ae_actor :: uuid
  ae_action :: string
  ae_resource_type :: string
  ae_resource_id :: string
  ae_result :: string
  ae_metadata :: "(string \<times> string option) list"

record 'p worker_world =
  ww_jobs :: "training_job list"
  ww_audits :: "audit_event list"
  ww_profiles :: "(uuid \<times> 'p) list"

record 'p worker_env =
  we_clock :: "nat \<Rightarrow> timestamp"
  we_execute :: "job_spec \<Rightarrow> (training_outcome \<times> 'p option) result"
  we_assign :: "string \<Rightarrow> string \<Rightarrow> unit result"
  we_checkpoint_fault :: "pyexc option"
  we_stores_profile :: "'p \<Rightarrow> bool"
  we_others :: "nat \<Rightarrow> job_event list"

definition checkpointed_outcome :: "training_job \<Rightarrow> training_outcome option" where
  "checkpointed_outcome job =
     (case (job_local_execution_run_id job, job_mlflow_experiment_id job, job_mlflow_run_id job,
            job_registered_model_version job, job_metrics job) of
        (Some run_id, Some experiment, Some mlflow_run, Some version, Some ms) \<Rightarrow>
          Some \<lparr>out_run_id = run_id, out_experiment_id = experiment, out_mlflow_run_id = mlflow_run,
                out_model_version = version, out_metrics = ms\<rparr>
      | _ \<Rightarrow> None)"

section \<open>Failures\<close>

text \<open>The three \<^verbatim>\<open>except\<close> clauses, tried in this order.\<close>

definition validation_failures :: "exc_class list" where
  "validation_failures = [ModelRegistryValidationError, RegistryMetadataError, TrackingValidationError,
     ArtifactManagerError, MetricsDataValidationError, TrainerDataValidationError,
     TrainingModelTypeMismatchError, ValidationError, ValueError]"

definition retryable_failures :: "exc_class list" where
  "retryable_failures = [ExperimentTrackingError, ModelRegistryError, RegisteredModelVersionNotFoundError,
     OSError]"

datatype failure_route = FailWith string string | RetryWith string string

definition route_failure :: "exc_class \<Rightarrow> training_job \<Rightarrow> failure_route" where
  "route_failure c claimed =
     (if isinstance c validation_failures
      then FailWith ''training_validation_failed'' ''The persisted training request could not be executed.''
      else if isinstance c retryable_failures then
        if job_attempt_count claimed < job_max_attempts claimed
        then RetryWith ''external_service_unavailable'' ''A temporary training integration failure occurred.''
        else FailWith ''retry_exhausted'' ''Training failed after the configured retry limit.''
      else FailWith ''training_execution_failed'' ''The training job failed during execution.'')"

section \<open>One delivery\<close>

datatype 'p attempt =
    AttemptSkipped
  | AttemptRaised pyexc nat
  | AttemptCompleted training_outcome "'p option" nat

definition assign_candidate ::
    "'p worker_env \<Rightarrow> training_job \<Rightarrow> training_outcome \<Rightarrow> 'p option \<Rightarrow> nat \<Rightarrow> 'p attempt" where
  "assign_candidate env claimed o' profile version =
     (case we_assign env (job_model_name claimed) (out_model_version o') of
        Inl e \<Rightarrow> AttemptRaised e version
      | Inr _ \<Rightarrow> AttemptCompleted o' profile version)"

definition attempt_training ::
    "'p worker_env \<Rightarrow> training_job \<Rightarrow> training_job list \<Rightarrow> 'p attempt \<times> training_job list" where
  "attempt_training env claimed T = (case checkpointed_outcome claimed of
     Some o' \<Rightarrow> (assign_candidate env claimed o' None (job_state_version claimed), T)
   | None \<Rightarrow> (case we_execute env (job_specification claimed) of
       Inl e \<Rightarrow> (AttemptRaised e (job_state_version claimed), T)
     | Inr (o', profile) \<Rightarrow>
         (let T1 = run (we_others env 0) T in case we_checkpoint_fault env of
            Some e \<Rightarrow> (AttemptRaised e (job_state_version claimed), T1)
          | None \<Rightarrow> (case record_external_result (job_id claimed) (job_state_version claimed) o' T1 of
                (None, T2) \<Rightarrow> (AttemptSkipped, T2)
              | (Some checkpointed, T2) \<Rightarrow>
                  (assign_candidate env claimed o' profile (job_state_version checkpointed), T2)))))"

definition success_audit :: "training_job \<Rightarrow> audit_event" where
  "success_audit r = \<lparr>ae_company = job_company_id r, ae_actor = job_requested_by r,
     ae_action = ''training.succeeded'', ae_resource_type = ''training_job'',
     ae_resource_id = uuid_str (job_id r), ae_result = ''success'',
     ae_metadata = [(''algorithm'', Some (algorithm_value (key_algorithm (job_key r)))),
       (''task_type'', Some (task_value (key_task (job_key r)))),
       (''model_version'', job_registered_model_version r)]\<rparr>"

definition failure_audit :: "string \<Rightarrow> training_job \<Rightarrow> audit_event" where
  "failure_audit code r = \<lparr>ae_company = job_company_id r, ae_actor = job_requested_by r,
     ae_action = ''training.failed'', ae_resource_type = ''training_job'',
     ae_resource_id = uuid_str (job_id r), ae_result = ''failure'',
     ae_metadata = [(''algorithm'', Some (algorithm_value (key_algorithm (job_key r)))),
       (''task_type'', Some (task_value (key_task (job_key r)))), (''error_code'', Some code)]\<rparr>"

definition worker_retry ::
    "'p worker_env \<Rightarrow> uuid \<Rightarrow> nat \<Rightarrow> string \<Rightarrow> string \<Rightarrow> 'p worker_world \<Rightarrow> worker_state \<times> 'p worker_world" where
  "worker_retry env i version code message W =
     (case release_for_retry i version code message (we_clock env 1) (ww_jobs W) of
        (None, T) \<Rightarrow> (WorkerSkipped, W\<lparr>ww_jobs := T\<rparr>)
      | (Some r, T) \<Rightarrow> (WorkerRetry, W\<lparr>ww_jobs := T\<rparr>))"

definition worker_fail ::
    "'p worker_env \<Rightarrow> uuid \<Rightarrow> nat \<Rightarrow> string \<Rightarrow> string \<Rightarrow> 'p worker_world \<Rightarrow> worker_state \<times> 'p worker_world" where
  "worker_fail env i version code message W =
     (case mark_failed i Running code message (we_clock env 1) (Some version) (ww_jobs W) of
        (None, T) \<Rightarrow> (WorkerSkipped, W\<lparr>ww_jobs := T\<rparr>)
      | (Some r, T) \<Rightarrow> (WorkerTerminal,
          W\<lparr>ww_jobs := T, ww_audits := ww_audits W @ [failure_audit code r]\<rparr>))"

definition persist_reference_profile ::
    "'p worker_env \<Rightarrow> uuid \<Rightarrow> 'p option \<Rightarrow> 'p worker_world \<Rightarrow> 'p worker_world" where
  "persist_reference_profile env i draft W = (case draft of
     None \<Rightarrow> W
   | Some d \<Rightarrow> if we_stores_profile env d then W\<lparr>ww_profiles := ww_profiles W @ [(i, d)]\<rparr> else W)"

definition worker_complete ::
    "'p worker_env \<Rightarrow> uuid \<Rightarrow> training_outcome \<Rightarrow> nat \<Rightarrow> 'p worker_world \<Rightarrow> worker_state \<times> 'p worker_world" where
  "worker_complete env i o' version W =
     (case mark_succeeded i version (we_clock env 1) o' (ww_jobs W) of
        (None, T) \<Rightarrow> (WorkerSkipped, W\<lparr>ww_jobs := T\<rparr>)
      | (Some r, T) \<Rightarrow> (WorkerSucceeded,
          W\<lparr>ww_jobs := T, ww_audits := ww_audits W @ [success_audit r]\<rparr>))"

definition finish_attempt ::
    "'p worker_env \<Rightarrow> training_job \<Rightarrow> 'p attempt \<Rightarrow> 'p worker_world \<Rightarrow> worker_state \<times> 'p worker_world" where
  "finish_attempt env claimed a W = (case a of
     AttemptSkipped \<Rightarrow> (WorkerSkipped, W)
   | AttemptRaised e version \<Rightarrow>
       (let W' = W\<lparr>ww_jobs := run (we_others env 1) (ww_jobs W)\<rparr> in
        case route_failure (exc_of e) claimed of
          FailWith code message \<Rightarrow> worker_fail env (job_id claimed) version code message W'
        | RetryWith code message \<Rightarrow> worker_retry env (job_id claimed) version code message W')
   | AttemptCompleted o' profile version \<Rightarrow>
       (let W' = persist_reference_profile env (job_id claimed) profile W in
        worker_complete env (job_id claimed) o' version
          (W'\<lparr>ww_jobs := run (we_others env 1) (ww_jobs W')\<rparr>)))"

definition execute :: "'p worker_env \<Rightarrow> uuid \<Rightarrow> 'p worker_world \<Rightarrow> worker_state \<times> 'p worker_world" where
  "execute env i W = (case claim_queued i (we_clock env 0) (ww_jobs W) of
     (None, T) \<Rightarrow> (WorkerSkipped, W\<lparr>ww_jobs := T\<rparr>)
   | (Some claimed, T) \<Rightarrow>
       (let (a, T') = attempt_training env claimed T in
        finish_attempt env claimed a (W\<lparr>ww_jobs := T'\<rparr>)))"

text \<open>The broker's deliveries of one message, one after the other.\<close>

fun deliveries :: "'p worker_env \<Rightarrow> nat \<Rightarrow> uuid \<Rightarrow> 'p worker_world \<Rightarrow> 'p worker_world" where
  "deliveries env 0 i W = W"
| "deliveries env (Suc n) i W = deliveries env n i (snd (execute env i W))"

section \<open>The worker makes repository operations\<close>

lemma runs_worker_operations [runs_intros]:
  "runs_to T U \<Longrightarrow> runs_to T (snd (claim_queued i t U))"
  "runs_to T U \<Longrightarrow> runs_to T (snd (record_external_result i v o' U))"
  "runs_to T U \<Longrightarrow> runs_to T (snd (mark_succeeded i v t o' U))"
  "runs_to T U \<Longrightarrow> runs_to T (snd (release_for_retry i v c m t U))"
  "runs_to T U \<Longrightarrow> runs_to T (snd (mark_failed i Running c m t ov U))"
  using runs_event [of T U "Claim i t"] runs_event [of T U "Checkpoint i v o'"]
    runs_event [of T U "Succeed i v t o'"] runs_event [of T U "Release i v c m t"]
    runs_event [of T U "FailRunning i c m t ov"]
  by simp_all

lemma attempt_training_runs: "runs_to T U \<Longrightarrow> runs_to T (snd (attempt_training env claimed U))"
  by (auto simp: attempt_training_def Let_def split: option.splits sum.splits prod.splits
      intro!: runs_intros dest!: snd_of)

lemma persist_profile_jobs [simp]: "ww_jobs (persist_reference_profile env i d W) = ww_jobs W"
  and persist_profile_audits [simp]: "ww_audits (persist_reference_profile env i d W) = ww_audits W"
  by (auto simp: persist_reference_profile_def split: option.splits)

lemma finish_attempt_runs:
  "runs_to T (ww_jobs W) \<Longrightarrow> runs_to T (ww_jobs (snd (finish_attempt env claimed a W)))"
  by (auto simp: finish_attempt_def worker_fail_def worker_retry_def worker_complete_def Let_def
      split: attempt.splits failure_route.splits option.splits prod.splits
      intro!: runs_intros dest!: snd_of)

lemma execute_runs: "runs_to (ww_jobs W) (ww_jobs (snd (execute env i W)))"
  by (auto simp: execute_def split: option.splits prod.splits
      intro!: runs_intros finish_attempt_runs attempt_training_runs dest!: snd_of)

end
