(* ===== verification/Job_Worker_Correct.thy ===== *)
theory Job_Worker_Correct
  imports Job_Worker
begin

text \<open>
  What a delivery of a training job guarantees: its verdict agrees with the row and the audit
  trail whatever other actors do meanwhile, work that was checkpointed is not repeated, and
  retries are bounded by the attempts of the job.
\<close>

section \<open>Rows written by a conditional update\<close>

lemma conditional_update_Some:
  assumes "table_ok T" and "conditional_update i st v f T = (Some r, U)" and "\<And>r. job_id (f r) = job_id r"
  shows "\<exists>q. lookup job_id i T = Some q \<and> expects i st v q \<and> r = bump f q \<and> lookup job_id i U = Some r"
proof -
  have d: "distinct (map job_id T)" using assms(1) by (simp add: table_ok_def)
  have "fst (conditional_update i st v f T) = Some r" "U = snd (conditional_update i st v f T)"
    using assms(2) by simp_all
  then obtain q where "lookup job_id i T = Some q" "expects i st v q" "r = bump f q"
    using conditional_update_result [OF d, of i st v f] by (auto split: option.splits if_splits)
  then show ?thesis using assms(3) \<open>U = _\<close> by (simp add: conditional_update_lookup)
qed

lemma mark_succeeded_row:
  assumes "table_ok T" and "mark_succeeded i v t o' T = (Some r, U)"
  shows "\<exists>q. lookup job_id i T = Some q \<and> job_state_version q = v \<and> immutable_part r = immutable_part q \<and>
    lookup job_id i U = Some r \<and> job_status r = Succeeded \<and> checkpointed_outcome r = Some o'"
proof -
  let ?f = "\<lambda>r. (with_outcome o' r)\<lparr>job_status := Succeeded, job_finished_at := Some t,
    job_error_code := None, job_safe_error_message := None\<rparr>"
  obtain q where "lookup job_id i T = Some q" "expects i Running (Some v) q" "r = bump ?f q" "lookup job_id i U = Some r"
    using conditional_update_Some [OF assms(1) assms(2) [unfolded mark_succeeded_def]] by auto
  moreover have "checkpointed_outcome (bump ?f q) = Some o'"
    by (simp add: checkpointed_outcome_def)
  ultimately show ?thesis by (auto simp: expects_def immutable_part_def)
qed

lemma record_external_result_row:
  assumes "table_ok T" and "record_external_result i v o' T = (Some r, U)"
  shows "\<exists>q. lookup job_id i T = Some q \<and> job_state_version q = v \<and> immutable_part r = immutable_part q \<and>
    lookup job_id i U = Some r \<and> job_attempt_count r = job_attempt_count q \<and> checkpointed_outcome r = Some o'"
proof -
  obtain q where "lookup job_id i T = Some q" "expects i Running (Some v) q" "r = bump (with_outcome o') q"
    "lookup job_id i U = Some r"
    using conditional_update_Some [OF assms(1) assms(2) [unfolded record_external_result_def]] by auto
  moreover have "checkpointed_outcome (bump (with_outcome o') q) = Some o'"
    by (simp add: checkpointed_outcome_def)
  ultimately show ?thesis by (auto simp: expects_def immutable_part_def)
qed

lemma release_row:
  assumes "table_ok T" and "release_for_retry i v c m t T = (Some r, U)"
  shows "\<exists>q. lookup job_id i T = Some q \<and> job_state_version q = v \<and> lookup job_id i U = Some r \<and>
    job_status r = Queued \<and> job_attempt_count r = job_attempt_count q \<and> job_max_attempts r = job_max_attempts q \<and>
    checkpointed_outcome r = checkpointed_outcome q \<and> job_error_code r = Some c"
proof -
  obtain q where "lookup job_id i T = Some q" "expects i Running (Some v) q"
    "r = bump (\<lambda>r. r\<lparr>job_status := Queued, job_queued_at := t, job_error_code := Some c,
       job_safe_error_message := Some m\<rparr>) q" "lookup job_id i U = Some r"
    using conditional_update_Some [OF assms(1) assms(2) [unfolded release_for_retry_def]] by auto
  then show ?thesis by (auto simp: expects_def checkpointed_outcome_def)
qed

lemma mark_failed_running_row:
  assumes "table_ok T" and "mark_failed i Running c m t (Some v) T = (Some r, U)"
  shows "\<exists>q. lookup job_id i T = Some q \<and> job_state_version q = v \<and> lookup job_id i U = Some r \<and>
    job_status r = Failed \<and> job_error_code r = Some c \<and> job_attempt_count r = job_attempt_count q \<and>
    immutable_part r = immutable_part q"
proof -
  obtain q where "lookup job_id i T = Some q" "expects i Running (Some v) q"
    "r = bump (\<lambda>r. r\<lparr>job_status := Failed, job_finished_at := Some t, job_error_code := Some c,
       job_safe_error_message := Some m\<rparr>) q" "lookup job_id i U = Some r"
    using conditional_update_Some [OF assms(1) assms(2) [unfolded mark_failed_def]] by auto
  then show ?thesis by (auto simp: expects_def immutable_part_def)
qed

lemma claim_row:
  assumes "table_ok T" and "claim_queued i t T = (Some c, U)"
  shows "\<exists>q. lookup job_id i T = Some q \<and> job_status q = Queued \<and> job_attempt_count q < job_max_attempts q \<and>
    immutable_part c = immutable_part q \<and> job_attempt_count c = Suc (job_attempt_count q) \<and>
    checkpointed_outcome c = checkpointed_outcome q \<and> job_status c = Running \<and> lookup job_id i U = Some c"
proof -
  have d: "distinct (map job_id T)" using assms(1) by (simp add: table_ok_def)
  have c: "fst (claim_queued i t T) = Some c" using assms(2) by simp
  then obtain q where "lookup job_id i T = Some q" "job_status q = Queued" "job_attempt_count q < job_max_attempts q"
    "c = bump (\<lambda>r. r\<lparr>job_status := Running, job_started_at := Some t,
                job_attempt_count := Suc (job_attempt_count r),
                job_error_code := None, job_safe_error_message := None\<rparr>) q"
    using claim_queued_result [OF d, of i t] by (auto split: option.splits if_splits)
  then show ?thesis using claim_returns_stored_row [OF d c] assms(2)
    by (auto simp: immutable_part_def checkpointed_outcome_def)
qed

section \<open>The attempt\<close>

text \<open>The row the worker holds the version of, at the time it held it.\<close>

definition held_row :: "training_job \<Rightarrow> nat \<Rightarrow> training_job list \<Rightarrow> training_job \<Rightarrow> bool" where
  "held_row c v T q \<longleftrightarrow> job_state_version q = v \<and> immutable_part q = immutable_part c \<and>
     job_attempt_count q = job_attempt_count c \<and>
     (\<exists>S. lookup job_id (job_id c) S = Some q \<and> runs_to S T)"

lemma held_row_now:
  assumes "held_row c v T q" and "runs_to T U" and "lookup job_id (job_id c) U = Some x" and "job_state_version x = v"
  shows "x = q"
proof -
  obtain S where S: "lookup job_id (job_id c) S = Some q" "runs_to S T" "job_state_version q = v"
    using assms(1) by (auto simp: held_row_def)
  show ?thesis
    using jobs.evolves_unchanged [OF runs_evolves [OF runs_trans [OF S(2) assms(2)]] S(1) assms(3)] S(3) assms(4)
    by simp
qed

lemma held_after_checkpoint:
  assumes "table_ok T" and "lookup job_id (job_id c) T = Some c"
    and "record_external_result (job_id c) (job_state_version c) o' (run es T) = (Some r, U)"
  shows "held_row c (job_state_version r) U r \<and> checkpointed_outcome r = Some o'"
proof -
  obtain q where q: "lookup job_id (job_id c) (run es T) = Some q" "job_state_version q = job_state_version c"
    "immutable_part r = immutable_part q" "lookup job_id (job_id c) U = Some r"
    "job_attempt_count r = job_attempt_count q" "checkpointed_outcome r = Some o'"
    using record_external_result_row [OF run_table_ok [OF assms(1)] assms(3)] by blast
  have "q = c" using jobs.evolves_unchanged [OF run_evolves assms(2) q(1,2)] .
  then show ?thesis using q runs_refl unfolding held_row_def by blast
qed

lemma attempt_training_row:
  assumes "table_ok T" and "lookup job_id (job_id c) T = Some c" and "attempt_training env c T = (a, T')"
  shows "case a of AttemptSkipped \<Rightarrow> True
    | AttemptRaised e v \<Rightarrow> \<exists>q. held_row c v T' q
    | AttemptCompleted o' p v \<Rightarrow> (\<exists>q. held_row c v T' q \<and> checkpointed_outcome q = Some o') \<and>
        we_assign env (job_model_name c) (out_model_version o') = Inr () \<and>
        (checkpointed_outcome c = Some o' \<or> (\<exists>p. we_execute env (job_specification c) = Inr (o', p)))"
proof -
  have held: "held_row c (job_state_version c) U c" if "runs_to T U" for U
    using that assms(2) by (auto simp: held_row_def)
  consider (checkpointed) o' where "checkpointed_outcome c = Some o'"
    | (raised) e where "checkpointed_outcome c = None" "we_execute env (job_specification c) = Inl e"
    | (fault) o' p e where "checkpointed_outcome c = None" "we_execute env (job_specification c) = Inr (o', p)"
        "we_checkpoint_fault env = Some e"
    | (stored) o' p res U where "checkpointed_outcome c = None" "we_execute env (job_specification c) = Inr (o', p)"
        "we_checkpoint_fault env = None"
        "record_external_result (job_id c) (job_state_version c) o' (run (we_others env 0) T) = (res, U)"
    by (cases "checkpointed_outcome c"; cases "we_execute env (job_specification c)";
        cases "we_checkpoint_fault env") fastforce+
  then show ?thesis
  proof cases
    case checkpointed
    then show ?thesis using assms(3) held [OF runs_refl]
      by (auto simp: attempt_training_def assign_candidate_def split: sum.splits attempt.splits)
  next
    case raised
    then show ?thesis using assms(3) held [OF runs_refl] by (auto simp: attempt_training_def)
  next
    case fault
    then have "a = AttemptRaised e (job_state_version c) \<and> T' = run (we_others env 0) T"
      using assms(3) by (simp add: attempt_training_def)
    moreover have "\<exists>q. held_row c (job_state_version c) (run (we_others env 0) T) q"
      by (rule exI, rule held, intro runs_intros)
    ultimately show ?thesis by simp
  next
    case stored
    show ?thesis
    proof (cases res)
      case None
      then show ?thesis using stored assms(3) by (auto simp: attempt_training_def)
    next
      case (Some r)
      then have r: "\<exists>q. held_row c (job_state_version r) U q \<and> checkpointed_outcome q = Some o'"
        using held_after_checkpoint [OF assms(1,2)] stored(4) by blast
      then have "\<exists>q. held_row c (job_state_version r) U q" by blast
      with r show ?thesis using stored assms(3) Some
        by (auto simp: attempt_training_def assign_candidate_def split: sum.splits attempt.splits)
    qed
  qed
qed

section \<open>The verdict of a delivery\<close>

lemma immutable_parts:
  assumes "immutable_part r = immutable_part c"
  shows "job_model_name r = job_model_name c" and "job_specification r = job_specification c"
    and "job_id r = job_id c" and "job_max_attempts r = job_max_attempts c"
  using assms by (simp_all add: immutable_part_def)

lemma complete_verdict:
  assumes "table_ok (ww_jobs W)" and "held_row c v T q" and "runs_to T (ww_jobs W)"
    and "worker_complete env (job_id c) o' v W = (verdict, W')"
  shows "verdict = WorkerSkipped \<and> ww_audits W' = ww_audits W \<or>
    verdict = WorkerSucceeded \<and> (\<exists>r. lookup job_id (job_id c) (ww_jobs W') = Some r \<and> job_status r = Succeeded \<and>
      checkpointed_outcome r = Some o' \<and> ww_audits W' = ww_audits W @ [success_audit r] \<and>
      immutable_part r = immutable_part c)"
proof (cases "mark_succeeded (job_id c) v (we_clock env 1) o' (ww_jobs W)")
  case (Pair res U)
  show ?thesis
  proof (cases res)
    case (Some r)
    then obtain x where x: "lookup job_id (job_id c) (ww_jobs W) = Some x" "job_state_version x = v"
      "immutable_part r = immutable_part x" "lookup job_id (job_id c) U = Some r" "job_status r = Succeeded"
      "checkpointed_outcome r = Some o'"
      using mark_succeeded_row [OF assms(1)] Pair by blast
    have "x = q" using held_row_now [OF assms(2,3) x(1,2)] .
    then show ?thesis using assms(2,4) Pair Some x by (auto simp: worker_complete_def held_row_def)
  qed (use Pair assms(4) in \<open>auto simp: worker_complete_def\<close>)
qed

lemma retry_verdict:
  assumes "table_ok (ww_jobs W)" and "held_row c v T q" and "runs_to T (ww_jobs W)"
    and "worker_retry env (job_id c) v code m W = (verdict, W')" and "job_attempt_count c < job_max_attempts c"
  shows "verdict = WorkerSkipped \<and> ww_audits W' = ww_audits W \<or>
    verdict = WorkerRetry \<and> (\<exists>r. lookup job_id (job_id c) (ww_jobs W') = Some r \<and> job_status r = Queued \<and>
      job_attempt_count r < job_max_attempts r \<and> ww_audits W' = ww_audits W)"
proof (cases "release_for_retry (job_id c) v code m (we_clock env 1) (ww_jobs W)")
  case (Pair res U)
  show ?thesis
  proof (cases res)
    case (Some r)
    then obtain x where x: "lookup job_id (job_id c) (ww_jobs W) = Some x" "job_state_version x = v"
      "lookup job_id (job_id c) U = Some r" "job_status r = Queued"
      "job_attempt_count r = job_attempt_count x" "job_max_attempts r = job_max_attempts x"
      using release_row [OF assms(1)] Pair by blast
    have "x = q" using held_row_now [OF assms(2,3) x(1,2)] .
    then have "job_attempt_count x = job_attempt_count c" "job_max_attempts x = job_max_attempts c"
      using assms(2) immutable_parts(4) [of x c] by (simp_all add: held_row_def)
    then show ?thesis using assms(4,5) Pair Some x by (auto simp: worker_retry_def)
  qed (use Pair assms(4) in \<open>auto simp: worker_retry_def\<close>)
qed

lemma fail_verdict:
  assumes "table_ok (ww_jobs W)" and "worker_fail env i v code m W = (verdict, W')"
  shows "verdict = WorkerSkipped \<and> ww_audits W' = ww_audits W \<or>
    verdict = WorkerTerminal \<and> (\<exists>r. lookup job_id i (ww_jobs W') = Some r \<and> job_status r = Failed \<and>
      job_error_code r = Some code \<and> ww_audits W' = ww_audits W @ [failure_audit code r])"
proof (cases "mark_failed i Running code m (we_clock env 1) (Some v) (ww_jobs W)")
  case (Pair res U)
  show ?thesis
  proof (cases res)
    case (Some r)
    then have "lookup job_id i U = Some r \<and> job_status r = Failed \<and> job_error_code r = Some code"
      using mark_failed_running_row [OF assms(1)] Pair by blast
    then show ?thesis using Pair Some assms(2) by (auto simp: worker_fail_def)
  qed (use Pair assms(2) in \<open>auto simp: worker_fail_def\<close>)
qed

lemma route_failure_retry:
  "route_failure e c = RetryWith code m \<Longrightarrow> job_attempt_count c < job_max_attempts c"
  by (auto simp: route_failure_def split: if_splits)

definition verdict_ok where
  "verdict_ok env i c verdict audits W' \<longleftrightarrow> (case verdict of
      WorkerSucceeded \<Rightarrow> \<exists>r o'. lookup job_id i (ww_jobs W') = Some r \<and> job_status r = Succeeded \<and>
        checkpointed_outcome r = Some o' \<and> ww_audits W' = audits @ [success_audit r] \<and>
        we_assign env (job_model_name r) (out_model_version o') = Inr () \<and>
        ((\<exists>p. we_execute env (job_specification r) = Inr (o', p)) \<or> checkpointed_outcome c = Some o')
    | WorkerRetry \<Rightarrow> \<exists>r. lookup job_id i (ww_jobs W') = Some r \<and> job_status r = Queued \<and>
        job_attempt_count r < job_max_attempts r \<and> ww_audits W' = audits
    | WorkerTerminal \<Rightarrow> \<exists>r c. lookup job_id i (ww_jobs W') = Some r \<and> job_status r = Failed \<and>
        job_error_code r = Some c \<and> ww_audits W' = audits @ [failure_audit c r]
    | WorkerSkipped \<Rightarrow> ww_audits W' = audits)"

lemma finish_verdict:
  assumes "table_ok T" and "lookup job_id (job_id c) T = Some c" and "attempt_training env c T = (a, ww_jobs W)"
    and "finish_attempt env c a W = (verdict, W')"
  shows "verdict_ok env (job_id c) c verdict (ww_audits W) W'"
proof -
  let ?J = "run (we_others env 1) (ww_jobs W)"
  have ok: "table_ok (ww_jobs W)"
    using runs_table_ok [OF attempt_training_runs [OF runs_refl] assms(1)] assms(3) by (metis snd_conv)
  have okJ: "table_ok ?J" using run_table_ok [OF ok] .
  have J: "runs_to (ww_jobs W) ?J" by (intro runs_intros)
  note row = attempt_training_row [OF assms(1-3)]
  show ?thesis
  proof (cases a)
    case AttemptSkipped
    then show ?thesis using assms(4) by (simp add: finish_attempt_def verdict_ok_def)
  next
    case (AttemptRaised e v)
    then obtain q where q: "held_row c v (ww_jobs W) q" using row by auto
    show ?thesis
    proof (cases "route_failure (exc_of e) c")
      case (FailWith code m)
      then show ?thesis
        using assms(4) AttemptRaised fail_verdict [of "W\<lparr>ww_jobs := ?J\<rparr>" env "job_id c" v code m verdict W'] okJ
        by (auto simp: finish_attempt_def verdict_ok_def)
    next
      case (RetryWith code m)
      then show ?thesis
        using assms(4) AttemptRaised retry_verdict [of "W\<lparr>ww_jobs := ?J\<rparr>" c v "ww_jobs W" q env code m verdict W']
          okJ q J route_failure_retry
        by (auto simp: finish_attempt_def verdict_ok_def)
    qed
  next
    case (AttemptCompleted o' p v)
    then obtain q where q: "held_row c v (ww_jobs W) q" "we_assign env (job_model_name c) (out_model_version o') = Inr ()"
      "checkpointed_outcome c = Some o' \<or> (\<exists>p. we_execute env (job_specification c) = Inr (o', p))"
      using row by auto
    let ?W = "(persist_reference_profile env (job_id c) p W)\<lparr>ww_jobs := ?J\<rparr>"
    have "worker_complete env (job_id c) o' v ?W = (verdict, W')"
      using assms(4) AttemptCompleted by (simp add: finish_attempt_def Let_def)
    from complete_verdict [OF _ q(1) _ this] okJ J
    consider (skipped) "verdict = WorkerSkipped" "ww_audits W' = ww_audits W"
      | (finished) r where "verdict = WorkerSucceeded" "lookup job_id (job_id c) (ww_jobs W') = Some r"
          "job_status r = Succeeded" "checkpointed_outcome r = Some o'"
          "ww_audits W' = ww_audits W @ [success_audit r]" "immutable_part r = immutable_part c"
      by auto
    then show ?thesis
    proof cases
      case finished
      then show ?thesis using q(2,3) immutable_parts(1,2) [OF finished(6)] by (auto simp: verdict_ok_def)
    qed (simp add: verdict_ok_def)
  qed
qed

text \<open>
  C2: The verdict of a delivery agrees with the job and the audit trail, whatever other actors
  commit while the executor runs. On success the row has succeeded with a complete outcome that
  the executor returned now or that was checkpointed before, the candidate alias was moved to
  its version, and exactly the success event is appended; a retry leaves the job queued, with
  attempts left and nothing audited; a terminal failure leaves it failed, with the audited error
  code; a skipped delivery audits nothing.
\<close>

theorem worker_verdict_matches_row:
  assumes "reachable (ww_jobs W)" and "execute env i W = (verdict, W')"
  shows "case verdict of
      WorkerSucceeded \<Rightarrow> \<exists>r o'. lookup job_id i (ww_jobs W') = Some r \<and> job_status r = Succeeded \<and>
        checkpointed_outcome r = Some o' \<and> ww_audits W' = ww_audits W @ [success_audit r] \<and>
        we_assign env (job_model_name r) (out_model_version o') = Inr () \<and>
        ((\<exists>p. we_execute env (job_specification r) = Inr (o', p)) \<or>
         (\<exists>q. lookup job_id i (ww_jobs W) = Some q \<and> checkpointed_outcome q = Some o'))
    | WorkerRetry \<Rightarrow> \<exists>r. lookup job_id i (ww_jobs W') = Some r \<and> job_status r = Queued \<and>
        job_attempt_count r < job_max_attempts r \<and> ww_audits W' = ww_audits W
    | WorkerTerminal \<Rightarrow> \<exists>r c. lookup job_id i (ww_jobs W') = Some r \<and> job_status r = Failed \<and>
        job_error_code r = Some c \<and> ww_audits W' = ww_audits W @ [failure_audit c r]
    | WorkerSkipped \<Rightarrow> ww_audits W' = ww_audits W"
proof (cases "claim_queued i (we_clock env 0) (ww_jobs W)")
  case (Pair res T)
  show ?thesis
  proof (cases res)
    case None
    then show ?thesis using Pair assms(2) by (auto simp: execute_def)
  next
    case (Some c)
    have ok: "table_ok (ww_jobs W)" using reachable_table_ok [OF assms(1)] .
    obtain q where q: "lookup job_id i (ww_jobs W) = Some q" "checkpointed_outcome c = checkpointed_outcome q"
      "lookup job_id i T = Some c" "immutable_part c = immutable_part q"
      using claim_row [OF ok] Pair Some by blast
    have i: "job_id c = i" using q(3) by (auto dest: lookup_SomeD)
    have okT: "table_ok T" using runs_table_ok [OF runs_worker_operations(1) [OF runs_refl] ok] Pair by (metis snd_conv)
    obtain a T' where a: "attempt_training env c T = (a, T')" by fastforce
    have "finish_attempt env c a (W\<lparr>ww_jobs := T'\<rparr>) = (verdict, W')"
      using assms(2) Pair Some a by (simp add: execute_def)
    from finish_verdict [OF okT _ _ this] show ?thesis
      using q a i by (cases verdict) (auto simp: verdict_ok_def)
  qed
qed

definition sample_world :: "unit worker_world" where
  "sample_world = \<lparr>ww_jobs = [sample_job], ww_audits = [], ww_profiles = []\<rparr>"

definition sample_worker :: "unit worker_env" where
  "sample_worker = \<lparr>we_clock = (\<lambda>n. 20), we_execute = (\<lambda>_. Inr (sample_outcome, Some ())),
     we_assign = (\<lambda>_ _. Inr ()), we_checkpoint_fault = None, we_stores_profile = (\<lambda>_. True),
     we_others = (\<lambda>_. [])\<rparr>"

lemma sample_running_fresh: "checkpointed_outcome sample_running = None"
  by (simp add: checkpointed_outcome_def sample_running_def)

lemma sample_execute: "\<exists>W'. execute sample_worker 7 sample_world = (WorkerSucceeded, W')"
  by (simp add: execute_def sample_worker_def sample_world_def sample_claimed attempt_training_def
      sample_running_fresh record_external_result_def conditional_update_def expects_def assign_candidate_def
      finish_attempt_def persist_reference_profile_def worker_complete_def mark_succeeded_def Let_def)

theorem worker_verdict_matches_row_witness:
  "\<exists>W' r. execute sample_worker 7 sample_world = (WorkerSucceeded, W') \<and>
     lookup job_id 7 (ww_jobs W') = Some r \<and> job_status r = Succeeded \<and> ww_audits W' = [success_audit r]"
proof -
  obtain W' where W': "execute sample_worker 7 sample_world = (WorkerSucceeded, W')"
    using sample_execute by blast
  have "reachable (ww_jobs sample_world)" by (simp add: sample_world_def sample_reachable)
  from worker_verdict_matches_row [OF this W'] W' show ?thesis by (auto simp: sample_world_def)
qed

section \<open>Checkpoints\<close>

lemma outcome_recorded_iff: "outcome_recorded r \<longleftrightarrow> checkpointed_outcome r \<noteq> None"
  by (auto simp: outcome_recorded_def checkpointed_outcome_def split: option.splits)

lemma executor_irrelevant [simp]:
  "worker_fail (env\<lparr>we_execute := f\<rparr>) i v c m W = worker_fail env i v c m W"
  "worker_retry (env\<lparr>we_execute := f\<rparr>) i v c m W = worker_retry env i v c m W"
  "worker_complete (env\<lparr>we_execute := f\<rparr>) i o' v W = worker_complete env i o' v W"
  "persist_reference_profile (env\<lparr>we_execute := f\<rparr>) i d W = persist_reference_profile env i d W"
  "assign_candidate (env\<lparr>we_execute := f\<rparr>) claimed o' p v = assign_candidate env claimed o' p v"
  by (simp_all add: worker_fail_def worker_retry_def worker_complete_def persist_reference_profile_def
      assign_candidate_def split: option.split)

lemma finish_attempt_executor [simp]:
  "finish_attempt (env\<lparr>we_execute := f\<rparr>) claimed a W = finish_attempt env claimed a W"
  by (simp add: finish_attempt_def Let_def split: attempt.split failure_route.split)

text \<open>
  Work is not repeated after a checkpoint. When the external result of a job was recorded
  by an earlier delivery, the next delivery runs the same whatever the executor would do: it
  is not called.
\<close>

theorem checkpoint_is_reused:
  assumes "reachable (ww_jobs W)" and "lookup job_id i (ww_jobs W) = Some q" and "outcome_recorded q"
  shows "execute (env\<lparr>we_execute := f\<rparr>) i W = execute env i W"
proof (cases "claim_queued i (we_clock env 0) (ww_jobs W)")
  case (Pair res T)
  show ?thesis
  proof (cases res)
    case (Some c)
    then have "checkpointed_outcome c = checkpointed_outcome q"
      using claim_row [OF reachable_table_ok [OF assms(1)]] Pair assms(2) by fastforce
    then obtain o' where "checkpointed_outcome c = Some o'"
      using assms(3) by (auto simp: outcome_recorded_iff)
    then show ?thesis using Pair Some by (simp add: execute_def attempt_training_def)
  qed (use Pair in \<open>simp add: execute_def\<close>)
qed

theorem checkpoint_is_reused_witness:
  "execute (sample_worker\<lparr>we_execute := (\<lambda>_. Inl (Exc OSError ''down''))\<rparr>) 7
     (sample_world\<lparr>ww_jobs := run [Claim 7 20, Checkpoint 7 1 sample_outcome, RequeueStale 25 30] [sample_job]\<rparr>) =
   execute sample_worker 7
     (sample_world\<lparr>ww_jobs := run [Claim 7 20, Checkpoint 7 1 sample_outcome, RequeueStale 25 30] [sample_job]\<rparr>)"
proof -
  let ?T = "run [Claim 7 20, Checkpoint 7 1 sample_outcome, RequeueStale 25 30] [sample_job]"
  have "\<exists>q. lookup job_id 7 ?T = Some q \<and> outcome_recorded q"
    by (simp add: sample_claimed record_external_result_def conditional_update_def expects_def
        requeue_stale_def Let_def)
  then obtain q where q: "lookup job_id 7 ?T = Some q" "outcome_recorded q" by blast
  have "reachable (ww_jobs (sample_world\<lparr>ww_jobs := ?T\<rparr>))"
    using run_reachable [OF sample_reachable, of "[Claim 7 20, Checkpoint 7 1 sample_outcome, RequeueStale 25 30]"]
    by simp
  then show ?thesis by (rule checkpoint_is_reused [OF _ _ q(2)]) (use q(1) in simp)
qed

section \<open>Bounded retries\<close>

definition transient :: "exc_class \<Rightarrow> bool" where
  "transient c \<longleftrightarrow> isinstance c retryable_failures \<and> \<not> isinstance c validation_failures"

lemma worker_writes:
  "ww_jobs (snd (worker_retry env i v c m W)) = snd (release_for_retry i v c m (we_clock env 1) (ww_jobs W))"
  "ww_jobs (snd (worker_fail env i v c m W)) = snd (mark_failed i Running c m (we_clock env 1) (Some v) (ww_jobs W))"
  by (auto simp: worker_retry_def worker_fail_def split: option.splits prod.splits)

lemma outage_step:
  assumes ok: "table_ok (ww_jobs W)" and q: "lookup job_id i (ww_jobs W) = Some q" "job_status q = Queued"
      "job_attempt_count q < job_max_attempts q" "checkpointed_outcome q = None"
    and outage: "we_execute env (job_specification q) = Inl e" "transient (exc_of e)" "we_others env = (\<lambda>_. [])"
  shows "\<exists>r. lookup job_id i (ww_jobs (snd (execute env i W))) = Some r \<and>
    job_attempt_count r = Suc (job_attempt_count q) \<and> immutable_part r = immutable_part q \<and>
    (if Suc (job_attempt_count q) < job_max_attempts q
     then job_status r = Queued \<and> checkpointed_outcome r = None
     else job_status r = Failed \<and> job_error_code r = Some ''retry_exhausted'')"
proof -
  have d: "distinct (map job_id (ww_jobs W))" using ok by (simp add: table_ok_def)
  have i: "job_id q = i" using q(1) by (auto dest: lookup_SomeD)
  obtain c T where c: "claim_queued i (we_clock env 0) (ww_jobs W) = (Some c, T)"
    using claim_queued_result [OF d, of i "we_clock env 0"] q
    by (cases "claim_queued i (we_clock env 0) (ww_jobs W)") auto
  then have row: "immutable_part c = immutable_part q" "job_attempt_count c = Suc (job_attempt_count q)"
    "checkpointed_outcome c = None" "job_status c = Running" "lookup job_id i T = Some c"
    using claim_row [OF ok c] q by auto
  note imm = immutable_parts [OF row(1)]
  have run: "execute env i W = (case route_failure (exc_of e) c of
      FailWith code message \<Rightarrow> worker_fail env i (job_state_version c) code message (W\<lparr>ww_jobs := T\<rparr>)
    | RetryWith code message \<Rightarrow> worker_retry env i (job_state_version c) code message (W\<lparr>ww_jobs := T\<rparr>))"
    using c row(3) outage imm i
    by (simp add: execute_def attempt_training_def finish_attempt_def Let_def split: failure_route.split)
  show ?thesis
  proof (cases "job_attempt_count c < job_max_attempts c")
    case True
    then have route: "route_failure (exc_of e) c = RetryWith ''external_service_unavailable''
        ''A temporary training integration failure occurred.''"
      using outage(2) by (simp add: route_failure_def transient_def)
    have "lookup job_id i (ww_jobs (snd (execute env i W))) =
        Some (bump (\<lambda>r. r\<lparr>job_status := Queued, job_queued_at := we_clock env 1,
          job_error_code := Some ''external_service_unavailable'',
          job_safe_error_message := Some ''A temporary training integration failure occurred.''\<rparr>) c)"
      using row(4,5) imm i unfolding run route
      by (simp add: worker_writes release_for_retry_def conditional_update_lookup expects_def)
    moreover have "checkpointed_outcome (bump (\<lambda>r. r\<lparr>job_status := Queued, job_queued_at := t,
        job_error_code := x, job_safe_error_message := y\<rparr>) c) = checkpointed_outcome c" for t x y
      by (simp add: checkpointed_outcome_def)
    ultimately show ?thesis using True row(1-3) imm by (simp add: immutable_part_def)
  next
    case False
    then have route: "route_failure (exc_of e) c = FailWith ''retry_exhausted''
        ''Training failed after the configured retry limit.''"
      using outage(2) by (simp add: route_failure_def transient_def)
    have "lookup job_id i (ww_jobs (snd (execute env i W))) =
        Some (bump (\<lambda>r. r\<lparr>job_status := Failed, job_finished_at := Some (we_clock env 1),
          job_error_code := Some ''retry_exhausted'',
          job_safe_error_message := Some ''Training failed after the configured retry limit.''\<rparr>) c)"
      using row(4,5) imm i unfolding run route
      by (simp add: worker_writes mark_failed_def conditional_update_lookup expects_def)
    then show ?thesis using False row(1,2) imm by (simp add: immutable_part_def)
  qed
qed

lemma deliveries_exhaust:
  assumes "table_ok (ww_jobs W)" and "lookup job_id i (ww_jobs W) = Some q" and "job_status q = Queued"
    and "job_attempt_count q < job_max_attempts q" and "checkpointed_outcome q = None"
    and "we_execute env (job_specification q) = Inl e" and "transient (exc_of e)"
    and "we_others env = (\<lambda>_. [])" and "n = job_max_attempts q - job_attempt_count q"
  shows "\<exists>r. lookup job_id i (ww_jobs (deliveries env n i W)) = Some r \<and> job_status r = Failed \<and>
    job_error_code r = Some ''retry_exhausted'' \<and> job_attempt_count r = job_max_attempts r"
  using assms
proof (induction n arbitrary: W q)
  case (Suc n)
  obtain r where r: "lookup job_id i (ww_jobs (snd (execute env i W))) = Some r"
    "job_attempt_count r = Suc (job_attempt_count q)" "immutable_part r = immutable_part q"
    "if Suc (job_attempt_count q) < job_max_attempts q
     then job_status r = Queued \<and> checkpointed_outcome r = None
     else job_status r = Failed \<and> job_error_code r = Some ''retry_exhausted''"
    using outage_step [OF Suc.prems(1-8)] by blast
  note imm = immutable_parts [OF r(3)]
  show ?case
  proof (cases "Suc (job_attempt_count q) < job_max_attempts q")
    case True
    have "table_ok (ww_jobs (snd (execute env i W)))"
      using runs_table_ok [OF execute_runs Suc.prems(1)] .
    then show ?thesis unfolding deliveries.simps
      by (rule Suc.IH [OF _ r(1)]) (use True r imm Suc.prems in auto)
  next
    case False
    then have "n = 0" using Suc.prems(9) by simp
    then show ?thesis using False r imm Suc.prems(4) by auto
  qed
qed simp

text \<open>
  C0: Retries are bounded and end. If the training integrations stay unavailable, the remaining
  attempts of a queued job are delivered one after the other, each releasing the job for the
  next, and the last one leaves it failed with the code \<open>retry_exhausted\<close>.
\<close>

theorem outages_exhaust_attempts:
  assumes "reachable (ww_jobs W)" and "lookup job_id i (ww_jobs W) = Some q" and "job_status q = Queued"
    and "job_attempt_count q < job_max_attempts q" and "checkpointed_outcome q = None"
    and "we_execute env (job_specification q) = Inl e" and "transient (exc_of e)"
    and "we_others env = (\<lambda>_. [])"
  shows "\<exists>r. lookup job_id i (ww_jobs (deliveries env (job_max_attempts q - job_attempt_count q) i W)) = Some r \<and>
    job_status r = Failed \<and> job_error_code r = Some ''retry_exhausted'' \<and>
    job_attempt_count r = job_max_attempts r"
  using deliveries_exhaust [OF reachable_table_ok [OF assms(1)] assms(2-8) refl] .

theorem outages_exhaust_attempts_witness:
  "\<exists>r. lookup job_id 7 (ww_jobs (deliveries (sample_worker\<lparr>we_execute := (\<lambda>_. Inl (Exc OSError ''down''))\<rparr>)
      (job_max_attempts sample_job - job_attempt_count sample_job) 7 sample_world)) = Some r \<and>
    job_status r = Failed \<and> job_error_code r = Some ''retry_exhausted'' \<and>
    job_attempt_count r = job_max_attempts r"
  by (rule outages_exhaust_attempts [where e = "Exc OSError ''down''"])
     (simp_all add: sample_world_def sample_reachable sample_worker_def checkpointed_outcome_def transient_def
       isinstance_def retryable_failures_def validation_failures_def)

end
