(* ===== verification/Promotion_Policy.thy ===== *)
theory Promotion_Policy
  imports Job_Repository
begin

text \<open>
  The contracts and the task-specific policies of model promotion
  (\<^verbatim>\<open>ml/promotion/models.py\<close>, \<^verbatim>\<open>ml/promotion/policy.py\<close>). A policy
  compares the evaluation metrics of a candidate with those of the version that holds the alias.
  The properties characterise acceptance and show that accepted promotions only improve
  the holder.
\<close>

section \<open>Contracts\<close>

datatype model_alias = Candidate | Challenger | Champion

fun alias_value :: "model_alias \<Rightarrow> string" where
  "alias_value Candidate = ''candidate''"
| "alias_value Challenger = ''challenger''"
| "alias_value Champion = ''champion''"

datatype promotion_decision = Approved | Rejected | Overridden

datatype operation_outcome = OpPending | OpSucceeded | OpFailed

record promotion_candidate =
  pc_name :: string
  pc_version :: string
  pc_key :: trainer_key
  pc_metrics :: metrics

record promotion_evaluation =
  ev_accepted :: bool
  ev_reason :: string
  ev_primary_metric :: string
  ev_candidate_value :: "real option"
  ev_incumbent_value :: "real option"
  ev_improvement :: "real option"
  ev_safeguards :: "(string \<times> bool) list"

record promotion_request =
  pq_name :: string
  pq_version :: string
  pq_alias :: model_alias
  pq_user :: uuid
  pq_force :: bool
  pq_reason :: "string option"

text \<open>\<^verbatim>\<open>ModelPromotionRequest.__post_init__\<close>.\<close>

definition make_promotion_request :: "promotion_request \<Rightarrow> promotion_request result" where
  "make_promotion_request q = (case pq_reason q of
     None \<Rightarrow> Inr q
   | Some s \<Rightarrow> (let normalized = strip s in
       if length normalized > 2000
       then Inl (Exc PromotionValidationError ''Promotion reasons must be at most 2000 characters.'')
       else Inr (q\<lparr>pq_reason := if normalized = [] then None else Some normalized\<rparr>)))"

section \<open>Metrics\<close>

definition metric :: "promotion_candidate \<Rightarrow> string \<Rightarrow> real option" where
  "metric c name = (case pc_metrics c name of None \<Rightarrow> None | Some v \<Rightarrow> finite_value v)"

definition bounded_metric :: "promotion_candidate \<Rightarrow> string \<Rightarrow> real option" where
  "bounded_metric c name = (case metric c name of
     None \<Rightarrow> None | Some v \<Rightarrow> if 0 \<le> v \<and> v \<le> 1 then Some v else None)"

section \<open>Regression\<close>

record regression_policy =
  rp_minimum_r2 :: real
  rp_minimum_improvement :: real

definition unit_interval :: "pyfloat \<Rightarrow> real option" where
  "unit_interval v = (case v of Fin x \<Rightarrow> if 0 \<le> x \<and> x \<le> 1 then Some x else None | _ \<Rightarrow> None)"

definition make_regression_policy :: "pyfloat \<Rightarrow> pyfloat \<Rightarrow> regression_policy result" where
  "make_regression_policy minimum_r2 minimum_improvement = (case finite_value minimum_r2 of
     None \<Rightarrow> Inl (Exc ValueError ''minimum_r2 must be finite.'')
   | Some r \<Rightarrow> (case unit_interval minimum_improvement of
       None \<Rightarrow> Inl (Exc ValueError ''minimum_relative_rmse_improvement must be between 0 and 1.'')
     | Some m \<Rightarrow> Inr \<lparr>rp_minimum_r2 = r, rp_minimum_improvement = m\<rparr>))"

definition relative_improvement :: "real \<Rightarrow> real \<Rightarrow> real" where
  "relative_improvement candidate_rmse incumbent_rmse =
     (if incumbent_rmse = 0 \<and> candidate_rmse = 0 then 0
      else if incumbent_rmse = 0 then - 1
      else (incumbent_rmse - candidate_rmse) / incumbent_rmse)"

definition regression_rejection :: string where
  "regression_rejection = ''Candidate regression metrics are missing, invalid, or below the R'' @
     [CHR 0xB2] @ '' safeguard.''"

definition evaluate_regression ::
    "regression_policy \<Rightarrow> promotion_candidate \<Rightarrow> promotion_candidate option \<Rightarrow> promotion_evaluation" where
  "evaluate_regression p candidate incumbent =
     (let candidate_rmse = metric candidate ''rmse''; candidate_r2 = metric candidate ''r2'';
          r2_passed = (case candidate_r2 of None \<Rightarrow> False | Some v \<Rightarrow> v \<ge> rp_minimum_r2 p) in
      case candidate_rmse of
        None \<Rightarrow> \<lparr>ev_accepted = False,
          ev_reason = regression_rejection,
          ev_primary_metric = ''rmse'', ev_candidate_value = None, ev_incumbent_value = None,
          ev_improvement = None, ev_safeguards = [(''minimum_r2'', r2_passed)]\<rparr>
      | Some c \<Rightarrow>
        if c < 0 \<or> \<not> r2_passed then \<lparr>ev_accepted = False,
          ev_reason = regression_rejection,
          ev_primary_metric = ''rmse'', ev_candidate_value = Some c, ev_incumbent_value = None,
          ev_improvement = None, ev_safeguards = [(''minimum_r2'', r2_passed)]\<rparr>
        else (case incumbent of
          None \<Rightarrow> \<lparr>ev_accepted = True,
            ev_reason = ''Candidate satisfies regression safeguards and no incumbent exists.'',
            ev_primary_metric = ''rmse'', ev_candidate_value = Some c, ev_incumbent_value = None,
            ev_improvement = None, ev_safeguards = [(''minimum_r2'', True)]\<rparr>
        | Some inc \<Rightarrow>
            (let incumbent_rmse = metric inc ''rmse''; valid = (case incumbent_rmse of None \<Rightarrow> False | Some i \<Rightarrow> \<not> i < 0) in
             case (valid, incumbent_rmse) of
               (True, Some i) \<Rightarrow>
                 (let improvement = relative_improvement c i;
                      accepted = (improvement \<ge> rp_minimum_improvement p) in
                  \<lparr>ev_accepted = accepted,
                   ev_reason = (if accepted then ''Candidate satisfies the configured relative RMSE improvement.''
                     else ''Candidate does not satisfy the configured relative RMSE improvement.''),
                   ev_primary_metric = ''rmse'', ev_candidate_value = Some c, ev_incumbent_value = Some i,
                   ev_improvement = Some improvement, ev_safeguards = [(''minimum_r2'', True)]\<rparr>)
             | _ \<Rightarrow> \<lparr>ev_accepted = False,
                 ev_reason = ''Incumbent regression metrics are missing or invalid.'',
                 ev_primary_metric = ''rmse'', ev_candidate_value = Some c,
                 ev_incumbent_value = incumbent_rmse, ev_improvement = None,
                 ev_safeguards = [(''minimum_r2'', True)]\<rparr>)))"

section \<open>Classification\<close>

record classification_policy =
  cp_minimum_accuracy :: real
  cp_minimum_improvement :: real

definition make_classification_policy :: "pyfloat \<Rightarrow> pyfloat \<Rightarrow> classification_policy result" where
  "make_classification_policy minimum_accuracy minimum_improvement = (case unit_interval minimum_accuracy of
     None \<Rightarrow> Inl (Exc ValueError ''minimum_accuracy must be between 0 and 1.'')
   | Some a \<Rightarrow> (case unit_interval minimum_improvement of
       None \<Rightarrow> Inl (Exc ValueError ''minimum_f1_improvement must be between 0 and 1.'')
     | Some m \<Rightarrow> Inr \<lparr>cp_minimum_accuracy = a, cp_minimum_improvement = m\<rparr>))"

definition evaluate_classification ::
    "classification_policy \<Rightarrow> promotion_candidate \<Rightarrow> promotion_candidate option \<Rightarrow> promotion_evaluation" where
  "evaluate_classification p candidate incumbent =
     (let candidate_f1 = bounded_metric candidate ''f1_macro'';
          candidate_accuracy = bounded_metric candidate ''accuracy'';
          accuracy_passed = (case candidate_accuracy of None \<Rightarrow> False | Some v \<Rightarrow> v \<ge> cp_minimum_accuracy p) in
      case (accuracy_passed, candidate_f1) of
        (True, Some c) \<Rightarrow> (case incumbent of
          None \<Rightarrow> \<lparr>ev_accepted = True,
            ev_reason = ''Candidate satisfies classification safeguards and no incumbent exists.'',
            ev_primary_metric = ''f1_macro'', ev_candidate_value = Some c, ev_incumbent_value = None,
            ev_improvement = None, ev_safeguards = [(''minimum_accuracy'', True)]\<rparr>
        | Some inc \<Rightarrow> (case bounded_metric inc ''f1_macro'' of
            None \<Rightarrow> \<lparr>ev_accepted = False,
              ev_reason = ''Incumbent classification metrics are missing or invalid.'',
              ev_primary_metric = ''f1_macro'', ev_candidate_value = Some c, ev_incumbent_value = None,
              ev_improvement = None, ev_safeguards = [(''minimum_accuracy'', True)]\<rparr>
          | Some i \<Rightarrow>
              (let improvement = c - i; accepted = (improvement \<ge> cp_minimum_improvement p) in
               \<lparr>ev_accepted = accepted,
                ev_reason = (if accepted then ''Candidate satisfies the configured macro-F1 improvement.''
                  else ''Candidate does not satisfy the configured macro-F1 improvement.''),
                ev_primary_metric = ''f1_macro'', ev_candidate_value = Some c, ev_incumbent_value = Some i,
                ev_improvement = Some improvement, ev_safeguards = [(''minimum_accuracy'', True)]\<rparr>)))
      | _ \<Rightarrow> \<lparr>ev_accepted = False,
          ev_reason = ''Candidate classification metrics are missing, invalid, or below the accuracy safeguard.'',
          ev_primary_metric = ''f1_macro'', ev_candidate_value = candidate_f1, ev_incumbent_value = None,
          ev_improvement = None, ev_safeguards = [(''minimum_accuracy'', accuracy_passed)]\<rparr>)"

section \<open>Acceptance\<close>

definition regression_safe :: "regression_policy \<Rightarrow> promotion_candidate \<Rightarrow> bool" where
  "regression_safe p c \<longleftrightarrow> (\<exists>x y. metric c ''rmse'' = Some x \<and> 0 \<le> x \<and> metric c ''r2'' = Some y \<and> rp_minimum_r2 p \<le> y)"

lemma regression_no_incumbent: "ev_accepted (evaluate_regression p c None) \<longleftrightarrow> regression_safe p c"
  by (auto simp: evaluate_regression_def regression_safe_def Let_def split: option.splits)

lemma regression_incumbent:
  "ev_accepted (evaluate_regression p c (Some inc)) \<longleftrightarrow> regression_safe p c \<and>
    (\<exists>x i. metric c ''rmse'' = Some x \<and> metric inc ''rmse'' = Some i \<and> 0 \<le> i \<and>
       rp_minimum_improvement p \<le> relative_improvement x i)"
  by (auto simp: evaluate_regression_def regression_safe_def Let_def not_less split: option.splits bool.splits)

lemma relative_improvement_iff:
  assumes "0 \<le> x" and "0 \<le> i" and "0 \<le> m"
  shows "m \<le> relative_improvement x i \<longleftrightarrow> (if i = 0 then x = 0 \<and> m = 0 else x \<le> (1 - m) * i)"
  using assms by (auto simp: relative_improvement_def field_simps)

lemma make_regression_policy_bounds:
  "make_regression_policy a b = Inr p \<Longrightarrow> 0 \<le> rp_minimum_improvement p \<and> rp_minimum_improvement p \<le> 1"
  by (auto simp: make_regression_policy_def unit_interval_def split: option.splits pyfloat.splits if_splits)

lemma make_classification_policy_bounds:
  "make_classification_policy a b = Inr p \<Longrightarrow> 0 \<le> cp_minimum_improvement p \<and> cp_minimum_improvement p \<le> 1"
  by (auto simp: make_classification_policy_def unit_interval_def split: option.splits pyfloat.splits if_splits)

text \<open>
  A regression candidate is accepted exactly when its RMSE is a finite non-negative number,
  its R2 reaches the safeguard, and, if a version holds the alias, that version's RMSE is valid
  and the candidate's is at most \<open>1 - m\<close> times it (for a perfect holder the candidate must be
  perfect too and no improvement be required). The division of the code never decides otherwise.
\<close>

theorem regression_acceptance:
  assumes "make_regression_policy a b = Inr p"
  shows "ev_accepted (evaluate_regression p c incumbent) \<longleftrightarrow> regression_safe p c \<and>
    (\<forall>inc \<in> set_option incumbent. \<exists>x i. metric c ''rmse'' = Some x \<and> metric inc ''rmse'' = Some i \<and> 0 \<le> i \<and>
       (if i = 0 then x = 0 \<and> rp_minimum_improvement p = 0 else x \<le> (1 - rp_minimum_improvement p) * i))"
proof (cases incumbent)
  case None
  then show ?thesis by (simp add: regression_no_incumbent)
next
  case (Some inc)
  have m: "0 \<le> rp_minimum_improvement p" using make_regression_policy_bounds [OF assms] by simp
  have "rp_minimum_improvement p \<le> relative_improvement x i \<longleftrightarrow>
      (if i = 0 then x = 0 \<and> rp_minimum_improvement p = 0 else x \<le> (1 - rp_minimum_improvement p) * i)"
    if "regression_safe p c" "metric c ''rmse'' = Some x" "0 \<le> i" for x i
    using relative_improvement_iff [OF _ that(3) m, of x] that(1,2) by (auto simp: regression_safe_def)
  then show ?thesis unfolding Some regression_incumbent by fastforce
qed

definition sample_candidate :: "real \<Rightarrow> real \<Rightarrow> promotion_candidate" where
  "sample_candidate a b = \<lparr>pc_name = ''pump_model'', pc_version = ''1'', pc_key = random_forest_key Regression,
     pc_metrics = [''rmse'' \<mapsto> Fin a, ''r2'' \<mapsto> Fin b, ''f1_macro'' \<mapsto> Fin a, ''accuracy'' \<mapsto> Fin b]\<rparr>"

lemma sample_metric [simp]:
  "metric (sample_candidate a b) ''rmse'' = Some a" "metric (sample_candidate a b) ''r2'' = Some b"
  "metric (sample_candidate a b) ''f1_macro'' = Some a" "metric (sample_candidate a b) ''accuracy'' = Some b"
  by (simp_all add: metric_def sample_candidate_def)

lemma sample_safe [simp]: "regression_safe p (sample_candidate a b) \<longleftrightarrow> 0 \<le> a \<and> rp_minimum_r2 p \<le> b"
  by (auto simp: regression_safe_def)

lemma sample_bounded [simp]:
  "bounded_metric (sample_candidate a b) ''f1_macro'' = (if 0 \<le> a \<and> a \<le> 1 then Some a else None)"
  "bounded_metric (sample_candidate a b) ''accuracy'' = (if 0 \<le> b \<and> b \<le> 1 then Some b else None)"
  by (simp_all add: bounded_metric_def)

lemma sample_regression_policy:
  "make_regression_policy (Fin (1/2)) (Fin (1/10)) = Inr \<lparr>rp_minimum_r2 = 1/2, rp_minimum_improvement = 1/10\<rparr>"
  by (simp add: make_regression_policy_def unit_interval_def)

theorem regression_acceptance_witness:
  "ev_accepted (evaluate_regression \<lparr>rp_minimum_r2 = 1/2, rp_minimum_improvement = 1/10\<rparr>
     (sample_candidate 9 (3/4)) (Some (sample_candidate 10 (3/4)))) \<and>
   \<not> ev_accepted (evaluate_regression \<lparr>rp_minimum_r2 = 1/2, rp_minimum_improvement = 1/10\<rparr>
     (sample_candidate (19/2) (3/4)) (Some (sample_candidate 10 (3/4))))"
  by (simp add: regression_acceptance [OF sample_regression_policy])

lemma classification_accepted:
  "ev_accepted (evaluate_classification p c incumbent) \<longleftrightarrow>
    (\<exists>x a. bounded_metric c ''f1_macro'' = Some x \<and> bounded_metric c ''accuracy'' = Some a \<and>
       cp_minimum_accuracy p \<le> a \<and>
       (\<forall>inc \<in> set_option incumbent. \<exists>i. bounded_metric inc ''f1_macro'' = Some i \<and>
          i + cp_minimum_improvement p \<le> x))"
  by (auto simp: evaluate_classification_def Let_def algebra_simps split: option.splits bool.splits)

text \<open>
  A history of one alias: every version was accepted against the one that held the alias.
\<close>

fun accepted_chain :: "(promotion_candidate \<Rightarrow> promotion_candidate option \<Rightarrow> promotion_evaluation) \<Rightarrow>
    promotion_candidate \<Rightarrow> promotion_candidate list \<Rightarrow> bool" where
  "accepted_chain evaluate holder [] = True"
| "accepted_chain evaluate holder (c # cs) \<longleftrightarrow>
     ev_accepted (evaluate c (Some holder)) \<and> accepted_chain evaluate c cs"

lemma regression_chain:
  assumes "0 \<le> rp_minimum_improvement p" "rp_minimum_improvement p \<le> 1"
    and "accepted_chain (evaluate_regression p) holder cs" and "metric holder ''rmse'' = Some x"
  shows "\<exists>y. metric (last (holder # cs)) ''rmse'' = Some y \<and>
    y \<le> (1 - rp_minimum_improvement p) ^ length cs * x"
  using assms(3,4)
proof (induction cs arbitrary: holder x)
  case (Cons c cs)
  let ?q = "1 - rp_minimum_improvement p"
  obtain y where y: "metric c ''rmse'' = Some y" "0 \<le> x" "0 \<le> y"
      "rp_minimum_improvement p \<le> relative_improvement y x"
    using Cons.prems by (auto simp: regression_incumbent regression_safe_def)
  then have step: "y \<le> ?q * x"
    using relative_improvement_iff [OF y(3,2) assms(1)] by (auto split: if_splits)
  obtain z where z: "metric (last (c # cs)) ''rmse'' = Some z" "z \<le> ?q ^ length cs * y"
    using Cons.IH [OF _ y(1)] Cons.prems(1) by auto
  have "?q ^ length cs * y \<le> ?q ^ length cs * (?q * x)"
    using step assms(2) by (intro mult_left_mono) auto
  then show ?case using z by (auto simp: mult.assoc [symmetric] mult.commute [of _ ?q] intro: order_trans)
qed simp

lemma classification_chain:
  assumes "accepted_chain (evaluate_classification p) holder cs" and "bounded_metric holder ''f1_macro'' = Some x"
  shows "\<exists>y. bounded_metric (last (holder # cs)) ''f1_macro'' = Some y \<and>
    x + real (length cs) * cp_minimum_improvement p \<le> y"
  using assms
proof (induction cs arbitrary: holder x)
  case (Cons c cs)
  obtain y where y: "bounded_metric c ''f1_macro'' = Some y" "x + cp_minimum_improvement p \<le> y"
    using Cons.prems by (auto simp: classification_accepted)
  obtain z where "bounded_metric (last (c # cs)) ''f1_macro'' = Some z"
      "y + real (length cs) * cp_minimum_improvement p \<le> z"
    using Cons.IH [OF _ y(1)] Cons.prems(1) by auto
  then show ?case using y(2) by (auto simp: algebra_simps)
qed simp

text \<open>
  Accepted promotions only improve the holder of an alias. Along any history of accepted
  regression promotions the RMSE of the holder shrinks at least by the required factor at every
  step; along accepted classification promotions the macro-F1 grows at least by the required
  amount, so at most \<open>1 / m\<close> of them can happen when an improvement \<open>m\<close> is required.
\<close>

theorem promotions_improve_holder:
  assumes "make_regression_policy a b = Inr rp" and "make_classification_policy a' b' = Inr cp"
    and "accepted_chain (evaluate_regression rp) holder cs" and "metric holder ''rmse'' = Some x"
    and "accepted_chain (evaluate_classification cp) holder' cs'" and "bounded_metric holder' ''f1_macro'' = Some x'"
  shows "(\<exists>y. metric (last (holder # cs)) ''rmse'' = Some y \<and>
      y \<le> (1 - rp_minimum_improvement rp) ^ length cs * x) \<and>
    (\<exists>y. bounded_metric (last (holder' # cs')) ''f1_macro'' = Some y \<and> x' \<le> y) \<and>
    real (length cs') * cp_minimum_improvement cp \<le> 1"
proof -
  have m: "0 \<le> rp_minimum_improvement rp \<and> rp_minimum_improvement rp \<le> 1" "0 \<le> cp_minimum_improvement cp"
    using make_regression_policy_bounds [OF assms(1)] make_classification_policy_bounds [OF assms(2)] by auto
  obtain y where y: "bounded_metric (last (holder' # cs')) ''f1_macro'' = Some y"
    "x' + real (length cs') * cp_minimum_improvement cp \<le> y"
    using classification_chain [OF assms(5,6)] by blast
  have "0 \<le> x'" "y \<le> 1" using assms(6) y(1) by (auto simp: bounded_metric_def split: option.splits if_splits)
  moreover have "0 \<le> real (length cs') * cp_minimum_improvement cp" using m(2) by simp
  ultimately have "x' \<le> y" "real (length cs') * cp_minimum_improvement cp \<le> 1" using y(2) by linarith+
  then show ?thesis using regression_chain [OF _ _ assms(3,4)] m(1) y(1) by blast
qed

theorem promotions_improve_holder_witness:
  "(\<exists>y. metric (last [sample_candidate 10 (3/4), sample_candidate 9 (3/4), sample_candidate 8 (3/4)]) ''rmse'' = Some y \<and>
      y \<le> (1 - 1/10) ^ 2 * 10) \<and>
    (\<exists>y. bounded_metric (last [sample_candidate 0 1, sample_candidate 1 1]) ''f1_macro'' = Some y \<and> 0 \<le> y) \<and>
    real 1 * (1/10) \<le> (1::real)"
proof -
  have "make_classification_policy (Fin (1/2)) (Fin (1/10)) =
      Inr \<lparr>cp_minimum_accuracy = 1/2, cp_minimum_improvement = 1/10\<rparr>"
    by (simp add: make_classification_policy_def unit_interval_def)
  from promotions_improve_holder [OF sample_regression_policy this,
      of "sample_candidate 10 (3/4)" "[sample_candidate 9 (3/4), sample_candidate 8 (3/4)]" 10
         "sample_candidate 0 1" "[sample_candidate 1 1]" 0]
  show ?thesis
    by (auto simp: regression_incumbent relative_improvement_def classification_accepted power2_eq_square)
qed

end
