(* ===== verification/Promotion_Service.thy ===== *)
theory Promotion_Service
  imports Promotion_Policy
begin

text \<open>
  Audited promotion of registered versions: the audit table of
  \<^verbatim>\<open>repositories/ai_governance.py\<close>, the promotion service and the reconciliation of
  pending audits (\<^verbatim>\<open>ml/promotion/service.py\<close>). The registry is given by its
  \<^verbatim>\<open>resolve\<close> and \<^verbatim>\<open>assign_alias\<close> operations over a state of the tracking
  server; \<open>mlflow_registry\<close> is the adapter of the platform.
\<close>

section \<open>The registry and the audit table\<close>

record 's model_registry =
  reg_resolve :: "'s \<Rightarrow> string \<Rightarrow> string \<Rightarrow> registered_version result"
  reg_assign :: "'s \<Rightarrow> string \<Rightarrow> string \<Rightarrow> string \<Rightarrow> registered_version result \<times> 's"

definition mlflow_registry :: "'s mlflow_client \<Rightarrow> 's model_registry" where
  "mlflow_registry c = \<lparr>reg_resolve = mlflow_resolve c, reg_assign = mlflow_assign_alias c\<rparr>"

record promotion_audit =
  pa_id :: uuid
  pa_company :: uuid
  pa_name :: string
  pa_version :: string
  pa_key :: trainer_key
  pa_alias :: model_alias
  pa_previous :: "string option"
  pa_user :: uuid
  pa_decision :: promotion_decision
  pa_policy :: promotion_evaluation
  pa_force :: bool
  pa_reason :: "string option"
  pa_outcome :: operation_outcome
  pa_created_at :: timestamp
  pa_completed_at :: "timestamp option"
  pa_error_code :: "string option"
  pa_message :: "string option"

definition create_attempt ::
    "(uuid \<Rightarrow> uuid option) \<Rightarrow> uuid \<Rightarrow> timestamp \<Rightarrow> promotion_request \<Rightarrow> trainer_key \<Rightarrow> string option \<Rightarrow>
     promotion_decision \<Rightarrow> promotion_evaluation \<Rightarrow> promotion_audit list \<Rightarrow>
     promotion_audit result \<times> promotion_audit list" where
  "create_attempt company_of new_id now q k previous decision policy_result A =
     (case company_of (pq_user q) of
        None \<Rightarrow> (Inl (Exc ValueError ''A tenant-scoped user is required.''), A)
      | Some company \<Rightarrow>
          if pq_alias q = Candidate \<or> new_id \<in> pa_id ` set A
          then (Inl (Exc IntegrityError ''constraint''), A)
          else (let a = \<lparr>pa_id = new_id, pa_company = company, pa_name = pq_name q, pa_version = pq_version q,
                 pa_key = k, pa_alias = pq_alias q, pa_previous = previous, pa_user = pq_user q,
                 pa_decision = decision, pa_policy = policy_result, pa_force = pq_force q,
                 pa_reason = pq_reason q, pa_outcome = OpPending, pa_created_at = now,
                 pa_completed_at = None, pa_error_code = None, pa_message = None\<rparr> in
                (Inr a, A @ [a])))"

definition completed :: "operation_outcome \<Rightarrow> timestamp \<Rightarrow> string option \<Rightarrow> string option \<Rightarrow>
    promotion_audit \<Rightarrow> promotion_audit" where
  "completed outcome t code message a =
     a\<lparr>pa_outcome := outcome, pa_completed_at := Some t, pa_error_code := code, pa_message := message\<rparr>"

definition pending_audit :: "uuid \<Rightarrow> promotion_audit \<Rightarrow> bool" where
  "pending_audit i a \<longleftrightarrow> pa_id a = i \<and> pa_outcome a = OpPending"

definition complete_attempt ::
    "uuid \<Rightarrow> operation_outcome \<Rightarrow> timestamp \<Rightarrow> string option \<Rightarrow> string option \<Rightarrow> promotion_audit list \<Rightarrow>
     promotion_audit option \<times> promotion_audit list" where
  "complete_attempt i outcome t code message A =
     (at_most_one (returning (pending_audit i) (completed outcome t code message) A),
      update_where (pending_audit i) (completed outcome t code message) A)"

definition list_pending_before :: "timestamp \<Rightarrow> promotion_audit list \<Rightarrow> promotion_audit list" where
  "list_pending_before created_before A =
     sort_key (\<lambda>a. (pa_created_at a, pa_id a))
       (filter (\<lambda>a. pa_outcome a = OpPending \<and> pa_created_at a < created_before) A)"

record audit_page =
  ap_items :: "promotion_audit list"
  ap_total :: nat

definition list_for_model :: "tenant \<Rightarrow> string \<Rightarrow> nat \<Rightarrow> nat \<Rightarrow> promotion_audit list \<Rightarrow> audit_page" where
  "list_for_model tn name limit offset A =
     (let rows = filter (\<lambda>a. (case tn of None \<Rightarrow> True | Some t \<Rightarrow> pa_company a = t) \<and> pa_name a = name) A in
      \<lparr>ap_items = take limit (drop offset (sort_key (\<lambda>a. (- pa_created_at a, pa_id a)) rows)),
       ap_total = length rows\<rparr>)"

section \<open>Authorization\<close>

datatype user_role = Admin | Engineer | Operator

definition authorize :: "promotion_request \<Rightarrow> user_role \<Rightarrow> unit result" where
  "authorize q role =
     bind_result (guard_that (pq_alias q \<noteq> Candidate) (Exc PromotionValidationError
       ''The candidate alias is assigned only by successful background training.'')) (\<lambda>_.
     bind_result (guard_that (\<not> (pq_alias q = Champion \<and> role \<noteq> Admin)) (Exc PromotionAuthorizationError
       ''Only administrators may promote a champion model.'')) (\<lambda>_.
     bind_result (guard_that (\<not> (pq_alias q = Challenger \<and> role \<notin> {Admin, Engineer}))
       (Exc PromotionAuthorizationError
          ''Only administrators or engineers may promote a challenger model.'')) (\<lambda>_.
     bind_result (guard_that (\<not> (pq_force q \<and> role \<noteq> Admin)) (Exc PromotionAuthorizationError
       ''Only administrators may force a promotion.'')) (\<lambda>_.
     bind_result (guard_that (\<not> (pq_force q \<and>
         (case pq_reason q of None \<Rightarrow> True | Some s \<Rightarrow> strip s = []))) (Exc PromotionValidationError
       ''Forced promotion requires a non-empty reason.'')) (\<lambda>_.
     guard_that (case pq_reason q of None \<Rightarrow> True | Some s \<Rightarrow> length s \<le> 2000)
       (Exc PromotionValidationError ''Promotion reasons must be at most 2000 characters.''))))))"

section \<open>Promotion\<close>

text \<open>One committed operation of another actor on the audit table.\<close>

datatype audit_completion = CompleteAudit uuid bool timestamp "string option" "string option"

fun apply_completion :: "audit_completion \<Rightarrow> promotion_audit list \<Rightarrow> promotion_audit list" where
  "apply_completion (CompleteAudit i success t c m) A =
     snd (complete_attempt i (if success then OpSucceeded else OpFailed) t c m A)"

record 's promotion_world =
  pw_registry :: 's
  pw_audits :: "promotion_audit list"
  pw_jobs :: "training_job list"

text \<open>
  \<open>pe_drift\<close> is what others do to the registry before its n-th use, \<open>pe_others\<close> what they
  commit to the audits while the alias is assigned, \<open>pe_store_fault\<close> a database failure of
  the final update.
\<close>

record 's promotion_env =
  pe_registry :: "'s model_registry"
  pe_regression :: regression_policy
  pe_classification :: classification_policy
  pe_company_of :: "uuid \<Rightarrow> uuid option"
  pe_new_id :: uuid
  pe_clock :: "nat \<Rightarrow> timestamp"
  pe_drift :: "nat \<Rightarrow> 's \<Rightarrow> 's"
  pe_others :: "audit_completion list"
  pe_store_fault :: bool

record promotion_outcome =
  po_audit :: uuid
  po_name :: string
  po_version :: string
  po_alias :: model_alias
  po_previous :: "string option"
  po_evaluation :: promotion_evaluation
  po_overridden :: bool
  po_completed_at :: timestamp

definition promotion_evidence ::
    "tenant \<Rightarrow> training_job list \<Rightarrow> registered_version \<Rightarrow> promotion_candidate result" where
  "promotion_evidence tn T v =
     bind_result (find_succeeded_model_version tn (rv_name v) (rv_version v) T) (\<lambda>found.
     case found of
       None \<Rightarrow> Inl (Exc PromotionPreconditionError
         ''A successful background job metrics snapshot is required for promotion.'')
     | Some job \<Rightarrow> (case job_metrics job of
         None \<Rightarrow> Inl (Exc PromotionPreconditionError
           ''A successful background job metrics snapshot is required for promotion.'')
       | Some ms \<Rightarrow>
           if job_key job \<noteq> rv_key v
           then Inl (Exc PromotionPreconditionError
             ''The training evidence does not match the registered TrainerKey.'')
           else Inr \<lparr>pc_name = rv_name v, pc_version = rv_version v, pc_key = rv_key v, pc_metrics = ms\<rparr>))"

definition resolve_optional ::
    "'s model_registry \<Rightarrow> 's \<Rightarrow> string \<Rightarrow> model_alias \<Rightarrow> registered_version option result" where
  "resolve_optional reg s name alias = (case reg_resolve reg s name (alias_value alias) of
     Inr v \<Rightarrow> Inr (Some v)
   | Inl e \<Rightarrow> if isinstance (exc_of e) [RegisteredModelVersionNotFoundError] then Inr None else Inl e)"

definition transition_allowed ::
    "'s model_registry \<Rightarrow> 's \<Rightarrow> promotion_request \<Rightarrow> bool result" where
  "transition_allowed reg s q =
     (if pq_alias q \<noteq> Champion \<or> pq_force q then Inr True
      else bind_result (resolve_optional reg s (pq_name q) Challenger) (\<lambda>challenger.
        Inr (case challenger of None \<Rightarrow> False | Some v \<Rightarrow> rv_version v = pq_version q)))"

definition evaluate_policy ::
    "'s promotion_env \<Rightarrow> promotion_candidate \<Rightarrow> promotion_candidate option \<Rightarrow> promotion_evaluation" where
  "evaluate_policy env candidate incumbent = (case key_task (pc_key candidate) of
     Regression \<Rightarrow> evaluate_regression (pe_regression env) candidate incumbent
   | Classification \<Rightarrow> evaluate_classification (pe_classification env) candidate incumbent)"

definition blocked_evaluation :: "promotion_evaluation \<Rightarrow> promotion_evaluation" where
  "blocked_evaluation ev = ev\<lparr>ev_accepted := False,
     ev_reason := ''Champion promotion requires the selected version to hold the challenger alias.'',
     ev_safeguards := ev_safeguards ev @ [(''challenger_transition'', False)]\<rparr>"

definition complete_failed ::
    "'s promotion_env \<Rightarrow> uuid \<Rightarrow> string \<Rightarrow> string \<Rightarrow> 's promotion_world \<Rightarrow> 's promotion_world" where
  "complete_failed env i code message W =
     W\<lparr>pw_audits := snd (complete_attempt i OpFailed (pe_clock env 1) (Some code) (Some message) (pw_audits W))\<rparr>"

definition finalize_success ::
    "'s promotion_env \<Rightarrow> uuid \<Rightarrow> 's promotion_world \<Rightarrow> timestamp result \<times> 's promotion_world" where
  "finalize_success env i W =
     (if pe_store_fault env
      then (Inl (Exc PromotionAuditFinalizationError
        ''The promotion audit requires operational reconciliation.''), W)
      else (case complete_attempt i OpSucceeded (pe_clock env 1) None None (pw_audits W) of
          (None, A) \<Rightarrow> (Inl (Exc PromotionAuditFinalizationError
            ''The promotion audit requires operational reconciliation.''), W)
        | (Some a, A) \<Rightarrow> (Inr (pe_clock env 1), W\<lparr>pw_audits := A\<rparr>)))"

definition assess ::
    "'s promotion_env \<Rightarrow> tenant \<Rightarrow> promotion_request \<Rightarrow> user_role \<Rightarrow> 's promotion_world \<Rightarrow>
     (promotion_candidate \<times> registered_version option \<times> promotion_evaluation) result" where
  "assess env tn q role W =
     (let reg = pe_registry env; seen = (\<lambda>n. pe_drift env n (pw_registry W)) in
      bind_result (authorize q role) (\<lambda>_.
      bind_result (reg_resolve reg (seen 0) (pq_name q) (pq_version q)) (\<lambda>version.
      bind_result (guard_that (rv_status version = Ready) (Exc PromotionPreconditionError
        ''Only READY registered model versions may be promoted.'')) (\<lambda>_.
      bind_result (promotion_evidence tn (pw_jobs W) version) (\<lambda>candidate.
      bind_result (resolve_optional reg (seen 1) (pq_name q) (pq_alias q)) (\<lambda>previous.
      bind_result (case previous of None \<Rightarrow> Inr None
                   | Some v \<Rightarrow> bind_result (promotion_evidence tn (pw_jobs W) v) (\<lambda>c. Inr (Some c))) (\<lambda>incumbent.
      bind_result (transition_allowed reg (seen 2) q) (\<lambda>allowed.
        let ev = evaluate_policy env candidate incumbent in
        Inr (candidate, previous, if allowed then ev else blocked_evaluation ev)))))))))"

definition decide_promotion :: "promotion_request \<Rightarrow> promotion_evaluation \<Rightarrow> promotion_decision" where
  "decide_promotion q ev =
     (if pq_force q \<and> \<not> ev_accepted ev then Overridden
      else if ev_accepted ev then Approved else Rejected)"

definition assign_verified ::
    "'s promotion_env \<Rightarrow> promotion_request \<Rightarrow> 's promotion_world \<Rightarrow> unit result \<times> 's promotion_world" where
  "assign_verified env q W =
     (case reg_assign (pe_registry env) (pe_drift env 3 (pw_registry W)) (pq_name q)
             (alias_value (pq_alias q)) (pq_version q) of
        (Inl e, s) \<Rightarrow> (Inl e, W\<lparr>pw_registry := s\<rparr>)
      | (Inr v, s) \<Rightarrow>
          (if rv_version v \<noteq> pq_version q \<or> alias_value (pq_alias q) \<notin> set (rv_aliases v)
           then Inl (Exc PromotionAliasVerificationError
             ''The model registry did not verify the requested alias assignment.'')
           else Inr (), W\<lparr>pw_registry := s\<rparr>))"

definition promote ::
    "'s promotion_env \<Rightarrow> tenant \<Rightarrow> promotion_request \<Rightarrow> user_role \<Rightarrow> 's promotion_world \<Rightarrow>
     promotion_outcome result \<times> 's promotion_world" where
  "promote env tn q role W = (case assess env tn q role W of
     Inl e \<Rightarrow> (Inl e, W)
   | Inr (candidate, previous, ev) \<Rightarrow>
     (case create_attempt (pe_company_of env) (pe_new_id env) (pe_clock env 0) q (pc_key candidate)
             (map_option rv_version previous) (decide_promotion q ev) ev (pw_audits W) of
        (Inl e, A) \<Rightarrow> (Inl e, W)
      | (Inr audit, A) \<Rightarrow>
        (let W1 = W\<lparr>pw_audits := A\<rparr> in
         if \<not> ev_accepted ev \<and> \<not> pq_force q
         then (Inl (Exc PromotionPolicyRejectedError
                 ''The model did not satisfy the configured promotion policy.''),
               complete_failed env (pa_id audit) ''promotion_policy_rejected''
                 ''The model did not satisfy the configured promotion policy.'' W1)
         else (case assign_verified env q W1 of
              (Inl e, W2) \<Rightarrow>
                (let W3 = W2\<lparr>pw_audits := fold apply_completion (pe_others env) (pw_audits W2)\<rparr> in
                 (Inl e, if isinstance (exc_of e) [ModelRegistryError, PromotionAliasVerificationError]
                    then complete_failed env (pa_id audit) ''registry_alias_update_failed''
                      ''The external model alias update failed.'' W3
                    else W3))
            | (Inr _, W2) \<Rightarrow>
                (let W3 = W2\<lparr>pw_audits := fold apply_completion (pe_others env) (pw_audits W2)\<rparr> in
                 case finalize_success env (pa_id audit) W3 of
                   (Inl e, W4) \<Rightarrow> (Inl e, W4)
                 | (Inr t, W4) \<Rightarrow>
                     (Inr \<lparr>po_audit = pa_id audit, po_name = pq_name q, po_version = pq_version q,
                           po_alias = pq_alias q, po_previous = map_option rv_version previous,
                           po_evaluation = ev, po_overridden = (pq_force q \<and> \<not> ev_accepted ev),
                           po_completed_at = t\<rparr>, W4))))))"

section \<open>Reconciliation of pending audits\<close>

record reconciliation =
  rc_succeeded :: "uuid list"
  rc_conflicted :: "uuid list"
  rc_unavailable :: "uuid list"

definition finalize_audit ::
    "(uuid \<Rightarrow> bool) \<Rightarrow> timestamp \<Rightarrow> uuid \<Rightarrow> operation_outcome \<Rightarrow> string option \<Rightarrow> string option \<Rightarrow>
     promotion_audit list \<Rightarrow> bool result \<times> promotion_audit list" where
  "finalize_audit fault now i outcome code message A =
     (if fault i then (Inl (Exc PromotionAuditFinalizationError
        ''A pending promotion audit could not be reconciled.''), A)
      else (case complete_attempt i outcome now code message A of
          (None, A') \<Rightarrow> (Inr False, A)
        | (Some a, A') \<Rightarrow> (Inr True, A')))"

definition observe ::
    "(promotion_audit \<Rightarrow> registered_version result) \<Rightarrow> promotion_audit \<Rightarrow> operation_outcome option result" where
  "observe holder a = (case holder a of
     Inl e \<Rightarrow> if isinstance (exc_of e) [RegisteredModelVersionNotFoundError] then Inr (Some OpFailed)
              else if isinstance (exc_of e) [ModelRegistryError] then Inr None
              else Inl e
   | Inr v \<Rightarrow> if rv_version v = pa_version a then Inr (Some OpSucceeded) else Inr (Some OpFailed))"

text \<open>
  \<open>holder a\<close> is what the registry answers for the alias of \<open>a\<close> when its turn comes.
\<close>

fun reconcile_audits ::
    "(promotion_audit \<Rightarrow> registered_version result) \<Rightarrow> (uuid \<Rightarrow> bool) \<Rightarrow> timestamp \<Rightarrow> promotion_audit list \<Rightarrow>
     reconciliation \<Rightarrow> promotion_audit list \<Rightarrow> reconciliation result \<times> promotion_audit list" where
  "reconcile_audits holder fault now [] rc A = (Inr rc, A)"
| "reconcile_audits holder fault now (a # as) rc A = (case observe holder a of
     Inl e \<Rightarrow> (Inl e, A)
   | Inr None \<Rightarrow>
       reconcile_audits holder fault now as (rc\<lparr>rc_unavailable := rc_unavailable rc @ [pa_id a]\<rparr>) A
   | Inr (Some outcome) \<Rightarrow>
       (case (if outcome = OpSucceeded
              then finalize_audit fault now (pa_id a) OpSucceeded None None A
              else finalize_audit fault now (pa_id a) OpFailed (Some ''promotion_reconciliation_conflict'')
                (Some ''The governed alias no longer points to the selected model version.'') A) of
          (Inl e, A') \<Rightarrow> (Inl e, A')
        | (Inr False, A') \<Rightarrow> reconcile_audits holder fault now as rc A'
        | (Inr True, A') \<Rightarrow> reconcile_audits holder fault now as
            (if outcome = OpSucceeded then rc\<lparr>rc_succeeded := rc_succeeded rc @ [pa_id a]\<rparr>
             else rc\<lparr>rc_conflicted := rc_conflicted rc @ [pa_id a]\<rparr>) A'))"

definition reconcile_promotions ::
    "(promotion_audit \<Rightarrow> registered_version result) \<Rightarrow> (uuid \<Rightarrow> bool) \<Rightarrow> nat \<Rightarrow> timestamp \<Rightarrow>
     promotion_audit list \<Rightarrow> reconciliation result \<times> promotion_audit list" where
  "reconcile_promotions holder fault pending_after now A =
     reconcile_audits holder fault now (list_pending_before (now - int pending_after * second) A)
       \<lparr>rc_succeeded = [], rc_conflicted = [], rc_unavailable = []\<rparr> A"

section \<open>Life cycle of an audit\<close>

definition audit_final :: "promotion_audit \<Rightarrow> bool" where
  "audit_final a \<longleftrightarrow> pa_outcome a \<noteq> OpPending"

inductive audit_move :: "promotion_audit \<Rightarrow> promotion_audit \<Rightarrow> bool" where
  audit_complete: "pa_outcome a = OpPending \<Longrightarrow> outcome \<noteq> OpPending \<Longrightarrow>
     audit_move a (completed outcome t code message a)"

inductive_cases audit_moveE: "audit_move a b"

definition audit_version :: "promotion_audit \<Rightarrow> nat" where
  "audit_version a = (if pa_outcome a = OpPending then 0 else 1)"

interpretation audits: versioned_rows pa_id audit_version audit_move audit_final
  by unfold_locales (auto elim!: audit_moveE simp: completed_def audit_version_def audit_final_def)

lemma complete_attempt_evolves:
  "outcome \<noteq> OpPending \<Longrightarrow> evolves audit_move A (snd (complete_attempt i outcome t c m A))"
  unfolding complete_attempt_def snd_conv
  by (rule evolves_update) (auto simp: pending_audit_def intro: audit_complete)

lemma create_attempt_evolves:
  "evolves audit_move A (snd (create_attempt company_of i now q k p d ev A))"
  by (auto simp: create_attempt_def Let_def split: option.splits)

end
