(* ===== verification/Promotion_Correct.thy ===== *)
theory Promotion_Correct
  imports Promotion_Service Job_Invariants
begin

text \<open>
  What promotion guarantees: who may assign which alias on what evidence, that a refused
  request changes nothing but the audit trail, that completed audits are immutable, and that
  reconciliation decides every pending audit by the alias it observes.
\<close>

section \<open>Audit rows\<close>

lemma apply_completion_evolves: "evolves audit_move A (apply_completion e A)"
  by (cases e) (auto intro: complete_attempt_evolves)

lemma fold_completions_evolve: "evolves audit_move A (fold apply_completion es A)"
  by (induction es arbitrary: A) (auto intro: evolves_trans apply_completion_evolves)

lemma completed_simps [simp]:
  "pa_id (completed out t c m a) = pa_id a" "pa_outcome (completed out t c m a) = out"
  "pa_decision (completed out t c m a) = pa_decision a" "pa_error_code (completed out t c m a) = c"
  "pa_version (completed out t c m a) = pa_version a" "pa_alias (completed out t c m a) = pa_alias a"
  "pa_user (completed out t c m a) = pa_user a" "pa_policy (completed out t c m a) = pa_policy a"
  "pa_name (completed out t c m a) = pa_name a" "pa_created_at (completed out t c m a) = pa_created_at a"
  by (simp_all add: completed_def)

lemma complete_fresh:
  assumes "\<And>b. b \<in> set A \<Longrightarrow> pa_id b \<noteq> pa_id a" and "pa_outcome a = OpPending"
  shows "complete_attempt (pa_id a) out t c m (A @ [a]) =
    (Some (completed out t c m a), A @ [completed out t c m a])"
proof -
  have "update_where (pending_audit (pa_id a)) (completed out t c m) A = A"
    "returning (pending_audit (pa_id a)) (completed out t c m) A = []"
    using assms(1) by (auto simp: pending_audit_def intro: update_where_none)
  then show ?thesis using assms(2)
    by (simp add: complete_attempt_def update_where_def returning_def pending_audit_def)
qed

lemma create_attempt_Inr:
  assumes "create_attempt company_of i now q k p d ev A = (Inr a, B)"
  shows "B = A @ [a] \<and> pa_id a = i \<and> pa_outcome a = OpPending \<and> pa_decision a = d \<and> pa_policy a = ev \<and>
    pa_version a = pq_version q \<and> pa_alias a = pq_alias q \<and> pa_user a = pq_user q \<and> pa_name a = pq_name q \<and>
    pa_force a = pq_force q \<and> pa_reason a = pq_reason q \<and> i \<notin> pa_id ` set A \<and> pq_alias q \<noteq> Candidate"
  using assms by (auto simp: create_attempt_def Let_def split: option.splits if_splits)

lemma create_attempt_Inl: "create_attempt company_of i now q k p d ev A = (Inl e, B) \<Longrightarrow> B = A"
  by (auto simp: create_attempt_def Let_def split: option.splits if_splits)

section \<open>Requirements of a promotion\<close>

lemma authorize_Inr:
  "authorize q role = Inr u \<longleftrightarrow> pq_alias q \<noteq> Candidate \<and> (pq_alias q = Champion \<longrightarrow> role = Admin) \<and>
    (pq_alias q = Challenger \<longrightarrow> role \<in> {Admin, Engineer}) \<and>
    (pq_force q \<longrightarrow> role = Admin \<and> (\<exists>s. pq_reason q = Some s \<and> strip s \<noteq> [])) \<and>
    (\<forall>s. pq_reason q = Some s \<longrightarrow> length s \<le> 2000)"
  by (auto simp: authorize_def split: option.splits)

lemma promotion_evidence_Inr:
  assumes "promotion_evidence tn T v = Inr c"
  shows "\<exists>job \<in> set T. visible tn job \<and> job_status job = Succeeded \<and> job_model_name job = rv_name v \<and>
      job_registered_model_version job = Some (rv_version v) \<and> job_key job = rv_key v \<and>
      job_metrics job = Some (pc_metrics c) \<and> pc_key c = rv_key v"
proof -
  obtain found where found: "find_succeeded_model_version tn (rv_name v) (rv_version v) T = Inr found"
    using assms by (cases "find_succeeded_model_version tn (rv_name v) (rv_version v) T")
      (auto simp: promotion_evidence_def)
  then obtain job where job: "found = Some job" "job_key job = rv_key v"
    "job_metrics job = Some (pc_metrics c)" "pc_key c = rv_key v"
    using assms by (auto simp: promotion_evidence_def split: option.splits if_splits)
  with found show ?thesis
    by (auto simp: find_succeeded_model_version_def scalar_one_or_none_Some dest!: filter_single)
qed

lemma assess_Inr:
  assumes "assess env tn q role W = Inr (c, previous, ev)"
  shows "authorize q role = Inr () \<and>
    (\<exists>v. reg_resolve (pe_registry env) (pe_drift env 0 (pw_registry W)) (pq_name q) (pq_version q) = Inr v \<and>
       rv_status v = Ready \<and> promotion_evidence tn (pw_jobs W) v = Inr c) \<and>
    (ev_accepted ev \<longrightarrow> transition_allowed (pe_registry env) (pe_drift env 2 (pw_registry W)) q = Inr True)"
  using assms by (auto simp: assess_def Let_def blocked_evaluation_def split: if_splits)

text \<open>What must hold for an alias to be moved.\<close>

definition promotable :: "'s promotion_env \<Rightarrow> tenant \<Rightarrow> promotion_request \<Rightarrow> user_role \<Rightarrow> 's promotion_world \<Rightarrow> bool" where
  "promotable env tn q role W \<longleftrightarrow>
     pq_alias q \<noteq> Candidate \<and> role \<noteq> Operator \<and>
     (role = Engineer \<longrightarrow> pq_alias q = Challenger \<and> \<not> pq_force q) \<and>
     (pq_force q \<longrightarrow> (\<exists>s. pq_reason q = Some s \<and> strip s \<noteq> [])) \<and>
     (\<exists>v job. reg_resolve (pe_registry env) (pe_drift env 0 (pw_registry W)) (pq_name q) (pq_version q) = Inr v \<and>
        rv_status v = Ready \<and> job \<in> set (pw_jobs W) \<and> visible tn job \<and> job_status job = Succeeded \<and>
        job_model_name job = rv_name v \<and> job_registered_model_version job = Some (rv_version v) \<and>
        job_key job = rv_key v) \<and>
     (pq_alias q = Champion \<and> \<not> pq_force q \<longrightarrow>
        (\<exists>v. reg_resolve (pe_registry env) (pe_drift env 2 (pw_registry W)) (pq_name q) ''challenger'' = Inr v \<and>
             rv_version v = pq_version q))"

lemma transition_allowed_True:
  "transition_allowed reg s q = Inr True \<Longrightarrow> pq_alias q = Champion \<Longrightarrow> \<not> pq_force q \<Longrightarrow>
    \<exists>v. reg_resolve reg s (pq_name q) ''challenger'' = Inr v \<and> rv_version v = pq_version q"
  by (auto simp: transition_allowed_def resolve_optional_def split: sum.splits option.splits if_splits)

lemma assess_promotable:
  assumes "assess env tn q role W = Inr (c, previous, ev)" and "ev_accepted ev \<or> pq_force q"
  shows "promotable env tn q role W"
proof -
  note a = assess_Inr [OF assms(1)]
  then obtain v where v: "reg_resolve (pe_registry env) (pe_drift env 0 (pw_registry W)) (pq_name q) (pq_version q) = Inr v"
    "rv_status v = Ready" "promotion_evidence tn (pw_jobs W) v = Inr c" by blast
  have auth: "pq_alias q \<noteq> Candidate" "pq_alias q = Champion \<longrightarrow> role = Admin"
    "pq_alias q = Challenger \<longrightarrow> role \<in> {Admin, Engineer}"
    "pq_force q \<longrightarrow> role = Admin \<and> (\<exists>s. pq_reason q = Some s \<and> strip s \<noteq> [])"
    using a authorize_Inr by blast+
  then have roles: "role \<noteq> Operator" "role = Engineer \<longrightarrow> pq_alias q = Challenger \<and> \<not> pq_force q"
    by (cases "pq_alias q"; auto)+
  have "pq_alias q = Champion \<and> \<not> pq_force q \<longrightarrow>
    (\<exists>v. reg_resolve (pe_registry env) (pe_drift env 2 (pw_registry W)) (pq_name q) ''challenger'' = Inr v \<and>
             rv_version v = pq_version q)"
  proof (intro impI)
    assume champion: "pq_alias q = Champion \<and> \<not> pq_force q"
    then have "transition_allowed (pe_registry env) (pe_drift env 2 (pw_registry W)) q = Inr True"
      using a assms(2) by simp
    then show "\<exists>v. reg_resolve (pe_registry env) (pe_drift env 2 (pw_registry W)) (pq_name q) ''challenger'' = Inr v \<and>
             rv_version v = pq_version q"
      using transition_allowed_True champion by metis
  qed
  moreover have "\<exists>v job. reg_resolve (pe_registry env) (pe_drift env 0 (pw_registry W)) (pq_name q) (pq_version q) = Inr v \<and>
        rv_status v = Ready \<and> job \<in> set (pw_jobs W) \<and> visible tn job \<and> job_status job = Succeeded \<and>
        job_model_name job = rv_name v \<and> job_registered_model_version job = Some (rv_version v) \<and>
        job_key job = rv_key v"
    using v promotion_evidence_Inr [OF v(3)] by blast
  moreover have "pq_force q \<longrightarrow> (\<exists>s. pq_reason q = Some s \<and> strip s \<noteq> [])" using auth(4) by blast
  ultimately show ?thesis unfolding promotable_def using auth(1) roles by (intro conjI)
qed

section \<open>Promotion\<close>

text \<open>
  C19: An alias moves only for an entitled requester and with evidence. When a promotion
  succeeds, the alias is not the candidate alias, a champion or a forced promotion was requested
  by an administrator (forced ones with a reason), a challenger by an administrator or engineer,
  the version was READY and trained by a successful job that the requester's company may see and
  whose key is the registered one, and an unforced champion held the challenger alias.
\<close>

theorem promotion_requirements:
  assumes "promote env tn q role W = (Inr out, W')"
  shows "promotable env tn q role W \<and> (ev_accepted (po_evaluation out) \<or> pq_force q)"
  using assms assess_promotable
  by (fastforce simp: promote_def Let_def assign_verified_def finalize_success_def
      split: sum.splits prod.splits option.splits if_splits)

text \<open>
  Without an accepting evaluation or a forced request the registry is not touched: the
  promotion fails, and it leaves either nothing at all or one new audit that records the
  rejection as a failed operation.
\<close>

theorem refused_promotion_changes_nothing:
  assumes "\<And>c previous ev. assess env tn q role W = Inr (c, previous, ev) \<Longrightarrow> \<not> ev_accepted ev \<and> \<not> pq_force q"
  shows "\<not> is_ok (fst (promote env tn q role W)) \<and>
    (snd (promote env tn q role W) = W \<or>
     (\<exists>a. snd (promote env tn q role W) = W\<lparr>pw_audits := pw_audits W @ [a]\<rparr> \<and> pa_id a = pe_new_id env \<and>
        pa_decision a = Rejected \<and> pa_outcome a = OpFailed \<and>
        pa_error_code a = Some ''promotion_policy_rejected''))"
proof (cases "assess env tn q role W")
  case (Inl e)
  then show ?thesis by (simp add: promote_def)
next
  case (Inr v)
  obtain c previous ev where v: "v = (c, previous, ev)" by (cases v)
  then have no: "\<not> ev_accepted ev" "\<not> pq_force q" using assms Inr by auto
  show ?thesis
  proof (cases "create_attempt (pe_company_of env) (pe_new_id env) (pe_clock env 0) q (pc_key c)
      (map_option rv_version previous) (decide_promotion q ev) ev (pw_audits W)")
    case (Pair res A)
    show ?thesis
    proof (cases res)
      case (Inl e)
      then show ?thesis using \<open>assess env tn q role W = Inr v\<close> v Pair by (simp add: promote_def)
    next
      case (Inr a)
      note created = create_attempt_Inr [OF Pair [unfolded Inr]]
      have "b \<in> set (pw_audits W) \<Longrightarrow> pa_id b \<noteq> pa_id a" for b
        using created by (metis image_eqI)
      then have "complete_attempt (pa_id a) OpFailed t cd m (pw_audits W @ [a]) =
        (Some (completed OpFailed t cd m a), pw_audits W @ [completed OpFailed t cd m a])" for t cd m
        using created by (intro complete_fresh) auto
      then show ?thesis using \<open>assess env tn q role W = Inr v\<close> v Pair Inr created no
        by (auto simp: promote_def complete_failed_def decide_promotion_def)
    qed
  qed
qed

lemma audit_moves_fixed:
  "audit_move\<^sup>*\<^sup>* a b \<Longrightarrow> pa_decision b = pa_decision a \<and> pa_version b = pa_version a \<and>
    pa_alias b = pa_alias a \<and> pa_user b = pa_user a \<and> pa_name b = pa_name a"
  by (induction rule: rtranclp_induct) (auto elim!: audit_moveE)

lemma complete_attempt_lookup:
  "lookup pa_id k (snd (complete_attempt i outcome t c m A)) =
    map_option (\<lambda>a. if pending_audit i a then completed outcome t c m a else a) (lookup pa_id k A)"
  unfolding complete_attempt_def by (simp add: lookup_update_where)

lemma complete_attempt_Some:
  assumes "distinct (map pa_id A)" and "complete_attempt i outcome t c m A = (Some a, B)"
  shows "\<exists>b. lookup pa_id i A = Some b \<and> a = completed outcome t c m b \<and> lookup pa_id i B = Some a"
proof -
  have "at_most_one (returning (pending_audit i) (completed outcome t c m) A) = (case lookup pa_id i A of
      None \<Rightarrow> None | Some a \<Rightarrow> if pa_outcome a = OpPending then Some (completed outcome t c m a) else None)"
    by (rule at_most_one_returning [OF assms(1)]) (simp add: pending_audit_def)
  then obtain b where b: "lookup pa_id i A = Some b" "pa_outcome b = OpPending" "a = completed outcome t c m b"
    using assms(2) by (auto simp: complete_attempt_def split: option.splits if_splits)
  moreover have "lookup pa_id i B = Some a"
    using complete_attempt_lookup [of i i outcome t c m A] assms(2) b lookup_SomeD [OF b(1)]
    by (simp add: pending_audit_def)
  ultimately show ?thesis by blast
qed

lemma apply_completion_ids: "map pa_id (apply_completion e A) = map pa_id A"
  by (cases e) (simp add: complete_attempt_def map_update_where)

lemma map_ids_fold: "map pa_id (fold apply_completion es A) = map pa_id A"
  by (induction es arbitrary: A) (simp_all add: apply_completion_ids)

lemma complete_failed_evolves: "evolves audit_move (pw_audits W) (pw_audits (complete_failed env i c m W))"
  by (simp add: complete_failed_def complete_attempt_evolves)

lemma finalize_success_evolves: "evolves audit_move (pw_audits W) (pw_audits (snd (finalize_success env i W)))"
  using complete_attempt_evolves [of OpSucceeded "pw_audits W" i "pe_clock env 1" None None]
  by (auto simp: finalize_success_def split: option.splits prod.splits)

lemma assign_verified_audits [simp]: "pw_audits (snd (assign_verified env q W)) = pw_audits W"
  by (auto simp: assign_verified_def split: sum.splits prod.splits)

lemma after_assign_evolves:
  assumes "evolves audit_move A (pw_audits W)"
  shows "evolves audit_move A (fold apply_completion es (pw_audits W))"
  using evolves_trans [OF assms fold_completions_evolve] .

lemma promote_evolves: "evolves audit_move (pw_audits W) (pw_audits (snd (promote env tn q role W)))"
proof (cases "assess env tn q role W")
  case (Inr v)
  obtain c previous ev where v: "v = (c, previous, ev)" by (cases v)
  obtain res A where cr: "create_attempt (pe_company_of env) (pe_new_id env) (pe_clock env 0) q (pc_key c)
      (map_option rv_version previous) (decide_promotion q ev) ev (pw_audits W) = (res, A)" by fastforce
  have A: "evolves audit_move (pw_audits W) A"
    using create_attempt_evolves [of "pw_audits W"] cr by (metis snd_conv)
  obtain u W2 where va: "assign_verified env q (W\<lparr>pw_audits := A\<rparr>) = (u, W2)" by fastforce
  then have "pw_audits W2 = A" using assign_verified_audits [of env q "W\<lparr>pw_audits := A\<rparr>"] by simp
  then have B: "evolves audit_move (pw_audits W) (pw_audits (W2\<lparr>pw_audits := fold apply_completion (pe_others env) (pw_audits W2)\<rparr>))"
    using evolves_trans [OF A fold_completions_evolve] by simp
  let ?W3 = "W2\<lparr>pw_audits := fold apply_completion (pe_others env) (pw_audits W2)\<rparr>"
  have failed: "evolves audit_move (pw_audits W) (pw_audits (complete_failed env i cd m (W\<lparr>pw_audits := A\<rparr>)))"
    "evolves audit_move (pw_audits W) (pw_audits (complete_failed env i cd m ?W3))" for i cd m
    using evolves_trans [OF _ complete_failed_evolves, of "pw_audits W" "W\<lparr>pw_audits := A\<rparr>"] A
      evolves_trans [OF B complete_failed_evolves] by simp_all
  show ?thesis
  proof (cases res)
    case (Inr audit)
    obtain fr W4 where fin: "finalize_success env (pa_id audit) ?W3 = (fr, W4)" by fastforce
    have "evolves audit_move (pw_audits W) (pw_audits W4)"
      using evolves_trans [OF B finalize_success_evolves, of env "pa_id audit"] fin by simp
    then show ?thesis using \<open>assess env tn q role W = Inr v\<close> v cr va Inr fin B failed
      by (cases u; cases fr) (simp_all add: promote_def Let_def)
  qed (use \<open>assess env tn q role W = Inr v\<close> v cr in \<open>simp add: promote_def\<close>)
qed (simp add: promote_def)

lemma finalize_audit_evolves:
  "out \<noteq> OpPending \<Longrightarrow> evolves audit_move A (snd (finalize_audit fault now i out c m A))"
  using complete_attempt_evolves [of out A i now c m]
  by (auto simp: finalize_audit_def split: option.splits prod.splits)

lemma reconcile_audits_evolves: "evolves audit_move A (snd (reconcile_audits holder fault now as rc A))"
proof (induction as arbitrary: rc A)
  case (Cons a as)
  have fin: "evolves audit_move A (snd (if out = OpSucceeded
       then finalize_audit fault now (pa_id a) OpSucceeded None None A
       else finalize_audit fault now (pa_id a) OpFailed c m A))" for out c m
    by (simp add: finalize_audit_evolves)
  show ?case
  proof (cases "observe holder a")
    case (Inr w)
    show ?thesis
    proof (cases w)
      case (Some out)
      let ?r = "if out = OpSucceeded then finalize_audit fault now (pa_id a) OpSucceeded None None A
         else finalize_audit fault now (pa_id a) OpFailed (Some ''promotion_reconciliation_conflict'')
           (Some ''The governed alias no longer points to the selected model version.'') A"
      have "evolves audit_move A (snd ?r)" using fin .
      moreover have "evolves audit_move A (snd (reconcile_audits holder fault now as rc' B))"
        if "evolves audit_move A B" for B rc'
        using evolves_trans [OF that Cons.IH] .
      ultimately show ?thesis using Inr Some
        by (cases ?r) (auto split: sum.splits bool.splits)
    qed (use Inr Cons.IH in simp)
  qed simp
qed simp

lemma reconcile_promotions_evolves:
  "evolves audit_move A (snd (reconcile_promotions holder fault age now A))"
  by (simp add: reconcile_promotions_def reconcile_audits_evolves)

lemma promote_trace:
  assumes "promote env tn q role W = (Inr out, W')"
  obtains c previous ev audit A r s a B where
    "assess env tn q role W = Inr (c, previous, ev)" "ev_accepted ev \<or> pq_force q"
    "create_attempt (pe_company_of env) (pe_new_id env) (pe_clock env 0) q (pc_key c)
       (map_option rv_version previous) (decide_promotion q ev) ev (pw_audits W) = (Inr audit, A)"
    "reg_assign (pe_registry env) (pe_drift env 3 (pw_registry W)) (pq_name q)
       (alias_value (pq_alias q)) (pq_version q) = (Inr r, s)"
    "complete_attempt (pa_id audit) OpSucceeded (pe_clock env 1) None None
       (fold apply_completion (pe_others env) A) = (Some a, B)"
    "pw_registry W' = s" "pw_audits W' = B" "po_audit out = pa_id audit"
    "po_overridden out = (pq_force q \<and> \<not> ev_accepted ev)"
proof -
  obtain c previous ev where as: "assess env tn q role W = Inr (c, previous, ev)"
    using assms by (auto simp: promote_def split: sum.splits)
  obtain audit A where cr: "create_attempt (pe_company_of env) (pe_new_id env) (pe_clock env 0) q (pc_key c)
       (map_option rv_version previous) (decide_promotion q ev) ev (pw_audits W) = (Inr audit, A)"
    using assms as by (auto simp: promote_def split: sum.splits prod.splits)
  have acc: "ev_accepted ev \<or> pq_force q"
    using assms as cr by (auto simp: promote_def Let_def split: if_splits)
  obtain u W2 where va: "assign_verified env q (W\<lparr>pw_audits := A\<rparr>) = (Inr u, W2)"
    and fin: "finalize_success env (pa_id audit) (W2\<lparr>pw_audits := fold apply_completion (pe_others env) (pw_audits W2)\<rparr>) =
      (Inr (po_completed_at out), W')" and out: "po_audit out = pa_id audit" "po_overridden out = (pq_force q \<and> \<not> ev_accepted ev)"
    using assms as cr acc
    by (auto simp: promote_def Let_def split: sum.splits prod.splits if_splits)
  obtain r s where rs: "reg_assign (pe_registry env) (pe_drift env 3 (pw_registry W)) (pq_name q)
       (alias_value (pq_alias q)) (pq_version q) = (Inr r, s)" "W2 = W\<lparr>pw_audits := A, pw_registry := s\<rparr>"
    using va by (auto simp: assign_verified_def split: sum.splits prod.splits if_splits)
  obtain a B where "complete_attempt (pa_id audit) OpSucceeded (pe_clock env 1) None None
       (fold apply_completion (pe_others env) A) = (Some a, B)" "pw_audits W' = B" "pw_registry W' = s"
    using fin rs(2) by (auto simp: finalize_success_def split: option.splits prod.splits if_splits)
  note c = this
  show thesis by (rule that [OF as acc cr rs(1) c(1) c(3) c(2) out])
qed

context verified_registry
begin

lemma promoted_alias_held:
  assumes "promote env tn q role W = (Inr out, W')" and "pe_registry env = \<lparr>reg_resolve = resolve, reg_assign = assign\<rparr>"
  shows "held_by (pw_registry W') (pq_name q) (alias_value (pq_alias q)) (pq_version q)"
  by (rule promote_trace [OF assms(1)]) (use assigned_is_held assms(2) in auto)

end

text \<open>
  C20: A successful promotion is verified and recorded. In the MLflow registry the alias resolves
  to the requested version afterwards, and the audit trail has a new entry for it, completed as
  succeeded, with the requester, the alias, the version, and the decision approved, or overridden
  when it was forced against the policy.
\<close>

theorem promotion_is_verified_and_recorded:
  assumes "promote env tn q role W = (Inr out, W')" and "pe_registry env = mlflow_registry cl"
    and "distinct (map pa_id (pw_audits W))"
  shows "(\<exists>r. mlflow_resolve cl (pw_registry W') (pq_name q) (alias_value (pq_alias q)) = Inr r \<and>
      rv_version r = pq_version q) \<and>
    po_audit out \<notin> pa_id ` set (pw_audits W) \<and>
    (\<exists>a. lookup pa_id (po_audit out) (pw_audits W') = Some a \<and> pa_outcome a = OpSucceeded \<and>
       pa_decision a = (if po_overridden out then Overridden else Approved) \<and>
       pa_version a = pq_version q \<and> pa_alias a = pq_alias q \<and> pa_user a = pq_user q \<and> pa_name a = pq_name q)"
proof -
  obtain c previous ev audit A r s a B where as: "assess env tn q role W = Inr (c, previous, ev)"
    and t: "ev_accepted ev \<or> pq_force q"
    "create_attempt (pe_company_of env) (pe_new_id env) (pe_clock env 0) q (pc_key c)
       (map_option rv_version previous) (decide_promotion q ev) ev (pw_audits W) = (Inr audit, A)"
    "reg_assign (pe_registry env) (pe_drift env 3 (pw_registry W)) (pq_name q)
       (alias_value (pq_alias q)) (pq_version q) = (Inr r, s)"
    "complete_attempt (pa_id audit) OpSucceeded (pe_clock env 1) None None
       (fold apply_completion (pe_others env) A) = (Some a, B)"
    "pw_registry W' = s" "pw_audits W' = B" "po_audit out = pa_id audit"
    "po_overridden out = (pq_force q \<and> \<not> ev_accepted ev)"
    by (rule promote_trace [OF assms(1)])
  note created = create_attempt_Inr [OF t(2)]
  let ?A = "fold apply_completion (pe_others env) A"
  have "distinct (map pa_id A)" using created assms(3) by auto
  then have d: "distinct (map pa_id ?A)" by (simp add: map_ids_fold)
  have "lookup pa_id (pa_id audit) A = Some audit"
    using created lookup_distinct [OF \<open>distinct (map pa_id A)\<close>, of audit] by simp
  then obtain b where b: "lookup pa_id (pa_id audit) ?A = Some b" "audit_move\<^sup>*\<^sup>* audit b"
    using audits.evolves_lookup [OF fold_completions_evolve] by blast
  obtain b' where b': "lookup pa_id (pa_id audit) ?A = Some b'" "a = completed OpSucceeded (pe_clock env 1) None None b'"
    "lookup pa_id (pa_id audit) B = Some a"
    using complete_attempt_Some [OF d t(4)] by blast
  have "\<exists>r. mlflow_resolve cl (pw_registry W') (pq_name q) (alias_value (pq_alias q)) = Inr r \<and> rv_version r = pq_version q"
    using mlflow.promoted_alias_held [OF assms(1)] assms(2) by (simp add: mlflow_registry_def mlflow.held_by_def)
  then show ?thesis using b b' t created audit_moves_fixed [OF b(2)]
    by (auto simp: decide_promotion_def)
qed

text \<open>
  A completed audit never changes: neither a promotion, whatever it does and whatever other
  actors complete meanwhile, nor a reconciliation pass rewrites it.
\<close>

theorem completed_audits_are_immutable:
  assumes "lookup pa_id i (pw_audits W) = Some a" and "audit_final a"
  shows "lookup pa_id i (pw_audits (snd (promote env tn q role W))) = Some a \<and>
    lookup pa_id i (snd (reconcile_promotions holder fault age now (pw_audits W))) = Some a"
  using audits.evolves_final [OF promote_evolves assms] audits.evolves_final [OF reconcile_promotions_evolves assms]
  by blast

section \<open>Reconciliation\<close>

text \<open>What one pass decides for an audit, by what the registry answers for its alias.\<close>

definition reconciled :: "(promotion_audit \<Rightarrow> registered_version result) \<Rightarrow> timestamp \<Rightarrow> promotion_audit \<Rightarrow> promotion_audit" where
  "reconciled holder now a = (case holder a of
     Inr v \<Rightarrow> if rv_version v = pa_version a then completed OpSucceeded now None None a
       else completed OpFailed now (Some ''promotion_reconciliation_conflict'')
         (Some ''The governed alias no longer points to the selected model version.'') a
   | Inl e \<Rightarrow> if isinstance (exc_of e) [RegisteredModelVersionNotFoundError]
       then completed OpFailed now (Some ''promotion_reconciliation_conflict'')
         (Some ''The governed alias no longer points to the selected model version.'') a
       else a)"

definition registry_errors_only :: "(promotion_audit \<Rightarrow> registered_version result) \<Rightarrow> bool" where
  "registry_errors_only holder \<longleftrightarrow> (\<forall>a e. holder a = Inl e \<longrightarrow> isinstance (exc_of e) [ModelRegistryError])"

lemma reconciled_id [simp]: "pa_id (reconciled holder now a) = pa_id a"
  by (simp add: reconciled_def split: sum.split)

lemma complete_known:
  assumes "distinct (map pa_id A)" and "a \<in> set A" and "pa_outcome a = OpPending"
  shows "complete_attempt (pa_id a) out t c m A = (Some (completed out t c m a),
    map (\<lambda>b. if pa_id b = pa_id a then completed out t c m b else b) A)"
proof -
  have same: "b \<in> set A \<Longrightarrow> pa_id b = pa_id a \<Longrightarrow> b = a" for b
    using assms(1,2) by (metis lookup_distinct option.inject)
  have "at_most_one (returning (pending_audit (pa_id a)) (completed out t c m) A) = (case lookup pa_id (pa_id a) A of
      None \<Rightarrow> None | Some a \<Rightarrow> if pa_outcome a = OpPending then Some (completed out t c m a) else None)"
    by (rule at_most_one_returning [OF assms(1)]) (simp add: pending_audit_def)
  moreover have "update_where (pending_audit (pa_id a)) (completed out t c m) A =
      map (\<lambda>b. if pa_id b = pa_id a then completed out t c m b else b) A"
    using same assms(3) by (auto simp: update_where_def pending_audit_def)
  ultimately show ?thesis
    using lookup_distinct [OF assms(1,2)] assms(3) by (simp add: complete_attempt_def)
qed

lemma reconcile_step:
  assumes "registry_errors_only holder" and "distinct (map pa_id A)" and "a \<in> set A" and "pa_outcome a = OpPending"
  shows "\<exists>rc'. reconcile_audits holder (\<lambda>_. False) now (a # as) rc A =
    reconcile_audits holder (\<lambda>_. False) now as rc'
      (map (\<lambda>b. if pa_id b = pa_id a then reconciled holder now b else b) A)"
proof -
  have same: "b \<in> set A \<Longrightarrow> pa_id b = pa_id a \<Longrightarrow> b = a" for b
    using assms(2,3) by (metis lookup_distinct option.inject)
  have table: "map (\<lambda>b. if pa_id b = pa_id a then f b else b) A =
      map (\<lambda>b. if pa_id b = pa_id a then reconciled holder now b else b) A" if "f a = reconciled holder now a" for f
    using that same by auto
  have keep: "map (\<lambda>b. if pa_id b = pa_id a then reconciled holder now b else b) A = A"
    if "reconciled holder now a = a"
    by (rule map_idI) (use that same in auto)
  have decide: "\<exists>rc'. reconcile_audits holder (\<lambda>_. False) now (a # as) rc A =
      reconcile_audits holder (\<lambda>_. False) now as rc' (map (\<lambda>b. if pa_id b = pa_id a then f b else b) A)"
    if "observe holder a = Inr (Some out)" "f = (if out = OpSucceeded then completed OpSucceeded now None None
        else completed OpFailed now (Some ''promotion_reconciliation_conflict'')
          (Some ''The governed alias no longer points to the selected model version.''))" for out f
    using that by (auto simp: finalize_audit_def complete_known [OF assms(2-4)])
  consider (found) v where "holder a = Inr v"
    | (missing) e where "holder a = Inl e" "isinstance (exc_of e) [RegisteredModelVersionNotFoundError]"
    | (unavailable) e where "holder a = Inl e" "\<not> isinstance (exc_of e) [RegisteredModelVersionNotFoundError]"
        "isinstance (exc_of e) [ModelRegistryError]"
    using assms(1) unfolding registry_errors_only_def by (cases "holder a") blast+
  then show ?thesis
  proof cases
    case found
    then have "observe holder a = Inr (Some (if rv_version v = pa_version a then OpSucceeded else OpFailed))"
      by (simp add: observe_def)
    from decide [OF this refl] show ?thesis
      by (subst (asm) table) (use found in \<open>simp_all add: reconciled_def\<close>)
  next
    case missing
    then have "observe holder a = Inr (Some OpFailed)" by (simp add: observe_def)
    from decide [OF this refl] show ?thesis
      by (subst (asm) table) (use missing in \<open>simp_all add: reconciled_def\<close>)
  next
    case unavailable
    then show ?thesis using keep by (auto simp: observe_def reconciled_def)
  qed
qed

lemma reconcile_audits_spec:
  assumes "registry_errors_only holder" and "distinct (map pa_id A)" and "distinct (map pa_id as)"
    and "\<And>a. a \<in> set as \<Longrightarrow> a \<in> set A \<and> pa_outcome a = OpPending"
  shows "\<exists>rc'. reconcile_audits holder (\<lambda>_. False) now as rc A =
    (Inr rc', map (\<lambda>b. if pa_id b \<in> pa_id ` set as then reconciled holder now b else b) A)"
  using assms(2-)
proof (induction as arbitrary: rc A)
  case (Cons a as)
  have a: "a \<in> set A" "pa_outcome a = OpPending" using Cons.prems(3) by auto
  let ?B = "map (\<lambda>b. if pa_id b = pa_id a then reconciled holder now b else b) A"
  have "map pa_id ?B = map pa_id A" by simp
  then have dB: "distinct (map pa_id ?B)" using Cons.prems(1) by (simp only:)
  have others: "b \<in> set ?B \<and> pa_outcome b = OpPending" if "b \<in> set as" for b
  proof -
    have "pa_id b \<noteq> pa_id a" using that Cons.prems(2) by (auto simp: image_iff)
    moreover have b: "b \<in> set A" "pa_outcome b = OpPending" using that Cons.prems(3) by auto
    ultimately have "b \<in> (\<lambda>b. if pa_id b = pa_id a then reconciled holder now b else b) ` set A"
      by (intro image_eqI [of _ _ b]) simp_all
    then show ?thesis using b(2) by simp
  qed
  have same: "b \<in> set A \<Longrightarrow> pa_id b = pa_id a \<Longrightarrow> b = a" for b
    using Cons.prems(1) a(1) by (metis lookup_distinct option.inject)
  have combine: "map (\<lambda>b. if pa_id b \<in> pa_id ` set as then reconciled holder now b else b) ?B =
      map (\<lambda>b. if pa_id b \<in> pa_id ` set (a # as) then reconciled holder now b else b) A"
    using Cons.prems(2) by auto
  obtain rc1 where step: "reconcile_audits holder (\<lambda>_. False) now (a # as) rc A =
      reconcile_audits holder (\<lambda>_. False) now as rc1 ?B"
    using reconcile_step [OF assms(1) Cons.prems(1) a] by blast
  have "distinct (map pa_id as)" using Cons.prems(2) by simp
  then obtain rc2 where "reconcile_audits holder (\<lambda>_. False) now as rc1 ?B =
      (Inr rc2, map (\<lambda>b. if pa_id b \<in> pa_id ` set as then reconciled holder now b else b) ?B)"
    using Cons.IH [OF dB _ others] by blast
  then show ?case unfolding step combine by blast
qed simp

text \<open>
  Reconciliation decides exactly the pending audits older than the threshold, by what it
  observes: succeeded when the alias points to the audited version, failed with the conflict code
  when it points elsewhere or nowhere, and left pending when the registry is unavailable. Every
  other audit is unchanged.
\<close>

theorem reconciliation_decides_pending:
  assumes "registry_errors_only holder" and "distinct (map pa_id A)"
  shows "\<exists>rc. reconcile_promotions holder (\<lambda>_. False) age now A =
    (Inr rc, map (\<lambda>a. if pa_outcome a = OpPending \<and> pa_created_at a < now - int age * second
       then reconciled holder now a else a) A)"
proof -
  let ?old = "\<lambda>a. pa_outcome a = OpPending \<and> pa_created_at a < now - int age * second"
  let ?as = "list_pending_before (now - int age * second) A"
  have set: "set ?as = {a \<in> set A. ?old a}" by (auto simp: list_pending_before_def)
  have "distinct (map pa_id ?as)"
    using assms(2) by (auto simp: list_pending_before_def distinct_map intro: inj_on_subset)
  then obtain rc where "reconcile_promotions holder (\<lambda>_. False) age now A =
      (Inr rc, map (\<lambda>b. if pa_id b \<in> pa_id ` set ?as then reconciled holder now b else b) A)"
    unfolding reconcile_promotions_def using reconcile_audits_spec [OF assms(1,2)] set by blast
  moreover have "pa_id b \<in> pa_id ` set ?as \<longleftrightarrow> ?old b" if "b \<in> set A" for b
    using that assms(2) unfolding set by (auto simp: distinct_map dest: inj_onD)
  ultimately show ?thesis by (auto cong: map_cong)
qed

section \<open>Witnesses\<close>

definition sample_version :: registered_version where
  "sample_version = \<lparr>rv_name = ''pump_model'', rv_version = ''1'', rv_run_id = ''r'', rv_source_uri = ''u'',
     rv_key = random_forest_key Regression, rv_status = Ready, rv_aliases = [''challenger'']\<rparr>"

definition sample_model_version :: model_version where
  "sample_model_version = \<lparr>mv_name = ''pump_model'', mv_version = ''1'', mv_run_id = Some ''r'',
     mv_source = ''u'', mv_status = ''READY'',
     mv_tags = Some [(''algorithm'', ''random_forest''), (''task_type'', ''regression'')],
     mv_aliases = Some [''challenger'']\<rparr>"

definition sample_client :: "unit mlflow_client" where
  "sample_client = \<lparr>client_get_version = (\<lambda>_ _ _. Inr sample_model_version),
     client_get_by_alias = (\<lambda>_ _ a. if a = ''challenger'' then Inr sample_model_version
       else Inl ''RESOURCE_DOES_NOT_EXIST''),
     client_get_model = (\<lambda>_ _. None), client_set_alias = (\<lambda>s _ _ _. (None, s)),
     client_create_model = (\<lambda>s _ _. (None, s)),
     client_create_version = (\<lambda>s _ _. (Inr sample_model_version, s))\<rparr>"

definition sample_trained :: training_job where
  "sample_trained = sample_job\<lparr>job_key := random_forest_key Regression, job_status := Succeeded,
     job_registered_model_version := Some ''1'', job_metrics := Some [''rmse'' \<mapsto> Fin 2, ''r2'' \<mapsto> Fin 1]\<rparr>"

definition sample_promotion_env :: "unit promotion_env" where
  "sample_promotion_env = \<lparr>pe_registry = mlflow_registry sample_client,
     pe_regression = \<lparr>rp_minimum_r2 = 0, rp_minimum_improvement = 0\<rparr>,
     pe_classification = \<lparr>cp_minimum_accuracy = 0, cp_minimum_improvement = 0\<rparr>,
     pe_company_of = (\<lambda>_. Some 9), pe_new_id = 4, pe_clock = (\<lambda>n. 100 + int n), pe_drift = (\<lambda>_ s. s),
     pe_others = [], pe_store_fault = False\<rparr>"

definition sample_request :: "model_alias \<Rightarrow> promotion_request" where
  "sample_request a = \<lparr>pq_name = ''pump_model'', pq_version = ''1'', pq_alias = a, pq_user = 5,
     pq_force = False, pq_reason = None\<rparr>"

definition sample_promotion_world :: "unit promotion_world" where
  "sample_promotion_world = \<lparr>pw_registry = (), pw_audits = [], pw_jobs = [sample_trained]\<rparr>"

lemma sample_references:
  "validate_registered_model_name ''pump_model'' = Inr ''pump_model''"
  "validate_version_or_alias ''1'' = Inr ''1''" "validate_version_or_alias ''challenger'' = Inr ''challenger''"
  "isdigit ''1''" "\<not> isdigit ''challenger''"
  by (simp_all add: validate_registered_model_name_def validate_version_or_alias_def model_name_pattern_def
      model_alias_pattern_def name_char_def alias_char_def lower_char_def upper_char_def ascii_digit_def
      digit_char_def isdigit_def py_int_def)

lemma sample_platform_version: "to_platform_version sample_model_version = Inr sample_version"
proof -
  have "platform_key [(''algorithm'', ''random_forest''), (''task_type'', ''regression'')] ''READY'' =
      Inr (random_forest_key Regression, Ready)"
    by (simp add: platform_key_def parse_version_status_def random_forest_key_def parse_algorithm_def
        all_algorithms_def parse_task_def)
  then show ?thesis
    by (simp add: to_platform_version_def sample_model_version_def make_registered_version_def
        sample_references positive_version_def py_int_def ascii_digit_def registry_validate_text_def
        strip_def lstrip_def py_isspace_def sample_version_def Let_def guard_that_def)
qed

lemma sample_resolve:
  "mlflow_resolve sample_client s ''pump_model'' ''1'' = Inr sample_version"
  "mlflow_resolve sample_client s ''pump_model'' ''challenger'' = Inr sample_version"
  "mlflow_assign_alias sample_client s ''pump_model'' ''challenger'' ''1'' = (Inr sample_version, s)"
proof -
  show "mlflow_resolve sample_client s ''pump_model'' ''1'' = Inr sample_version"
    by (simp add: mlflow_resolve_def sample_references) (simp add: sample_client_def sample_platform_version)
  show c: "mlflow_resolve sample_client s ''pump_model'' ''challenger'' = Inr sample_version"
    by (simp add: mlflow_resolve_def sample_references) (simp add: sample_client_def sample_platform_version)
  have "client_set_alias sample_client s n a v = (None, s)" for n a v by (simp add: sample_client_def)
  then show "mlflow_assign_alias sample_client s ''pump_model'' ''challenger'' ''1'' = (Inr sample_version, s)"
    using c by (simp add: mlflow_assign_alias_def sample_references guard_that_def) (simp add: sample_version_def)
qed

lemma sample_evidence:
  "promotion_evidence None [sample_trained] sample_version = Inr
     \<lparr>pc_name = ''pump_model'', pc_version = ''1'', pc_key = random_forest_key Regression,
      pc_metrics = [''rmse'' \<mapsto> Fin 2, ''r2'' \<mapsto> Fin 1]\<rparr>"
  by (simp add: promotion_evidence_def find_succeeded_model_version_def visible_def sample_trained_def
      sample_version_def) (simp add: sample_spec_def)

lemma sample_assess:
  "\<exists>c p ev. assess sample_promotion_env None (sample_request Challenger) Engineer sample_promotion_world =
     Inr (c, p, ev) \<and> ev_accepted ev"
proof -
  have reg: "pe_registry sample_promotion_env = mlflow_registry sample_client"
    "pe_drift sample_promotion_env = (\<lambda>_ s. s)" by (simp_all add: sample_promotion_env_def)
  have "authorize (sample_request Challenger) Engineer = Inr ()"
    by (simp add: authorize_Inr sample_request_def)
  moreover have "resolve_optional (mlflow_registry sample_client) () ''pump_model'' Challenger = Inr (Some sample_version)"
    by (simp add: resolve_optional_def mlflow_registry_def sample_resolve)
  moreover have "transition_allowed (mlflow_registry sample_client) () (sample_request Challenger) = Inr True"
    by (simp add: transition_allowed_def sample_request_def)
  ultimately show ?thesis
    by (simp add: assess_def Let_def reg sample_evidence sample_promotion_world_def)
       (simp add: sample_request_def mlflow_registry_def sample_resolve sample_evidence,
        simp add: sample_version_def evaluate_policy_def random_forest_key_def sample_promotion_env_def
          regression_incumbent regression_safe_def metric_def relative_improvement_def)
qed

lemma sample_promote:
  "\<exists>out W'. promote sample_promotion_env None (sample_request Challenger) Engineer sample_promotion_world = (Inr out, W')"
proof -
  obtain c p ev where a: "assess sample_promotion_env None (sample_request Challenger) Engineer sample_promotion_world =
     Inr (c, p, ev)" "ev_accepted ev" using sample_assess by blast
  obtain au where cr: "create_attempt (\<lambda>_. Some 9) 4 100 (sample_request Challenger) (pc_key c)
      (map_option rv_version p) Approved ev [] = (Inr au, [au])" "pa_outcome au = OpPending" "pa_id au = 4"
    by (simp add: create_attempt_def sample_request_def Let_def)
  have env: "pe_registry sample_promotion_env = mlflow_registry sample_client" "pe_company_of sample_promotion_env = (\<lambda>_. Some 9)"
    "pe_drift sample_promotion_env = (\<lambda>_ s. s)" "pe_clock sample_promotion_env 0 = 100" "pe_new_id sample_promotion_env = 4"
    "pe_others sample_promotion_env = []" "\<not> pe_store_fault sample_promotion_env"
    by (simp_all add: sample_promotion_env_def)
  have world: "pw_registry sample_promotion_world = ()" "pw_audits sample_promotion_world = []"
    by (simp_all add: sample_promotion_world_def)
  have q: "pq_name (sample_request Challenger) = ''pump_model''" "pq_version (sample_request Challenger) = ''1''"
    "pq_alias (sample_request Challenger) = Challenger" by (simp_all add: sample_request_def)
  have v: "rv_version sample_version = ''1''" "rv_aliases sample_version = [''challenger'']"
    by (simp_all add: sample_version_def)
  show ?thesis using a complete_fresh [of "[]" au] cr(2,3)
    by (simp add: promote_def env world cr assign_verified_def mlflow_registry_def q v sample_resolve
        finalize_success_def Let_def decide_promotion_def)
qed

theorem promotion_requirements_witness:
  "promotable sample_promotion_env None (sample_request Challenger) Engineer sample_promotion_world"
proof -
  obtain out W' where "promote sample_promotion_env None (sample_request Challenger) Engineer
      sample_promotion_world = (Inr out, W')" using sample_promote by blast
  then show ?thesis using promotion_requirements by blast
qed

theorem promotion_is_verified_and_recorded_witness:
  "\<exists>out W' a. promote sample_promotion_env None (sample_request Challenger) Engineer sample_promotion_world =
     (Inr out, W') \<and> lookup pa_id (po_audit out) (pw_audits W') = Some a \<and> pa_outcome a = OpSucceeded"
proof -
  obtain out W' where p: "promote sample_promotion_env None (sample_request Challenger) Engineer
      sample_promotion_world = (Inr out, W')" using sample_promote by blast
  have "pe_registry sample_promotion_env = mlflow_registry sample_client"
    "distinct (map pa_id (pw_audits sample_promotion_world))"
    by (simp_all add: sample_promotion_env_def sample_promotion_world_def)
  from promotion_is_verified_and_recorded [OF p this] p show ?thesis by blast
qed

theorem refused_promotion_changes_nothing_witness:
  "\<not> is_ok (fst (promote sample_promotion_env None (sample_request Champion) Engineer sample_promotion_world))"
proof -
  have "authorize (sample_request Champion) Engineer = Inl (Exc PromotionAuthorizationError
      ''Only administrators may promote a champion model.'')"
    by (simp add: authorize_def sample_request_def guard_that_def)
  then have "assess sample_promotion_env None (sample_request Champion) Engineer sample_promotion_world =
      Inl (Exc PromotionAuthorizationError ''Only administrators may promote a champion model.'')"
    by (simp add: assess_def Let_def)
  then show ?thesis
    using refused_promotion_changes_nothing [of sample_promotion_env None "sample_request Champion" Engineer
        sample_promotion_world] by simp
qed

definition sample_audit :: "operation_outcome \<Rightarrow> promotion_audit" where
  "sample_audit outcome = \<lparr>pa_id = 3, pa_company = 9, pa_name = ''pump_model'', pa_version = ''1'',
     pa_key = random_forest_key Regression, pa_alias = Challenger, pa_previous = None, pa_user = 5,
     pa_decision = Approved, pa_policy = evaluate_regression \<lparr>rp_minimum_r2 = 0, rp_minimum_improvement = 0\<rparr>
       (sample_candidate 1 1) None,
     pa_force = False, pa_reason = None, pa_outcome = outcome, pa_created_at = 1, pa_completed_at = None,
     pa_error_code = None, pa_message = None\<rparr>"

theorem completed_audits_are_immutable_witness:
  "lookup pa_id 3 (pw_audits (snd (promote sample_promotion_env None (sample_request Challenger) Engineer
      (sample_promotion_world\<lparr>pw_audits := [sample_audit OpFailed]\<rparr>)))) = Some (sample_audit OpFailed)"
  by (rule completed_audits_are_immutable [THEN conjunct1])
     (simp_all add: sample_audit_def audit_final_def)

theorem reconciliation_decides_pending_witness:
  "\<exists>rc. reconcile_promotions (\<lambda>a. Inr sample_version) (\<lambda>_. False) 10 (100 * second) [sample_audit OpPending] =
    (Inr rc, [completed OpSucceeded (100 * second) None None (sample_audit OpPending)])"
proof -
  have "registry_errors_only (\<lambda>a. Inr sample_version)" by (simp add: registry_errors_only_def)
  from reconciliation_decides_pending [OF this, of "[sample_audit OpPending]" 10 "100 * second"]
  show ?thesis by (simp add: sample_audit_def reconciled_def sample_version_def)
qed

end
