(* ===== verification/Monitoring_Models.thy ===== *)
theory Monitoring_Models
  imports Job_Repository
begin

text \<open>
  The contracts of prediction monitoring (\<^verbatim>\<open>ml/monitoring/models.py\<close>): request
  summaries, prediction events, reference profiles, thresholds and drift reports, with the
  validators of their constructors. Statistics are reals: the validators reject non-finite
  floats, so a validated value has none. Dictionaries are association lists.
\<close>

section \<open>Severities\<close>

datatype drift_severity = SeverityStable | SeverityWarning | SeverityCritical | SeverityInsufficient

fun severity_order :: "drift_severity \<Rightarrow> nat" where
  "severity_order SeverityInsufficient = 0"
| "severity_order SeverityStable = 1"
| "severity_order SeverityWarning = 2"
| "severity_order SeverityCritical = 3"

lemma severity_order_inj: "severity_order s = severity_order t \<Longrightarrow> s = t"
  by (cases s; cases t) auto

instantiation drift_severity :: linorder
begin

definition less_eq_drift_severity :: "drift_severity \<Rightarrow> drift_severity \<Rightarrow> bool" where
  "less_eq_drift_severity s t \<longleftrightarrow> severity_order s \<le> severity_order t"

definition less_drift_severity :: "drift_severity \<Rightarrow> drift_severity \<Rightarrow> bool" where
  "less_drift_severity s t \<longleftrightarrow> severity_order s < severity_order t"

instance
  by standard (auto simp: less_eq_drift_severity_def less_drift_severity_def intro: severity_order_inj)

end

datatype quality_severity = QualityWarning | QualityCritical

section \<open>Request summaries\<close>

definition invalid :: "string \<Rightarrow> 'a result" where
  "invalid m = Inl (Exc ValueError m)"

lemma invalid_neq [simp]: "invalid m \<noteq> Inr x" by (simp add: invalid_def)

record numeric_summary =
  ns_count :: int
  ns_missing :: int
  ns_finite :: int
  ns_minimum :: "real option"
  ns_maximum :: "real option"
  ns_mean :: "real option"
  ns_deviation :: "real option"
  ns_quantiles :: "(string \<times> real) list"

definition make_numeric_summary :: "numeric_summary \<Rightarrow> numeric_summary result" where
  "make_numeric_summary s =
     (if ns_count s < 0 \<or> ns_missing s < 0 \<or> ns_finite s < 0
      then invalid ''Numeric summary counts must be non-negative.''
      else if ns_missing s > ns_count s \<or> ns_finite s > ns_count s
      then invalid ''Numeric summary component counts exceed count.''
      else case ns_minimum s of
        None \<Rightarrow> if ns_maximum s \<noteq> None \<or> ns_mean s \<noteq> None \<or> ns_deviation s \<noteq> None \<or> ns_quantiles s \<noteq> []
          then invalid ''Empty numeric summaries cannot contain statistics.'' else Inr s
      | Some minimum \<Rightarrow> (case (ns_maximum s, ns_mean s, ns_deviation s) of
          (Some maximum, Some mean, Some deviation) \<Rightarrow>
            if ns_finite s = 0 then invalid ''Numeric summary statistics must be finite.''
            else if minimum > maximum then invalid ''Numeric summary bounds are invalid.''
            else if deviation < 0 then invalid ''Numeric standard deviation must be non-negative.''
            else Inr s
        | _ \<Rightarrow> invalid ''Numeric summary statistics must be complete.''))"

record feature_request_profile =
  fp_index :: int
  fp_summary :: numeric_summary
  fp_bins :: "int list option"
  fp_out_of_range :: int

definition make_feature_request_profile :: "feature_request_profile \<Rightarrow> feature_request_profile result" where
  "make_feature_request_profile p =
     (if fp_index p < 0 \<or> fp_out_of_range p < 0
      then invalid ''Feature profile counts and index must be non-negative.''
      else if fp_out_of_range p > ns_finite (fp_summary p)
      then invalid ''Out-of-range count exceeds the finite feature count.''
      else case fp_bins p of None \<Rightarrow> Inr p
      | Some bins \<Rightarrow> if bins = [] \<or> list_ex (\<lambda>c. c < 0) bins
          then invalid ''Reference-bin counts must be non-empty and non-negative.''
          else if sum_list bins \<noteq> ns_finite (fp_summary p)
          then invalid ''Reference-bin counts must cover all finite values.'' else Inr p)"

definition max_class_labels :: nat where "max_class_labels = 100"

record class_profile =
  cl_count :: int
  cl_class_counts :: "(string \<times> int) list"
  cl_other :: int

definition make_class_profile :: "class_profile \<Rightarrow> class_profile result" where
  "make_class_profile p =
     (if cl_count p < 0 \<or> cl_other p < 0 then invalid ''Classification counts must be non-negative.''
      else if length (cl_class_counts p) > max_class_labels
      then invalid ''Classification profile contains too many labels.''
      else if list_ex (\<lambda>(l, c). l = [] \<or> c < 0) (cl_class_counts p)
      then invalid ''Classification label counts are invalid.''
      else if sum_list (map snd (cl_class_counts p)) + cl_other p \<noteq> cl_count p
      then invalid ''Classification label counts must sum to count.'' else Inr p)"

datatype prediction_profile =
    RegressionProfile (reg_summary: numeric_summary) (reg_bins: "int list option")
  | ClassificationProfile (class_of: class_profile)

fun make_prediction_profile :: "prediction_profile \<Rightarrow> prediction_profile result" where
  "make_prediction_profile (RegressionProfile s bins) =
     (case bins of None \<Rightarrow> Inr (RegressionProfile s bins)
      | Some bs \<Rightarrow> if bs = [] \<or> list_ex (\<lambda>c. c < 0) bs \<or> sum_list bs \<noteq> ns_finite s
          then invalid ''Prediction-bin counts must cover all finite values.''
          else Inr (RegressionProfile s bins))"
| "make_prediction_profile (ClassificationProfile p) =
     bind_result (make_class_profile p) (\<lambda>p. Inr (ClassificationProfile p))"

section \<open>Prediction events\<close>

datatype event_status = EventSucceeded | EventFailed

record prediction_event =
  pe_id :: uuid
  pe_requested_by :: uuid
  pe_model_name :: string
  pe_reference :: string
  pe_version :: "string option"
  pe_aliases :: "string list"
  pe_key :: trainer_key
  pe_status :: event_status
  pe_rows :: int
  pe_features :: int
  pe_duration_ms :: real
  pe_profile :: "feature_request_profile list"
  pe_prediction :: "prediction_profile option"
  pe_error_code :: "string option"
  pe_message :: "string option"
  pe_correlation :: "string option"
  pe_created_at :: timestamp
  pe_completed_at :: timestamp

definition make_prediction_event :: "prediction_event \<Rightarrow> prediction_event result" where
  "make_prediction_event e =
     (if pe_model_name e = [] \<or> pe_reference e = []
      then invalid ''Prediction model references must be non-empty.''
      else if pe_rows e < 0 \<or> pe_features e < 0 \<or> pe_duration_ms e < 0
      then invalid ''Prediction event dimensions and duration are non-negative.''
      else if pe_completed_at e < pe_created_at e
      then invalid ''Prediction completion cannot precede its start.''
      else if int (length (pe_profile e)) \<noteq> pe_features e
      then invalid ''Feature profile count must match feature_count.''
      else if pe_status e = EventSucceeded \<and> (pe_rows e = 0 \<or> pe_version e = None \<or>
          pe_prediction e = None \<or> pe_error_code e \<noteq> None \<or> pe_message e \<noteq> None)
      then invalid ''Successful prediction event fields are inconsistent.''
      else if pe_status e \<noteq> EventSucceeded \<and> pe_prediction e \<noteq> None
      then invalid ''Failed prediction events cannot contain predictions.''
      else if (pe_error_code e = None) \<noteq> (pe_message e = None)
      then invalid ''Failure code and safe message must be supplied together.''
      else Inr e)"

section \<open>Reference profiles\<close>

record numeric_reference =
  nr_summary :: numeric_summary
  nr_edges :: "real list"
  nr_bins :: "int list"

definition make_numeric_reference :: "numeric_reference \<Rightarrow> numeric_reference result" where
  "make_numeric_reference r =
     (if sort (remdups (nr_edges r)) \<noteq> nr_edges r
      then invalid ''Reference bin edges must be strictly increasing.''
      else if length (nr_bins r) \<noteq> length (nr_edges r) + 1
      then invalid ''Reference histogram size does not match its edges.''
      else if list_ex (\<lambda>c. c < 0) (nr_bins r) then invalid ''Reference bin counts must be non-negative.''
      else if sum_list (nr_bins r) \<noteq> ns_finite (nr_summary r)
      then invalid ''Reference bins must cover all finite observations.'' else Inr r)"

datatype prediction_reference =
    RegressionReference numeric_reference
  | ClassificationReference class_profile

record reference_profile =
  rf_model_name :: string
  rf_version :: string
  rf_key :: trainer_key
  rf_feature_count :: int
  rf_features :: "(int \<times> numeric_reference) list"
  rf_prediction :: prediction_reference
  rf_sample_count :: int
  rf_created_at :: timestamp

definition make_reference_profile :: "reference_profile \<Rightarrow> reference_profile result" where
  "make_reference_profile r =
     (if rf_model_name r = [] \<or> rf_version r = []
      then invalid ''Reference profile model identity must be non-empty.''
      else if rf_sample_count r \<le> 0 \<or> rf_feature_count r \<le> 0
      then invalid ''Reference profiles require positive dimensions.''
      else if int (length (rf_features r)) \<noteq> rf_feature_count r
      then invalid ''Reference feature profiles must match feature_count.''
      else if map fst (rf_features r) \<noteq> map int [0..<length (rf_features r)]
      then invalid ''Reference feature indexes must be contiguous.'' else Inr r)"

section \<open>Reports\<close>

record drift_thresholds =
  th_warning :: real
  th_critical :: real
  th_missing_rate :: real
  th_out_of_range :: real
  th_epsilon :: real

definition make_drift_thresholds :: "drift_thresholds \<Rightarrow> drift_thresholds result" where
  "make_drift_thresholds t =
     (if \<not> (0 \<le> th_warning t \<and> th_warning t < th_critical t)
      then invalid ''Drift warning threshold must be below critical.''
      else if \<not> (0 \<le> th_missing_rate t \<and> th_missing_rate t \<le> 1)
      then invalid ''Missing-rate warning threshold must be within [0, 1].''
      else if \<not> (0 \<le> th_out_of_range t \<and> th_out_of_range t \<le> 1)
      then invalid ''Out-of-range threshold must be within [0, 1].''
      else if th_epsilon t \<le> 0 then invalid ''Drift smoothing epsilon must be positive.''
      else Inr t)"

record feature_drift =
  fd_index :: nat
  fd_psi :: "real option"
  fd_reference_count :: int
  fd_current_count :: int
  fd_missing_difference :: "real option"
  fd_out_of_range :: "real option"
  fd_severity :: drift_severity

record prediction_drift =
  pdr_distance :: "real option" \<comment> \<open>PSI, or the total variation distance of a classification\<close>
  pdr_mean_shift :: "real option"
  pdr_deviation_ratio :: "real option"
  pdr_reference_count :: int
  pdr_current_count :: int
  pdr_severity :: drift_severity

record drift_report =
  dr_model_name :: string
  dr_version :: string
  dr_key :: trainer_key
  dr_reference_count :: int
  dr_current_count :: int
  dr_start_at :: timestamp
  dr_end_at :: timestamp
  dr_features :: "feature_drift list"
  dr_prediction :: prediction_drift
  dr_status :: drift_severity
  dr_thresholds :: drift_thresholds
  dr_generated_at :: timestamp
  dr_matched :: int
  dr_analyzed :: int
  dr_truncated :: bool
  dr_warning :: "string option"

record quality_issue =
  qi_code :: string
  qi_severity :: quality_severity
  qi_count :: int
  qi_proportion :: real

record quality_report =
  qr_model_name :: string
  qr_version :: string
  qr_start_at :: timestamp
  qr_end_at :: timestamp
  qr_requests :: int
  qr_rows :: int
  qr_missing :: int
  qr_non_finite :: int
  qr_mismatches :: int
  qr_empty_batches :: int
  qr_constant_columns :: int
  qr_out_of_range :: int
  qr_finite :: int
  qr_out_of_range_proportion :: real
  qr_issues :: "quality_issue list"
  qr_matched :: int
  qr_analyzed :: int
  qr_truncated :: bool
  qr_warning :: "string option"

end
