(* ===== verification/Retraining_Policy.thy ===== *)
theory Retraining_Policy
  imports Monitoring_Models
begin

text \<open>
  The contracts of controlled retraining (\<^verbatim>\<open>ml/retraining/models.py\<close>), the ordered
  policy evaluation (\<^verbatim>\<open>ml/retraining/policy.py\<close>) and the advisory comparison of a
  retrained candidate with its source (\<^verbatim>\<open>ml/retraining/comparison.py\<close>). The
  properties characterise when an evaluation is eligible and what a comparison says.
\<close>

section \<open>Contracts\<close>

datatype trigger_type = FeatureDrift | PredictionDrift | DataQuality | ManualTrigger

fun trigger_value :: "trigger_type \<Rightarrow> string" where
  "trigger_value FeatureDrift = ''feature_drift''"
| "trigger_value PredictionDrift = ''prediction_drift''"
| "trigger_value DataQuality = ''data_quality''"
| "trigger_value ManualTrigger = ''manual''"

datatype decision_status =
    Eligible | NotEligible | BlockedCooldown | BlockedDuplicate | BlockedQuota
  | BlockedInsufficientData | BlockedMissingProfile | BlockedMissingEvidence | PolicyDisabled

datatype request_status = RPending | RSubmitted | RTraining | RCandidateCreated | RCompleted | RFailed | RCancelled

datatype evaluation_mode = Automatic | Manual

record retraining_policy =
  pol_id :: uuid
  pol_model_name :: string
  pol_enabled :: bool
  pol_triggers :: "trigger_type set"
  pol_minimum_drift :: drift_severity
  pol_minimum_samples :: int
  pol_cooldown_seconds :: int
  pol_max_per_day :: int
  pol_max_per_week :: int
  pol_max_active :: int
  pol_require_champion :: bool
  pol_allow_truncated :: bool
  pol_created_by :: uuid
  pol_created_at :: timestamp
  pol_updated_at :: timestamp

definition make_retraining_policy :: "retraining_policy \<Rightarrow> retraining_policy result" where
  "make_retraining_policy p =
     (if strip (pol_model_name p) = [] then Inl (Exc ValueError ''registered_model_name must not be empty.'')
      else if pol_triggers p = {} then Inl (Exc ValueError ''At least one retraining trigger type is required.'')
      else if pol_minimum_drift p \<notin> {SeverityWarning, SeverityCritical}
      then Inl (Exc ValueError ''minimum_drift_status must be warning or critical.'')
      else if pol_minimum_samples p \<le> 0
      then Inl (Exc ValueError ''minimum_current_sample_count must be positive.'')
      else if pol_cooldown_seconds p < 0 then Inl (Exc ValueError ''cooldown_seconds must be non-negative.'')
      else if min (min (pol_max_per_day p) (pol_max_per_week p)) (pol_max_active p) \<le> 0
      then Inl (Exc ValueError ''Retraining quotas must be positive.'')
      else Inr p)"

record retraining_trigger =
  tr_type :: trigger_type
  tr_reference :: string
  tr_status :: "drift_severity option"
  tr_matched :: int
  tr_analyzed :: int
  tr_samples :: int
  tr_truncated :: bool
  tr_warning :: "string option"
  tr_thresholds :: "(string \<times> pyfloat) list"

definition make_retraining_trigger :: "retraining_trigger \<Rightarrow> retraining_trigger result" where
  "make_retraining_trigger t =
     (if strip (tr_reference t) = [] \<or> length (tr_reference t) > 512
      then Inl (Exc ValueError ''trigger reference must be between 1 and 512 characters.'')
      else if min (min (tr_matched t) (tr_analyzed t)) (tr_samples t) < 0
      then Inl (Exc ValueError ''Trigger sample counts must be non-negative.'')
      else Inr t)"

record cooldown_state =
  cs_active :: bool
  cs_started_at :: "timestamp option"
  cs_expires_at :: "timestamp option"
  cs_remaining :: int

record quota_state =
  qs_today :: int
  qs_this_week :: int
  qs_active :: int
  qs_max_per_day :: int
  qs_max_per_week :: int
  qs_max_active :: int

record retraining_decision =
  dec_model_name :: string
  dec_source_version :: "string option"
  dec_alias :: "string option"
  dec_trigger :: retraining_trigger
  dec_status :: decision_status
  dec_reasons :: "string list"
  dec_evaluated_at :: timestamp
  dec_cooldown :: cooldown_state
  dec_quota :: quota_state
  dec_existing :: "uuid option"

definition eligible :: "retraining_decision \<Rightarrow> bool" where
  "eligible d \<longleftrightarrow> dec_status d = Eligible"

section \<open>Policy evaluation\<close>

record evaluation_context =
  ctx_policy :: retraining_policy
  ctx_model_name :: string
  ctx_source_version :: "string option"
  ctx_alias :: "string option"
  ctx_trigger :: retraining_trigger
  ctx_mode :: evaluation_mode
  ctx_is_champion :: bool
  ctx_profile :: bool
  ctx_evidence :: bool
  ctx_existing :: "uuid option"
  ctx_active :: "uuid option"
  ctx_cooldown :: cooldown_state
  ctx_quota :: quota_state
  ctx_evaluated_at :: timestamp
  ctx_override_cooldown :: bool

definition decide :: "evaluation_context \<Rightarrow> decision_status \<Rightarrow> string list \<Rightarrow> uuid option \<Rightarrow> retraining_decision" where
  "decide c st reasons existing =
     \<lparr>dec_model_name = ctx_model_name c, dec_source_version = ctx_source_version c,
      dec_alias = ctx_alias c, dec_trigger = ctx_trigger c, dec_status = st, dec_reasons = reasons,
      dec_evaluated_at = ctx_evaluated_at c, dec_cooldown = ctx_cooldown c, dec_quota = ctx_quota c,
      dec_existing = existing\<rparr>"

definition insufficient_sample :: "evaluation_context \<Rightarrow> bool" where
  "insufficient_sample c \<longleftrightarrow> tr_status (ctx_trigger c) = Some SeverityInsufficient \<or>
     tr_samples (ctx_trigger c) < pol_minimum_samples (ctx_policy c)"

definition below_threshold :: "evaluation_context \<Rightarrow> bool" where
  "below_threshold c \<longleftrightarrow> (case tr_status (ctx_trigger c) of
     None \<Rightarrow> True
   | Some s \<Rightarrow> severity_order s < severity_order (pol_minimum_drift (ctx_policy c)))"

definition truncation_note :: "retraining_trigger \<Rightarrow> string list" where
  "truncation_note t = (if \<not> tr_truncated t then [] else
     [case tr_warning t of None \<Rightarrow> ''The drift analysis window was truncated.''
      | Some w \<Rightarrow> if w = [] then ''The drift analysis window was truncated.'' else w])"

definition evaluate :: "evaluation_context \<Rightarrow> retraining_decision" where
  "evaluate c =
     (let p = ctx_policy c; t = ctx_trigger c; auto = (ctx_mode c = Automatic) in
      if \<not> pol_enabled p then decide c PolicyDisabled [''Policy disabled.''] None
      else if tr_type t \<notin> pol_triggers p
      then decide c NotEligible [''Trigger type is not allowed by policy.''] None
      else if ctx_source_version c = None
      then decide c NotEligible [''An exact source model version was not resolved.''] None
      else if pol_require_champion p \<and> \<not> ctx_is_champion c
      then decide c NotEligible [''The exact source version is not the current champion.''] None
      else if auto \<and> \<not> ctx_profile c
      then decide c BlockedMissingProfile [''The exact source version has no reference profile.''] None
      else if auto \<and> insufficient_sample c
      then decide c BlockedInsufficientData [''The analyzed monitoring sample is insufficient.''] None
      else if auto \<and> tr_truncated t \<and> \<not> pol_allow_truncated p
      then decide c BlockedInsufficientData [''Policy does not allow truncated drift windows.''] None
      else if auto \<and> below_threshold c
      then decide c NotEligible [''The drift threshold was not met.''] None
      else if \<not> ctx_evidence c
      then decide c BlockedMissingEvidence [''Trusted source training evidence is unavailable.''] None
      else if ctx_existing c \<noteq> None
      then decide c BlockedDuplicate [''An equivalent retraining request already exists.''] (ctx_existing c)
      else if ctx_active c \<noteq> None
      then decide c BlockedQuota [''The exact model has reached its active-request limit.''] (ctx_active c)
      else if cs_active (ctx_cooldown c) \<and> \<not> ctx_override_cooldown c
      then decide c BlockedCooldown [''The exact model is inside its accepted-request cooldown.''] None
      else if auto \<and> qs_today (ctx_quota c) \<ge> qs_max_per_day (ctx_quota c)
      then decide c BlockedQuota [''The model has reached its daily retraining quota.''] None
      else if auto \<and> qs_this_week (ctx_quota c) \<ge> qs_max_per_week (ctx_quota c)
      then decide c BlockedQuota [''The model has reached its weekly retraining quota.''] None
      else decide c Eligible (''The retraining policy is eligible.'' # truncation_note t) None)"

section \<open>Comparison\<close>

datatype comparison_status = Better | Worse | Mixed | NotComparable

record metric_comparison =
  mc_metric :: string
  mc_source :: real
  mc_candidate :: real
  mc_higher_is_better :: bool
  mc_outcome :: comparison_status

record candidate_comparison =
  cmp_status :: comparison_status
  cmp_metrics :: "metric_comparison list"
  cmp_source_version :: string
  cmp_candidate_version :: string
  cmp_compared_at :: timestamp

definition compared_metrics :: "task_type \<Rightarrow> (string \<times> bool) list" where
  "compared_metrics t = (case t of
     Regression \<Rightarrow> [(''rmse'', False), (''mae'', False), (''r2'', True)]
   | Classification \<Rightarrow> [(''f1_macro'', True), (''accuracy'', True)])"

definition compare_metric :: "metrics \<Rightarrow> metrics \<Rightarrow> string \<times> bool \<Rightarrow> metric_comparison option" where
  "compare_metric source candidate m = (case m of (name, higher) \<Rightarrow>
     (case (source name, candidate name) of
        (Some (Fin s), Some (Fin c)) \<Rightarrow> Some
          \<lparr>mc_metric = name, mc_source = s, mc_candidate = c, mc_higher_is_better = higher,
           mc_outcome = (if c = s then Mixed else if (c > s) = higher then Better else Worse)\<rparr>
      | _ \<Rightarrow> None))"

definition overall_status :: "metric_comparison list \<Rightarrow> comparison_status" where
  "overall_status cs =
     (let directional = mc_outcome ` set cs in
      if cs = [] then NotComparable
      else if directional = {Better} then Better
      else if directional = {Worse} then Worse
      else Mixed)"

definition compare_candidates ::
    "task_type \<Rightarrow> metrics \<Rightarrow> metrics \<Rightarrow> string \<Rightarrow> string \<Rightarrow> timestamp \<Rightarrow> candidate_comparison" where
  "compare_candidates task source candidate source_version candidate_version compared_at =
     (let cs = List.map_filter (compare_metric source candidate) (compared_metrics task) in
      \<lparr>cmp_status = overall_status cs, cmp_metrics = cs, cmp_source_version = source_version,
       cmp_candidate_version = candidate_version, cmp_compared_at = compared_at\<rparr>)"

section \<open>Properties\<close>

lemma valid_policy_minimum:
  "make_retraining_policy p = Inr q \<Longrightarrow> q = p \<and> pol_minimum_drift p \<in> {SeverityWarning, SeverityCritical} \<and>
    0 < pol_max_per_day p \<and> 0 < pol_max_per_week p \<and> 0 < pol_max_active p \<and> 0 \<le> pol_cooldown_seconds p"
  by (simp add: make_retraining_policy_def min_le_iff_disj not_le not_less split: if_splits)

lemma decide_simps [simp]:
  "dec_status (decide c st rs e) = st" "dec_existing (decide c st rs e) = e"
  "dec_trigger (decide c st rs e) = ctx_trigger c" "dec_model_name (decide c st rs e) = ctx_model_name c"
  "dec_source_version (decide c st rs e) = ctx_source_version c"
  by (simp_all add: decide_def)

lemma evaluate_trigger [simp]:
  "dec_trigger (evaluate c) = ctx_trigger c" "dec_model_name (evaluate c) = ctx_model_name c"
  "dec_source_version (evaluate c) = ctx_source_version c"
  by (simp_all add: evaluate_def Let_def)

definition common_checks :: "evaluation_context \<Rightarrow> bool" where
  "common_checks c \<longleftrightarrow> pol_enabled (ctx_policy c) \<and> tr_type (ctx_trigger c) \<in> pol_triggers (ctx_policy c) \<and>
     ctx_source_version c \<noteq> None \<and> (ctx_is_champion c \<or> \<not> pol_require_champion (ctx_policy c)) \<and>
     ctx_evidence c \<and> ctx_existing c = None \<and> ctx_active c = None \<and>
     (ctx_override_cooldown c \<or> \<not> cs_active (ctx_cooldown c))"

definition automatic_checks :: "evaluation_context \<Rightarrow> bool" where
  "automatic_checks c \<longleftrightarrow> ctx_profile c \<and> pol_minimum_samples (ctx_policy c) \<le> tr_samples (ctx_trigger c) \<and>
     (pol_allow_truncated (ctx_policy c) \<or> \<not> tr_truncated (ctx_trigger c)) \<and>
     (case tr_status (ctx_trigger c) of None \<Rightarrow> False | Some s \<Rightarrow> pol_minimum_drift (ctx_policy c) \<le> s) \<and>
     qs_today (ctx_quota c) < qs_max_per_day (ctx_quota c) \<and>
     qs_this_week (ctx_quota c) < qs_max_per_week (ctx_quota c)"

lemma evaluate_eligible:
  "eligible (evaluate c) \<longleftrightarrow> common_checks c \<and> (ctx_mode c = Automatic \<longrightarrow>
     automatic_checks c \<and> \<not> insufficient_sample c)"
  by (auto simp: evaluate_def Let_def eligible_def common_checks_def automatic_checks_def below_threshold_def
      insufficient_sample_def less_eq_drift_severity_def not_less not_le split: option.splits)

lemma manual_eligible: "ctx_mode c = Manual \<Longrightarrow> eligible (evaluate c) \<longleftrightarrow> common_checks c"
  by (simp add: evaluate_eligible)


definition sample_policy :: retraining_policy where
  "sample_policy = \<lparr>pol_id = 50, pol_model_name = ''pump_model'', pol_enabled = True,
     pol_triggers = {FeatureDrift, PredictionDrift, ManualTrigger}, pol_minimum_drift = SeverityWarning,
     pol_minimum_samples = 10, pol_cooldown_seconds = 3600, pol_max_per_day = 2, pol_max_per_week = 3,
     pol_max_active = 2, pol_require_champion = True, pol_allow_truncated = False, pol_created_by = 5,
     pol_created_at = 5, pol_updated_at = 5\<rparr>"

definition sample_trigger :: "drift_severity \<Rightarrow> retraining_trigger" where
  "sample_trigger s = \<lparr>tr_type = FeatureDrift, tr_reference = ''window:a'', tr_status = Some s, tr_matched = 20,
     tr_analyzed = 20, tr_samples = 20, tr_truncated = False, tr_warning = None, tr_thresholds = []\<rparr>"

definition sample_context :: "drift_severity \<Rightarrow> evaluation_context" where
  "sample_context s = \<lparr>ctx_policy = sample_policy, ctx_model_name = ''pump_model'', ctx_source_version = Some ''1'',
     ctx_alias = None, ctx_trigger = sample_trigger s, ctx_mode = Automatic, ctx_is_champion = True,
     ctx_profile = True, ctx_evidence = True, ctx_existing = None, ctx_active = None,
     ctx_cooldown = \<lparr>cs_active = False, cs_started_at = None, cs_expires_at = None, cs_remaining = 0\<rparr>,
     ctx_quota = \<lparr>qs_today = 1, qs_this_week = 1, qs_active = 0, qs_max_per_day = 2, qs_max_per_week = 3,
       qs_max_active = 2\<rparr>, ctx_evaluated_at = 100, ctx_override_cooldown = False\<rparr>"

lemma sample_policy_valid: "make_retraining_policy sample_policy = Inr sample_policy"
  by (simp add: make_retraining_policy_def sample_policy_def strip_def lstrip_def py_isspace_def)


fun reversed :: "comparison_status \<Rightarrow> comparison_status" where
  "reversed Better = Worse"
| "reversed Worse = Better"
| "reversed Mixed = Mixed"
| "reversed NotComparable = NotComparable"

definition comparable :: "metrics \<Rightarrow> metrics \<Rightarrow> string \<Rightarrow> real \<Rightarrow> real \<Rightarrow> bool" where
  "comparable source candidate name s c \<longleftrightarrow> source name = Some (Fin s) \<and> candidate name = Some (Fin c)"

definition improves :: "bool \<Rightarrow> real \<Rightarrow> real \<Rightarrow> bool" where
  "improves higher s c \<longleftrightarrow> (if higher then s < c else c < s)"

definition compared :: "metrics \<Rightarrow> metrics \<Rightarrow> string \<times> bool \<Rightarrow> bool" where
  "compared source candidate m \<longleftrightarrow> (\<exists>s c. comparable source candidate (fst m) s c)"

lemma compare_metric_finite:
  "comparable source candidate (fst m) s c \<Longrightarrow> compare_metric source candidate m = Some
     \<lparr>mc_metric = fst m, mc_source = s, mc_candidate = c, mc_higher_is_better = snd m,
      mc_outcome = (if c = s then Mixed else if (c > s) = snd m then Better else Worse)\<rparr>"
  by (cases m) (simp add: compare_metric_def comparable_def)

lemma compare_metric_None: "compare_metric source candidate m = None \<longleftrightarrow> \<not> compared source candidate m"
proof (cases "compared source candidate m")
  case True
  then obtain s c where "comparable source candidate (fst m) s c" unfolding compared_def by blast
  with True show ?thesis by (simp add: compare_metric_finite)
next
  case False
  then show ?thesis by (cases m)
     (auto simp: compare_metric_def compared_def comparable_def split: option.splits pyfloat.splits)
qed

lemma compare_metric_Better:
  assumes "comparable source candidate (fst m) s c" and "compare_metric source candidate m = Some r"
  shows "mc_outcome r = Better \<longleftrightarrow> improves (snd m) s c"
  using assms(2) unfolding compare_metric_finite [OF assms(1)] by (auto simp: improves_def split: if_splits)

lemma reversed_iff [simp]: "reversed a = Better \<longleftrightarrow> a = Worse" "reversed a = Worse \<longleftrightarrow> a = Better"
  "reversed a = Mixed \<longleftrightarrow> a = Mixed" "reversed a = NotComparable \<longleftrightarrow> a = NotComparable"
  by (cases a; simp)+

lemma compare_metric_swap:
  "map_option mc_outcome (compare_metric candidate source m) =
     map_option (reversed \<circ> mc_outcome) (compare_metric source candidate m)"
proof (cases m)
  case (Pair name higher)
  show ?thesis
  proof (cases "\<exists>s c. comparable source candidate name s c")
    case True
    then obtain s c where "source name = Some (Fin s)" "candidate name = Some (Fin c)"
      unfolding comparable_def by blast
    then show ?thesis by (simp add: Pair compare_metric_def) linarith
  next
    case False
    then have "compare_metric source candidate m = None" "compare_metric candidate source m = None"
      using Pair by (auto simp: compare_metric_def comparable_def split: option.splits pyfloat.splits)
    then show ?thesis by simp
  qed
qed

lemma map_filter_outcomes:
  "(\<And>m. map_option f (g m) = map_option h (k m)) \<Longrightarrow>
    map f (List.map_filter g ms) = map h (List.map_filter k ms)"
proof (induction ms)
  case (Cons m ms)
  have "map_option f (g m) = map_option h (k m)" by (rule Cons.prems)
  with Cons show ?case by (cases "g m"; cases "k m") (auto simp: List.map_filter_simps)
qed (simp add: List.map_filter_simps)

lemma overall_status_map:
  "overall_status cs = (let os = map mc_outcome cs in
     if os = [] then NotComparable else if set os = {Better} then Better
     else if set os = {Worse} then Worse else Mixed)"
  by (simp add: overall_status_def Let_def)

lemma overall_status_reversed:
  assumes "map mc_outcome ds = map (reversed \<circ> mc_outcome) cs"
  shows "overall_status ds = reversed (overall_status cs)"
proof -
  have s: "set (map mc_outcome ds) = reversed ` mc_outcome ` set cs" using assms by (simp add: image_comp)
  have "reversed (reversed a) = a" for a by (cases a) simp_all
  then have "reversed ` A = B \<longleftrightarrow> A = reversed ` B" for A B by (force simp: image_iff)
  then have "reversed ` A = {Better} \<longleftrightarrow> A = {Worse}" "reversed ` A = {Worse} \<longleftrightarrow> A = {Better}" for A
    by simp_all
  moreover have "ds = [] \<longleftrightarrow> cs = []" using arg_cong [OF assms, of length] by auto
  ultimately show ?thesis using s by (auto simp: overall_status_map Let_def)
qed

lemma overall_status_Better:
  "overall_status cs = Better \<longleftrightarrow> cs \<noteq> [] \<and> (\<forall>r \<in> set cs. mc_outcome r = Better)"
  by (cases cs) (auto simp: overall_status_def Let_def image_def)

text \<open>
  A candidate is called better exactly when at least one of the task's metrics is finite for
  both versions and each such metric strictly improves in its own direction; comparing the
  source with the candidate instead reverses the verdict, so no pair of versions is better than
  each other, and not-comparable and mixed verdicts stay.
\<close>

theorem candidate_comparison_verdict:
  "(cmp_status (compare_candidates t source candidate v w at1) = Better \<longleftrightarrow>
      (\<exists>(name, higher) \<in> set (compared_metrics t). \<exists>s c. comparable source candidate name s c) \<and>
      (\<forall>(name, higher) \<in> set (compared_metrics t). \<forall>s c. comparable source candidate name s c \<longrightarrow> improves higher s c)) \<and>
   cmp_status (compare_candidates t candidate source w v at1) =
     reversed (cmp_status (compare_candidates t source candidate v w at1))"
proof
  let ?cs = "List.map_filter (compare_metric source candidate) (compared_metrics t)"
  have set: "r \<in> set ?cs \<longleftrightarrow> (\<exists>m \<in> set (compared_metrics t). compare_metric source candidate m = Some r)" for r
    by (force simp: List.map_filter_def)
  have "?cs \<noteq> [] \<longleftrightarrow> (\<exists>m \<in> set (compared_metrics t). compared source candidate m)"
    using compare_metric_None [of source candidate] by (force simp: map_filter_def filter_empty_conv)
  then have nonempty: "?cs \<noteq> [] \<longleftrightarrow>
      (\<exists>(name, higher) \<in> set (compared_metrics t). \<exists>s c. comparable source candidate name s c)"
    by (simp add: compared_def case_prod_unfold)
  have all: "(\<forall>r \<in> set ?cs. mc_outcome r = Better) \<longleftrightarrow>
      (\<forall>(name, higher) \<in> set (compared_metrics t). \<forall>s c. comparable source candidate name s c \<longrightarrow> improves higher s c)"
    (is "?L \<longleftrightarrow> ?R")
  proof
    assume L: ?L
    show ?R
    proof (clarify)
      fix name higher s c
      assume m: "(name, higher) \<in> set (compared_metrics t)" and c: "comparable source candidate name s c"
      then obtain r where r: "compare_metric source candidate (name, higher) = Some r"
        using compare_metric_finite [of source candidate "(name, higher)" s c] by simp
      then have "r \<in> set ?cs" using m set by blast
      with L c show "improves higher s c"
        using compare_metric_Better [of source candidate "(name, higher)" s c r] r by simp
    qed
  next
    assume R: ?R
    show ?L
    proof
      fix r assume "r \<in> set ?cs"
      then obtain m where m: "m \<in> set (compared_metrics t)" "compare_metric source candidate m = Some r"
        unfolding set by blast
      then have "compared source candidate m" using compare_metric_None [of source candidate m] by simp
      then obtain s c where sc: "comparable source candidate (fst m) s c" unfolding compared_def by blast
      then show "mc_outcome r = Better" using R m compare_metric_Better [OF sc m(2)] by (cases m) fastforce
    qed
  qed
  show "cmp_status (compare_candidates t source candidate v w at1) = Better \<longleftrightarrow>
      (\<exists>(name, higher) \<in> set (compared_metrics t). \<exists>s c. comparable source candidate name s c) \<and>
      (\<forall>(name, higher) \<in> set (compared_metrics t). \<forall>s c. comparable source candidate name s c \<longrightarrow> improves higher s c)"
    unfolding compare_candidates_def Let_def candidate_comparison.select_convs overall_status_Better
    using nonempty all by blast
  have "map mc_outcome (List.map_filter (compare_metric candidate source) (compared_metrics t)) =
      map (reversed \<circ> mc_outcome) ?cs"
    by (rule map_filter_outcomes) (rule compare_metric_swap)
  then show "cmp_status (compare_candidates t candidate source w v at1) =
     reversed (cmp_status (compare_candidates t source candidate v w at1))"
    by (simp add: compare_candidates_def Let_def overall_status_reversed)
qed

theorem candidate_comparison_verdict_witness:
  "cmp_status (compare_candidates Regression [''rmse'' \<mapsto> Fin 2, ''mae'' \<mapsto> NotANumber] [''rmse'' \<mapsto> Fin 1] ''1'' ''2'' 0) = Better"
  using candidate_comparison_verdict [of Regression "[''rmse'' \<mapsto> Fin 2, ''mae'' \<mapsto> NotANumber]" "[''rmse'' \<mapsto> Fin 1]" "''1''" "''2''" 0]
  by (simp add: compared_metrics_def comparable_def improves_def)

end
