(* ===== verification/Retraining_Specification.thy ===== *)
theory Retraining_Specification
  imports Retraining_Policy
begin

text \<open>
  The training specification of a retraining request
  (\<^verbatim>\<open>ml/retraining/specification.py\<close>): a copy of the trusted source specification whose
  protected lineage tags are replaced. Validation of the copy is the one of its class.
\<close>

section \<open>Construction\<close>

definition protected_retraining_tags :: "string list" where
  "protected_retraining_tags = [''retraining'', ''retraining_request_id'', ''retraining_trigger'',
     ''source_model_version'', ''source_training_job_id'', ''retraining_policy_id'']"

definition lineage_tags :: "uuid \<Rightarrow> trigger_type \<Rightarrow> string \<Rightarrow> uuid \<Rightarrow> uuid \<Rightarrow> (string \<times> string) list" where
  "lineage_tags request trigger version job policy =
     [(''retraining'', ''true''), (''retraining_request_id'', uuid_str request),
      (''retraining_trigger'', trigger_value trigger), (''source_model_version'', version),
      (''source_training_job_id'', uuid_str job), (''retraining_policy_id'', uuid_str policy)]"

definition user_tags :: "(string \<times> string) list \<Rightarrow> (string \<times> string) list" where
  "user_tags = filter (\<lambda>(k, v). k \<notin> set protected_retraining_tags)"

definition retraining_tags ::
    "job_spec \<Rightarrow> uuid \<Rightarrow> trigger_type \<Rightarrow> string \<Rightarrow> uuid \<Rightarrow> uuid \<Rightarrow> (string \<times> string) list" where
  "retraining_tags source request trigger version job policy =
     user_tags (spec_tags source) @ lineage_tags request trigger version job policy"

definition build_retraining_specification ::
    "job_spec \<Rightarrow> uuid \<Rightarrow> trigger_type \<Rightarrow> string \<Rightarrow> uuid \<Rightarrow> uuid \<Rightarrow> job_spec result" where
  "build_retraining_specification source request trigger version job policy =
     validate_spec (source\<lparr>spec_tags := retraining_tags source request trigger version job policy\<rparr>)"

section \<open>Lemmas\<close>

lemma validate_common_tags:
  "validate_common_values (s\<lparr>spec_tags := tags\<rparr>) = Inr u \<longleftrightarrow>
     is_ok (validate_common_values (s\<lparr>spec_tags := []\<rparr>)) \<and> validate_tags tags = Inr u"
  by (auto simp: validate_common_values_def is_ok_iff)

lemma validate_spec_tags:
  assumes "validate_spec s = Inr s" and "validate_tags tags = Inr ()"
  shows "validate_spec (s\<lparr>spec_tags := tags\<rparr>) =
    (if length tags \<le> max_training_tags then Inr (s\<lparr>spec_tags := tags\<rparr>)
     else Inl (validation_error ''field constraints''))"
proof -
  let ?t = "s\<lparr>spec_tags := tags\<rparr>"
  have fc: "field_constraints ?t \<longleftrightarrow> length tags \<le> max_training_tags"
    using assms(1) by (auto simp: validate_spec_Inr field_constraints_def split: hyperparameters.splits)
  have same: "validate_plugin ?t = validate_plugin s" "validate_target_lengths ?t = validate_target_lengths s"
    by (simp_all add: validate_plugin_def validate_target_lengths_def split: hyperparameters.split)
  have "validate_common_values ?t = Inr ()"
    using assms validate_common_tags [of "spec_tags s" s] by (auto simp: validate_common_tags validate_spec_Inr)
  then have "length tags \<le> max_training_tags \<Longrightarrow> validate_spec ?t = Inr ?t"
    using fc same assms(1) by (simp add: validate_spec_Inr)
  then show ?thesis using fc by (simp add: validate_spec_def)
qed

lemma filtered_tags_valid: "validate_tags tags = Inr () \<Longrightarrow> validate_tags (filter p tags) = Inr ()"
  by (auto simp: validate_tags_Inr)

lemma uuid_str_tag [simp]: "bounded_text n (uuid_str u) 5000 = Inr ()"
  by simp

lemma trigger_value_bounds: "strip (trigger_value t) \<noteq> [] \<and> length (trigger_value t) \<le> 5000"
  by (cases t) (simp_all add: strip_Nil_iff py_isspace_def)

lemma lineage_tags_valid:
  assumes "strip version \<noteq> []" and "length version \<le> 5000"
  shows "validate_tags (lineage_tags request trigger version job policy) = Inr ()"
  using assms trigger_value_bounds [of trigger]
  by (simp add: lineage_tags_def validate_tags_Inr strip_Nil_iff py_isspace_def)

lemma validate_tags_append:
  "validate_tags (as @ bs) = Inr () \<longleftrightarrow> validate_tags as = Inr () \<and> validate_tags bs = Inr ()"
  by (auto simp: validate_tags_Inr)

lemma map_of_user_tags:
  "map_of (user_tags tags) k = (if k \<in> set protected_retraining_tags then None else map_of tags k)"
  by (induction tags) (auto simp: user_tags_def)

lemma map_of_lineage:
  "map_of (lineage_tags request trigger version job policy) k = None \<longleftrightarrow> k \<notin> set protected_retraining_tags"
  by (simp add: lineage_tags_def protected_retraining_tags_def)

lemma retraining_specification_core:
  assumes "validate_spec s = Inr s" and "strip version \<noteq> []" and "length version \<le> 5000"
    and "tags = retraining_tags s request trigger version job policy"
  shows "build_retraining_specification s request trigger version job policy =
      (if length (user_tags (spec_tags s)) \<le> 26 then Inr (s\<lparr>spec_tags := tags\<rparr>)
       else Inl (validation_error ''field constraints'')) \<and>
    map_of tags k = (if k \<in> set protected_retraining_tags
       then map_of (lineage_tags request trigger version job policy) k else map_of (spec_tags s) k) \<and>
    map_of tags ''retraining_request_id'' = Some (uuid_str request) \<and>
    map_of tags ''source_model_version'' = Some version"
proof -
  have "validate_tags (spec_tags s) = Inr ()"
    using assms(1) validate_common_tags [of "spec_tags s" s] by (auto simp: validate_spec_Inr)
  then have "validate_tags tags = Inr ()"
    using lineage_tags_valid [OF assms(2,3)] filtered_tags_valid [of "spec_tags s"]
    by (simp add: assms(4) retraining_tags_def user_tags_def validate_tags_append)
  moreover have "length tags = length (user_tags (spec_tags s)) + 6"
    by (simp add: assms(4) retraining_tags_def lineage_tags_def)
  ultimately have build: "build_retraining_specification s request trigger version job policy =
      (if length (user_tags (spec_tags s)) \<le> 26 then Inr (s\<lparr>spec_tags := tags\<rparr>)
       else Inl (validation_error ''field constraints''))"
    using validate_spec_tags [OF assms(1), of tags]
    by (simp add: build_retraining_specification_def assms(4) max_training_tags_def)
  have maps: "map_of tags k = (if k \<in> set protected_retraining_tags
       then map_of (lineage_tags request trigger version job policy) k else map_of (spec_tags s) k)" for k
    using map_of_lineage [of request trigger version job policy k]
    by (auto simp: assms(4) retraining_tags_def map_add_def map_of_user_tags split: option.splits)
  show ?thesis using build maps
    by (simp add: maps [of "''retraining_request_id''"] maps [of "''source_model_version''"])
       (simp add: protected_retraining_tags_def lineage_tags_def)
qed

section \<open>Properties\<close>

text \<open>
  From a valid source specification and an exact version, the retraining specification
  differs in its tags only: the six lineage tags have the trusted values whatever the source
  says, and every other tag of the source is kept. It is valid exactly when the source has at
  most 26 unprotected tags; a source with 27 to 32 of them, which is valid itself, makes
  the construction fail with a bare \<open>ValidationError\<close>.
\<close>

theorem retraining_specification_contract:
  assumes "validate_spec s = Inr s" and "strip version \<noteq> []" and "length version \<le> 5000"
    and "tags = retraining_tags s request trigger version job policy"
  shows "build_retraining_specification s request trigger version job policy =
      (if length (user_tags (spec_tags s)) \<le> 26 then Inr (s\<lparr>spec_tags := tags\<rparr>)
       else Inl (validation_error ''field constraints'')) \<and>
    map_of tags k = (if k \<in> set protected_retraining_tags
       then map_of (lineage_tags request trigger version job policy) k else map_of (spec_tags s) k) \<and>
    map_of tags ''retraining_request_id'' = Some (uuid_str request) \<and>
    map_of tags ''source_model_version'' = Some version"
  by (rule retraining_specification_core [OF assms])

theorem retraining_specification_contract_witness:
  "build_retraining_specification sample_spec 3 FeatureDrift ''2'' 4 5 =
     Inr (sample_spec\<lparr>spec_tags := retraining_tags sample_spec 3 FeatureDrift ''2'' 4 5\<rparr>) \<and>
   map_of (retraining_tags sample_spec 3 FeatureDrift ''2'' 4 5) ''team'' = Some ''a''"
  using retraining_specification_contract [OF sample_spec_valid, of "''2''" "retraining_tags sample_spec 3 FeatureDrift ''2'' 4 5" 3 FeatureDrift 4 5 "''team''"]
  by (simp add: user_tags_def sample_spec_def strip_Nil_iff py_isspace_def protected_retraining_tags_def)

end
