(* ===== verification/Retraining_Repository.thy ===== *)
theory Retraining_Repository
  imports Retraining_Specification Job_Worker
begin

text \<open>
  The tables of controlled retraining and the operations of
  \<^verbatim>\<open>RetrainingRepository\<close> (\<^verbatim>\<open>repositories/ai_retraining.py\<close>,
  \<^verbatim>\<open>models/ai_retraining.py\<close>): policies, requests and the append-only audits. A request
  is attached to its training job by a conditional update; every later change of its status is
  an unconditional update of the row. Rows carry the company the tenant guard filters by. The
  JSON columns are the values they encode.
\<close>

section \<open>Tables\<close>

record policy_row =
  pr_company :: uuid
  pr_policy :: retraining_policy

record retraining_request =
  rr_id :: uuid
  rr_company :: uuid
  rr_model_name :: string
  rr_source_version :: string
  rr_source_job :: uuid
  rr_key :: trainer_key
  rr_trigger :: trigger_type
  rr_reference :: string
  rr_policy :: uuid
  rr_decision :: decision_status
  rr_status :: request_status
  rr_mode :: evaluation_mode
  rr_idempotency_key :: string
  rr_job :: "uuid option"
  rr_result_version :: "string option"
  rr_requested_by :: uuid
  rr_reason :: "string option"
  rr_override :: bool
  rr_requested_at :: timestamp
  rr_started_at :: "timestamp option"
  rr_completed_at :: "timestamp option"
  rr_failure_code :: "string option"
  rr_failure_message :: "string option"
  rr_comparison :: "candidate_comparison option"
  rr_created_at :: timestamp
  rr_updated_at :: timestamp
  rr_evaluation :: "uuid option"

record retraining_audit =
  ra_company :: uuid
  ra_decision :: retraining_decision
  ra_policy :: uuid
  ra_evaluated_by :: uuid
  ra_mode :: evaluation_mode
  ra_override :: bool
  ra_override_reason :: "string option"
  ra_created_request :: "uuid option"
  ra_evaluation :: "uuid option"

definition tenant_sees :: "tenant \<Rightarrow> uuid \<Rightarrow> bool" where
  "tenant_sees tn company \<longleftrightarrow> (case tn of None \<Rightarrow> True | Some t \<Rightarrow> company = t)"

section \<open>Policies\<close>

definition get_policy :: "tenant \<Rightarrow> string \<Rightarrow> policy_row list \<Rightarrow> retraining_policy option result" where
  "get_policy tn name P = bind_result
     (scalar_one_or_none (filter (\<lambda>r. tenant_sees tn (pr_company r) \<and> pol_model_name (pr_policy r) = name) P))
     (\<lambda>r. Inr (map_option pr_policy r))"

definition list_policies :: "tenant \<Rightarrow> nat \<Rightarrow> nat \<Rightarrow> policy_row list \<Rightarrow> retraining_policy list" where
  "list_policies tn limit offset P = map pr_policy (take limit (drop offset
     (sort_key (\<lambda>r. pol_model_name (pr_policy r)) (filter (\<lambda>r. tenant_sees tn (pr_company r)) P))))"

text \<open>The columns \<^verbatim>\<open>upsert_policy\<close> writes into an existing row.\<close>

definition with_policy_values :: "retraining_policy \<Rightarrow> retraining_policy \<Rightarrow> retraining_policy" where
  "with_policy_values p old = p\<lparr>pol_id := pol_id old, pol_model_name := pol_model_name old,
     pol_created_by := pol_created_by old, pol_created_at := pol_created_at old\<rparr>"

definition upsert_policy ::
    "(uuid \<Rightarrow> uuid option) \<Rightarrow> tenant \<Rightarrow> retraining_policy \<Rightarrow> policy_row list \<Rightarrow>
     retraining_policy result \<times> policy_row list" where
  "upsert_policy company_of tn p P =
     (let sel = (\<lambda>r. tenant_sees tn (pr_company r) \<and> pol_model_name (pr_policy r) = pol_model_name p) in
      case scalar_one_or_none (filter sel P) of
        Inl e \<Rightarrow> (Inl e, P)
      | Inr (Some old) \<Rightarrow>
          (Inr (with_policy_values p (pr_policy old)),
           update_where sel (\<lambda>r. r\<lparr>pr_policy := with_policy_values p (pr_policy r)\<rparr>) P)
      | Inr None \<Rightarrow> (case company_of (pol_created_by p) of
            None \<Rightarrow> (Inl (Exc ValueError ''A tenant-scoped user is required.''), P)
          | Some company \<Rightarrow>
              if list_ex (\<lambda>r. pol_id (pr_policy r) = pol_id p \<or>
                   pr_company r = company \<and> pol_model_name (pr_policy r) = pol_model_name p) P
              then (Inl (Exc IntegrityError ''uq_retraining_policy_model_name''), P)
              else (Inr p, P @ [\<lparr>pr_company = company, pr_policy = p\<rparr>])))"

section \<open>Requests\<close>

definition active_statuses :: "request_status set" where
  "active_statuses = {RPending, RSubmitted, RTraining, RCandidateCreated}"

definition terminal_statuses :: "request_status set" where
  "terminal_statuses = {RCompleted, RFailed, RCancelled}"

definition get_request :: "tenant \<Rightarrow> uuid \<Rightarrow> retraining_request list \<Rightarrow> retraining_request option" where
  "get_request tn i R = at_most_one (filter (\<lambda>r. tenant_sees tn (rr_company r) \<and> rr_id r = i) R)"

definition find_source_training_job ::
    "tenant \<Rightarrow> string \<Rightarrow> string \<Rightarrow> training_job list \<Rightarrow> training_job option result" where
  "find_source_training_job tn name version T =
     scalar_one_or_none (filter (\<lambda>r. visible tn r \<and> job_model_name r = name \<and>
        job_registered_model_version r = Some version \<and> job_status r = Succeeded) T)"

definition get_training_job :: "tenant \<Rightarrow> uuid \<Rightarrow> training_job list \<Rightarrow> training_job option" where
  "get_training_job tn i T = at_most_one (filter (\<lambda>r. visible tn r \<and> job_id r = i) T)"

definition get_by_idempotency ::
    "tenant \<Rightarrow> string \<Rightarrow> retraining_request list \<Rightarrow> retraining_request option result" where
  "get_by_idempotency tn k R =
     scalar_one_or_none (filter (\<lambda>r. tenant_sees tn (rr_company r) \<and> rr_idempotency_key r = k) R)"

definition get_by_training_job ::
    "tenant \<Rightarrow> uuid \<Rightarrow> retraining_request list \<Rightarrow> retraining_request option result" where
  "get_by_training_job tn i R =
     scalar_one_or_none (filter (\<lambda>r. tenant_sees tn (rr_company r) \<and> rr_job r = Some i) R)"

definition active_request :: "tenant \<Rightarrow> string \<Rightarrow> retraining_request list \<Rightarrow> retraining_request option" where
  "active_request tn name R = at_most_one (sort_key (\<lambda>r. - rr_requested_at r)
     (filter (\<lambda>r. tenant_sees tn (rr_company r) \<and> rr_model_name r = name \<and> rr_status r \<in> active_statuses) R))"

definition count_requests :: "tenant \<Rightarrow> (retraining_request \<Rightarrow> bool) \<Rightarrow> retraining_request list \<Rightarrow> nat" where
  "count_requests tn p R = length (filter (\<lambda>r. tenant_sees tn (rr_company r) \<and> p r) R)"

definition latest :: "timestamp list \<Rightarrow> timestamp option" where
  "latest ts = (if ts = [] then None else Some (Max (set ts)))"

definition request_counts ::
    "tenant \<Rightarrow> string \<Rightarrow> timestamp \<Rightarrow> timestamp \<Rightarrow> retraining_request list \<Rightarrow>
     nat \<times> nat \<times> nat \<times> timestamp option" where
  "request_counts tn name day_start week_start R =
     (let base = (\<lambda>r. rr_model_name r = name); automatic = (\<lambda>r. rr_mode r = Automatic) in
      (count_requests tn (\<lambda>r. base r \<and> automatic r \<and> rr_requested_at r \<ge> day_start) R,
       count_requests tn (\<lambda>r. base r \<and> automatic r \<and> rr_requested_at r \<ge> week_start) R,
       count_requests tn (\<lambda>r. base r \<and> rr_status r \<in> active_statuses) R,
       latest (map rr_requested_at (filter (\<lambda>r. tenant_sees tn (rr_company r) \<and> base r \<and> automatic r) R))))"

text \<open>
  The constraints of the table: the primary key and three unique columns, two of which admit
  any number of \<^verbatim>\<open>NULL\<close>s.
\<close>

definition request_conflict :: "retraining_request \<Rightarrow> retraining_request \<Rightarrow> bool" where
  "request_conflict n r \<longleftrightarrow> rr_id n = rr_id r \<or> rr_idempotency_key n = rr_idempotency_key r \<or>
     rr_job n \<noteq> None \<and> rr_job n = rr_job r \<or> rr_evaluation n \<noteq> None \<and> rr_evaluation n = rr_evaluation r"

definition create_request ::
    "(uuid \<Rightarrow> uuid option) \<Rightarrow> retraining_request \<Rightarrow> retraining_request list \<Rightarrow>
     retraining_request result \<times> retraining_request list" where
  "create_request company_of n R = (case company_of (rr_requested_by n) of
     None \<Rightarrow> (Inl (Exc ValueError ''A tenant-scoped user is required.''), R)
   | Some company \<Rightarrow> if list_ex (request_conflict n) R
       then (Inl (Exc IntegrityError ''uq_retraining_request''), R)
       else (let stored = n\<lparr>rr_company := company\<rparr> in (Inr stored, R @ [stored])))"

definition attachable :: "uuid \<Rightarrow> retraining_request \<Rightarrow> bool" where
  "attachable i r \<longleftrightarrow> rr_id r = i \<and> rr_job r = None \<and> rr_status r = RPending"

definition attach_training_job ::
    "uuid \<Rightarrow> uuid \<Rightarrow> timestamp \<Rightarrow> retraining_request list \<Rightarrow>
     retraining_request option result \<times> retraining_request list" where
  "attach_training_job i job updated_at R =
     (let f = (\<lambda>r. r\<lparr>rr_job := Some job, rr_status := RSubmitted, rr_updated_at := updated_at\<rparr>) in
      if list_ex (attachable i) R \<and> list_ex (\<lambda>r. rr_job r = Some job) R
      then (Inl (Exc IntegrityError ''uq_retraining_request_training_job''), R)
      else (Inr (at_most_one (returning (attachable i) f R)), update_where (attachable i) f R))"

record execution_update =
  eu_status :: request_status
  eu_updated_at :: timestamp
  eu_started_at :: "timestamp option"
  eu_completed_at :: "timestamp option"
  eu_result_version :: "string option"
  eu_failure_code :: "string option"
  eu_failure_message :: "string option"
  eu_comparison :: "candidate_comparison option"

definition plain_update :: "request_status \<Rightarrow> timestamp \<Rightarrow> execution_update" where
  "plain_update st t = \<lparr>eu_status = st, eu_updated_at = t, eu_started_at = None, eu_completed_at = None,
     eu_result_version = None, eu_failure_code = None, eu_failure_message = None, eu_comparison = None\<rparr>"

fun if_given :: "'a option \<Rightarrow> 'a option \<Rightarrow> 'a option" where
  "if_given (Some x) old = Some x"
| "if_given None old = old"

definition with_execution :: "execution_update \<Rightarrow> retraining_request \<Rightarrow> retraining_request" where
  "with_execution u r = r\<lparr>rr_status := eu_status u, rr_updated_at := eu_updated_at u,
     rr_failure_code := eu_failure_code u, rr_failure_message := eu_failure_message u,
     rr_started_at := if_given (eu_started_at u) (rr_started_at r),
     rr_completed_at := if_given (eu_completed_at u) (rr_completed_at r),
     rr_result_version := if_given (eu_result_version u) (rr_result_version r),
     rr_comparison := if_given (eu_comparison u) (rr_comparison r)\<rparr>"

definition update_execution ::
    "uuid \<Rightarrow> execution_update \<Rightarrow> retraining_request list \<Rightarrow> retraining_request option \<times> retraining_request list" where
  "update_execution i u R =
     (at_most_one (returning (\<lambda>r. rr_id r = i) (with_execution u) R),
      update_where (\<lambda>r. rr_id r = i) (with_execution u) R)"

record request_page =
  rp_items :: "retraining_request list"
  rp_total :: nat

definition list_requests ::
    "tenant \<Rightarrow> string option \<Rightarrow> nat \<Rightarrow> nat \<Rightarrow> retraining_request list \<Rightarrow> request_page" where
  "list_requests tn name limit offset R =
     (let rows = filter (\<lambda>r. tenant_sees tn (rr_company r) \<and>
            (case name of None \<Rightarrow> True | Some n \<Rightarrow> rr_model_name r = n)) R in
      \<lparr>rp_items = take limit (drop offset (sort_key (\<lambda>r. - rr_requested_at r) rows)),
       rp_total = length rows\<rparr>)"

definition aggregate_status :: "tenant \<Rightarrow> retraining_request list \<Rightarrow> nat \<times> nat \<times> nat \<times> nat" where
  "aggregate_status tn R =
     (count_requests tn (\<lambda>r. True) R,
      count_requests tn (\<lambda>r. rr_status r \<in> active_statuses) R,
      count_requests tn (\<lambda>r. rr_status r = RCompleted) R,
      count_requests tn (\<lambda>r. rr_status r = RFailed) R)"

definition list_reconcilable :: "tenant \<Rightarrow> nat \<Rightarrow> retraining_request list \<Rightarrow> retraining_request list" where
  "list_reconcilable tn limit R = take limit (sort_key (\<lambda>r. (rr_updated_at r, rr_id r))
     (filter (\<lambda>r. tenant_sees tn (rr_company r) \<and> rr_status r \<notin> terminal_statuses) R))"

section \<open>Audits\<close>

definition create_retraining_audit ::
    "(uuid \<Rightarrow> uuid option) \<Rightarrow> retraining_decision \<Rightarrow> uuid \<Rightarrow> uuid \<Rightarrow> evaluation_mode \<Rightarrow> bool \<Rightarrow> string option \<Rightarrow>
     uuid option \<Rightarrow> uuid option \<Rightarrow> retraining_audit list \<Rightarrow> retraining_audit result \<times> retraining_audit list" where
  "create_retraining_audit company_of d policy user mode override_used override_reason created evaluation A =
     (case company_of user of
        None \<Rightarrow> (Inl (Exc ValueError ''A tenant-scoped user is required.''), A)
      | Some company \<Rightarrow>
          (let a = \<lparr>ra_company = company, ra_decision = d, ra_policy = policy, ra_evaluated_by = user,
                    ra_mode = mode, ra_override = override_used, ra_override_reason = override_reason,
                    ra_created_request = created, ra_evaluation = evaluation\<rparr> in (Inr a, A @ [a])))"

definition list_retraining_audits ::
    "tenant \<Rightarrow> nat \<Rightarrow> nat \<Rightarrow> retraining_audit list \<Rightarrow> retraining_audit list \<times> nat" where
  "list_retraining_audits tn limit offset A =
     (let rows = filter (\<lambda>a. tenant_sees tn (ra_company a)) A in
      (take limit (drop offset (sort_key (\<lambda>a. - dec_evaluated_at (ra_decision a)) rows)), length rows))"

fun request_status_value :: "request_status \<Rightarrow> string" where
  "request_status_value RPending = ''pending''"
| "request_status_value RSubmitted = ''submitted''"
| "request_status_value RTraining = ''training''"
| "request_status_value RCandidateCreated = ''candidate_created''"
| "request_status_value RCompleted = ''completed''"
| "request_status_value RFailed = ''failed''"
| "request_status_value RCancelled = ''cancelled''"

definition append_terminal_audit ::
    "retraining_request \<Rightarrow> training_job \<Rightarrow> request_status \<Rightarrow> audit_event list \<Rightarrow> audit_event list" where
  "append_terminal_audit request job st E =
     (let succeeded = (st = RCompleted) in
      E @ [\<lparr>ae_company = job_company_id job, ae_actor = rr_requested_by request,
            ae_action = (if succeeded then ''retraining.completed'' else ''retraining.failed''),
            ae_resource_type = ''retraining_request'', ae_resource_id = uuid_str (rr_id request),
            ae_result = (if succeeded then ''success'' else ''failure''),
            ae_metadata = [(''status'', Some (request_status_value st)),
              (''training_job_id'', Some (uuid_str (job_id job))), (''error_code'', job_error_code job)]\<rparr>])"

end
