(* ===== verification/Retraining_Service.thy ===== *)
theory Retraining_Service
  imports Retraining_Repository
begin

text \<open>
  The retraining service (\<^verbatim>\<open>ml/retraining/service.py\<close>) and the synchronisation and
  reconciliation of requests (\<^verbatim>\<open>ml/retraining/reconcile.py\<close>). The monitoring reports
  an automatic evaluation reads, the registry, the clock and the digests are parameters; other
  actors may commit between the transactions of a service, and the reads and writes may fail at
  the points the code guards.
\<close>

section \<open>The world\<close>

record retraining_world =
  rw_policies :: "policy_row list"
  rw_requests :: "retraining_request list"
  rw_audits :: "retraining_audit list"
  rw_jobs :: "training_job list"
  rw_events :: "audit_event list"

datatype retraining_event =
    NewRequest "uuid \<Rightarrow> uuid option" retraining_request
  | AttachJob uuid uuid timestamp
  | UpdateExecution uuid execution_update
  | JobEvents "job_event list"

fun apply_retraining :: "retraining_event \<Rightarrow> retraining_world \<Rightarrow> retraining_world" where
  "apply_retraining (NewRequest company_of n) W = W\<lparr>rw_requests := snd (create_request company_of n (rw_requests W))\<rparr>"
| "apply_retraining (AttachJob i job t) W = W\<lparr>rw_requests := snd (attach_training_job i job t (rw_requests W))\<rparr>"
| "apply_retraining (UpdateExecution i u) W = W\<lparr>rw_requests := snd (update_execution i u (rw_requests W))\<rparr>"
| "apply_retraining (JobEvents es) W = W\<lparr>rw_jobs := run es (rw_jobs W)\<rparr>"

abbreviation disturb :: "retraining_event list \<Rightarrow> retraining_world \<Rightarrow> retraining_world" where
  "disturb es W \<equiv> fold apply_retraining es W"

datatype db_point = AtPolicy | AtSource | AtCounts | AtAudit | AtAttach | AtRequest

record retraining_env =
  rt_company_of :: "uuid \<Rightarrow> uuid option"
  rt_clock :: "nat \<Rightarrow> timestamp"
  rt_new_id :: uuid
  rt_key_digest :: "string \<times> string \<times> string \<times> string \<times> string \<Rightarrow> string"
  rt_iso :: "timestamp \<Rightarrow> string"
  rt_window_digest :: "string \<Rightarrow> timestamp option \<Rightarrow> timestamp option \<Rightarrow> string"
  rt_manual_digest :: "uuid \<Rightarrow> string \<Rightarrow> string"
  rt_resolve :: "nat \<Rightarrow> string \<Rightarrow> string \<Rightarrow> registered_version result"
  rt_submit :: submit_env
  rt_config :: service_config
  rt_fault :: "db_point \<Rightarrow> bool"
  rt_others :: "nat \<Rightarrow> retraining_event list"

definition persistence_error :: pyexc where
  "persistence_error = Exc RetrainingPersistenceError ''Retraining request storage is unavailable.''"

text \<open>\<^verbatim>\<open>except SQLAlchemyError\<close> around a query.\<close>

definition guarded_read :: "bool \<Rightarrow> 'a result \<Rightarrow> 'a result" where
  "guarded_read fault r = (if fault then Inl persistence_error else
     (case r of Inr x \<Rightarrow> Inr x
      | Inl e \<Rightarrow> if isinstance (exc_of e) [SQLAlchemyError] then Inl persistence_error else Inl e))"

section \<open>Policies\<close>

record policy_defaults =
  def_cooldown_seconds :: int
  def_max_per_day :: int
  def_max_per_week :: int
  def_max_active :: int
  def_minimum_drift :: drift_severity
  def_allow_truncated :: bool

record policy_input =
  in_name :: string
  in_user :: uuid
  in_enabled :: bool
  in_triggers :: "trigger_type set"
  in_minimum_drift :: "drift_severity option"
  in_minimum_samples :: int
  in_cooldown_seconds :: "int option"
  in_max_per_day :: "int option"
  in_max_per_week :: "int option"
  in_max_active :: "int option"
  in_require_champion :: bool
  in_allow_truncated :: "bool option"

fun or_default :: "'a option \<Rightarrow> 'a \<Rightarrow> 'a" where
  "or_default None d = d"
| "or_default (Some x) d = x"

definition requested_policy ::
    "policy_defaults \<Rightarrow> uuid \<Rightarrow> timestamp \<Rightarrow> retraining_policy option \<Rightarrow> policy_input \<Rightarrow> retraining_policy" where
  "requested_policy d new_id now existing i =
     \<lparr>pol_id = (case existing of None \<Rightarrow> new_id | Some p \<Rightarrow> pol_id p), pol_model_name = in_name i,
      pol_enabled = in_enabled i, pol_triggers = in_triggers i,
      pol_minimum_drift = or_default (in_minimum_drift i) (def_minimum_drift d),
      pol_minimum_samples = in_minimum_samples i,
      pol_cooldown_seconds = or_default (in_cooldown_seconds i) (def_cooldown_seconds d),
      pol_max_per_day = or_default (in_max_per_day i) (def_max_per_day d),
      pol_max_per_week = or_default (in_max_per_week i) (def_max_per_week d),
      pol_max_active = or_default (in_max_active i) (def_max_active d),
      pol_require_champion = in_require_champion i,
      pol_allow_truncated = or_default (in_allow_truncated i) (def_allow_truncated d),
      pol_created_by = (case existing of None \<Rightarrow> in_user i | Some p \<Rightarrow> pol_created_by p),
      pol_created_at = (case existing of None \<Rightarrow> now | Some p \<Rightarrow> pol_created_at p),
      pol_updated_at = now\<rparr>"

definition safe_policy :: "retraining_env \<Rightarrow> tenant \<Rightarrow> string \<Rightarrow> retraining_world \<Rightarrow> retraining_policy option result" where
  "safe_policy env tn name W = guarded_read (rt_fault env AtPolicy) (get_policy tn name (rw_policies W))"

definition put_policy ::
    "retraining_env \<Rightarrow> policy_defaults \<Rightarrow> tenant \<Rightarrow> policy_input \<Rightarrow> retraining_world \<Rightarrow>
     retraining_policy result \<times> retraining_world" where
  "put_policy env d tn i W =
     (case safe_policy env tn (in_name i) W of
        Inl e \<Rightarrow> (Inl e, W)
      | Inr existing \<Rightarrow>
         (case make_retraining_policy (requested_policy d (rt_new_id env) (rt_clock env 0) existing i) of
            Inl e \<Rightarrow> (Inl (Exc RetrainingValidationError (exc_message e)), W)
          | Inr p \<Rightarrow>
             (case upsert_policy (rt_company_of env) tn p (rw_policies W) of
                (Inr saved, P) \<Rightarrow> (Inr saved, W\<lparr>rw_policies := P\<rparr>)
              | (Inl e, P) \<Rightarrow>
                  if isinstance (exc_of e) [ValueError]
                  then (Inl (Exc RetrainingValidationError (exc_message e)), W)
                  else if isinstance (exc_of e) [SQLAlchemyError] then (Inl persistence_error, W)
                  else (Inl e, W))))"

definition get_model_policy :: "retraining_env \<Rightarrow> tenant \<Rightarrow> string \<Rightarrow> retraining_world \<Rightarrow> retraining_policy result" where
  "get_model_policy env tn name W = bind_result (safe_policy env tn name W) (\<lambda>p. case p of
     None \<Rightarrow> Inl (Exc RetrainingNotFoundError ''Retraining policy not found.'') | Some p \<Rightarrow> Inr p)"

section \<open>Cooldown and quotas\<close>

definition day_start :: "timestamp \<Rightarrow> timestamp" where
  "day_start now = now div day * day"

text \<open>The epoch was a Thursday.\<close>

definition week_start :: "timestamp \<Rightarrow> timestamp" where
  "week_start now = day_start now - ((now div day + 3) mod 7) * day"

definition states ::
    "retraining_policy \<Rightarrow> nat \<times> nat \<times> nat \<times> timestamp option \<Rightarrow> timestamp \<Rightarrow> cooldown_state \<times> quota_state" where
  "states p counts now = (case counts of (today, week, active, recent) \<Rightarrow>
     (let expires = map_option (\<lambda>t. t + pol_cooldown_seconds p * second) recent;
          is_active = (case expires of None \<Rightarrow> False | Some e \<Rightarrow> now < e);
          remaining = (case expires of None \<Rightarrow> 0 | Some e \<Rightarrow> if is_active then (e - now) div second else 0) in
      (\<lparr>cs_active = is_active, cs_started_at = recent, cs_expires_at = expires, cs_remaining = max 0 remaining\<rparr>,
       \<lparr>qs_today = int today, qs_this_week = int week, qs_active = int active,
        qs_max_per_day = pol_max_per_day p, qs_max_per_week = pol_max_per_week p,
        qs_max_active = pol_max_active p\<rparr>)))"

section \<open>Submission of a request\<close>

definition safe_source_job ::
    "retraining_env \<Rightarrow> tenant \<Rightarrow> string \<Rightarrow> string \<Rightarrow> retraining_world \<Rightarrow> training_job option result" where
  "safe_source_job env tn name version W =
     guarded_read (rt_fault env AtSource) (find_source_training_job tn name version (rw_jobs W))"

definition safe_get_request ::
    "retraining_env \<Rightarrow> tenant \<Rightarrow> uuid \<Rightarrow> retraining_world \<Rightarrow> retraining_request result" where
  "safe_get_request env tn i W = (if rt_fault env AtRequest then Inl persistence_error else
     (case get_request tn i (rw_requests W) of
        None \<Rightarrow> Inl (Exc RetrainingNotFoundError ''Retraining request not found.'') | Some r \<Rightarrow> Inr r))"

definition pending_update :: "timestamp \<Rightarrow> execution_update" where
  "pending_update t = (plain_update RPending t)\<lparr>eu_failure_code := Some ''training_submission_pending'',
     eu_failure_message := Some ''Background training submission requires reconciliation.''\<rparr>"

definition submission_failed ::
    "retraining_env \<Rightarrow> retraining_request \<Rightarrow> retraining_world \<Rightarrow> retraining_request result \<times> retraining_world" where
  "submission_failed env request W =
     (Inl (Exc RetrainingDependencyError ''Background retraining submission requires reconciliation.''),
      W\<lparr>rw_requests := snd (update_execution (rr_id request) (pending_update (rt_clock env 3)) (rw_requests W))\<rparr>)"

definition submission_key :: "retraining_request \<Rightarrow> string" where
  "submission_key request = ''retraining-'' @ rr_idempotency_key request"

definition resume_submission ::
    "retraining_env \<Rightarrow> tenant \<Rightarrow> retraining_request \<Rightarrow> training_job option \<Rightarrow> retraining_world \<Rightarrow>
     retraining_request result \<times> retraining_world" where
  "resume_submission env tn request source W =
     (case (case source of Some j \<Rightarrow> Inr (Some j)
            | None \<Rightarrow> safe_source_job env tn (rr_model_name request) (rr_source_version request) W) of
        Inl e \<Rightarrow> (Inl e, W)
      | Inr None \<Rightarrow> (Inr request, W)
      | Inr (Some j) \<Rightarrow>
         (case build_retraining_specification (job_specification j) (rr_id request) (rr_trigger request)
              (rr_source_version request) (job_id j) (rr_policy request) of
            Inl e \<Rightarrow> (Inl e, W)
          | Inr spec \<Rightarrow>
             (case submit (rt_submit env) (rt_config env) tn (rr_requested_by request) (rr_key request) spec
                  (Some (submission_key request)) False (rw_jobs W) of
                (Inl e, J) \<Rightarrow>
                  if isinstance (exc_of e) [TrainingJobError, SQLAlchemyError]
                  then submission_failed env request (disturb (rt_others env 1) (W\<lparr>rw_jobs := J\<rparr>))
                  else (Inl e, W\<lparr>rw_jobs := J\<rparr>)
              | (Inr s, J) \<Rightarrow>
                  (let W1 = disturb (rt_others env 1) (W\<lparr>rw_jobs := J\<rparr>) in
                   if rt_fault env AtAttach then submission_failed env request W1
                   else (case attach_training_job (rr_id request) (job_id (sub_job s)) (rt_clock env 2) (rw_requests W1) of
                       (Inl e, R) \<Rightarrow> submission_failed env request W1
                     | (Inr (Some attached), R) \<Rightarrow> (Inr attached, W1\<lparr>rw_requests := R\<rparr>)
                     | (Inr None, R) \<Rightarrow> (safe_get_request env tn (rr_id request) W1, W1))))))"

section \<open>Evaluation\<close>

record evaluation_result =
  er_decision :: retraining_decision
  er_request :: "retraining_request option"

record evaluation_input =
  ei_policy :: retraining_policy
  ei_version :: registered_version
  ei_alias :: "string option"
  ei_trigger :: retraining_trigger
  ei_mode :: evaluation_mode
  ei_submit :: bool
  ei_user :: uuid
  ei_reason :: "string option"
  ei_override :: bool
  ei_override_reason :: "string option"
  ei_profile :: bool
  ei_evaluation :: "uuid option"

definition evaluation_key :: "retraining_env \<Rightarrow> evaluation_input \<Rightarrow> string" where
  "evaluation_key env i = rt_key_digest env
     (rv_name (ei_version i), rt_iso env (pol_updated_at (ei_policy i)), rv_version (ei_version i),
      tr_reference (ei_trigger i), trigger_value (tr_type (ei_trigger i)))"

definition resolve_champion :: "retraining_env \<Rightarrow> string \<Rightarrow> registered_version option result" where
  "resolve_champion env name = (case rt_resolve env 1 name ''champion'' of
     Inr v \<Rightarrow> Inr (Some v)
   | Inl e \<Rightarrow> if isinstance (exc_of e) [ModelRegistryError] then Inr None else Inl e)"

definition decision_context ::
    "retraining_env \<Rightarrow> tenant \<Rightarrow> evaluation_input \<Rightarrow> training_job option \<Rightarrow> retraining_request option \<Rightarrow>
     registered_version option \<Rightarrow> retraining_request list \<Rightarrow> evaluation_context" where
  "decision_context env tn i source duplicate champion R =
     (let now = rt_clock env 0; name = rv_name (ei_version i); p = ei_policy i;
          counts = request_counts tn name (day_start now) (week_start now) R;
          active = active_request tn name R;
          (cooldown, quota) = states p counts now in
      \<lparr>ctx_policy = p, ctx_model_name = name, ctx_source_version = Some (rv_version (ei_version i)),
       ctx_alias = ei_alias i, ctx_trigger = ei_trigger i, ctx_mode = ei_mode i,
       ctx_is_champion = (case champion of None \<Rightarrow> False | Some c \<Rightarrow> rv_version c = rv_version (ei_version i)),
       ctx_profile = ei_profile i,
       ctx_evidence = (case source of None \<Rightarrow> False | Some j \<Rightarrow> job_key j = rv_key (ei_version i)),
       ctx_existing = map_option rr_id duplicate,
       ctx_active = (if int (fst (snd (snd counts))) \<ge> pol_max_active p then map_option rr_id active else None),
       ctx_cooldown = cooldown, ctx_quota = quota, ctx_evaluated_at = now,
       ctx_override_cooldown = ei_override i\<rparr>)"

definition new_request ::
    "retraining_env \<Rightarrow> evaluation_input \<Rightarrow> retraining_decision \<Rightarrow> training_job \<Rightarrow> retraining_request" where
  "new_request env i d source =
     (let now = rt_clock env 1 in
      \<lparr>rr_id = rt_new_id env, rr_company = 0, rr_model_name = dec_model_name d,
       rr_source_version = (case dec_source_version d of None \<Rightarrow> [] | Some v \<Rightarrow> v),
       rr_source_job = job_id source, rr_key = job_key source, rr_trigger = tr_type (dec_trigger d),
       rr_reference = tr_reference (dec_trigger d), rr_policy = pol_id (ei_policy i),
       rr_decision = dec_status d, rr_status = RPending, rr_mode = ei_mode i,
       rr_idempotency_key = evaluation_key env i, rr_job = None, rr_result_version = None,
       rr_requested_by = ei_user i, rr_reason = ei_reason i, rr_override = ei_override i,
       rr_requested_at = now, rr_started_at = None, rr_completed_at = None, rr_failure_code = None,
       rr_failure_message = None, rr_comparison = None, rr_created_at = now, rr_updated_at = now,
       rr_evaluation = ei_evaluation i\<rparr>)"

definition persist_request ::
    "retraining_env \<Rightarrow> tenant \<Rightarrow> evaluation_input \<Rightarrow> retraining_decision \<Rightarrow> training_job \<Rightarrow>
     retraining_request list \<Rightarrow> retraining_request result \<times> retraining_request list" where
  "persist_request env tn i d source R =
     (case create_request (rt_company_of env) (new_request env i d source) R of
        (Inr stored, R') \<Rightarrow> (Inr stored, R')
      | (Inl e, R') \<Rightarrow>
          if isinstance (exc_of e) [IntegrityError]
          then (bind_result (get_by_idempotency tn (evaluation_key env i) R) (\<lambda>existing. case existing of
                  None \<Rightarrow> Inl (Exc RetrainingPersistenceError ''Retraining request could not be persisted safely.'')
                | Some r \<Rightarrow> Inr r), R)
          else (Inl e, R))"

definition record_decision ::
    "retraining_env \<Rightarrow> evaluation_input \<Rightarrow> retraining_decision \<Rightarrow> retraining_request option \<Rightarrow>
     retraining_request list \<Rightarrow> retraining_world \<Rightarrow> unit result \<times> retraining_world" where
  "record_decision env i d request R W =
     (if rt_fault env AtAudit then (Inl persistence_error, W)
      else (case create_retraining_audit (rt_company_of env) d (pol_id (ei_policy i)) (ei_user i) (ei_mode i)
             (ei_override i) (ei_override_reason i)
             (if eligible d then map_option rr_id request else None) (ei_evaluation i) (rw_audits W) of
          (Inl e, A) \<Rightarrow> (Inl e, W)
        | (Inr a, A) \<Rightarrow> (Inr (), W\<lparr>rw_requests := R, rw_audits := A\<rparr>)))"

text \<open>
  The state read by the decision, and the part after it: at most one request is created
  together with the audit record, in one transaction, and then submitted.
\<close>

definition assess_trigger ::
    "retraining_env \<Rightarrow> tenant \<Rightarrow> evaluation_input \<Rightarrow> retraining_world \<Rightarrow>
     (retraining_decision \<times> training_job option \<times> retraining_request option) result" where
  "assess_trigger env tn i W =
     bind_result (safe_source_job env tn (rv_name (ei_version i)) (rv_version (ei_version i)) W) (\<lambda>source.
     bind_result (guarded_read (rt_fault env AtCounts)
        (get_by_idempotency tn (evaluation_key env i) (rw_requests W))) (\<lambda>duplicate.
     bind_result (resolve_champion env (rv_name (ei_version i))) (\<lambda>champion.
       Inr (evaluate (decision_context env tn i source duplicate champion (rw_requests W)), source, duplicate))))"

definition evaluate_request ::
    "retraining_env \<Rightarrow> tenant \<Rightarrow> evaluation_input \<Rightarrow> retraining_world \<Rightarrow>
     evaluation_result result \<times> retraining_world" where
  "evaluate_request env tn i W =
     (case assess_trigger env tn i W of
        Inl e \<Rightarrow> (Inl e, W)
      | Inr (d, source, duplicate) \<Rightarrow>
         (let W1 = disturb (rt_others env 0) W in
          case (case source of
                  Some j \<Rightarrow> if eligible d \<and> ei_submit i
                    then (case persist_request env tn i d j (rw_requests W1) of
                            (Inl e, R) \<Rightarrow> (Inl e, R) | (Inr r, R) \<Rightarrow> (Inr (Some r), R))
                    else (Inr duplicate, rw_requests W1)
                | None \<Rightarrow> (Inr duplicate, rw_requests W1)) of
            (Inl e, R) \<Rightarrow> (Inl e, W1)
          | (Inr request, R) \<Rightarrow>
             (case record_decision env i d request R W1 of
                (Inl e, W2) \<Rightarrow> (Inl e, W2)
              | (Inr u, W2) \<Rightarrow>
                  (case request of
                     None \<Rightarrow> (Inr \<lparr>er_decision = d, er_request = None\<rparr>, W2)
                   | Some r \<Rightarrow> if rr_job r = None \<and> eligible d
                       then (case resume_submission env tn r source W2 of
                               (Inl e, W3) \<Rightarrow> (Inl e, W3)
                             | (Inr r', W3) \<Rightarrow> (Inr \<lparr>er_decision = d, er_request = Some r'\<rparr>, W3))
                       else (Inr \<lparr>er_decision = d, er_request = Some r\<rparr>, W2)))))"

end
