(* ===== verification/Retraining_Triggers.thy ===== *)
theory Retraining_Triggers
  imports Retraining_Service
begin

text \<open>
  How a retraining trigger is built from a monitoring report, and the entry points of
  \<^verbatim>\<open>RetrainingService\<close> that do so: the evaluation of a monitoring window and the
  manual request. The reports are what the monitoring service answers.
\<close>

section \<open>Triggers\<close>

definition maximum_severity :: "drift_severity list \<Rightarrow> drift_severity" where
  "maximum_severity vs = (if vs = [] then SeverityInsufficient else Max (set vs))"

definition window_reference :: "string \<Rightarrow> (timestamp \<Rightarrow> string) \<Rightarrow> string \<Rightarrow> timestamp \<Rightarrow> timestamp \<Rightarrow> string" where
  "window_reference prefix stamp version start_at end_at =
     prefix @ version @ '':'' @ stamp start_at @ '':'' @ stamp end_at"

definition automatic_trigger ::
    "retraining_env \<Rightarrow> trigger_type \<Rightarrow> registered_version \<Rightarrow> drift_report option \<Rightarrow>
     timestamp option \<Rightarrow> timestamp option \<Rightarrow> retraining_trigger result" where
  "automatic_trigger env tt version report start_at end_at = make_retraining_trigger (case report of
     None \<Rightarrow> \<lparr>tr_type = tt,
       tr_reference = ''window:'' @ rt_window_digest env (rv_version version) start_at end_at,
       tr_status = None, tr_matched = 0, tr_analyzed = 0, tr_samples = 0, tr_truncated = False,
       tr_warning = None, tr_thresholds = []\<rparr>
   | Some r \<Rightarrow> \<lparr>tr_type = tt,
       tr_reference = window_reference ''window:'' (rt_iso env) (dr_version r) (dr_start_at r) (dr_end_at r),
       tr_status = Some (if tt = FeatureDrift then maximum_severity (map fd_severity (dr_features r))
         else if tt = PredictionDrift then pdr_severity (dr_prediction r) else dr_status r),
       tr_matched = dr_matched r, tr_analyzed = dr_analyzed r, tr_samples = dr_current_count r,
       tr_truncated = dr_truncated r, tr_warning = dr_warning r,
       tr_thresholds = [(''psi_warning'', Fin (th_warning (dr_thresholds r))),
         (''psi_critical'', Fin (th_critical (dr_thresholds r))),
         (''missing_rate_warning'', Fin (th_missing_rate (dr_thresholds r))),
         (''out_of_range_warning'', Fin (th_out_of_range (dr_thresholds r)))]\<rparr>)"

definition data_quality_trigger :: "retraining_env \<Rightarrow> quality_report \<Rightarrow> retraining_trigger result" where
  "data_quality_trigger env r =
     (let severities = map qi_severity (qr_issues r) in make_retraining_trigger
      \<lparr>tr_type = DataQuality,
       tr_reference = window_reference ''quality:'' (rt_iso env) (qr_version r) (qr_start_at r) (qr_end_at r),
       tr_status = Some (if QualityCritical \<in> set severities then SeverityCritical
         else if QualityWarning \<in> set severities then SeverityWarning else SeverityStable),
       tr_matched = qr_matched r, tr_analyzed = qr_analyzed r, tr_samples = qr_analyzed r,
       tr_truncated = qr_truncated r, tr_warning = qr_warning r, tr_thresholds = []\<rparr>)"

section \<open>Entry points\<close>

definition resolve_version :: "retraining_env \<Rightarrow> string \<Rightarrow> string \<Rightarrow> registered_version result" where
  "resolve_version env name reference = (case rt_resolve env 0 name reference of
     Inr v \<Rightarrow> Inr v
   | Inl e \<Rightarrow> if isinstance (exc_of e) [ModelRegistryError]
       then Inl (Exc RetrainingRegistryError ''The registered model version could not be resolved.'')
       else Inl e)"

definition requested_alias :: "string \<Rightarrow> string option" where
  "requested_alias reference = (if isdigit reference then None else Some reference)"

record monitoring_answers =
  ma_quality :: "string \<Rightarrow> string \<Rightarrow> timestamp option \<Rightarrow> timestamp option \<Rightarrow> quality_report result"
  ma_drift :: "string \<Rightarrow> string \<Rightarrow> timestamp option \<Rightarrow> timestamp option \<Rightarrow> nat option \<Rightarrow> drift_report result"

text \<open>
  An absent reference profile is no report; any other monitoring failure is a failed
  dependency.
\<close>

definition optional_report :: "'a result \<Rightarrow> 'a option result" where
  "optional_report r = (case r of
     Inr x \<Rightarrow> Inr (Some x)
   | Inl e \<Rightarrow> if isinstance (exc_of e) [MonitoringNotFoundError] then Inr None
       else if isinstance (exc_of e) [PredictionMonitoringError]
       then Inl (Exc RetrainingDependencyError ''Prediction monitoring could not evaluate retraining safely.'')
       else Inl e)"

record automatic_request =
  aq_name :: string
  aq_reference :: string
  aq_trigger :: trigger_type
  aq_start_at :: "timestamp option"
  aq_end_at :: "timestamp option"
  aq_minimum_samples :: "nat option"
  aq_submit :: bool
  aq_user :: uuid

definition observed_trigger ::
    "retraining_env \<Rightarrow> monitoring_answers \<Rightarrow> automatic_request \<Rightarrow> registered_version \<Rightarrow>
     (retraining_trigger \<times> bool) result" where
  "observed_trigger env m q version =
     (if aq_trigger q = DataQuality then
        bind_result (optional_report (ma_quality m (aq_name q) (rv_version version) (aq_start_at q) (aq_end_at q)))
          (\<lambda>report. case report of
             Some r \<Rightarrow> bind_result (data_quality_trigger env r) (\<lambda>t. Inr (t, True))
           | None \<Rightarrow> bind_result (automatic_trigger env (aq_trigger q) version None (aq_start_at q) (aq_end_at q))
               (\<lambda>t. Inr (t, False)))
      else
        bind_result (optional_report (ma_drift m (aq_name q) (rv_version version) (aq_start_at q) (aq_end_at q)
            (aq_minimum_samples q)))
          (\<lambda>report. bind_result (automatic_trigger env (aq_trigger q) version report (aq_start_at q) (aq_end_at q))
             (\<lambda>t. Inr (t, report \<noteq> None))))"

definition evaluate_automatic ::
    "retraining_env \<Rightarrow> monitoring_answers \<Rightarrow> tenant \<Rightarrow> automatic_request \<Rightarrow> retraining_world \<Rightarrow>
     evaluation_result result \<times> retraining_world" where
  "evaluate_automatic env m tn q W =
     (if aq_trigger q = ManualTrigger
      then (Inl (Exc RetrainingValidationError ''Manual triggers must use the manual retraining endpoint.''), W)
      else case bind_result (get_model_policy env tn (aq_name q) W) (\<lambda>p.
             bind_result (resolve_version env (aq_name q) (aq_reference q)) (\<lambda>v.
             bind_result (observed_trigger env m q v) (\<lambda>(t, profile). Inr (p, v, t, profile)))) of
          Inl e \<Rightarrow> (Inl e, W)
        | Inr (p, v, t, profile) \<Rightarrow> evaluate_request env tn
            \<lparr>ei_policy = p, ei_version = v, ei_alias = requested_alias (aq_reference q), ei_trigger = t,
             ei_mode = Automatic, ei_submit = aq_submit q, ei_user = aq_user q, ei_reason = None,
             ei_override = False, ei_override_reason = None, ei_profile = profile, ei_evaluation = None\<rparr> W)"

record manual_request =
  mq_name :: string
  mq_reference :: string
  mq_reason :: string
  mq_user :: uuid
  mq_override :: bool
  mq_is_admin :: bool

definition manual_trigger :: "retraining_env \<Rightarrow> uuid \<Rightarrow> string \<Rightarrow> retraining_trigger result" where
  "manual_trigger env user reason = make_retraining_trigger
     \<lparr>tr_type = ManualTrigger, tr_reference = ''manual:'' @ rt_manual_digest env user reason,
      tr_status = None, tr_matched = 0, tr_analyzed = 0, tr_samples = 0, tr_truncated = False,
      tr_warning = None, tr_thresholds = []\<rparr>"

definition request_manual ::
    "retraining_env \<Rightarrow> tenant \<Rightarrow> manual_request \<Rightarrow> retraining_world \<Rightarrow>
     evaluation_result result \<times> retraining_world" where
  "request_manual env tn q W =
     (let reason = strip (mq_reason q) in
      if reason = [] \<or> length reason > 1000
      then (Inl (Exc RetrainingValidationError ''Manual retraining reason must be between 1 and 1000 characters.''), W)
      else if mq_override q \<and> \<not> mq_is_admin q
      then (Inl (Exc RetrainingValidationError ''Only an administrator may override retraining cooldown.''), W)
      else case bind_result (get_model_policy env tn (mq_name q) W) (\<lambda>p.
             bind_result (resolve_version env (mq_name q) (mq_reference q)) (\<lambda>v.
             bind_result (manual_trigger env (mq_user q) reason) (\<lambda>t. Inr (p, v, t)))) of
          Inl e \<Rightarrow> (Inl e, W)
        | Inr (p, v, t) \<Rightarrow> evaluate_request env tn
            \<lparr>ei_policy = p, ei_version = v, ei_alias = requested_alias (mq_reference q), ei_trigger = t,
             ei_mode = Manual, ei_submit = True, ei_user = mq_user q, ei_reason = Some reason,
             ei_override = mq_override q, ei_override_reason = (if mq_override q then Some reason else None),
             ei_profile = True, ei_evaluation = None\<rparr> W)"

section \<open>Synchronisation with the training job\<close>

datatype sync_outcome = NoOp | Synchronized | SyncFailed

definition compared_outcome ::
    "timestamp \<Rightarrow> retraining_request \<Rightarrow> training_job option \<Rightarrow> training_job \<Rightarrow> candidate_comparison option" where
  "compared_outcome now request source job =
     (case (Option.bind source job_metrics, job_metrics job, job_registered_model_version job) of
        (Some ms, Some mc, Some version) \<Rightarrow> Some (compare_candidates (key_task (rr_key request)) ms mc
            (rr_source_version request) version now)
      | _ \<Rightarrow> None)"

definition first_given :: "'a option list \<Rightarrow> 'a \<Rightarrow> 'a" where
  "first_given os d = (case filter (\<lambda>x. x \<noteq> None) os of Some x # _ \<Rightarrow> x | _ \<Rightarrow> d)"

definition synchronize_succeeded ::
    "retraining_env \<Rightarrow> tenant \<Rightarrow> timestamp \<Rightarrow> retraining_request \<Rightarrow> training_job \<Rightarrow> retraining_world \<Rightarrow>
     retraining_world" where
  "synchronize_succeeded env tn now request job W =
     (let W1 = (if rr_status request \<noteq> RCandidateCreated \<or> rr_result_version request = None
            then W\<lparr>rw_requests := snd (update_execution (rr_id request)
               ((plain_update RCandidateCreated now)\<lparr>eu_result_version := job_registered_model_version job\<rparr>)
               (rw_requests W))\<rparr> else W);
          W2 = disturb (rt_others env 5) W1;
          source = get_training_job tn (rr_source_job request) (rw_jobs W2);
          u = (plain_update RCompleted now)\<lparr>
                 eu_completed_at := Some (first_given [job_finished_at job] now),
                 eu_result_version := job_registered_model_version job,
                 eu_comparison := compared_outcome now request source job\<rparr> in
      W2\<lparr>rw_requests := snd (update_execution (rr_id request) u (rw_requests W2)),
         rw_events := append_terminal_audit request job RCompleted (rw_events W2)\<rparr>)"

definition synchronize ::
    "retraining_env \<Rightarrow> tenant \<Rightarrow> uuid \<Rightarrow> retraining_world \<Rightarrow> sync_outcome result \<times> retraining_world" where
  "synchronize env tn i W =
     (case get_by_training_job tn i (rw_requests W) of
        Inl e \<Rightarrow> (Inl e, W)
      | Inr None \<Rightarrow> (Inr NoOp, W)
      | Inr (Some request) \<Rightarrow>
        (case get_training_job tn i (rw_jobs W) of
           None \<Rightarrow> (Inr NoOp, W)
         | Some job \<Rightarrow>
           if rr_status request \<in> terminal_statuses then (Inr NoOp, W)
           else
             (let now = rt_clock env 4; W0 = disturb (rt_others env 4) W in
              case job_status job of
                Running \<Rightarrow> (Inr Synchronized, W0\<lparr>rw_requests := snd (update_execution (rr_id request)
                     ((plain_update RTraining now)\<lparr>eu_started_at := job_started_at job\<rparr>) (rw_requests W0))\<rparr>)
              | Succeeded \<Rightarrow> (Inr Synchronized, synchronize_succeeded env tn now request job W0)
              | Queued \<Rightarrow> (Inr NoOp, W0)
              | st \<Rightarrow>
                  (let final = (if st = Cancelled then RCancelled else RFailed);
                       u = (plain_update final now)\<lparr>
                          eu_completed_at := Some (first_given [job_finished_at job, job_cancelled_at job] now),
                          eu_failure_code := job_error_code job,
                          eu_failure_message := job_safe_error_message job\<rparr> in
                   (Inr SyncFailed, W0\<lparr>rw_requests := snd (update_execution (rr_id request) u (rw_requests W0)),
                      rw_events := append_terminal_audit request job final (rw_events W0)\<rparr>)))))"

section \<open>Reconciliation\<close>

record reconciliation_result =
  rc_inspected :: nat
  rc_submitted :: nat
  rc_synchronized :: nat
  rc_failed :: nat

text \<open>
  The loop over the selected requests. \<open>envs n\<close> is the environment of the \<open>n\<close>-th step: its
  clock, faults, answers and the commits of other actors during it. An exception of a step
  leaves the loop.
\<close>

fun reconcile_each ::
    "(nat \<Rightarrow> retraining_env) \<Rightarrow> tenant \<Rightarrow> nat \<Rightarrow> retraining_request list \<Rightarrow> reconciliation_result \<Rightarrow>
     retraining_world \<Rightarrow> reconciliation_result result \<times> retraining_world" where
  "reconcile_each envs tn n [] c W = (Inr c, W)"
| "reconcile_each envs tn n (r # rs) c W =
     (case rr_job r of
        None \<Rightarrow> (case resume_submission (envs n) tn r None W of
            (Inl e, W') \<Rightarrow> (Inl e, W')
          | (Inr r', W') \<Rightarrow> reconcile_each envs tn (Suc n) rs (c\<lparr>rc_submitted := Suc (rc_submitted c)\<rparr>) W')
      | Some job \<Rightarrow> (case synchronize (envs n) tn job W of
            (Inl e, W') \<Rightarrow> (Inl e, W')
          | (Inr SyncFailed, W') \<Rightarrow> reconcile_each envs tn (Suc n) rs (c\<lparr>rc_failed := Suc (rc_failed c)\<rparr>) W'
          | (Inr Synchronized, W') \<Rightarrow>
              reconcile_each envs tn (Suc n) rs (c\<lparr>rc_synchronized := Suc (rc_synchronized c)\<rparr>) W'
          | (Inr NoOp, W') \<Rightarrow> reconcile_each envs tn (Suc n) rs c W'))"

definition make_batch_size :: "int \<Rightarrow> nat result" where
  "make_batch_size n = (if n \<le> 0 \<or> n > 1000
     then invalid ''Retraining reconciliation batch size is outside [1, 1000].'' else Inr (nat n))"

definition reconcile_retraining ::
    "(nat \<Rightarrow> retraining_env) \<Rightarrow> tenant \<Rightarrow> nat \<Rightarrow> retraining_world \<Rightarrow>
     reconciliation_result result \<times> retraining_world" where
  "reconcile_retraining envs tn batch_size W =
     (let requests = list_reconcilable tn batch_size (rw_requests W) in
      reconcile_each envs tn 0 requests
        \<lparr>rc_inspected = length requests, rc_submitted = 0, rc_synchronized = 0, rc_failed = 0\<rparr> W)"

end
