(* ===== verification/Retraining_Correct.thy ===== *)
theory Retraining_Correct
  imports Retraining_Triggers
begin

text \<open>
  What controlled retraining guarantees: quotas and deduplication of evaluations, one training
  job for each request, and requests that follow their job. Then the two ways in which the
  reconciliation of requests goes wrong.
\<close>

section \<open>Request tables\<close>

definition request_identity where
  "request_identity r = (rr_id r, rr_company r, rr_model_name r, rr_source_version r, rr_source_job r,
     rr_key r, rr_idempotency_key r, rr_mode r, rr_requested_by r, rr_requested_at r, rr_trigger r, rr_policy r)"

definition request_move :: "retraining_request \<Rightarrow> retraining_request \<Rightarrow> bool" where
  "request_move r r' \<longleftrightarrow> request_identity r' = request_identity r \<and> (rr_job r \<noteq> None \<longrightarrow> rr_job r' = rr_job r)"

named_theorems request_moves "operations that only make moves of requests"

lemma with_execution_simps [simp]:
  "rr_status (with_execution u r) = eu_status u" "rr_job (with_execution u r) = rr_job r"
  "request_identity (with_execution u r) = request_identity r" "rr_id (with_execution u r) = rr_id r"
  "rr_failure_code (with_execution u r) = eu_failure_code u"
  "rr_result_version (with_execution u r) = if_given (eu_result_version u) (rr_result_version r)"
  "rr_comparison (with_execution u r) = if_given (eu_comparison u) (rr_comparison r)"
  "rr_completed_at (with_execution u r) = if_given (eu_completed_at u) (rr_completed_at r)"
  by (simp_all add: with_execution_def request_identity_def)

lemma plain_update_simps [simp]:
  "eu_status (plain_update st t) = st" "eu_failure_code (plain_update st t) = None"
  "eu_result_version (plain_update st t) = None" "eu_comparison (plain_update st t) = None"
  "eu_completed_at (plain_update st t) = None" "eu_status (pending_update t) = RPending"
  by (simp_all add: plain_update_def pending_update_def)

lemma request_moves_trans: "request_move\<^sup>*\<^sup>* r r' \<Longrightarrow> request_move r r'"
  by (induction rule: rtranclp_induct) (auto simp: request_move_def)

lemma update_execution_evolves [request_moves]: "evolves request_move R (snd (update_execution i u R))"
  by (auto simp: update_execution_def request_move_def intro: evolves_update)

lemma attach_evolves [request_moves]: "evolves request_move R (snd (attach_training_job i job t R))"
  by (auto simp: attach_training_job_def attachable_def request_move_def request_identity_def Let_def
      intro!: evolves_update)

lemma create_request_evolves [request_moves]: "evolves request_move R (snd (create_request company_of n R))"
  by (auto simp: create_request_def Let_def split: option.splits)

lemma disturb_evolves [request_moves]: "evolves request_move (rw_requests W) (rw_requests (disturb es W))"
proof (induction es arbitrary: W)
  case (Cons e es)
  have "evolves request_move (rw_requests W) (rw_requests (apply_retraining e W))"
    by (cases e) (simp_all add: request_moves)
  then show ?case using Cons.IH [of "apply_retraining e W"] by (simp add: evolves_trans)
qed simp

lemma evolves_row:
  assumes "evolves request_move R R'" and "r \<in> set R"
  shows "\<exists>r' \<in> set R'. request_move r r'"
proof -
  obtain U V where R': "R' = U @ V" and l: "list_all2 (request_move\<^sup>*\<^sup>*) R U"
    using assms(1) unfolding evolves_def by blast
  obtain u where "u \<in> set U" "request_move\<^sup>*\<^sup>* r u"
    using l assms(2) by (metis in_set_conv_nth list_all2_conv_all_nth)
  then show ?thesis using R' request_moves_trans by auto
qed

section \<open>Resuming a submission\<close>

text \<open>
  Without commits of others, resuming a submission rewrites rows with the identifier of the
  request only, keeps their identity and leaves them active.
\<close>

definition rewrites_row :: "uuid \<Rightarrow> retraining_request list \<Rightarrow> retraining_request list \<Rightarrow> bool" where
  "rewrites_row i R R' \<longleftrightarrow> (\<exists>p f. R' = update_where p f R \<and> (\<forall>r. p r \<longrightarrow> rr_id r = i) \<and>
     (\<forall>r. p r \<longrightarrow> request_identity (f r) = request_identity r \<and> rr_status (f r) \<in> active_statuses))"

lemma rewrites_row_refl: "rewrites_row i R R"
  unfolding rewrites_row_def by (rule exI [of _ "\<lambda>_. False"], rule exI [of _ id]) (simp add: update_where_none)

lemma submission_failed_rewrites: "rewrites_row (rr_id q) (rw_requests W) (rw_requests (snd (submission_failed env q W)))"
  unfolding rewrites_row_def
  by (rule exI [of _ "\<lambda>r. rr_id r = rr_id q"], rule exI [of _ "with_execution (pending_update (rt_clock env 3))"])
     (simp add: submission_failed_def update_execution_def active_statuses_def)

lemma attach_rewrites: "rewrites_row i R (snd (attach_training_job i job t R))"
proof (cases "list_ex (attachable i) R \<and> list_ex (\<lambda>r. rr_job r = Some job) R")
  case True
  then show ?thesis by (simp add: attach_training_job_def rewrites_row_refl)
next
  case False
  then show ?thesis unfolding rewrites_row_def
    by (intro exI [of _ "attachable i"]
        exI [of _ "\<lambda>r. r\<lparr>rr_job := Some job, rr_status := RSubmitted, rr_updated_at := t\<rparr>"])
       (auto simp: attach_training_job_def Let_def attachable_def request_identity_def active_statuses_def)
qed

lemma resume_rewrites:
  assumes "rt_others env 1 = []"
  shows "rewrites_row (rr_id q) (rw_requests W) (rw_requests (snd (resume_submission env tn q source W)))"
proof -
  have failed: "rewrites_row (rr_id q) (rw_requests W)
      (rw_requests (snd (submission_failed env q (W\<lparr>rw_jobs := J\<rparr>))))" for J
    using submission_failed_rewrites [of q "W\<lparr>rw_jobs := J\<rparr>" env] by simp
  have attach: "attach_training_job i j t (rw_requests W) = (a, R) \<Longrightarrow> rewrites_row i (rw_requests W) R" for i j t a R
    using attach_rewrites [of i "rw_requests W" j t] by simp
  show ?thesis unfolding resume_submission_def Let_def assms
    by (auto simp: rewrites_row_refl failed dest: attach split: sum.splits option.splits prod.splits)
qed

lemma count_update_where:
  "(\<And>r. r \<in> set R \<Longrightarrow> p r \<Longrightarrow> c (f r) = c r) \<Longrightarrow>
    length (filter c (update_where p f R)) = length (filter c R)"
  by (induction R) auto

section \<open>Undisturbed evaluations\<close>

lemma guarded_read_Inr: "guarded_read fault r = Inr x \<longleftrightarrow> \<not> fault \<and> r = Inr x"
  by (auto simp: guarded_read_def split: sum.splits)

lemma assess_trigger_Inr:
  assumes "assess_trigger env tn i W = Inr (d, source, duplicate)"
  shows "\<exists>champion. d = evaluate (decision_context env tn i source duplicate champion (rw_requests W)) \<and>
    get_by_idempotency tn (evaluation_key env i) (rw_requests W) = Inr duplicate"
  using assms by (auto simp: assess_trigger_def guarded_read_Inr)

lemma context_simps [simp]:
  "ctx_existing (decision_context env tn i source duplicate champion R) = map_option rr_id duplicate"
  "ctx_mode (decision_context env tn i source duplicate champion R) = ei_mode i"
  "ctx_policy (decision_context env tn i source duplicate champion R) = ei_policy i"
  "ctx_model_name (decision_context env tn i source duplicate champion R) = rv_name (ei_version i)"
  "ctx_trigger (decision_context env tn i source duplicate champion R) = ei_trigger i"
  "ctx_override_cooldown (decision_context env tn i source duplicate champion R) = ei_override i"
  "ctx_evidence (decision_context env tn i source duplicate champion R) =
     (case source of None \<Rightarrow> False | Some j \<Rightarrow> job_key j = rv_key (ei_version i))"
  by (simp_all add: decision_context_def Let_def split: prod.split)

lemma eligible_not_duplicate:
  "eligible (evaluate (decision_context env tn i source duplicate champion R)) \<Longrightarrow> duplicate = None"
  by (simp add: evaluate_eligible common_checks_def)

lemma resume_new:
  assumes "rt_others env 1 = []" and "rr_id q = j" and "rw_requests W = R"
  shows "rewrites_row j R (rw_requests (snd (resume_submission env tn q source W)))"
  using resume_rewrites [OF assms(1), of q W tn source] assms(2,3) by simp

lemma persist_request_Inr:
  assumes "persist_request env tn i d source R = (Inr r, R')"
    and "get_by_idempotency tn (evaluation_key env i) R = Inr None"
  shows "\<exists>company. r = (new_request env i d source)\<lparr>rr_company := company\<rparr> \<and> R' = R @ [r] \<and>
    list_all (\<lambda>q. rr_id q \<noteq> rt_new_id env) R"
  using assms by (auto simp: persist_request_def create_request_def Let_def list_all_iff list_ex_iff
      request_conflict_def new_request_def split: sum.splits option.splits prod.splits if_splits)

lemma record_decision_cases:
  "(\<exists>e. record_decision env i d request R W = (Inl e, W)) \<or>
   (\<exists>W2. record_decision env i d request R W = (Inr (), W2) \<and> rw_requests W2 = R \<and> rw_jobs W2 = rw_jobs W)"
  by (auto simp: record_decision_def create_retraining_audit_def Let_def split: option.splits)

lemma evaluate_request_nothing:
  assumes "assess_trigger env tn i W = Inr (d, source, duplicate)" and "W1 = disturb (rt_others env 0) W"
    and "\<not> (eligible d \<and> ei_submit i \<and> source \<noteq> None)" and "eligible d \<Longrightarrow> duplicate = None"
  shows "rw_requests (snd (evaluate_request env tn i W)) = rw_requests W1 \<and>
    rw_jobs (snd (evaluate_request env tn i W)) = rw_jobs W1"
proof -
  have "(case source of
          Some j \<Rightarrow> if eligible d \<and> ei_submit i
            then (case persist_request env tn i d j (rw_requests W1) of
                    (Inl e, R) \<Rightarrow> (Inl e, R) | (Inr r, R) \<Rightarrow> (Inr (Some r), R))
            else (Inr duplicate, rw_requests W1)
        | None \<Rightarrow> (Inr duplicate, rw_requests W1)) = (Inr duplicate, rw_requests W1)"
    using assms(3) by (cases source) auto
  then have eq: "evaluate_request env tn i W =
      (case record_decision env i d duplicate (rw_requests W1) W1 of
         (Inl e, W2) \<Rightarrow> (Inl e, W2)
       | (Inr u, W2) \<Rightarrow> (Inr \<lparr>er_decision = d, er_request = duplicate\<rparr>, W2))"
    using assms(4) by (cases duplicate)
      (auto simp: evaluate_request_def assms(1) assms(2) [symmetric] split: prod.split sum.split)
  show ?thesis using record_decision_cases [of env i d duplicate "rw_requests W1" W1] by (auto simp: eq)
qed

lemma new_request_id [simp]: "rr_id (new_request env i d source) = rt_new_id env"
  by (simp add: new_request_def Let_def)

lemma evaluate_request_rows:
  assumes "rt_others env 0 = []" and "rt_others env 1 = []"
  shows "rw_requests (snd (evaluate_request env tn i W)) = rw_requests W \<or>
    (\<exists>source champion company stored.
       eligible (evaluate (decision_context env tn i (Some source) None champion (rw_requests W))) \<and>
       stored = (new_request env i (evaluate (decision_context env tn i (Some source) None champion (rw_requests W)))
         source)\<lparr>rr_company := company\<rparr> \<and>
       list_all (\<lambda>q. rr_id q \<noteq> rt_new_id env) (rw_requests W) \<and>
       rewrites_row (rt_new_id env) (rw_requests W @ [stored]) (rw_requests (snd (evaluate_request env tn i W))))"
    (is "?same \<or> ?new")
proof (cases "assess_trigger env tn i W")
  case (Inl e)
  then show ?thesis by (simp add: evaluate_request_def)
next
  case (Inr a)
  obtain d source duplicate where a: "a = (d, source, duplicate)" by (cases a)
  obtain champion where d: "d = evaluate (decision_context env tn i source duplicate champion (rw_requests W))"
    and dup: "get_by_idempotency tn (evaluation_key env i) (rw_requests W) = Inr duplicate"
    using assess_trigger_Inr Inr a by blast
  show ?thesis
  proof (cases "eligible d \<and> ei_submit i \<and> source \<noteq> None")
    case False
    have "eligible d \<Longrightarrow> duplicate = None" using d eligible_not_duplicate by blast
    then have ?same using evaluate_request_nothing [of env tn i W d source duplicate W] Inr a assms(1) False by simp
    then show ?thesis ..
  next
    case True
    then obtain j where j: "source = Some j" and el: "eligible d" and sub: "ei_submit i" by blast
    have none: "duplicate = None" using el d eligible_not_duplicate by blast
    obtain x R' where x: "persist_request env tn i d j (rw_requests W) = (x, R')" by fastforce
    show ?thesis
    proof (cases x)
      case (Inl e)
      then have ?same by (simp add: evaluate_request_def Inr a assms(1) j el sub x)
      then show ?thesis ..
    next
      case x': (Inr r)
      obtain company where r: "r = (new_request env i d j)\<lparr>rr_company := company\<rparr>" "R' = rw_requests W @ [r]"
        "list_all (\<lambda>q. rr_id q \<noteq> rt_new_id env) (rw_requests W)"
        using persist_request_Inr [of env tn i d j "rw_requests W" r R'] x x' dup none by blast
      have job: "rr_job r = None" "rr_id r = rt_new_id env" using r(1) by (simp_all add: new_request_def Let_def)
      have eq: "evaluate_request env tn i W = (case record_decision env i d (Some r) R' W of
           (Inl e, W2) \<Rightarrow> (Inl e, W2)
         | (Inr u, W2) \<Rightarrow> (case resume_submission env tn r source W2 of
               (Inl e, W3) \<Rightarrow> (Inl e, W3)
             | (Inr r', W3) \<Rightarrow> (Inr \<lparr>er_decision = d, er_request = Some r'\<rparr>, W3)))"
        by (auto simp: evaluate_request_def Inr a assms(1) j el sub x x' job(1) split: prod.split sum.split)
      show ?thesis
      proof (cases "\<exists>e. record_decision env i d (Some r) R' W = (Inl e, W)")
        case True
        then have ?same using eq by auto
        then show ?thesis ..
      next
        case False
        then obtain W2 where W2: "record_decision env i d (Some r) R' W = (Inr (), W2)" "rw_requests W2 = R'"
          using record_decision_cases [of env i d "Some r" R' W] by fastforce
        have "rw_requests (snd (evaluate_request env tn i W)) =
            rw_requests (snd (resume_submission env tn r source W2))"
          using eq W2 by (simp split: prod.split sum.split)
        then have "rewrites_row (rt_new_id env) R' (rw_requests (snd (evaluate_request env tn i W)))"
          using resume_new [OF assms(2) job(2) W2(2), of tn source] by simp
        then have ?new using r el d none j by auto
        then show ?thesis ..
      qed
    qed
  qed
qed

section \<open>Quotas\<close>

definition week_of :: "timestamp \<Rightarrow> int" where
  "week_of t = (t div day + 3) div 7"

definition automatic_requests ::
    "tenant \<Rightarrow> string \<Rightarrow> (timestamp \<Rightarrow> bool) \<Rightarrow> retraining_request list \<Rightarrow> int" where
  "automatic_requests tn name p R = int (length (filter (\<lambda>r. tenant_sees tn (rr_company r) \<and>
     rr_model_name r = name \<and> rr_mode r = Automatic \<and> p (rr_requested_at r)) R))"

definition active_requests :: "tenant \<Rightarrow> string \<Rightarrow> retraining_request list \<Rightarrow> int" where
  "active_requests tn name R = int (length (filter (\<lambda>r. tenant_sees tn (rr_company r) \<and>
     rr_model_name r = name \<and> rr_status r \<in> active_statuses) R))"

lemma day_positive: "0 < day"
  by (simp add: day_def)

lemma le_div: "0 < (c::int) \<Longrightarrow> a \<le> t div c \<longleftrightarrow> a * c \<le> t"
proof
  assume c: "0 < c" and "a \<le> t div c"
  then have "a * c \<le> t div c * c" by (simp add: mult_right_mono)
  also have "\<dots> \<le> t" using c by (simp add: minus_mod_eq_div_mult [symmetric])
  finally show "a * c \<le> t" .
next
  assume c: "0 < c" and "a * c \<le> t"
  then have "a * c div c \<le> t div c" using zdiv_mono1 c by blast
  moreover have "a * c div c = a" using c by simp
  ultimately show "a \<le> t div c" by (simp only:)
qed

lemma day_start_le: "day_start now \<le> t \<longleftrightarrow> now div day \<le> t div day"
  using le_div [OF day_positive] by (simp add: day_start_def)

lemma week_start_le: "week_start now \<le> t \<longleftrightarrow> week_of now \<le> week_of t"
proof -
  have "now div day - (now div day + 3) mod 7 = 7 * week_of now - 3"
    by (simp add: week_of_def minus_mod_eq_mult_div [symmetric])
  then have "week_start now = (7 * week_of now - 3) * day"
    by (simp add: week_start_def day_start_def left_diff_distrib [symmetric])
  then have "week_start now \<le> t \<longleftrightarrow> 7 * week_of now - 3 \<le> t div day"
    using le_div [OF day_positive] by simp
  also have "\<dots> \<longleftrightarrow> week_of now \<le> (t div day + 3) div 7"
    using le_div [of 7 "week_of now" "t div day + 3"] by linarith
  finally show ?thesis by (simp add: week_of_def)
qed

lemma rewrites_row_count:
  assumes "rewrites_row j (R @ [n]) R'" and "list_all (\<lambda>q. rr_id q \<noteq> j) R"
    and "\<And>r. request_identity r = request_identity n \<Longrightarrow> rr_status r \<in> active_statuses \<Longrightarrow> c r = c n"
  shows "length (filter c R') = length (filter c R) + (if c n then 1 else 0)"
proof -
  obtain p f where R': "R' = update_where p f (R @ [n])" and p: "\<And>r. p r \<Longrightarrow> rr_id r = j"
    and f: "\<And>r. p r \<Longrightarrow> request_identity (f r) = request_identity r \<and> rr_status (f r) \<in> active_statuses"
    using assms(1) unfolding rewrites_row_def by blast
  have "length (filter c R') = length (filter c (R @ [n]))" unfolding R'
  proof (rule count_update_where)
    fix r assume "r \<in> set (R @ [n])" "p r"
    then have "r = n" using p assms(2) by (auto simp: list_all_iff)
    then show "c (f r) = c r" using f [OF \<open>p r\<close>] assms(3) by simp
  qed
  then show ?thesis by simp
qed

lemma eligible_automatic:
  assumes "eligible (evaluate c)" and "ctx_mode c = Automatic"
  shows "qs_today (ctx_quota c) < qs_max_per_day (ctx_quota c) \<and>
    qs_this_week (ctx_quota c) < qs_max_per_week (ctx_quota c)"
  using assms by (simp add: evaluate_eligible automatic_checks_def)

lemma context_quota:
  fixes env tn i source duplicate champion R
  defines "now \<equiv> rt_clock env 0" and "c \<equiv> decision_context env tn i source duplicate champion R"
  shows "qs_today (ctx_quota c) = automatic_requests tn (rv_name (ei_version i)) (\<lambda>t. day_start now \<le> t) R"
    and "qs_this_week (ctx_quota c) = automatic_requests tn (rv_name (ei_version i)) (\<lambda>t. week_start now \<le> t) R"
    and "qs_max_per_day (ctx_quota c) = pol_max_per_day (ei_policy i)"
    and "qs_max_per_week (ctx_quota c) = pol_max_per_week (ei_policy i)"
    and "ctx_active c = None \<longleftrightarrow> active_requests tn (rv_name (ei_version i)) R < pol_max_active (ei_policy i) \<or>
       active_request tn (rv_name (ei_version i)) R = None"
    and "cs_active (ctx_cooldown c) \<longleftrightarrow> (\<exists>t. latest (map rr_requested_at (filter (\<lambda>r. tenant_sees tn (rr_company r) \<and>
       rr_model_name r = rv_name (ei_version i) \<and> rr_mode r = Automatic) R)) = Some t \<and>
       now < t + pol_cooldown_seconds (ei_policy i) * second)"
  by (auto simp: c_def now_def decision_context_def states_def request_counts_def count_requests_def
      automatic_requests_def active_requests_def Let_def split: option.splits if_splits)

lemma active_request_None:
  "active_request tn name R = None \<Longrightarrow> active_requests tn name R = 0"
proof -
  let ?A = "filter (\<lambda>r. tenant_sees tn (rr_company r) \<and> rr_model_name r = name \<and> rr_status r \<in> active_statuses) R"
  assume "active_request tn name R = None"
  then have "sort_key (\<lambda>r. - rr_requested_at r) ?A = []" by (simp add: active_request_def)
  then have "length ?A = 0" by (metis length_sort list.size(3))
  then show ?thesis by (simp add: active_requests_def)
qed

lemma automatic_requests_mono:
  "(\<And>t. p t \<Longrightarrow> q t) \<Longrightarrow> automatic_requests tn name p R \<le> automatic_requests tn name q R"
  by (induction R) (auto simp: automatic_requests_def)

lemma latest_bound: "latest ts = x \<Longrightarrow> t \<in> set ts \<Longrightarrow> \<exists>m. x = Some m \<and> t \<le> m"
  by (auto simp: latest_def)

lemma automatic_requests_rewritten:
  assumes "rewrites_row j (R @ [n]) R'" and "list_all (\<lambda>q. rr_id q \<noteq> j) R"
  shows "automatic_requests tn name p R' = automatic_requests tn name p R +
    (if tenant_sees tn (rr_company n) \<and> rr_model_name n = name \<and> rr_mode n = Automatic \<and> p (rr_requested_at n)
     then 1 else 0)"
  unfolding automatic_requests_def
  by (subst rewrites_row_count [OF assms]) (simp_all add: request_identity_def)

lemma active_requests_rewritten:
  assumes "rewrites_row j (R @ [n]) R'" and "list_all (\<lambda>q. rr_id q \<noteq> j) R" and "rr_status n = RPending"
  shows "active_requests tn name R' \<le> active_requests tn name R + 1"
  unfolding active_requests_def
  by (subst rewrites_row_count [OF assms(1,2)])
     (use assms(3) in \<open>simp_all add: request_identity_def active_statuses_def\<close>)

text \<open>
  C7: Automatic evaluations that do not race respect the policy. After an automatic evaluation
  of a model, created request and failures of the submission included, the number of its
  automatic requests on any day and in any week, and of its active requests, is at most what it
  was or the limit of the policy; and when a request was created, the cooldown of every earlier
  automatic request had passed.
\<close>

theorem automatic_quotas_hold:
  assumes "make_retraining_policy (ei_policy i) = Inr p" and "ei_mode i = Automatic" and "\<not> ei_override i"
    and "rt_others env 0 = []" and "rt_others env 1 = []" and "rt_clock env 0 \<le> rt_clock env 1"
    and "name = rv_name (ei_version i)" and "R = rw_requests W" and "R' = rw_requests (snd (evaluate_request env tn i W))"
  shows "automatic_requests tn name (\<lambda>t. t div day = d) R' \<le>
      max (automatic_requests tn name (\<lambda>t. t div day = d) R) (pol_max_per_day p) \<and>
    automatic_requests tn name (\<lambda>t. week_of t = w) R' \<le>
      max (automatic_requests tn name (\<lambda>t. week_of t = w) R) (pol_max_per_week p) \<and>
    active_requests tn name R' \<le> max (active_requests tn name R) (pol_max_active p) \<and>
    (R' = R \<or> list_all (\<lambda>r. tenant_sees tn (rr_company r) \<and> rr_model_name r = name \<and> rr_mode r = Automatic \<longrightarrow>
       rr_requested_at r + pol_cooldown_seconds p * second \<le> rt_clock env 0) R)"
proof (cases "R' = R")
  case True
  then show ?thesis by simp
next
  case False
  have p: "ei_policy i = p" "0 < pol_max_active p" using valid_policy_minimum [OF assms(1)] by auto
  let ?now = "rt_clock env 0"
  obtain source champion company n where
    el: "eligible (evaluate (decision_context env tn i (Some source) None champion R))" and
    n: "n = (new_request env i (evaluate (decision_context env tn i (Some source) None champion R)) source)
       \<lparr>rr_company := company\<rparr>" and
    fresh: "list_all (\<lambda>q. rr_id q \<noteq> rt_new_id env) R" and
    rw: "rewrites_row (rt_new_id env) (R @ [n]) R'"
    using evaluate_request_rows [OF assms(4,5), of tn i W] False unfolding assms(8,9) by blast
  let ?c = "decision_context env tn i (Some source) None champion R"
  note quota = context_quota [of env tn i "Some source" None champion R, unfolded p(1) assms(7) [symmetric]]
  have at1: "rr_requested_at n = rt_clock env 1" and pending: "rr_status n = RPending"
    by (simp_all add: n new_request_def Let_def)
  have lim: "automatic_requests tn name (\<lambda>t. day_start ?now \<le> t) R < pol_max_per_day p"
    "automatic_requests tn name (\<lambda>t. week_start ?now \<le> t) R < pol_max_per_week p"
    using eligible_automatic [OF el] assms(2) by (simp_all add: quota)
  have common: "common_checks ?c" using el by (simp add: evaluate_eligible)
  have "ctx_active ?c = None" using common by (simp add: common_checks_def)
  then have act: "active_requests tn name R < pol_max_active p"
    using active_request_None [of tn name R] p(2) by (auto simp: quota(5))
  have idle: "\<not> cs_active (ctx_cooldown ?c)" using common assms(3) by (simp add: common_checks_def)
  have day_bound: "automatic_requests tn name (\<lambda>t. t div day = d) R' \<le>
      max (automatic_requests tn name (\<lambda>t. t div day = d) R) (pol_max_per_day p)"
  proof (cases "rt_clock env 1 div day = d")
    case True
    then have "?now div day \<le> d" using assms(6) day_positive zdiv_mono1 by blast
    then have "automatic_requests tn name (\<lambda>t. t div day = d) R \<le> automatic_requests tn name (\<lambda>t. day_start ?now \<le> t) R"
      by (intro automatic_requests_mono) (simp add: day_start_le)
    then show ?thesis using lim(1) automatic_requests_rewritten [OF rw fresh, of tn name "\<lambda>t. t div day = d"]
      by (simp split: if_splits)
  qed (use automatic_requests_rewritten [OF rw fresh, of tn name "\<lambda>t. t div day = d"] at1 in simp)
  have week_bound: "automatic_requests tn name (\<lambda>t. week_of t = w) R' \<le>
      max (automatic_requests tn name (\<lambda>t. week_of t = w) R) (pol_max_per_week p)"
  proof (cases "week_of (rt_clock env 1) = w")
    case True
    then have "week_of ?now \<le> w" using assms(6) day_positive by (auto simp: week_of_def intro!: zdiv_mono1)
    then have "automatic_requests tn name (\<lambda>t. week_of t = w) R \<le> automatic_requests tn name (\<lambda>t. week_start ?now \<le> t) R"
      by (intro automatic_requests_mono) (simp add: week_start_le)
    then show ?thesis using lim(2) automatic_requests_rewritten [OF rw fresh, of tn name "\<lambda>t. week_of t = w"]
      by (simp split: if_splits)
  qed (use automatic_requests_rewritten [OF rw fresh, of tn name "\<lambda>t. week_of t = w"] at1 in simp)
  have cool: "list_all (\<lambda>r. tenant_sees tn (rr_company r) \<and> rr_model_name r = name \<and> rr_mode r = Automatic \<longrightarrow>
       rr_requested_at r + pol_cooldown_seconds p * second \<le> ?now) R"
    unfolding list_all_iff
  proof (intro ballI impI)
    fix r assume r: "r \<in> set R" "tenant_sees tn (rr_company r) \<and> rr_model_name r = name \<and> rr_mode r = Automatic"
    let ?ts = "map rr_requested_at (filter (\<lambda>r. tenant_sees tn (rr_company r) \<and> rr_model_name r = name \<and> rr_mode r = Automatic) R)"
    have "rr_requested_at r \<in> set ?ts" using r by auto
    then obtain m where "latest ?ts = Some m" "rr_requested_at r \<le> m" using latest_bound by blast
    then show "rr_requested_at r + pol_cooldown_seconds p * second \<le> ?now"
      using idle by (auto simp: quota(6) not_less)
  qed
  show ?thesis using day_bound week_bound cool act active_requests_rewritten [OF rw fresh pending, of tn name]
    by (simp add: max_def)
qed

section \<open>Samples\<close>

text \<open>
  The succeeded job 7 of company 9 registered version 1 of its model, which is the champion; a
  critical feature drift of it is evaluated for user 5.
\<close>

definition sample_trained :: training_job where
  "sample_trained = bump (\<lambda>r. (with_outcome sample_outcome r)\<lparr>job_status := Succeeded, job_finished_at := Some 30,
     job_error_code := None, job_safe_error_message := None\<rparr>) sample_running"

lemma sample_trained_reachable: "reachable [sample_trained]"
proof -
  have "reachable (run [Claim 7 20, Succeed 7 1 30 sample_outcome] [sample_job])"
    by (rule run_reachable [OF sample_reachable])
  then show ?thesis
    by (simp add: sample_claimed) (simp add: mark_succeeded_def conditional_update_def expects_def sample_trained_def)
qed

lemma sample_trained_simps [simp]:
  "job_id sample_trained = 7" "job_company_id sample_trained = 9" "job_status sample_trained = Succeeded"
  "job_specification sample_trained = sample_spec" "job_registered_model_version sample_trained = Some ''1''"
  "job_key sample_trained = random_forest_key Classification" "job_idempotency_key sample_trained = Some ''k''"
  "job_requested_by sample_trained = 5" "job_finished_at sample_trained = Some 30"
  "job_queue_message_id sample_trained = None" "job_error_code sample_trained = None"
  "job_metrics sample_trained = Some Map.empty"
  by (simp_all add: sample_trained_def sample_running_def sample_outcome_def)

definition sample_version :: registered_version where
  "sample_version = \<lparr>rv_name = ''pump_model'', rv_version = ''1'', rv_run_id = ''r'', rv_source_uri = ''s'',
     rv_key = random_forest_key Classification, rv_status = Ready, rv_aliases = [''champion'']\<rparr>"

definition sample_renv :: retraining_env where
  "sample_renv = \<lparr>rt_company_of = (\<lambda>_. Some 9), rt_clock = (\<lambda>n. 100 + int n), rt_new_id = 60,
     rt_key_digest = (\<lambda>(name, policy, version, reference, tt). reference), rt_iso = (\<lambda>_. ''t''),
     rt_window_digest = (\<lambda>_ _ _. ''w''), rt_manual_digest = (\<lambda>_ _. ''m''),
     rt_resolve = (\<lambda>_ _ _. Inr sample_version), rt_submit = sample_env\<lparr>se_new_id := 8\<rparr>,
     rt_config = sample_config, rt_fault = (\<lambda>_. False), rt_others = (\<lambda>_. [])\<rparr>"

definition sample_input :: evaluation_input where
  "sample_input = \<lparr>ei_policy = sample_policy, ei_version = sample_version, ei_alias = None,
     ei_trigger = sample_trigger SeverityCritical, ei_mode = Automatic, ei_submit = True, ei_user = 5,
     ei_reason = None, ei_override = False, ei_override_reason = None, ei_profile = True, ei_evaluation = None\<rparr>"

definition sample_world :: retraining_world where
  "sample_world = \<lparr>rw_policies = [], rw_requests = [], rw_audits = [], rw_jobs = [sample_trained], rw_events = []\<rparr>"

lemma sample_renv_simps [simp]:
  "rt_others sample_renv n = []" "rt_clock sample_renv n = 100 + int n" "rt_submit sample_renv = sample_env\<lparr>se_new_id := 8\<rparr>"
  "rt_config sample_renv = sample_config" "rt_fault sample_renv a = False" "rt_company_of sample_renv u = Some 9"
  "rt_new_id sample_renv = 60" "rt_resolve sample_renv n name v = Inr sample_version"
  by (simp_all add: sample_renv_def)

lemma sample_input_simps [simp]:
  "ei_policy sample_input = sample_policy" "ei_mode sample_input = Automatic" "\<not> ei_override sample_input"
  "ei_version sample_input = sample_version" "ei_submit sample_input" "ei_user sample_input = 5"
  "ei_trigger sample_input = sample_trigger SeverityCritical" "ei_profile sample_input"
  "ei_evaluation sample_input = None"
  by (simp_all add: sample_input_def)

theorem automatic_quotas_hold_witness:
  "automatic_requests None ''pump_model'' (\<lambda>t. t div day = 0)
     (rw_requests (snd (evaluate_request sample_renv None sample_input sample_world))) \<le> 2"
proof -
  have "make_retraining_policy (ei_policy sample_input) = Inr sample_policy"
    by (simp add: sample_policy_valid)
  moreover have "automatic_requests None (rv_name sample_version) p (rw_requests sample_world) = 0" for p
    by (simp add: automatic_requests_def sample_world_def)
  moreover have "rv_name sample_version = ''pump_model''" "pol_max_per_day sample_policy = 2"
    by (simp_all add: sample_version_def sample_policy_def)
  ultimately show ?thesis
    using automatic_quotas_hold [OF _ _ _ _ _ _ refl refl refl, of sample_input sample_policy sample_renv None 0 sample_world]
    by simp
qed

end
