(* ===== verification/Retraining_Safety.thy ===== *)
theory Retraining_Safety
  imports Retraining_Correct
begin

text \<open>
  Deduplication of triggers, recovery of interrupted submissions, and the synchronisation of
  requests with their training job; then two failures of reconciliation: a stale
  synchronisation reopens a finished request, and a request whose specification cannot be built
  stops every pass.
\<close>

section \<open>Deduplication\<close>

lemma submission_failed_evolves: "evolves request_move (rw_requests W) (rw_requests (snd (submission_failed env q W)))"
  by (simp add: submission_failed_def request_moves)

lemma resume_evolves: "evolves request_move (rw_requests W) (rw_requests (snd (resume_submission env tn q source W)))"
proof -
  have others: "evolves request_move (rw_requests W) (rw_requests (disturb es (W\<lparr>rw_jobs := J\<rparr>)))" for es J
    using disturb_evolves [of "W\<lparr>rw_jobs := J\<rparr>" es] by simp
  have failed: "evolves request_move (rw_requests W) (rw_requests (snd (submission_failed env q (disturb es (W\<lparr>rw_jobs := J\<rparr>)))))" for es J
    using evolves_trans [OF others submission_failed_evolves] by simp
  have attach: "attach_training_job i j t (rw_requests (disturb es (W\<lparr>rw_jobs := J\<rparr>))) = (a, R) \<Longrightarrow>
      evolves request_move (rw_requests W) R" for i j t a R es J
    using evolves_trans [OF others attach_evolves [of "rw_requests (disturb es (W\<lparr>rw_jobs := J\<rparr>))" i j t]] by simp
  show ?thesis unfolding resume_submission_def Let_def
    by (auto simp: others failed dest: attach split: sum.splits option.splits prod.splits)
qed

lemma persisted_row:
  assumes "persist_request env tn i d source R = (Inr r, R')"
    and "rt_company_of env (ei_user i) = Some c" and "tenant_sees tn c"
  shows "\<exists>q \<in> set R'. rr_idempotency_key q = evaluation_key env i \<and> tenant_sees tn (rr_company q)"
proof (cases "list_ex (request_conflict (new_request env i d source)) R")
  case True
  then have "r \<in> set (filter (\<lambda>r. tenant_sees tn (rr_company r) \<and> rr_idempotency_key r = evaluation_key env i) R)" "R' = R"
    using assms by (auto simp: persist_request_def create_request_def isinstance_def get_by_idempotency_def
        scalar_one_or_none_Some new_request_def Let_def split: option.splits dest!: filter_single)
  then show ?thesis by auto
next
  case False
  then show ?thesis using assms
    by (auto simp: persist_request_def create_request_def new_request_def Let_def)
qed

lemma eligible_source:
  assumes "assess_trigger env tn i W = Inr (d, source, duplicate)" and "eligible d"
  shows "source \<noteq> None \<and> duplicate = None"
proof -
  obtain champion where d: "d = evaluate (decision_context env tn i source duplicate champion (rw_requests W))"
    using assess_trigger_Inr [OF assms(1)] by blast
  have "common_checks (decision_context env tn i source duplicate champion (rw_requests W))"
    using assms(2) unfolding d evaluate_eligible by simp
  then have "case source of None \<Rightarrow> False | Some j \<Rightarrow> job_key j = rv_key (ei_version i)" "duplicate = None"
    by (simp_all add: common_checks_def)
  then show ?thesis by (cases source) simp_all
qed

lemma eligible_leaves_row:
  assumes "evaluate_request env tn i W = (Inr res, W1)" and "eligible (er_decision res)" and "ei_submit i"
    and "rt_company_of env (ei_user i) = Some c" and "tenant_sees tn c"
  shows "\<exists>q \<in> set (rw_requests W1). rr_idempotency_key q = evaluation_key env i \<and> tenant_sees tn (rr_company q)"
proof -
  let ?V = "disturb (rt_others env 0) W"
  obtain d source duplicate where a: "assess_trigger env tn i W = Inr (d, source, duplicate)"
    using assms(1) by (cases "assess_trigger env tn i W") (auto simp: evaluate_request_def)
  have "er_decision res = d" using assms(1)
    by (auto simp: evaluate_request_def a Let_def split: sum.splits prod.splits option.splits if_splits)
  then have el: "eligible d" using assms(2) by simp
  then obtain j where j: "source = Some j" using eligible_source [OF a] by auto
  obtain r R' where r: "persist_request env tn i d j (rw_requests ?V) = (Inr r, R')"
    using assms(1,3) el by (cases "persist_request env tn i d j (rw_requests ?V)")
      (auto simp: evaluate_request_def a j split: sum.splits)
  obtain W2 where W2: "record_decision env i d (Some r) R' ?V = (Inr (), W2)" "rw_requests W2 = R'"
    using assms(1,3) el record_decision_cases [of env i d "Some r" R' ?V]
    by (auto simp: evaluate_request_def a j r)
  have "W1 = W2 \<or> W1 = snd (resume_submission env tn r source W2)"
    using assms(1,3) el by (auto simp: evaluate_request_def a j r W2(1) split: sum.splits prod.splits if_splits)
  then have "evolves request_move R' (rw_requests W1)" using resume_evolves W2(2) by blast
  moreover obtain q where "q \<in> set R'" "rr_idempotency_key q = evaluation_key env i" "tenant_sees tn (rr_company q)"
    using persisted_row [OF r assms(4,5)] by blast
  ultimately show ?thesis using evolves_row by (fastforce simp: request_move_def request_identity_def)
qed

text \<open>
  C8: Triggers are deduplicated. After an evaluation was eligible and persisted its request, and
  whatever other actors commit then, an evaluation with the same idempotency key, which hashes
  the model, the exact version, the trigger and the policy version, is never eligible again: it
  creates no request and submits no job.
\<close>

theorem repeated_trigger_is_blocked:
  assumes "evaluate_request env tn i W = (Inr res, W1)" and "eligible (er_decision res)" and "ei_submit i"
    and "rt_company_of env (ei_user i) = Some c" and "tenant_sees tn c"
    and "evaluation_key env' i' = evaluation_key env i"
    and "evaluate_request env' tn i' (disturb es W1) = (Inr res', W3)"
  shows "\<not> eligible (er_decision res') \<and>
    rw_requests W3 = rw_requests (disturb (rt_others env' 0) (disturb es W1)) \<and>
    rw_jobs W3 = rw_jobs (disturb (rt_others env' 0) (disturb es W1))"
proof -
  let ?W2 = "disturb es W1"
  obtain q where q: "q \<in> set (rw_requests ?W2)" "rr_idempotency_key q = evaluation_key env' i'" "tenant_sees tn (rr_company q)"
    using eligible_leaves_row [OF assms(1-5)] evolves_row [OF disturb_evolves [of W1 es]] assms(6)
    by (fastforce simp: request_move_def request_identity_def)
  obtain d source duplicate where a: "assess_trigger env' tn i' ?W2 = Inr (d, source, duplicate)"
    using assms(7) by (cases "assess_trigger env' tn i' ?W2") (auto simp: evaluate_request_def)
  have "er_decision res' = d" using assms(7)
    by (auto simp: evaluate_request_def a Let_def split: sum.splits prod.splits option.splits if_splits)
  moreover have "get_by_idempotency tn (evaluation_key env' i') (rw_requests ?W2) = Inr duplicate"
    using assess_trigger_Inr [OF a] by blast
  then have "duplicate \<noteq> None" using q scalar_one_or_none_None
    by (metis (mono_tags, lifting) filter_empty_conv get_by_idempotency_def)
  then have no: "\<not> eligible d" using eligible_source [OF a] by blast
  ultimately show ?thesis
    using evaluate_request_nothing [OF a, of "disturb (rt_others env' 0) ?W2"] assms(7) by simp
qed

section \<open>A sample evaluation\<close>

lemma tenant_sees_unscoped [simp]: "tenant_sees None c"
  by (simp add: tenant_sees_def)

definition sample_decision :: retraining_decision where
  "sample_decision = evaluate (decision_context sample_renv None sample_input (Some sample_trained) None
     (Some sample_version) [])"

definition sample_request :: retraining_request where
  "sample_request = (new_request sample_renv sample_input sample_decision sample_trained)\<lparr>rr_company := 9\<rparr>"

definition sample_retraining_spec :: job_spec where
  "sample_retraining_spec = sample_spec\<lparr>spec_tags := retraining_tags sample_spec 60 FeatureDrift ''1'' 7 50\<rparr>"

definition sample_retraining_job :: training_job where
  "sample_retraining_job = bump (\<lambda>r. r\<lparr>job_queue_message_id := Some ''m'', job_error_code := None,
     job_safe_error_message := None\<rparr>) (new_job 9 \<lparr>ca_job_id = 8, ca_requested_by = 5,
       ca_key = random_forest_key Classification, ca_specification = sample_retraining_spec,
       ca_idempotency_key = Some ''retraining-window:a'', ca_fingerprint = ''exp'', ca_max_attempts = 2,
       ca_queued_at = 10, ca_created_at = 10\<rparr>)"

lemma sample_decision_eligible: "eligible sample_decision"
  unfolding sample_decision_def
  by (subst evaluate_eligible)
     (simp add: common_checks_def automatic_checks_def insufficient_sample_def decision_context_def states_def
        request_counts_def count_requests_def latest_def active_request_def sample_policy_def sample_trigger_def
        sample_version_def less_eq_drift_severity_def Let_def)

lemma sample_decision_simps [simp]:
  "dec_model_name sample_decision = ''pump_model''" "dec_source_version sample_decision = Some ''1''"
  "dec_trigger sample_decision = sample_trigger SeverityCritical"
  by (simp_all add: sample_decision_def sample_version_def decision_context_def Let_def split: prod.split)

lemma sample_trigger_simps [simp]:
  "tr_type (sample_trigger s) = FeatureDrift" "tr_reference (sample_trigger s) = ''window:a''"
  by (simp_all add: sample_trigger_def)

lemma sample_key [simp]: "evaluation_key sample_renv sample_input = ''window:a''"
  by (simp add: evaluation_key_def) (simp add: sample_renv_def)

lemma sample_request_simps [simp]:
  "rr_id sample_request = 60" "rr_job sample_request = None" "rr_status sample_request = RPending"
  "rr_model_name sample_request = ''pump_model''" "rr_source_version sample_request = ''1''"
  "rr_trigger sample_request = FeatureDrift" "rr_policy sample_request = 50" "rr_requested_by sample_request = 5"
  "rr_key sample_request = random_forest_key Classification" "rr_idempotency_key sample_request = ''window:a''"
  "rr_company sample_request = 9" "rr_evaluation sample_request = None"
  by (simp_all add: sample_request_def new_request_def Let_def) (simp add: sample_policy_def)

lemma sample_build: "build_retraining_specification sample_spec 60 FeatureDrift ''1'' 7 50 = Inr sample_retraining_spec"
  using retraining_specification_core [OF sample_spec_valid, of "''1''" _ 60 FeatureDrift 7 50]
  by (simp add: user_tags_def sample_spec_def sample_retraining_spec_def strip_Nil_iff py_isspace_def
      protected_retraining_tags_def)

lemma sample_retraining_submit:
  "submit (sample_env\<lparr>se_new_id := 8\<rparr>) sample_config None 5 (random_forest_key Classification) sample_retraining_spec
     (Some ''retraining-window:a'') False [sample_trained] =
   (Inr \<lparr>sub_job = sample_retraining_job, sub_created = True\<rparr>, [sample_trained, sample_retraining_job])"
  by (simp add: submit_def normalize_idempotency_key_def strip_def lstrip_def py_isspace_def Let_def
      find_submission_def get_idempotent_def check_quota_def sample_env_def sample_config_def
      create_job_def insert_allowed_def new_job_def enqueue_created_def store_identifier_def same_idempotency_scope_def
      set_queue_identifier_def expects_def sample_retraining_job_def sample_retraining_spec_def sample_spec_def)

lemma sample_trigger_assess:
  "assess_trigger sample_renv None sample_input sample_world = Inr (sample_decision, Some sample_trained, None)"
  by (simp add: assess_trigger_def safe_source_job_def guarded_read_def find_source_training_job_def sample_world_def
      visible_def sample_version_def get_by_idempotency_def resolve_champion_def
      sample_decision_def sample_spec_def)

lemma sample_persist:
  "persist_request sample_renv None sample_input sample_decision sample_trained [] = (Inr sample_request, [sample_request])"
  by (simp add: persist_request_def create_request_def sample_request_def Let_def)

lemma sample_retraining_job_simps [simp]:
  "job_id sample_retraining_job = 8" "job_status sample_retraining_job = Queued"
  "job_queue_message_id sample_retraining_job = Some ''m''" "job_company_id sample_retraining_job = 9"
  by (simp_all add: sample_retraining_job_def new_job_def)

definition sample_submitted :: retraining_request where
  "sample_submitted = sample_request\<lparr>rr_job := Some 8, rr_status := RSubmitted, rr_updated_at := 102\<rparr>"

definition sample_attempted :: retraining_world where
  "sample_attempted = snd (record_decision sample_renv sample_input sample_decision (Some sample_request)
     [sample_request] sample_world)"

lemma sample_attempted_simps [simp]:
  "record_decision sample_renv sample_input sample_decision (Some sample_request) [sample_request] sample_world =
     (Inr (), sample_attempted)"
  "rw_jobs sample_attempted = [sample_trained]" "rw_requests sample_attempted = [sample_request]"
  "rw_events sample_attempted = []"
  by (simp_all add: sample_attempted_def record_decision_def create_retraining_audit_def sample_world_def Let_def)

definition sample_after :: retraining_world where
  "sample_after = sample_attempted\<lparr>rw_jobs := [sample_trained, sample_retraining_job], rw_requests := [sample_submitted]\<rparr>"

lemma sample_resume:
  "resume_submission sample_renv None sample_request (Some sample_trained) sample_attempted = (Inr sample_submitted, sample_after)"
  by (simp add: resume_submission_def sample_build submission_key_def sample_retraining_submit attach_training_job_def
      attachable_def sample_submitted_def sample_after_def Let_def)

lemma sample_evaluation:
  "evaluate_request sample_renv None sample_input sample_world =
     (Inr \<lparr>er_decision = sample_decision, er_request = Some sample_submitted\<rparr>, sample_after)"
proof -
  have "rw_requests sample_world = []" by (simp add: sample_world_def)
  then show ?thesis using sample_decision_eligible
    by (simp add: evaluate_request_def sample_trigger_assess sample_persist sample_resume Let_def)
qed

lemma sample_submitted_simps [simp]:
  "rr_job sample_submitted = Some 8" "rr_idempotency_key sample_submitted = ''window:a''"
  "rr_company sample_submitted = 9" "rr_id sample_submitted = 60" "rr_status sample_submitted = RSubmitted"
  by (simp_all add: sample_submitted_def)

lemma sample_second:
  "\<exists>d. evaluate_request sample_renv None sample_input sample_after =
     (Inr \<lparr>er_decision = d, er_request = Some sample_submitted\<rparr>,
      snd (evaluate_request sample_renv None sample_input sample_after))"
proof -
  obtain d where a: "assess_trigger sample_renv None sample_input sample_after = Inr (d, Some sample_trained, Some sample_submitted)"
    by (simp add: assess_trigger_def safe_source_job_def guarded_read_def find_source_training_job_def sample_after_def
        visible_def sample_version_def get_by_idempotency_def resolve_champion_def sample_spec_def)
  then have no: "\<not> eligible d" using eligible_source [OF a] by blast
  then show ?thesis
    by (simp add: evaluate_request_def a record_decision_def create_retraining_audit_def Let_def)
qed

theorem repeated_trigger_is_blocked_witness:
  "rw_jobs (snd (evaluate_request sample_renv None sample_input (disturb [] sample_after))) =
     [sample_trained, sample_retraining_job]"
proof -
  obtain d where "evaluate_request sample_renv None sample_input (disturb [] sample_after) =
     (Inr \<lparr>er_decision = d, er_request = Some sample_submitted\<rparr>,
      snd (evaluate_request sample_renv None sample_input sample_after))"
    using sample_second by auto
  from repeated_trigger_is_blocked [OF sample_evaluation _ _ _ _ refl this, of 9] sample_decision_eligible
  show ?thesis by (simp add: sample_after_def)
qed

section \<open>Interrupted submissions\<close>

lemma attach_attaches:
  assumes "distinct (map rr_id R)" and "r \<in> set R" and "rr_id r = i" and "rr_job r = None" and "rr_status r = RPending"
    and "\<not> list_ex (\<lambda>r. rr_job r = Some job) R"
  shows "attach_training_job i job t R =
    (Inr (Some (r\<lparr>rr_job := Some job, rr_status := RSubmitted, rr_updated_at := t\<rparr>)),
     update_where (attachable i) (\<lambda>r. r\<lparr>rr_job := Some job, rr_status := RSubmitted, rr_updated_at := t\<rparr>) R)"
proof -
  have "lookup rr_id i R = Some r" using lookup_distinct [OF assms(1,2)] assms(3) by simp
  then have "at_most_one (returning (attachable i)
      (\<lambda>r. r\<lparr>rr_job := Some job, rr_status := RSubmitted, rr_updated_at := t\<rparr>) R) =
      Some (r\<lparr>rr_job := Some job, rr_status := RSubmitted, rr_updated_at := t\<rparr>)"
    using assms(4,5) by (subst at_most_one_returning [OF assms(1), of _ i "\<lambda>r. rr_job r = None \<and> rr_status r = RPending"])
      (auto simp: attachable_def)
  then show ?thesis using assms(6) by (simp add: attach_training_job_def Let_def)
qed

text \<open>
  An interrupted submission is resumed with the job it created. When the submission of a
  request was accepted but its attachment was lost, then, after any commits on the job table,
  resuming the still unattached request attaches the very job of the first submission and leaves
  the job table as it is: no second job is created. The job must not wait for its message
  identifier any more.
\<close>

theorem interrupted_submission_resumes_same_job:
  assumes "reachable T"
    and "submit (rt_submit env) (rt_config env) tn (rr_requested_by q) (rr_key q) spec (Some (submission_key q)) False T =
      (Inr s, J)"
    and "build_retraining_specification (job_specification j) (rr_id q) (rr_trigger q) (rr_source_version q) (job_id j)
      (rr_policy q) = Inr spec"
    and "rw_jobs W = run es J" and "lookup job_id (job_id (sub_job s)) (run es J) = Some r"
    and "\<not> (job_status r = Queued \<and> job_queue_message_id r = None)" and "visible tn r"
    and "se_fingerprint (rt_submit env') = se_fingerprint (rt_submit env)"
    and "rt_others env' 1 = []" and "\<not> rt_fault env' AtAttach"
    and "distinct (map rr_id (rw_requests W))" and "q \<in> set (rw_requests W)"
    and "rr_job q = None" and "rr_status q = RPending"
    and "\<not> list_ex (\<lambda>x. rr_job x = Some (job_id r)) (rw_requests W)"
  shows "\<exists>q' W'. resume_submission env' tn q (Some j) W = (Inr q', W') \<and>
    rr_job q' = Some (job_id (sub_job s)) \<and> rr_status q' = RSubmitted \<and>
    lookup rr_id (rr_id q) (rw_requests W') = Some q' \<and> rw_jobs W' = rw_jobs W"
proof -
  have r: "job_id r = job_id (sub_job s)" using lookup_SomeD [OF assms(5)] by simp
  let ?f = "\<lambda>r. r\<lparr>rr_job := Some (job_id (sub_job s)), rr_status := RSubmitted, rr_updated_at := rt_clock env' 2\<rparr>"
  have again: "submit (rt_submit env') (rt_config env') tn (rr_requested_by q) (rr_key q) spec (Some (submission_key q))
      False (rw_jobs W) = (Inr \<lparr>sub_job = r, sub_created = False\<rparr>, rw_jobs W)"
    unfolding assms(4) by (rule resubmission_core [OF assms(1,2,5-8)])
  have "attach_training_job (rr_id q) (job_id (sub_job s)) (rt_clock env' 2) (rw_requests W) =
      (Inr (Some (?f q)), update_where (attachable (rr_id q)) ?f (rw_requests W))"
    using assms(13-15) r by (intro attach_attaches [OF assms(11,12)]) simp_all
  moreover have "W\<lparr>rw_jobs := rw_jobs W\<rparr> = W" by simp
  ultimately have "resume_submission env' tn q (Some j) W =
      (Inr (?f q), W\<lparr>rw_requests := update_where (attachable (rr_id q)) ?f (rw_requests W)\<rparr>)"
    using r by (simp add: resume_submission_def assms(3,10) assms(9) [simplified] again Let_def)
  moreover have "lookup rr_id (rr_id q) (update_where (attachable (rr_id q)) ?f (rw_requests W)) = Some (?f q)"
    using lookup_distinct [OF assms(11,12)] assms(13,14)
    by (subst lookup_update_where) (simp_all add: attachable_def)
  ultimately show ?thesis by simp
qed

theorem interrupted_submission_resumes_same_job_witness:
  "\<exists>q' W'. resume_submission sample_renv None sample_request (Some sample_trained)
      (sample_attempted\<lparr>rw_jobs := [sample_trained, sample_retraining_job]\<rparr>) = (Inr q', W') \<and>
    rr_job q' = Some 8 \<and> rr_status q' = RSubmitted \<and> lookup rr_id 60 (rw_requests W') = Some q' \<and>
    rw_jobs W' = [sample_trained, sample_retraining_job]"
  using interrupted_submission_resumes_same_job [OF sample_trained_reachable,
      of sample_renv None sample_request sample_retraining_spec
        "\<lparr>sub_job = sample_retraining_job, sub_created = True\<rparr>" "[sample_trained, sample_retraining_job]"
        sample_trained "sample_attempted\<lparr>rw_jobs := [sample_trained, sample_retraining_job]\<rparr>" "[]" sample_retraining_job
        sample_renv]
  by (simp add: sample_retraining_submit submission_key_def sample_build visible_def)

section \<open>Synchronisation\<close>

fun followed_status :: "job_status \<Rightarrow> request_status \<Rightarrow> request_status" where
  "followed_status Queued st = st"
| "followed_status Running st = RTraining"
| "followed_status Succeeded st = RCompleted"
| "followed_status Failed st = RFailed"
| "followed_status Cancelled st = RCancelled"

fun followed_outcome :: "job_status \<Rightarrow> sync_outcome" where
  "followed_outcome Queued = NoOp"
| "followed_outcome Running = Synchronized"
| "followed_outcome Succeeded = Synchronized"
| "followed_outcome _ = SyncFailed"

abbreviation executions :: "uuid \<Rightarrow> execution_update list \<Rightarrow> retraining_request list \<Rightarrow> retraining_request list" where
  "executions i us R \<equiv> fold (\<lambda>u R. snd (update_execution i u R)) us R"

lemma lookup_update_execution:
  "lookup rr_id k (snd (update_execution i u R)) =
     (if k = i then map_option (with_execution u) (lookup rr_id k R) else lookup rr_id k R)"
  by (induction R) (auto simp: update_execution_def)

lemma lookup_executions:
  "lookup rr_id k (executions i us R) =
     (if k = i then map_option (fold with_execution us) (lookup rr_id k R) else lookup rr_id k R)"
  by (induction us arbitrary: R) (auto simp: lookup_update_execution option.map_comp comp_def option.map_id)

lemma with_execution_company [simp]: "rr_company (with_execution u r) = rr_company r"
  by (simp add: with_execution_def)

lemma filter_update_where:
  "(\<And>r. c r \<Longrightarrow> P (f r) = P r) \<Longrightarrow> filter P (update_where c f rs) = update_where c f (filter P rs)"
  by (induction rs) auto

lemma get_by_training_job_executions:
  "get_by_training_job tn j R = Inr (Some q) \<Longrightarrow>
   get_by_training_job tn j (executions (rr_id q) us R) = Inr (Some (fold with_execution us q))"
proof (induction us arbitrary: R q)
  case (Cons u us)
  have "filter (\<lambda>r. tenant_sees tn (rr_company r) \<and> rr_job r = Some j) (snd (update_execution (rr_id q) u R)) =
      [with_execution u q]"
    using Cons.prems
    by (simp add: update_execution_def filter_update_where get_by_training_job_def scalar_one_or_none_Some)
  then have "get_by_training_job tn j (snd (update_execution (rr_id q) u R)) = Inr (Some (with_execution u q))"
    by (simp add: get_by_training_job_def)
  from Cons.IH [OF this] show ?case by simp
qed simp

lemma terminal_audit_appends: "\<exists>e. \<forall>E. append_terminal_audit q r st E = E @ [e]"
  by (simp add: append_terminal_audit_def Let_def)

lemma synchronize_ended:
  assumes "get_by_training_job tn i (rw_requests W) = Inr (Some q)" and "get_training_job tn i (rw_jobs W) = Some r"
    and "rr_status q \<notin> terminal_statuses" and "rt_others env 4 = []" and "job_status r \<in> {Failed, Cancelled}"
  shows "\<exists>u e. synchronize env tn i W = (Inr SyncFailed,
      W\<lparr>rw_requests := executions (rr_id q) [u] (rw_requests W), rw_events := rw_events W @ [e]\<rparr>) \<and>
    eu_status u = (if job_status r = Cancelled then RCancelled else RFailed) \<and> eu_failure_code u = job_error_code r"
proof -
  let ?st = "if job_status r = Cancelled then RCancelled else RFailed"
  let ?u = "(plain_update ?st (rt_clock env 4))\<lparr>
      eu_completed_at := Some (first_given [job_finished_at r, job_cancelled_at r] (rt_clock env 4)),
      eu_failure_code := job_error_code r, eu_failure_message := job_safe_error_message r\<rparr>"
  obtain e where "append_terminal_audit q r ?st E = E @ [e]" for E using terminal_audit_appends by blast
  then have "synchronize env tn i W = (Inr SyncFailed,
      W\<lparr>rw_requests := executions (rr_id q) [?u] (rw_requests W), rw_events := rw_events W @ [e]\<rparr>)"
    using assms by (auto simp: synchronize_def Let_def)
  then show ?thesis by (intro exI [of _ ?u] exI [of _ e]) simp
qed

lemma synchronize_completed:
  assumes "get_by_training_job tn i (rw_requests W) = Inr (Some q)" and "get_training_job tn i (rw_jobs W) = Some r"
    and "rr_status q \<notin> terminal_statuses" and "rt_others env 4 = []" and "rt_others env 5 = []"
    and "job_status r = Succeeded"
  shows "\<exists>us u e. synchronize env tn i W = (Inr Synchronized,
      W\<lparr>rw_requests := executions (rr_id q) (us @ [u]) (rw_requests W), rw_events := rw_events W @ [e]\<rparr>) \<and>
    (\<forall>u' \<in> set us. eu_result_version u' = job_registered_model_version r) \<and>
    eu_status u = RCompleted \<and> eu_result_version u = job_registered_model_version r"
proof -
  let ?now = "rt_clock env 4"
  let ?u = "(plain_update RCompleted ?now)\<lparr>eu_completed_at := Some (first_given [job_finished_at r] ?now),
      eu_result_version := job_registered_model_version r,
      eu_comparison := compared_outcome ?now q (get_training_job tn (rr_source_job q) (rw_jobs W)) r\<rparr>"
  let ?us = "if rr_status q \<noteq> RCandidateCreated \<or> rr_result_version q = None
     then [(plain_update RCandidateCreated ?now)\<lparr>eu_result_version := job_registered_model_version r\<rparr>] else []"
  obtain e where "append_terminal_audit q r RCompleted E = E @ [e]" for E using terminal_audit_appends by blast
  then have "synchronize env tn i W = (Inr Synchronized,
      W\<lparr>rw_requests := executions (rr_id q) (?us @ [?u]) (rw_requests W), rw_events := rw_events W @ [e]\<rparr>)"
    using assms by (simp add: synchronize_def synchronize_succeeded_def Let_def)
  then show ?thesis by (intro exI [of _ ?us] exI [of _ ?u] exI [of _ e]) simp
qed

lemma if_given_idem [simp]: "if_given a (if_given a b) = if_given a b"
  by (cases a) simp_all

lemma fold_result_version:
  "\<forall>u \<in> set us. eu_result_version u = v \<Longrightarrow>
    if_given v (rr_result_version (fold with_execution us q)) = if_given v (rr_result_version q)"
  by (induction us arbitrary: q) simp_all

text \<open>
  Without commits of others during it, a synchronisation is a list of updates of the one request
  and at most one audit event.
\<close>

lemma synchronize_undisturbed:
  assumes "get_by_training_job tn i (rw_requests W) = Inr (Some q)" and "get_training_job tn i (rw_jobs W) = Some r"
    and "rr_status q \<notin> terminal_statuses" and "rt_others env 4 = []" and "rt_others env 5 = []"
  shows "\<exists>us E. synchronize env tn i W = (Inr (followed_outcome (job_status r)),
      W\<lparr>rw_requests := executions (rr_id q) us (rw_requests W), rw_events := rw_events W @ E\<rparr>) \<and>
    rr_status (fold with_execution us q) = followed_status (job_status r) (rr_status q) \<and>
    length E = (if followed_status (job_status r) RPending \<in> terminal_statuses then 1 else 0) \<and>
    (job_status r = Succeeded \<longrightarrow>
      rr_result_version (fold with_execution us q) = if_given (job_registered_model_version r) (rr_result_version q)) \<and>
    (job_status r \<in> {Failed, Cancelled} \<longrightarrow> rr_failure_code (fold with_execution us q) = job_error_code r)"
proof (cases "job_status r")
  case Queued
  have "synchronize env tn i W = (Inr NoOp, W\<lparr>rw_requests := executions (rr_id q) [] (rw_requests W), rw_events := rw_events W @ []\<rparr>)"
    using assms Queued by (simp add: synchronize_def Let_def)
  then show ?thesis using Queued by (intro exI [of _ "[]"]) (simp add: terminal_statuses_def)
next
  case Running
  let ?u = "(plain_update RTraining (rt_clock env 4))\<lparr>eu_started_at := job_started_at r\<rparr>"
  have "synchronize env tn i W = (Inr Synchronized, W\<lparr>rw_requests := executions (rr_id q) [?u] (rw_requests W), rw_events := rw_events W @ []\<rparr>)"
    using assms Running by (simp add: synchronize_def Let_def)
  then show ?thesis using Running by (intro exI [of _ "[?u]"] exI [of _ "[]"]) (simp add: terminal_statuses_def)
next
  case Succeeded
  obtain us u e where u: "synchronize env tn i W = (Inr Synchronized,
      W\<lparr>rw_requests := executions (rr_id q) (us @ [u]) (rw_requests W), rw_events := rw_events W @ [e]\<rparr>)"
    "\<forall>u' \<in> set us. eu_result_version u' = job_registered_model_version r"
    "eu_status u = RCompleted" "eu_result_version u = job_registered_model_version r"
    using synchronize_completed [OF assms Succeeded] by blast
  then show ?thesis using Succeeded fold_result_version [OF u(2), of q]
    by (intro exI [of _ "us @ [u]"] exI [of _ "[e]"]) (simp add: terminal_statuses_def)
next
  case Failed
  then obtain u e where "synchronize env tn i W = (Inr SyncFailed,
      W\<lparr>rw_requests := executions (rr_id q) [u] (rw_requests W), rw_events := rw_events W @ [e]\<rparr>)"
    "eu_status u = RFailed" "eu_failure_code u = job_error_code r"
    using synchronize_ended [OF assms(1-4)] by auto
  then show ?thesis using Failed
    by (intro exI [of _ "[u]"] exI [of _ "[e]"]) (simp add: terminal_statuses_def)
next
  case Cancelled
  then obtain u e where "synchronize env tn i W = (Inr SyncFailed,
      W\<lparr>rw_requests := executions (rr_id q) [u] (rw_requests W), rw_events := rw_events W @ [e]\<rparr>)"
    "eu_status u = RCancelled" "eu_failure_code u = job_error_code r"
    using synchronize_ended [OF assms(1-4)] by auto
  then show ?thesis using Cancelled
    by (intro exI [of _ "[u]"] exI [of _ "[e]"]) (simp add: terminal_statuses_def)
qed

text \<open>
  Synchronisation makes a request follow its training job. Without commits of others during
  it, an active request of a running job is in training, of a succeeded one completed with the
  registered version of the job, of a failed one failed with its error code, of a cancelled one
  cancelled; the request of a queued job is not touched. No other request and no job changes, one
  audit event is written exactly when the job has ended, and after that a second synchronisation
  does nothing.
\<close>

theorem synchronization_follows_job:
  assumes "get_by_training_job tn i (rw_requests W) = Inr (Some q)" and "get_training_job tn i (rw_jobs W) = Some r"
    and "rr_status q \<notin> terminal_statuses" and "rt_others env 4 = []" and "rt_others env 5 = []"
    and "synchronize env tn i W = (out, W')" and "distinct (map rr_id (rw_requests W))"
  shows "out = Inr (followed_outcome (job_status r)) \<and>
    (\<exists>q'. lookup rr_id (rr_id q) (rw_requests W') = Some q' \<and>
       rr_status q' = followed_status (job_status r) (rr_status q) \<and>
       (job_status r = Succeeded \<longrightarrow>
         rr_result_version q' = if_given (job_registered_model_version r) (rr_result_version q)) \<and>
       (job_status r \<in> {Failed, Cancelled} \<longrightarrow> rr_failure_code q' = job_error_code r)) \<and>
    (\<forall>k. k \<noteq> rr_id q \<longrightarrow> lookup rr_id k (rw_requests W') = lookup rr_id k (rw_requests W)) \<and>
    rw_jobs W' = rw_jobs W \<and>
    length (rw_events W') = length (rw_events W) +
      (if followed_status (job_status r) RPending \<in> terminal_statuses then 1 else 0) \<and>
    (followed_status (job_status r) RPending \<in> terminal_statuses \<longrightarrow> synchronize env' tn i W' = (Inr NoOp, W'))"
proof -
  obtain us E where u: "synchronize env tn i W = (Inr (followed_outcome (job_status r)),
      W\<lparr>rw_requests := executions (rr_id q) us (rw_requests W), rw_events := rw_events W @ E\<rparr>)"
    "rr_status (fold with_execution us q) = followed_status (job_status r) (rr_status q)"
    "length E = (if followed_status (job_status r) RPending \<in> terminal_statuses then 1 else 0)"
    "job_status r = Succeeded \<longrightarrow>
      rr_result_version (fold with_execution us q) = if_given (job_registered_model_version r) (rr_result_version q)"
    "job_status r \<in> {Failed, Cancelled} \<longrightarrow> rr_failure_code (fold with_execution us q) = job_error_code r"
    using synchronize_undisturbed [OF assms(1-5)] by blast
  have W': "out = Inr (followed_outcome (job_status r))"
    "W' = W\<lparr>rw_requests := executions (rr_id q) us (rw_requests W), rw_events := rw_events W @ E\<rparr>"
    using assms(6) u(1) by simp_all
  have "q \<in> set (rw_requests W)" using assms(1)
    by (auto simp: get_by_training_job_def scalar_one_or_none_Some dest: filter_single)
  then have "lookup rr_id (rr_id q) (rw_requests W') = Some (fold with_execution us q)"
    using lookup_distinct [OF assms(7)] by (simp add: W'(2) lookup_executions)
  then have row: "\<exists>q'. lookup rr_id (rr_id q) (rw_requests W') = Some q' \<and>
       rr_status q' = followed_status (job_status r) (rr_status q) \<and>
       (job_status r = Succeeded \<longrightarrow>
         rr_result_version q' = if_given (job_registered_model_version r) (rr_result_version q)) \<and>
       (job_status r \<in> {Failed, Cancelled} \<longrightarrow> rr_failure_code q' = job_error_code r)"
    using u(2,4,5) by blast
  have "synchronize env' tn i W' = (Inr NoOp, W')"
    if "followed_status (job_status r) RPending \<in> terminal_statuses"
  proof -
    have "followed_status (job_status r) (rr_status q) \<in> terminal_statuses"
      using that by (cases "job_status r") (simp_all add: terminal_statuses_def)
    then show ?thesis using get_by_training_job_executions [OF assms(1)] assms(2) u(2)
      by (simp add: synchronize_def W'(2))
  qed
  then show ?thesis using row u(3) by (intro conjI) (simp_all add: W' lookup_executions)
qed

definition sample_failed_world :: retraining_world where
  "sample_failed_world = sample_after\<lparr>rw_jobs := [sample_trained,
     sample_retraining_job\<lparr>job_status := Failed, job_error_code := Some ''e''\<rparr>]\<rparr>"

lemma sample_failed_world_simps [simp]:
  "rw_requests sample_failed_world = [sample_submitted]" "rw_events sample_failed_world = []"
  "get_by_training_job None 8 [sample_submitted] = Inr (Some sample_submitted)"
  "get_training_job None 8 (rw_jobs sample_failed_world) =
     Some (sample_retraining_job\<lparr>job_status := Failed, job_error_code := Some ''e''\<rparr>)"
  by (simp_all add: sample_failed_world_def sample_after_def get_by_training_job_def get_training_job_def visible_def)

theorem synchronization_follows_job_witness:
  "fst (synchronize sample_renv None 8 sample_failed_world) = Inr SyncFailed \<and>
   map_option rr_status (lookup rr_id 60 (rw_requests (snd (synchronize sample_renv None 8 sample_failed_world)))) =
     Some RFailed \<and>
   length (rw_events (snd (synchronize sample_renv None 8 sample_failed_world))) = 1"
proof -
  obtain out W' where o: "synchronize sample_renv None 8 sample_failed_world = (out, W')" by fastforce
  show ?thesis
    using synchronization_follows_job [OF _ _ _ _ _ o, of sample_submitted _ sample_renv]
    by (auto simp: o terminal_statuses_def)
qed

section \<open>Two failures\<close>

text \<open>
  C25: A stale synchronisation reopens a finished request. When a synchroniser has read the job as
  running and the request as active, and another actor completes the request before its write,
  the write, which is not conditional on the status it has read, puts the request back into
  training, keeping its completion time.
\<close>

theorem stale_synchronisation_reopens_request:
  assumes "get_by_training_job tn i (rw_requests W) = Inr (Some q)" and "get_training_job tn i (rw_jobs W) = Some r"
    and "rr_status q \<notin> terminal_statuses" and "job_status r = Running"
    and "lookup rr_id (rr_id q) (rw_requests (disturb (rt_others env 4) W)) = Some c" and "rr_status c = RCompleted"
  shows "\<exists>q' W'. synchronize env tn i W = (Inr Synchronized, W') \<and>
    lookup rr_id (rr_id q) (rw_requests W') = Some q' \<and> rr_status q' = RTraining \<and>
    rr_completed_at q' = rr_completed_at c"
  using assms by (simp add: synchronize_def Let_def lookup_update_execution)

theorem stale_synchronisation_reopens_request_witness:
  "\<exists>q' W'. synchronize (sample_renv\<lparr>rt_others := (\<lambda>_. [UpdateExecution 60 (plain_update RCompleted 5)])\<rparr>) None 8
      (sample_failed_world\<lparr>rw_jobs := [sample_retraining_job\<lparr>job_status := Running\<rparr>]\<rparr>) = (Inr Synchronized, W') \<and>
    lookup rr_id 60 (rw_requests W') = Some q' \<and> rr_status q' = RTraining \<and> rr_completed_at q' = None"
proof -
  let ?c = "with_execution (plain_update RCompleted 5) sample_submitted"
  have "rr_completed_at ?c = None" by (simp add: sample_submitted_def sample_request_def new_request_def Let_def)
  then show ?thesis
    using stale_synchronisation_reopens_request [of None 8
      "sample_failed_world\<lparr>rw_jobs := [sample_retraining_job\<lparr>job_status := Running\<rparr>]\<rparr>" sample_submitted
      "sample_retraining_job\<lparr>job_status := Running\<rparr>"
      "sample_renv\<lparr>rt_others := (\<lambda>_. [UpdateExecution 60 (plain_update RCompleted 5)])\<rparr>" ?c]
    by (simp add: get_training_job_def visible_def terminal_statuses_def update_execution_def)
qed

text \<open>
  C0: A request whose specification cannot be built stops reconciliation. When the first
  request of a pass has no job and its valid source specification has 27 or more unprotected
  tags, the pass ends with a bare \<open>ValidationError\<close> and changes nothing: no other request is
  submitted or synchronised, and the request is the first one of the next pass again.
\<close>

theorem invalid_specification_blocks_reconciliation:
  assumes "list_reconcilable tn n (rw_requests W) = q # rest" and "rr_job q = None"
    and "find_source_training_job tn (rr_model_name q) (rr_source_version q) (rw_jobs W) = Inr (Some j)"
    and "\<not> rt_fault (envs 0) AtSource"
    and "validate_spec (job_specification j) = Inr (job_specification j)"
    and "strip (rr_source_version q) \<noteq> []" and "length (rr_source_version q) \<le> 5000"
    and "26 < length (user_tags (spec_tags (job_specification j)))"
  shows "reconcile_retraining envs tn n W = (Inl (validation_error ''field constraints''), W)"
  using retraining_specification_core [OF assms(5-7) refl] assms
  by (simp add: reconcile_retraining_def resume_submission_def safe_source_job_def guarded_read_def Let_def)

definition sample_tags :: "(string \<times> string) list" where
  "sample_tags = map (\<lambda>n. (replicate (Suc n) CHR ''k'', ''v'')) [0..<27]"

lemma sample_tags_unprotected: "user_tags sample_tags = sample_tags"
proof -
  have "replicate (Suc n) CHR ''k'' \<notin> set protected_retraining_tags" for n
    by (simp add: protected_retraining_tags_def)
  then show ?thesis unfolding user_tags_def sample_tags_def by (intro filter_True) auto
qed

lemma sample_tags_valid: "validate_spec (sample_spec\<lparr>spec_tags := sample_tags\<rparr>) = Inr (sample_spec\<lparr>spec_tags := sample_tags\<rparr>)"
proof -
  have "validate_tags sample_tags = Inr ()"
    by (auto simp: validate_tags_Inr sample_tags_def strip_Nil_iff py_isspace_def)
  then show ?thesis using validate_spec_tags [OF sample_spec_valid, of sample_tags]
    by (simp add: sample_tags_def max_training_tags_def)
qed

theorem invalid_specification_blocks_reconciliation_witness:
  "reconcile_retraining (\<lambda>_. sample_renv) None 10
     (sample_attempted\<lparr>rw_jobs := [sample_trained\<lparr>job_specification := sample_spec\<lparr>spec_tags := sample_tags\<rparr>\<rparr>]\<rparr>) =
   (Inl (validation_error ''field constraints''),
    sample_attempted\<lparr>rw_jobs := [sample_trained\<lparr>job_specification := sample_spec\<lparr>spec_tags := sample_tags\<rparr>\<rparr>]\<rparr>)"
  by (rule invalid_specification_blocks_reconciliation [of _ _ _ sample_request "[]"
        "sample_trained\<lparr>job_specification := sample_spec\<lparr>spec_tags := sample_tags\<rparr>\<rparr>"])
     (simp_all add: list_reconcilable_def terminal_statuses_def find_source_training_job_def visible_def sample_tags_valid
        sample_tags_unprotected strip_Nil_iff py_isspace_def, simp_all add: sample_spec_def sample_tags_def)

end
