(* ===== verification/Rag_Chunking.thy ===== *)
theory Rag_Chunking
  imports Platform_Prelude
begin

text \<open>
  Deterministic chunking of registered documents (\<^verbatim>\<open>rag/chunking.py\<close>). The loop
  that cuts the text is proved to end, to cover the text, and to be the numbering of the windows
  of a reference definition. The SHA-256 digest of a chunk is a parameter.
\<close>

section \<open>The code\<close>

record text_chunk =
  chunk_number :: nat
  content :: string
  content_hash :: string

abbreviation newline :: char where "newline \<equiv> CHR 10"
abbreviation carriage_return :: char where "carriage_return \<equiv> CHR 13"

text \<open>\<^verbatim>\<open>text.replace("\r\n", "\n").replace("\r", "\n")\<close>\<close>

fun replace_crlf :: "string \<Rightarrow> string" where
  "replace_crlf (c # d # cs) =
     (if c = carriage_return \<and> d = newline then newline # replace_crlf cs else c # replace_crlf (d # cs))"
| "replace_crlf cs = cs"

definition normalize_newlines :: "string \<Rightarrow> string" where
  "normalize_newlines s = map (\<lambda>c. if c = carriage_return then newline else c) (replace_crlf s)"

text \<open>\<^verbatim>\<open>str.rfind\<close> of one character between two positions, and slices.\<close>

definition rfind :: "char \<Rightarrow> string \<Rightarrow> nat \<Rightarrow> nat \<Rightarrow> int" where
  "rfind c s lo hi = (let found = filter (\<lambda>i. s ! i = c) [lo ..< min hi (length s)] in
     if found = [] then -1 else int (last found))"

definition slice :: "nat \<Rightarrow> nat \<Rightarrow> string \<Rightarrow> string" where
  "slice a b s = take (b - a) (drop a s)"

definition chunk_end :: "nat \<Rightarrow> string \<Rightarrow> nat \<Rightarrow> nat" where
  "chunk_end width s start =
     (let hard_end = min (start + width) (length s) in
      if hard_end < length s then
        (let boundary = max (rfind newline s (start + width div 2) hard_end)
               (rfind CHR '' '' s (start + width div 2) hard_end) in
         if boundary > int start then nat boundary else hard_end)
      else hard_end)"

abbreviation chunking_error :: "string \<Rightarrow> 'a result" where
  "chunking_error m \<equiv> Inl (Exc ChunkingError m)"

definition append_chunk :: "(string \<Rightarrow> string) \<Rightarrow> string \<Rightarrow> text_chunk list \<Rightarrow> text_chunk list" where
  "append_chunk digest t chunks = (if t = [] then chunks else
     chunks @ [\<lparr>chunk_number = length chunks, content = t, content_hash = digest t\<rparr>])"

function chunk_loop ::
    "(string \<Rightarrow> string) \<Rightarrow> nat \<Rightarrow> nat \<Rightarrow> nat \<Rightarrow> string \<Rightarrow> nat \<Rightarrow> text_chunk list \<Rightarrow> text_chunk list result" where
  "chunk_loop digest width overlap maximum s start chunks =
     (if start < length s then
        if length chunks \<ge> maximum
        then chunking_error ''The registered document exceeds the chunk limit.''
        else (let end_at = chunk_end width s start;
                  chunks' = append_chunk digest (strip (slice start end_at s)) chunks in
              if end_at \<ge> length s then Inr chunks'
              else chunk_loop digest width overlap maximum s (max (start + 1) (end_at - overlap)) chunks')
      else Inr chunks)"
  by pat_completeness auto
termination by (relation "measure (\<lambda>(digest, width, overlap, maximum, s, start, chunks). length s - start)") auto

declare chunk_loop.simps [simp del]

definition chunk_text ::
    "(string \<Rightarrow> string) \<Rightarrow> string \<Rightarrow> int \<Rightarrow> int \<Rightarrow> int \<Rightarrow> text_chunk list result" where
  "chunk_text digest text width overlap maximum =
     (if \<not> (200 \<le> width \<and> width \<le> 4000)
      then chunking_error ''Chunk size is outside the safe range.''
      else if overlap < 0 \<or> overlap \<ge> width \<or> overlap > 1000
      then chunking_error ''Chunk overlap is outside the safe range.''
      else if \<not> (1 \<le> maximum \<and> maximum \<le> 2000)
      then chunking_error ''Maximum chunk count is outside the safe range.''
      else (let normalized = strip (normalize_newlines text) in
        if normalized = []
        then chunking_error ''The registered document contains no extractable text.''
        else if length normalized > 2000000
        then chunking_error ''The registered document text exceeds the safe limit.''
        else (case chunk_loop digest (nat width) (nat overlap) (nat maximum) normalized 0 [] of
            Inl e \<Rightarrow> Inl e
          | Inr chunks \<Rightarrow> if chunks = []
              then chunking_error ''The registered document contains no indexable text.''
              else Inr chunks)))"

section \<open>Windows\<close>

text \<open>
  The reference: the windows that the loop visits, whatever it collects. A chunk is the stripped
  text of a window that is not blank.
\<close>

function windows :: "nat \<Rightarrow> nat \<Rightarrow> string \<Rightarrow> nat \<Rightarrow> (nat \<times> nat) list" where
  "windows width overlap s start =
     (if start < length s then
        (start, chunk_end width s start) #
        (if chunk_end width s start \<ge> length s then []
         else windows width overlap s (max (start + 1) (chunk_end width s start - overlap)))
      else [])"
  by pat_completeness auto
termination by (relation "measure (\<lambda>(width, overlap, s, start). length s - start)") auto

declare windows.simps [simp del]

definition window_texts :: "string \<Rightarrow> (nat \<times> nat) list \<Rightarrow> string list" where
  "window_texts s ws = filter (\<lambda>t. t \<noteq> []) (map (\<lambda>(a, b). strip (slice a b s)) ws)"

definition numbered :: "(string \<Rightarrow> string) \<Rightarrow> nat \<Rightarrow> string list \<Rightarrow> text_chunk list" where
  "numbered digest n ts = map (\<lambda>(i, t). \<lparr>chunk_number = i, content = t, content_hash = digest t\<rparr>) (enumerate n ts)"

lemma rfind_bounds: "rfind c s lo hi = -1 \<or> int lo \<le> rfind c s lo hi \<and> rfind c s lo hi < int (min hi (length s))"
proof (cases "filter (\<lambda>i. s ! i = c) [lo ..< min hi (length s)] = []")
  case False
  then have "last (filter (\<lambda>i. s ! i = c) [lo ..< min hi (length s)]) \<in> set [lo ..< min hi (length s)]"
    using last_in_set by fastforce
  then show ?thesis using False by (simp add: rfind_def Let_def)
qed (simp add: rfind_def)

lemma chunk_end_cases:
  "chunk_end width s start = min (start + width) (length s) \<or>
   start + width < length s \<and> start + width div 2 \<le> chunk_end width s start \<and> start < chunk_end width s start \<and>
     chunk_end width s start < start + width"
proof -
  let ?h = "min (start + width) (length s)"
  define b where "b = max (rfind newline s (start + width div 2) ?h) (rfind CHR '' '' s (start + width div 2) ?h)"
  have b: "b = -1 \<or> int (start + width div 2) \<le> b \<and> b < int ?h"
    using rfind_bounds [of newline s "start + width div 2" ?h] rfind_bounds [of "CHR '' ''" s "start + width div 2" ?h]
    unfolding b_def max_def by (auto simp del: of_nat_add of_nat_min)
  have e: "chunk_end width s start = (if ?h < length s \<and> b > int start then nat b else ?h)"
    by (simp add: chunk_end_def Let_def b_def)
  show ?thesis
  proof (cases "?h < length s \<and> b > int start")
    case True
    then have "int start < b" "int (start + width div 2) \<le> b" "b < int ?h" "start + width < length s" using b by auto
    then show ?thesis using True by (simp add: e nat_less_iff nat_le_iff le_nat_iff zless_nat_eq_int_zless)
  qed (auto simp: e)
qed

lemma chunk_end_bounds:
  assumes "0 < width" and "start < length s"
  shows "start < chunk_end width s start" and "chunk_end width s start \<le> length s"
    and "chunk_end width s start \<le> start + width"
    and "chunk_end width s start < length s \<Longrightarrow> start + width div 2 \<le> chunk_end width s start"
proof -
  note c = chunk_end_cases [of width s start]
  show "start < chunk_end width s start" "chunk_end width s start \<le> length s" "chunk_end width s start \<le> start + width"
    using assms c by linarith+
  show "start + width div 2 \<le> chunk_end width s start" if "chunk_end width s start < length s"
    using that assms c by linarith
qed

lemma chunk_loop_windows:
  assumes "0 < width"
  shows "chunk_loop digest width overlap maximum s start chunks =
    (if start < length s \<and>
        maximum \<le> length chunks + length (window_texts s (butlast (windows width overlap s start)))
     then chunking_error ''The registered document exceeds the chunk limit.''
     else Inr (chunks @ numbered digest (length chunks) (window_texts s (windows width overlap s start))))"
  using assms
proof (induction digest width overlap maximum s start chunks rule: chunk_loop.induct)
  case (1 digest width overlap maximum s start chunks)
  let ?e = "chunk_end width s start"
  let ?t = "strip (slice start ?e s)"
  let ?next = "max (start + 1) (?e - overlap)"
  show ?case
  proof (cases "start < length s \<and> length chunks < maximum \<and> ?e < length s")
    case True
    have "?next < length s" using True chunk_end_bounds(1) [OF 1(2), of start s]
      by (simp add: less_imp_diff_less)
    then have ne: "windows width overlap s ?next \<noteq> []" by (subst windows.simps) simp
    have w: "windows width overlap s start = (start, ?e) # windows width overlap s ?next"
      using True by (subst windows.simps) simp
    show ?thesis using True 1(1) [OF _ _ refl refl] 1(2) ne \<open>?next < length s\<close>
      by (subst chunk_loop.simps)
        (auto simp: w Let_def append_chunk_def window_texts_def numbered_def not_le enumerate_append_eq)
  next
    case False
    then show ?thesis
      by (subst chunk_loop.simps, subst (1 2) windows.simps)
        (auto simp: Let_def append_chunk_def window_texts_def numbered_def)
  qed
qed

lemma windows_last:
  "start < length s \<Longrightarrow> length s \<le> chunk_end width s start \<Longrightarrow>
    windows width overlap s start = [(start, chunk_end width s start)]"
  by (subst windows.simps) simp

lemma windows_more:
  "start < length s \<Longrightarrow> chunk_end width s start < length s \<Longrightarrow>
    windows width overlap s start = (start, chunk_end width s start) #
      windows width overlap s (max (start + 1) (chunk_end width s start - overlap))"
  by (subst windows.simps) simp

lemma windows_beyond: "length s \<le> start \<Longrightarrow> windows width overlap s start = []"
  by (subst windows.simps) simp

lemma windows_Cons: "start < length s \<Longrightarrow> \<exists>w ws. windows width overlap s start = w # ws"
  by (subst windows.simps) simp

lemma window_bounds:
  assumes "0 < width" and "(a, b) \<in> set (windows width overlap s start)"
  shows "start \<le> a \<and> a < b \<and> b \<le> a + width \<and> b \<le> length s"
  using assms
proof (induction width overlap s start rule: windows.induct)
  case (1 width overlap s start)
  let ?e = "chunk_end width s start"
  have st: "start < length s" using 1(3) windows_beyond [of s start] by (cases "start < length s") auto
  show ?case
  proof (cases "?e \<ge> length s")
    case True
    then show ?thesis using 1(3) chunk_end_bounds [OF 1(2) st] by (simp add: windows_last [OF st])
  next
    case False
    then consider "(a, b) = (start, ?e)" | "(a, b) \<in> set (windows width overlap s (max (start + 1) (?e - overlap)))"
      using 1(3) by (auto simp: windows_more [OF st])
    then show ?thesis
    proof cases
      case 2
      show ?thesis using 1(1) [OF st False 1(2) 2] by simp
    qed (use chunk_end_bounds [OF 1(2) st] in simp)
  qed
qed

lemma windows_cover:
  assumes "0 < width" and "start \<le> i" and "i < length s"
  shows "\<exists>(a, b) \<in> set (windows width overlap s start). a \<le> i \<and> i < b"
  using assms
proof (induction width overlap s start rule: windows.induct)
  case (1 width overlap s start)
  let ?e = "chunk_end width s start"
  have st: "start < length s" using 1(3,4) by simp
  show ?case
  proof (cases "i < ?e")
    case True
    then show ?thesis using st 1(3) by (subst windows.simps) auto
  next
    case False
    then have "\<not> ?e \<ge> length s" "max (start + 1) (?e - overlap) \<le> i"
      using 1(4) chunk_end_bounds(1) [OF 1(2) st] by auto
    from 1(1) [OF st this(1) 1(2) this(2) 1(4)] show ?thesis
      by (subst windows.simps) (use st \<open>\<not> ?e \<ge> length s\<close> in auto)
  qed
qed

lemma windows_progress:
  assumes "0 < width" and "start < length s" and "d = 1 \<or> d + overlap = width div 2"
  shows "(length (windows width overlap s start) - 1) * d < length s - start"
  using assms
proof (induction width overlap s start rule: windows.induct)
  case (1 width overlap s start)
  let ?e = "chunk_end width s start"
  let ?next = "max (start + 1) (?e - overlap)"
  show ?case
  proof (cases "?e \<ge> length s")
    case True
    then show ?thesis using 1(3) by (simp add: windows_last)
  next
    case False
    then have "?next < length s" using 1(3) chunk_end_bounds(1) [OF 1(2), of start s]
      by (simp add: less_imp_diff_less)
    moreover have "start + d \<le> ?next"
      using 1(4) chunk_end_bounds(4) [OF 1(2,3)] False by auto
    moreover have "windows width overlap s start = (start, ?e) # windows width overlap s ?next"
      using False by (intro windows_more [OF 1(3)]) simp
    moreover obtain n where "length (windows width overlap s ?next) = Suc n"
      using windows_Cons [OF \<open>?next < length s\<close>, of width overlap] by auto
    ultimately show ?thesis using 1(1) [OF 1(3) False 1(2) \<open>?next < length s\<close> 1(4)] by simp
  qed
qed

lemma slice_nth: "a \<le> i \<Longrightarrow> i < b \<Longrightarrow> i < length s \<Longrightarrow> s ! i \<in> set (slice a b s)"
  unfolding slice_def in_set_conv_nth by (intro exI [of _ "i - a"]) auto

lemma slice_length: "length (slice a b s) \<le> b - a"
  by (simp add: slice_def)

lemma strip_keeps: "c \<in> set t \<Longrightarrow> \<not> py_isspace c \<Longrightarrow> c \<in> set (strip t)"
  using strip_sandwich [of t] by (auto simp: list_all_iff) (metis Un_iff set_append)

lemma window_textsD:
  "t \<in> set (window_texts s ws) \<Longrightarrow> \<exists>a b. (a, b) \<in> set ws \<and> t = strip (slice a b s) \<and> t \<noteq> []"
  by (auto simp: window_texts_def)

lemma window_texts_cover:
  assumes "0 < width" and "i < length s" and "\<not> py_isspace (s ! i)"
  shows "\<exists>t a b. t \<in> set (window_texts s (windows width overlap s 0)) \<and> t = strip (slice a b s) \<and>
    a \<le> i \<and> i < b \<and> b \<le> a + width \<and> s ! i \<in> set t"
proof -
  obtain a b where ab: "(a, b) \<in> set (windows width overlap s 0)" "a \<le> i" "i < b"
    using windows_cover [OF assms(1) _ assms(2), of 0 overlap] by auto
  have "s ! i \<in> set (strip (slice a b s))"
    using slice_nth [OF ab(2,3) assms(2)] assms(3) by (rule strip_keeps)
  then have "strip (slice a b s) \<in> set (window_texts s (windows width overlap s 0))"
    using ab(1) unfolding window_texts_def by force
  then show ?thesis using ab window_bounds [OF assms(1) ab(1)] \<open>s ! i \<in> set (strip (slice a b s))\<close> by blast
qed

section \<open>Properties\<close>

definition valid_limits :: "int \<Rightarrow> int \<Rightarrow> int \<Rightarrow> bool" where
  "valid_limits width overlap maximum \<longleftrightarrow> 200 \<le> width \<and> width \<le> 4000 \<and> 0 \<le> overlap \<and> overlap < width \<and>
     overlap \<le> 1000 \<and> 1 \<le> maximum \<and> maximum \<le> 2000"

definition normalized_text :: "string \<Rightarrow> string" where
  "normalized_text text = strip (normalize_newlines text)"

lemma window_texts_nonempty:
  assumes "0 < width" and "normalized_text text \<noteq> []"
  shows "window_texts (normalized_text text) (windows width overlap (normalized_text text) 0) \<noteq> []"
proof -
  have "\<not> py_isspace (normalized_text text ! 0)"
    using strip_hd [of "normalize_newlines text"] assms(2) by (simp add: normalized_text_def hd_conv_nth)
  then show ?thesis using window_texts_cover [OF assms(1), of 0 "normalized_text text" overlap] assms(2) by fastforce
qed

lemma numbered_nth: "i < length ts \<Longrightarrow>
    numbered digest n ts ! i = \<lparr>chunk_number = n + i, content = ts ! i, content_hash = digest (ts ! i)\<rparr>"
  by (simp add: numbered_def nth_enumerate_eq)

lemma length_numbered [simp]: "length (numbered digest n ts) = length ts"
  by (simp add: numbered_def)

lemma numbered_Nil [simp]: "numbered digest n ts = [] \<longleftrightarrow> ts = []"
  using length_numbered [of digest n ts] by (metis length_0_conv)

lemma numbered_contents: "map content (numbered digest n ts) = ts"
  by (simp add: numbered_def comp_def case_prod_beta)

lemma chunk_text_windows:
  assumes "valid_limits width overlap maximum" and "normalized_text text \<noteq> []" and "length (normalized_text text) \<le> 2000000"
    and "ws = windows (nat width) (nat overlap) (normalized_text text) 0"
  shows "chunk_text digest text width overlap maximum =
    (if nat maximum \<le> length (window_texts (normalized_text text) (butlast ws))
     then chunking_error ''The registered document exceeds the chunk limit.''
     else Inr (numbered digest 0 (window_texts (normalized_text text) ws)))"
proof -
  have w: "0 < nat width" using assms(1) by (simp add: valid_limits_def)
  have ne: "window_texts (normalized_text text) ws \<noteq> []"
    unfolding assms(4) by (rule window_texts_nonempty [OF w assms(2)])
  have run: "chunk_loop digest (nat width) (nat overlap) (nat maximum) (normalized_text text) 0 [] =
    (if nat maximum \<le> length (window_texts (normalized_text text) (butlast ws))
     then chunking_error ''The registered document exceeds the chunk limit.''
     else Inr (numbered digest 0 (window_texts (normalized_text text) ws)))"
    using assms(2) by (simp add: chunk_loop_windows [OF w] assms(4))
  show ?thesis
    using assms(1-3) ne by (simp add: chunk_text_def normalized_text_def [symmetric] valid_limits_def run Let_def)
qed

lemma chunk_text_Inr:
  assumes "chunk_text digest text width overlap maximum = Inr cs"
  shows "valid_limits width overlap maximum \<and> normalized_text text \<noteq> [] \<and> length (normalized_text text) \<le> 2000000"
  using assms by (auto simp: chunk_text_def valid_limits_def normalized_text_def Let_def split: if_splits)

text \<open>
  Within the limits on the parameters and the text, chunking is the numbering of the non-blank
  windows of the normalised text: it fails exactly when the windows before the last one already
  fill the maximum number of chunks, and the error for a text without indexable content is never
  raised.
\<close>

theorem chunking_numbers_windows:
  assumes "valid_limits width overlap maximum" and "normalized_text text \<noteq> []" and "length (normalized_text text) \<le> 2000000"
    and "ws = windows (nat width) (nat overlap) (normalized_text text) 0"
  shows "chunk_text digest text width overlap maximum =
    (if nat maximum \<le> length (window_texts (normalized_text text) (butlast ws))
     then chunking_error ''The registered document exceeds the chunk limit.''
     else Inr (numbered digest 0 (window_texts (normalized_text text) ws)))"
  by (rule chunk_text_windows [OF assms])

lemma normalized_sample [simp]: "normalized_text ''ab c'' = ''ab c''"
  by (simp add: normalized_text_def normalize_newlines_def strip_def lstrip_def py_isspace_def)

lemma windows_sample [simp]: "windows 200 10 ''ab c'' 0 = [(0, 4)]"
  by (simp add: windows_last chunk_end_def)

theorem chunking_numbers_windows_witness:
  "chunk_text id ''ab c'' 200 10 5 = Inr [\<lparr>chunk_number = 0, content = ''ab c'', content_hash = ''ab c''\<rparr>]"
  using chunking_numbers_windows [of 200 10 5 "''ab c''" "[(0, 4)]" id]
  by (simp add: valid_limits_def window_texts_def slice_def strip_def lstrip_def py_isspace_def numbered_def enumerate_eq_zip)

text \<open>
  Chunks cover the document. Every character of the normalised text that is not white
  space lies in a chunk: a window around its position, no longer than the chunk size, whose
  stripped text is the content of the chunk. The chunks are numbered from zero, their number is
  within the limit, none is blank or longer than the chunk size, and each carries its digest.
\<close>

theorem chunks_cover_document:
  assumes "chunk_text digest text width overlap maximum = Inr cs" and "s = normalized_text text"
    and "i < length s" and "\<not> py_isspace (s ! i)"
  shows "(\<exists>c a b. c \<in> set cs \<and> content c = strip (slice a b s) \<and> a \<le> i \<and> i < b \<and> int b \<le> int a + width \<and>
      s ! i \<in> set (content c)) \<and>
    0 < length cs \<and> int (length cs) \<le> maximum \<and>
    (\<forall>k < length cs. chunk_number (cs ! k) = k \<and> content_hash (cs ! k) = digest (content (cs ! k)) \<and>
       strip (content (cs ! k)) \<noteq> [] \<and> int (length (content (cs ! k))) \<le> width)"
proof -
  note v = chunk_text_Inr [OF assms(1)]
  let ?ws = "windows (nat width) (nat overlap) s 0"
  let ?ts = "window_texts s ?ws"
  have w: "0 < nat width" "0 \<le> width" using v by (simp_all add: valid_limits_def)
  have lim: "length (window_texts s (butlast ?ws)) < nat maximum" and cs: "cs = numbered digest 0 ?ts"
    using chunk_text_windows [OF conjunct1 [OF v] conjunct1 [OF conjunct2 [OF v]] conjunct2 [OF conjunct2 [OF v]] refl, of digest]
      assms(1,2) by (auto split: if_splits)
  obtain t a b where t: "t \<in> set ?ts" "t = strip (slice a b s)" "a \<le> i" "i < b" "b \<le> a + nat width" "s ! i \<in> set t"
    using window_texts_cover [OF w(1) assms(3,4), of "nat overlap"] by blast
  have cover: "\<exists>c a b. c \<in> set cs \<and> content c = strip (slice a b s) \<and> a \<le> i \<and> i < b \<and> int b \<le> int a + width \<and>
      s ! i \<in> set (content c)"
  proof -
    obtain c where "c \<in> set cs" "content c = t" using t(1) numbered_contents [of digest 0 ?ts]
      unfolding cs by (metis imageE list.set_map)
    then show ?thesis using t w by (intro exI [of _ c] exI [of _ a] exI [of _ b]) auto
  qed
  obtain u us where ws: "?ws = us @ [u]"
    using windows_Cons [of 0 s "nat width" "nat overlap"] assms(3) by (metis append_butlast_last_id list.distinct(1) less_nat_zero_code neq0_conv)
  have count: "length ?ts \<le> nat maximum" using lim by (auto simp: ws window_texts_def)
  have each: "strip t' \<noteq> [] \<and> int (length t') \<le> width" if t': "t' \<in> set ?ts" for t'
  proof -
    obtain a b where ab: "(a, b) \<in> set ?ws" "t' = strip (slice a b s)" "t' \<noteq> []"
      using window_textsD [OF t'] by blast
    have "length t' \<le> b - a" unfolding ab(2) using strip_length slice_length le_trans by blast
    then have "int (length t') \<le> width" using window_bounds [OF w(1) ab(1)] w(2) by linarith
    then show ?thesis using ab(2,3) by simp
  qed
  have "0 < length cs" using t(1) by (auto simp: cs)
  moreover have "\<forall>k < length cs. chunk_number (cs ! k) = k \<and> content_hash (cs ! k) = digest (content (cs ! k)) \<and>
       strip (content (cs ! k)) \<noteq> [] \<and> int (length (content (cs ! k))) \<le> width"
    using each by (simp add: cs numbered_nth)
  moreover have "int (length cs) \<le> maximum" using count v unfolding cs length_numbered valid_limits_def by linarith
  ultimately show ?thesis using cover by blast
qed

theorem chunks_cover_document_witness:
  "\<exists>c a b. c \<in> set [\<lparr>chunk_number = 0, content = ''ab c'', content_hash = ''ab c''\<rparr>] \<and>
    content c = strip (slice a b ''ab c'') \<and> a \<le> 3 \<and> 3 < b \<and> int b \<le> int a + 200 \<and> CHR ''c'' \<in> set (content c)"
proof -
  have "chunk_text id ''ab c'' 200 10 5 = Inr [\<lparr>chunk_number = 0, content = ''ab c'', content_hash = ''ab c''\<rparr>]"
    using chunk_text_windows [of 200 10 5 "''ab c''" "[(0, 4)]" id]
    by (simp add: valid_limits_def window_texts_def slice_def strip_def lstrip_def py_isspace_def numbered_def enumerate_eq_zip)
  from chunks_cover_document [OF this refl, of 3] show ?thesis by (simp add: py_isspace_def)
qed



end
