(* ===== verification/AutoML_Models.thy ===== *)
theory AutoML_Models
  imports Job_Service_Safety
begin

text \<open>
  The domain values of AutoML: the metrics that rank trials (\<^verbatim>\<open>ml/automl/metrics.py\<close>),
  the validated budget, data snapshot and study of \<^verbatim>\<open>ml/automl/models.py\<close>, and the
  ranking of champions (\<^verbatim>\<open>ml/automl/champion.py\<close>).
\<close>

section \<open>Metrics\<close>

datatype metric_direction = Maximize | Minimize

record metric_definition =
  md_key :: string
  md_label :: string
  md_task :: task_type
  md_direction :: metric_direction
  md_probabilities :: bool

definition metric_definitions :: "metric_definition list" where
  "metric_definitions = map (\<lambda>(k, l, t, d, p).
       \<lparr>md_key = k, md_label = l, md_task = t, md_direction = d, md_probabilities = p\<rparr>)
     [(''accuracy'', ''Accuracy'', Classification, Maximize, False),
      (''precision_macro'', ''Precision Macro'', Classification, Maximize, False),
      (''recall_macro'', ''Recall Macro'', Classification, Maximize, False),
      (''f1_macro'', ''F1 Macro'', Classification, Maximize, False),
      (''roc_auc'', ''ROC AUC'', Classification, Maximize, True),
      (''mae'', ''Mean Absolute Error'', Regression, Minimize, False),
      (''mse'', ''Mean Squared Error'', Regression, Minimize, False),
      (''rmse'', ''Root Mean Squared Error'', Regression, Minimize, False),
      (''r2'', ''R'' @ [CHR 0xB2], Regression, Maximize, False),
      (''median_absolute_error'', ''Median Absolute Error'', Regression, Minimize, False)]"

definition automl_metrics :: "string \<rightharpoonup> metric_definition" where
  "automl_metrics = map_of (map (\<lambda>m. (md_key m, m)) metric_definitions)"

definition require_automl_metric :: "string \<Rightarrow> task_type \<Rightarrow> metric_direction \<Rightarrow> metric_definition result" where
  "require_automl_metric key task direction =
     (case automl_metrics key of
        None \<Rightarrow> Inl (value_error ''The primary metric is not available for AutoML.'')
      | Some m \<Rightarrow>
          if md_task m \<noteq> task
          then Inl (value_error ''The primary metric does not support the study task.'')
          else if md_direction m \<noteq> direction
          then Inl (value_error ''The metric direction does not match the primary metric.'')
          else Inr m)"

section \<open>Budgets and data\<close>

record automl_budget =
  bu_trials :: int
  bu_time :: int
  bu_trial_timeout :: int
  bu_concurrent :: int
  bu_folds :: int

definition make_budget :: "automl_budget \<Rightarrow> automl_budget result" where
  "make_budget b =
     (if \<not> (1 \<le> bu_trials b \<and> bu_trials b \<le> 100 \<and> 60 \<le> bu_time b \<and> bu_time b \<le> 86400 \<and>
             10 \<le> bu_trial_timeout b \<and> bu_trial_timeout b \<le> 21600 \<and>
             1 \<le> bu_concurrent b \<and> bu_concurrent b \<le> 4 \<and> 2 \<le> bu_folds b \<and> bu_folds b \<le> 10)
      then Inl (validation_error ''AutoMLBudgetSpecification'')
      else if bu_trial_timeout b > bu_time b
      then Inl (validation_error ''Per-trial timeout cannot exceed the study time budget.'')
      else if bu_concurrent b > bu_trials b
      then Inl (validation_error ''Concurrent trials cannot exceed the trial budget.'')
      else Inr b)"

text \<open>
  A target is a strict integer or a finite float; which of the two is kept, because
  classification requires integers. The schema snapshot of a dataset is not interpreted.
\<close>

datatype target_value = TargetInt int | TargetFloat real

record data_reference =
  da_dataset_version :: "uuid option"
  da_training_fingerprint :: "string option"
  da_evaluation_fingerprint :: "string option"
  da_training_rows :: "nat option"
  da_evaluation_rows :: "nat option"
  da_features :: "nat option"
  da_training_features :: "real list list option"
  da_training_targets :: "target_value list option"
  da_evaluation_features :: "real list list option"
  da_evaluation_targets :: "target_value list option"

definition sha256_digest :: "string \<Rightarrow> bool" where
  "sha256_digest s \<longleftrightarrow> length s = 64 \<and>
     list_all (\<lambda>c. ascii_digit c \<or> c \<in> {CHR ''a'', CHR ''b'', CHR ''c'', CHR ''d'', CHR ''e'', CHR ''f''}) s"

definition given_in :: "nat \<Rightarrow> nat \<Rightarrow> nat option \<Rightarrow> bool" where
  "given_in low high n \<longleftrightarrow> (case n of None \<Rightarrow> True | Some k \<Rightarrow> low \<le> k \<and> k \<le> high)"

definition data_fields_ok :: "data_reference \<Rightarrow> bool" where
  "data_fields_ok d \<longleftrightarrow>
     (case da_training_fingerprint d of None \<Rightarrow> True | Some s \<Rightarrow> sha256_digest s) \<and>
     (case da_evaluation_fingerprint d of None \<Rightarrow> True | Some s \<Rightarrow> sha256_digest s) \<and>
     given_in 2 max_training_rows (da_training_rows d) \<and>
     given_in 2 max_evaluation_rows (da_evaluation_rows d) \<and> given_in 1 10000 (da_features d) \<and>
     given_in 2 max_training_rows (map_option length (da_training_features d)) \<and>
     given_in 2 max_training_rows (map_option length (da_training_targets d)) \<and>
     given_in 2 max_evaluation_rows (map_option length (da_evaluation_features d)) \<and>
     given_in 2 max_evaluation_rows (map_option length (da_evaluation_targets d))"

definition make_data_reference :: "data_reference \<Rightarrow> data_reference result" where
  "make_data_reference d =
     (let no_metadata = [da_training_fingerprint d = None, da_evaluation_fingerprint d = None,
            da_training_rows d = None, da_evaluation_rows d = None, da_features d = None];
          no_values = [da_training_features d = None, da_training_targets d = None,
            da_evaluation_features d = None, da_evaluation_targets d = None] in
      if \<not> data_fields_ok d then Inl (validation_error ''AutoMLDataSpecificationReference'')
      else if da_dataset_version d \<noteq> None \<and> list_all id (no_metadata @ no_values) then Inr d
      else if list_ex id no_metadata
      then Inl (validation_error ''AutoML data metadata must be supplied as a complete set.'')
      else if list_all id no_values then Inr d
      else (case (da_training_features d, da_training_targets d, da_evaluation_features d, da_evaluation_targets d,
              da_training_rows d, da_evaluation_rows d, da_features d) of
          (Some tf, Some tt, Some ef, Some et, Some tn, Some en, Some c) \<Rightarrow>
            if list_ex (\<lambda>m. m = [] \<or> list_ex (\<lambda>row. length row \<noteq> c) m) [tf, ef]
            then Inl (validation_error ''AutoML feature matrices must match feature_count.'')
            else if length tf \<noteq> length tt
            then Inl (validation_error ''AutoML training rows and targets must align.'')
            else if length ef \<noteq> length et
            then Inl (validation_error ''AutoML evaluation rows and targets must align.'')
            else if length tf \<noteq> tn
            then Inl (validation_error ''AutoML training row metadata must match the snapshot.'')
            else if length ef \<noteq> en
            then Inl (validation_error ''AutoML evaluation row metadata must match the snapshot.'')
            else Inr d
        | _ \<Rightarrow> Inl (validation_error ''AutoML execution data must be supplied as a complete set.'')))"

definition executable :: "data_reference \<Rightarrow> bool" where
  "executable d \<longleftrightarrow> da_training_features d \<noteq> None"

fun is_integer_target :: "target_value \<Rightarrow> bool" where
  "is_integer_target (TargetInt n) = True"
| "is_integer_target (TargetFloat x) = False"

section \<open>Studies\<close>

record study_specification =
  sy_task :: task_type
  sy_metric :: string
  sy_direction :: metric_direction
  sy_seed :: int
  sy_plugins :: "string list"
  sy_spaces :: "search_space list"
  sy_scaler :: scaler_choice
  sy_imputer :: imputer_choice
  sy_data :: data_reference
  sy_budget :: automl_budget
  sy_register :: bool
  sy_model_name :: "string option"

definition integer_targets :: "data_reference \<Rightarrow> bool" where
  "integer_targets d \<longleftrightarrow> (case (da_training_targets d, da_evaluation_targets d) of
     (Some tt, Some et) \<Rightarrow> list_all is_integer_target (tt @ et) | _ \<Rightarrow> True)"

text \<open>
  The loop over the plugins of a study. The spaces are a dictionary by plugin, and the order of
  the loop is the order of its insertion; \<^verbatim>\<open>registry.get\<close> and the two validators
  are those of the plugins.
\<close>

fun validate_study_spaces :: "task_type \<Rightarrow> search_space list \<Rightarrow> unit result" where
  "validate_study_spaces task [] = Inr ()"
| "validate_study_spaces task (sp # sps) =
     bind_result (plugin_registry_get (ss_plugin sp) (Some task)) (\<lambda>pl.
     (case plugin_search_space pl of
        None \<Rightarrow> Inl (value_error ''Every study plugin must explicitly support AutoML.'')
      | Some owned \<Rightarrow>
          bind_result (validate_automl_search_space pl sp) (\<lambda>_.
          bind_result (validate_narrowed_search_space owned sp) (\<lambda>_. validate_study_spaces task sps))))"

definition validate_study :: "study_specification \<Rightarrow> unit result" where
  "validate_study s =
     bind_result (guard_that (\<not> (sy_task s = Classification \<and> \<not> integer_targets (sy_data s)))
       (value_error ''Classification AutoML targets must be integer labels.'')) (\<lambda>_.
     bind_result (guard_that (distinct (sy_plugins s))
       (value_error ''AutoML plugin IDs must be unique.'')) (\<lambda>_.
     bind_result (guard_that (distinct (map ss_plugin (sy_spaces s)))
       (value_error ''AutoML plugin search spaces must be unique.'')) (\<lambda>_.
     bind_result (guard_that (ss_plugin ` set (sy_spaces s) = set (sy_plugins s))
       (value_error ''Every AutoML plugin must have exactly one search space.'')) (\<lambda>_.
     bind_result (guard_that (list_all (\<lambda>sp. ss_task sp = sy_task s) (sy_spaces s))
       (value_error ''Every AutoML plugin must match the study task.'')) (\<lambda>_.
     bind_result (require_automl_metric (sy_metric s) (sy_task s) (sy_direction s)) (\<lambda>m.
     bind_result (guard_that (md_probabilities m \<longrightarrow> list_all ss_probability (sy_spaces s))
       (value_error ''The primary metric requires probability support from every plugin.'')) (\<lambda>_.
     bind_result (validate_study_spaces (sy_task s) (sy_spaces s)) (\<lambda>_.
     if sy_register s then
       (case sy_model_name s of
          None \<Rightarrow> Inl (value_error ''Champion registration requires a registered model name.'')
        | Some n \<Rightarrow> bind_result (validate_registered_model_name n) (\<lambda>_. Inr ()))
     else guard_that (sy_model_name s = None)
       (value_error ''A registered model name requires champion registration.'')))))))))"

definition make_study_specification :: "study_specification \<Rightarrow> study_specification result" where
  "make_study_specification s =
     (if \<not> (1 \<le> length (sy_plugins s) \<and> length (sy_plugins s) \<le> 32 \<and>
             1 \<le> length (sy_spaces s) \<and> length (sy_spaces s) \<le> 32)
      then Inl (validation_error ''AutoMLStudySpecification'')
      else bind_result (make_data_reference (sy_data s)) (\<lambda>_.
           bind_result (make_budget (sy_budget s)) (\<lambda>_.
           bind_result (pydantic_wrap (validate_study s)) (\<lambda>_. Inr s))))"

section \<open>Trial specifications\<close>

text \<open>
  The validator recomputes the digest of the sampled parameters, so a specification carries the
  one of its own parameters.
\<close>

record trial_specification =
  ts_study_seed :: int
  ts_number :: nat
  ts_plugin :: string
  ts_parameters :: "(string \<times> pyval) list"
  ts_seed :: int
  ts_fingerprint :: string

definition make_trial_specification ::
    "((string \<times> pyval) list \<Rightarrow> string) \<Rightarrow> trial_specification \<Rightarrow> trial_specification result" where
  "make_trial_specification digest t =
     (if \<not> (is_ok (safe_name (ts_plugin t)) \<and> length (ts_parameters t) \<le> 32 \<and> sha256_digest (ts_fingerprint t))
      then Inl (validation_error ''AutoMLTrialSpecification'')
      else if digest (ts_parameters t) \<noteq> ts_fingerprint t
      then Inl (validation_error ''The parameter fingerprint does not match the sample.'')
      else Inr t)"

section \<open>Champions\<close>

record champion_candidate =
  cc_trial :: uuid
  cc_number :: nat
  cc_value :: pyfloat
  cc_deviation :: pyfloat

fun real_of_pyfloat :: "pyfloat \<Rightarrow> real" where
  "real_of_pyfloat (Fin x) = x"
| "real_of_pyfloat _ = 0"

definition candidate_key :: "metric_direction \<Rightarrow> champion_candidate \<Rightarrow> real \<times> real \<times> nat \<times> string" where
  "candidate_key d c =
     ((if d = Maximize then -1 else 1) * real_of_pyfloat (cc_value c), real_of_pyfloat (cc_deviation c),
      cc_number c, uuid_str (cc_trial c))"

definition finite_candidate :: "champion_candidate \<Rightarrow> bool" where
  "finite_candidate c \<longleftrightarrow> isfinite (cc_value c) \<and> isfinite (cc_deviation c)"

definition rank_champions :: "champion_candidate list \<Rightarrow> metric_direction \<Rightarrow> champion_candidate list" where
  "rank_champions cs d = sort_key (candidate_key d) (filter finite_candidate cs)"

definition select_champion :: "champion_candidate list \<Rightarrow> metric_direction \<Rightarrow> champion_candidate option" where
  "select_champion cs d = at_most_one (rank_champions cs d)"

lemma select_champion_None: "select_champion cs d = None \<longleftrightarrow> list_all (\<lambda>c. \<not> finite_candidate c) cs"
  by (auto simp: select_champion_def rank_champions_def filter_empty_conv list_all_iff
      simp flip: set_empty2)

lemma sort_key_hd_least:
  assumes "sort_key f xs = y # ys" and "x \<in> set xs"
  shows "f y \<le> f x"
proof -
  have "sorted (map f (y # ys))" using sorted_sort_key [of f xs] assms(1) by simp
  moreover have "x \<in> set (y # ys)" using assms set_sort [of f xs] by simp
  ultimately show ?thesis by auto
qed

lemma select_champion_Some:
  assumes "select_champion cs d = Some c"
  shows "c \<in> set cs" and "finite_candidate c"
    and "c' \<in> set cs \<Longrightarrow> finite_candidate c' \<Longrightarrow> candidate_key d c \<le> candidate_key d c'"
proof -
  obtain ys where ys: "sort_key (candidate_key d) (filter finite_candidate cs) = c # ys"
    using assms by (cases "sort_key (candidate_key d) (filter finite_candidate cs)")
      (simp_all add: select_champion_def rank_champions_def)
  have "c \<in> set (sort_key (candidate_key d) (filter finite_candidate cs))" by (simp only: ys) simp
  then show "c \<in> set cs" "finite_candidate c" by simp_all
  show "candidate_key d c \<le> candidate_key d c'" if "c' \<in> set cs" "finite_candidate c'"
    using sort_key_hd_least [OF ys, of c'] that by simp
qed

end
