(* ===== verification/AutoML_Repository.thy ===== *)
theory AutoML_Repository
  imports AutoML_Models Job_Worker
begin

text \<open>
  The tables of AutoML studies, trials and execution slots (\<^verbatim>\<open>models/automl.py\<close>) and
  the operations of \<^verbatim>\<open>AutoMLRepository\<close> (\<^verbatim>\<open>repositories/automl.py\<close>).
  Claiming a trial locks the rows it reads, so one claim is one step; the other operations are
  conditional updates.
\<close>

section \<open>Tables\<close>

datatype study_status = StudyQueued | StudyRunning | StudySucceeded | StudyFailed | StudyCancelled

datatype trial_status =
    TrialQueued | TrialRunning | TrialSucceeded | TrialFailed | TrialPruned | TrialCancelled

record automl_study =
  su_id :: uuid
  su_company :: uuid
  su_requester :: uuid
  su_dataset_version :: "uuid option"
  su_task :: task_type
  su_status :: study_status
  su_metric :: string
  su_direction :: metric_direction
  su_seed :: int
  su_plugins :: "string list"
  su_spaces :: "search_space list"
  su_scaler :: scaler_choice
  su_imputer :: imputer_choice
  su_data :: data_reference
  su_folds :: int
  su_trial_budget :: int
  su_time_budget :: int
  su_trial_timeout :: int
  su_max_concurrent :: int
  su_register :: bool
  su_model_name :: "string option"
  su_idempotency_key :: "string option"
  su_fingerprint :: string
  su_version :: nat
  su_message :: "string option"
  su_created_at :: timestamp
  su_queued_at :: "timestamp option"
  su_started_at :: "timestamp option"
  su_deadline_at :: "timestamp option"
  su_finished_at :: "timestamp option"
  su_cancel_requested_at :: "timestamp option"
  su_cancelled_at :: "timestamp option"
  su_best_trial :: "uuid option"
  su_champion_job :: "uuid option"
  su_error_code :: "string option"
  su_error_message :: "string option"

record automl_trial =
  tl_id :: uuid
  tl_study :: uuid
  tl_number :: nat
  tl_plugin :: string
  tl_status :: trial_status
  tl_parameters :: "(string \<times> pyval) list"
  tl_fingerprint :: string
  tl_seed :: int
  tl_attempts :: nat
  tl_max_attempts :: nat
  tl_version :: nat
  tl_message :: "string option"
  tl_lease :: "timestamp option"
  tl_queued_at :: "timestamp option"
  tl_started_at :: "timestamp option"
  tl_finished_at :: "timestamp option"
  tl_cancelled_at :: "timestamp option"
  tl_fold_metrics :: "metrics list option"
  tl_aggregate_metrics :: "metrics option"
  tl_primary_value :: "pyfloat option"
  tl_duration :: "real option"
  tl_error_code :: "string option"
  tl_error_message :: "string option"

record automl_slot =
  sl_number :: nat
  sl_trial :: "uuid option"
  sl_lease :: "timestamp option"
  sl_version :: nat

definition study_visible :: "tenant \<Rightarrow> automl_study \<Rightarrow> bool" where
  "study_visible tn s \<longleftrightarrow> (case tn of None \<Rightarrow> True | Some t \<Rightarrow> su_company s = t)"

section \<open>Studies\<close>

text \<open>The check constraints of the table, the primary key and the scoped idempotency key.\<close>

definition study_checks :: "automl_study \<Rightarrow> bool" where
  "study_checks s \<longleftrightarrow>
     1 \<le> su_trial_budget s \<and> su_trial_budget s \<le> 100 \<and> 2 \<le> su_folds s \<and> su_folds s \<le> 10 \<and>
     60 \<le> su_time_budget s \<and> su_time_budget s \<le> 86400 \<and>
     10 \<le> su_trial_timeout s \<and> su_trial_timeout s \<le> 21600 \<and> su_trial_timeout s \<le> su_time_budget s \<and>
     1 \<le> su_max_concurrent s \<and> su_max_concurrent s \<le> 4 \<and> su_max_concurrent s \<le> su_trial_budget s \<and>
     (su_register s \<longrightarrow> su_model_name s \<noteq> None) \<and>
     (case su_model_name s of None \<Rightarrow> True | Some n \<Rightarrow> 3 \<le> length n \<and> length n \<le> 128)"

definition study_conflict :: "automl_study \<Rightarrow> automl_study \<Rightarrow> bool" where
  "study_conflict n s \<longleftrightarrow> su_id n = su_id s \<or>
     su_idempotency_key n \<noteq> None \<and> su_idempotency_key n = su_idempotency_key s \<and> su_requester n = su_requester s"

definition create_study ::
    "(uuid \<Rightarrow> uuid option) \<Rightarrow> automl_study \<Rightarrow> automl_study list \<Rightarrow>
     (automl_study \<times> usage_reference list) result \<times> automl_study list" where
  "create_study company_of n S =
     (case company_of (su_requester n) of
        None \<Rightarrow> (Inl (Exc ValueError ''A tenant-scoped user is required.''), S)
      | Some company \<Rightarrow>
          if study_checks n \<and> \<not> list_ex (study_conflict n) S
          then (let stored = n\<lparr>su_company := company\<rparr> in
            (Inr (stored, case su_dataset_version n of
                None \<Rightarrow> [] | Some v \<Rightarrow> [(v, ''automl_study'', su_id n)]), S @ [stored]))
          else (Inl (Exc IntegrityError ''constraint''), S))"

definition study_audit :: "automl_study \<Rightarrow> audit_event" where
  "study_audit s = (let succeeded = (su_status s = StudySucceeded) in
     \<lparr>ae_company = su_company s, ae_actor = su_requester s,
      ae_action = (if succeeded then ''automl.succeeded'' else ''automl.failed''),
      ae_resource_type = ''automl_study'', ae_resource_id = uuid_str (su_id s),
      ae_result = (if succeeded then ''success'' else ''failure''),
      ae_metadata = [(''task_type'', Some (task_value (su_task s))), (''error_code'', su_error_code s)]\<rparr>)"

definition get_study_by_id :: "tenant \<Rightarrow> uuid \<Rightarrow> automl_study list \<Rightarrow> automl_study option" where
  "get_study_by_id tn i S = at_most_one (filter (\<lambda>s. study_visible tn s \<and> su_id s = i) S)"

definition get_owned_study :: "tenant \<Rightarrow> uuid \<Rightarrow> uuid \<Rightarrow> automl_study list \<Rightarrow> automl_study option result" where
  "get_owned_study tn i owner S =
     scalar_one_or_none (filter (\<lambda>s. study_visible tn s \<and> su_id s = i \<and> su_requester s = owner) S)"

definition find_by_scoped_idempotency_key ::
    "tenant \<Rightarrow> uuid \<Rightarrow> string \<Rightarrow> automl_study list \<Rightarrow> automl_study option result" where
  "find_by_scoped_idempotency_key tn owner key S =
     scalar_one_or_none (filter (\<lambda>s. study_visible tn s \<and> su_requester s = owner \<and> su_idempotency_key s = Some key) S)"

text \<open>
  The plugin filter is a \<^verbatim>\<open>LIKE\<close> on the JSON text of the list of plugin
  identifiers, so \<^verbatim>\<open>_\<close> and \<^verbatim>\<open>%\<close> of the argument are wildcards.
\<close>

fun like :: "string \<Rightarrow> string \<Rightarrow> bool" where
  "like [] s \<longleftrightarrow> s = []"
| "like (p # ps) [] \<longleftrightarrow> p = CHR ''%'' \<and> like ps []"
| "like (p # ps) (c # cs) \<longleftrightarrow>
     (if p = CHR ''%'' then like ps (c # cs) \<or> like (p # ps) cs
      else (p = CHR ''_'' \<or> p = c) \<and> like ps cs)"

definition quoted :: "string \<Rightarrow> string" where
  "quoted s = CHR 34 # s @ [CHR 34]"

definition plugin_ids_text :: "string list \<Rightarrow> string" where
  "plugin_ids_text ids = CHR ''['' # join_comma (map quoted ids) @ '']''"

record study_page =
  sp_items :: "automl_study list"
  sp_total :: nat

definition list_studies ::
    "tenant \<Rightarrow> uuid option \<Rightarrow> study_status option \<Rightarrow> task_type option \<Rightarrow> string option \<Rightarrow> uuid option \<Rightarrow>
     nat \<Rightarrow> nat \<Rightarrow> automl_study list \<Rightarrow> study_page" where
  "list_studies tn owner status task plugin requester limit offset S =
     (let given = (\<lambda>x y. case x of None \<Rightarrow> True | Some v \<Rightarrow> y = v);
          rows = filter (\<lambda>s. study_visible tn s \<and> given owner (su_requester s) \<and>
            given requester (su_requester s) \<and>
            (case status of None \<Rightarrow> True | Some v \<Rightarrow> su_status s = v) \<and>
            (case task of None \<Rightarrow> True | Some v \<Rightarrow> su_task s = v) \<and>
            (case plugin of None \<Rightarrow> True
             | Some p \<Rightarrow> like (''%'' @ quoted p @ ''%'') (plugin_ids_text (su_plugins s)))) S in
      \<lparr>sp_items = take limit (drop offset (sort_key (\<lambda>s. (- su_created_at s, su_id s)) rows)),
       sp_total = length rows\<rparr>)"

definition bump_study :: "(automl_study \<Rightarrow> automl_study) \<Rightarrow> automl_study \<Rightarrow> automl_study" where
  "bump_study f s = (f s)\<lparr>su_version := Suc (su_version s)\<rparr>"

definition update_study ::
    "(automl_study \<Rightarrow> bool) \<Rightarrow> (automl_study \<Rightarrow> automl_study) \<Rightarrow> automl_study list \<Rightarrow>
     automl_study option \<times> automl_study list" where
  "update_study p f S = (at_most_one (returning p (bump_study f) S), update_where p (bump_study f) S)"

definition conditionally_transition_study ::
    "uuid \<Rightarrow> study_status \<Rightarrow> nat \<Rightarrow> study_status \<Rightarrow> (automl_study \<Rightarrow> automl_study) \<Rightarrow> automl_study list \<Rightarrow>
     automl_study option \<times> automl_study list" where
  "conditionally_transition_study i expected version new f S =
     update_study (\<lambda>s. su_id s = i \<and> su_status s = expected \<and> su_version s = version)
       (\<lambda>s. f (s\<lparr>su_status := new\<rparr>)) S"

definition request_study_cancellation ::
    "uuid \<Rightarrow> nat \<Rightarrow> timestamp \<Rightarrow> automl_study list \<Rightarrow> automl_study option \<times> automl_study list" where
  "request_study_cancellation i version t S =
     update_study (\<lambda>s. su_id s = i \<and> su_status s = StudyRunning \<and> su_version s = version \<and>
         su_cancel_requested_at s = None)
       (\<lambda>s. s\<lparr>su_cancel_requested_at := Some t\<rparr>) S"

definition update_study_error ::
    "uuid \<Rightarrow> nat \<Rightarrow> string \<Rightarrow> string \<Rightarrow> automl_study list \<Rightarrow> automl_study option \<times> automl_study list" where
  "update_study_error i version code message S =
     update_study (\<lambda>s. su_id s = i \<and> su_version s = version)
       (\<lambda>s. s\<lparr>su_error_code := Some code, su_error_message := Some message\<rparr>) S"

definition set_best_trial ::
    "uuid \<Rightarrow> uuid \<Rightarrow> nat \<Rightarrow> automl_trial list \<Rightarrow> automl_study list \<Rightarrow> automl_study option \<times> automl_study list" where
  "set_best_trial i trial version R S =
     update_study (\<lambda>s. su_id s = i \<and> su_version s = version \<and>
         length (filter (\<lambda>r. tl_id r = trial \<and> tl_study r = i) R) = 1)
       (\<lambda>s. s\<lparr>su_best_trial := Some trial\<rparr>) S"

definition link_champion_training_job ::
    "uuid \<Rightarrow> uuid \<Rightarrow> nat \<Rightarrow> automl_study list \<Rightarrow> automl_study option \<times> automl_study list" where
  "link_champion_training_job i job version S =
     update_study (\<lambda>s. su_id s = i \<and> su_version s = version) (\<lambda>s. s\<lparr>su_champion_job := Some job\<rparr>) S"

definition set_study_queue_identifier ::
    "uuid \<Rightarrow> string \<Rightarrow> nat \<Rightarrow> automl_study list \<Rightarrow> automl_study option \<times> automl_study list" where
  "set_study_queue_identifier i message version S =
     update_study (\<lambda>s. su_id s = i \<and> su_version s = version \<and> su_status s \<in> {StudyQueued, StudyRunning})
       (\<lambda>s. s\<lparr>su_message := Some message\<rparr>) S"

section \<open>Trials\<close>

text \<open>The checks, the foreign key to the study, and the unique columns of a new trial.\<close>

definition trial_checks :: "automl_trial \<Rightarrow> bool" where
  "trial_checks r \<longleftrightarrow> 1 \<le> tl_max_attempts r \<and> tl_max_attempts r \<le> 10 \<and> tl_attempts r \<le> tl_max_attempts r"

definition trial_conflict :: "automl_trial \<Rightarrow> automl_trial \<Rightarrow> bool" where
  "trial_conflict n r \<longleftrightarrow> tl_id n = tl_id r \<or> tl_study n = tl_study r \<and>
     (tl_number n = tl_number r \<or> tl_plugin n = tl_plugin r \<and> tl_fingerprint n = tl_fingerprint r)"

definition create_trial ::
    "automl_study list \<Rightarrow> automl_trial \<Rightarrow> automl_trial list \<Rightarrow> automl_trial result \<times> automl_trial list" where
  "create_trial S n R =
     (if trial_checks n \<and> tl_study n \<in> su_id ` set S \<and> \<not> list_ex (trial_conflict n) R
      then (Inr n, R @ [n]) else (Inl (Exc IntegrityError ''constraint''), R))"

fun create_trials ::
    "automl_study list \<Rightarrow> automl_trial list \<Rightarrow> automl_trial list \<Rightarrow> automl_trial list result \<times> automl_trial list" where
  "create_trials S [] R = (Inr [], R)"
| "create_trials S (n # ns) R = (case create_trial S n R of
     (Inl e, R') \<Rightarrow> (Inl e, R')
   | (Inr r, R') \<Rightarrow> (case create_trials S ns R' of
        (Inl e, R'') \<Rightarrow> (Inl e, R'') | (Inr rs, R'') \<Rightarrow> (Inr (r # rs), R'')))"

definition get_trial_by_id :: "uuid \<Rightarrow> automl_trial list \<Rightarrow> automl_trial option" where
  "get_trial_by_id i R = at_most_one (filter (\<lambda>r. tl_id r = i) R)"

definition get_owned_trial ::
    "tenant \<Rightarrow> uuid \<Rightarrow> uuid \<Rightarrow> automl_study list \<Rightarrow> automl_trial list \<Rightarrow> automl_trial option result" where
  "get_owned_trial tn i owner S R = scalar_one_or_none (filter (\<lambda>r. tl_id r = i \<and>
     list_ex (\<lambda>s. study_visible tn s \<and> su_id s = tl_study r \<and> su_requester s = owner) S) R)"

record trial_page =
  tp_items :: "automl_trial list"
  tp_total :: nat

definition metric_order :: "automl_trial \<Rightarrow> nat \<times> real" where
  "metric_order r = (case tl_primary_value r of None \<Rightarrow> (1, 0) | Some v \<Rightarrow> (0, - real_of_pyfloat v))"

definition list_trials_for_study ::
    "uuid \<Rightarrow> trial_status option \<Rightarrow> string option \<Rightarrow> nat \<Rightarrow> nat \<Rightarrow> bool \<Rightarrow> automl_trial list \<Rightarrow> trial_page" where
  "list_trials_for_study study status plugin limit offset descending R =
     (let rows = filter (\<lambda>r. tl_study r = study \<and>
            (case status of None \<Rightarrow> True | Some v \<Rightarrow> tl_status r = v) \<and>
            (case plugin of None \<Rightarrow> True | Some p \<Rightarrow> tl_plugin r = p)) R;
          ordered = (if descending then sort_key (\<lambda>r. (metric_order r, tl_id r)) rows
            else sort_key (\<lambda>r. ((tl_number r, 0 :: nat), tl_id r)) rows) in
      \<lparr>tp_items = take limit (drop offset ordered), tp_total = length rows\<rparr>)"

definition list_all_trials :: "uuid \<Rightarrow> automl_trial list \<Rightarrow> automl_trial list" where
  "list_all_trials study R = sort_key (\<lambda>r. (tl_number r, tl_id r)) (filter (\<lambda>r. tl_study r = study) R)"

definition bump_trial :: "(automl_trial \<Rightarrow> automl_trial) \<Rightarrow> automl_trial \<Rightarrow> automl_trial" where
  "bump_trial f r = (f r)\<lparr>tl_version := Suc (tl_version r)\<rparr>"

definition update_trial ::
    "(automl_trial \<Rightarrow> bool) \<Rightarrow> (automl_trial \<Rightarrow> automl_trial) \<Rightarrow> automl_trial list \<Rightarrow>
     automl_trial option \<times> automl_trial list" where
  "update_trial p f R = (at_most_one (returning p (bump_trial f) R), update_where p (bump_trial f) R)"

definition updated_count :: "('r \<Rightarrow> bool) \<Rightarrow> 'r list \<Rightarrow> nat" where
  "updated_count p R = length (filter p R)"

definition mark_queued_trials_cancelled :: "uuid \<Rightarrow> timestamp \<Rightarrow> automl_trial list \<Rightarrow> nat \<times> automl_trial list" where
  "mark_queued_trials_cancelled study t R =
     (let p = (\<lambda>r. tl_study r = study \<and> tl_status r = TrialQueued) in
      (updated_count p R, update_where p (bump_trial (\<lambda>r. r\<lparr>tl_status := TrialCancelled,
         tl_cancelled_at := Some t, tl_finished_at := Some t\<rparr>)) R))"

definition set_trial_queue_identifier ::
    "uuid \<Rightarrow> string \<Rightarrow> nat \<Rightarrow> automl_trial list \<Rightarrow> automl_trial option \<times> automl_trial list" where
  "set_trial_queue_identifier i message version R =
     update_trial (\<lambda>r. tl_id r = i \<and> tl_status r = TrialQueued \<and> tl_version r = version)
       (\<lambda>r. r\<lparr>tl_message := Some message\<rparr>) R"

definition conditionally_transition_trial ::
    "uuid \<Rightarrow> trial_status \<Rightarrow> nat \<Rightarrow> trial_status \<Rightarrow> (automl_trial \<Rightarrow> automl_trial) \<Rightarrow> automl_trial list \<Rightarrow>
     automl_trial option \<times> automl_trial list" where
  "conditionally_transition_trial i expected version new f R =
     update_trial (\<lambda>r. tl_id r = i \<and> tl_status r = expected \<and> tl_version r = version)
       (\<lambda>r. f (r\<lparr>tl_status := new\<rparr>)) R"

record trial_metrics =
  tm_folds :: "metrics list"
  tm_aggregate :: metrics
  tm_primary :: pyfloat
  tm_duration :: real

text \<open>The check constraint of the table admits primary values up to 1e308 only.\<close>

definition storable_metric :: "pyfloat \<Rightarrow> bool" where
  "storable_metric v \<longleftrightarrow> (case v of Fin x \<Rightarrow> \<bar>x\<bar> \<le> 10 ^ 308 | _ \<Rightarrow> False)"

definition update_trial_metrics ::
    "uuid \<Rightarrow> nat \<Rightarrow> trial_metrics \<Rightarrow> automl_trial list \<Rightarrow> automl_trial option result \<times> automl_trial list" where
  "update_trial_metrics i version m R =
     (let p = (\<lambda>r. tl_id r = i \<and> tl_version r = version) in
      if list_ex p R \<and> \<not> storable_metric (tm_primary m)
      then (Inl (Exc IntegrityError ''ck_automl_trials_metric_finite''), R)
      else (case update_trial p (\<lambda>r. r\<lparr>tl_fold_metrics := Some (tm_folds m),
             tl_aggregate_metrics := Some (tm_aggregate m), tl_primary_value := Some (tm_primary m),
             tl_duration := Some (tm_duration m)\<rparr>) R of (r, R') \<Rightarrow> (Inr r, R')))"

definition update_trial_error ::
    "uuid \<Rightarrow> nat \<Rightarrow> string \<Rightarrow> string \<Rightarrow> automl_trial list \<Rightarrow> automl_trial option \<times> automl_trial list" where
  "update_trial_error i version code message R =
     update_trial (\<lambda>r. tl_id r = i \<and> tl_version r = version)
       (\<lambda>r. r\<lparr>tl_error_code := Some code, tl_error_message := Some message\<rparr>) R"

definition expired :: "timestamp \<Rightarrow> timestamp option \<Rightarrow> bool" where
  "expired now lease \<longleftrightarrow> (case lease of None \<Rightarrow> False | Some l \<Rightarrow> l \<le> now)"

definition release_expired_trials :: "timestamp \<Rightarrow> automl_trial list \<Rightarrow> nat \<times> automl_trial list" where
  "release_expired_trials now R =
     (let p = (\<lambda>r. tl_status r = TrialRunning \<and> expired now (tl_lease r) \<and> tl_attempts r < tl_max_attempts r) in
      (updated_count p R, update_where p (bump_trial (\<lambda>r. r\<lparr>tl_status := TrialQueued, tl_lease := None,
         tl_message := None, tl_error_code := Some ''expired_lease_recovered'',
         tl_error_message := Some ''The trial was recovered after an expired lease.''\<rparr>)) R))"

definition fail_exhausted_expired_trials :: "timestamp \<Rightarrow> automl_trial list \<Rightarrow> nat \<times> automl_trial list" where
  "fail_exhausted_expired_trials now R =
     (let p = (\<lambda>r. tl_status r = TrialRunning \<and> expired now (tl_lease r) \<and> tl_max_attempts r \<le> tl_attempts r) in
      (updated_count p R, update_where p (bump_trial (\<lambda>r. r\<lparr>tl_status := TrialFailed, tl_lease := None,
         tl_finished_at := Some now, tl_error_code := Some ''retry_exhausted'',
         tl_error_message := Some ''The trial exhausted its infrastructure retries.''\<rparr>)) R))"

section \<open>Slots\<close>

definition bump_slot :: "(automl_slot \<Rightarrow> automl_slot) \<Rightarrow> automl_slot \<Rightarrow> automl_slot" where
  "bump_slot f s = (f s)\<lparr>sl_version := Suc (sl_version s)\<rparr>"

definition free_slot :: "automl_slot \<Rightarrow> automl_slot" where
  "free_slot = bump_slot (\<lambda>s. s\<lparr>sl_trial := None, sl_lease := None\<rparr>)"

definition release_slot :: "nat \<Rightarrow> uuid \<Rightarrow> nat \<Rightarrow> automl_slot list \<Rightarrow> bool \<times> automl_slot list" where
  "release_slot number trial version L =
     (let p = (\<lambda>s. sl_number s = number \<and> sl_trial s = Some trial \<and> sl_version s = version) in
      (updated_count p L \<noteq> 0, update_where p free_slot L))"

definition reclaim_expired_slots :: "timestamp \<Rightarrow> automl_slot list \<Rightarrow> nat \<times> automl_slot list" where
  "reclaim_expired_slots now L =
     (let p = (\<lambda>s. sl_trial s \<noteq> None \<and> expired now (sl_lease s)) in
      (updated_count p L, update_where p free_slot L))"

definition initialize_slots :: "nat \<Rightarrow> automl_slot list \<Rightarrow> automl_slot list" where
  "initialize_slots count L = L @ map (\<lambda>n. \<lparr>sl_number = n, sl_trial = None, sl_lease = None, sl_version = 0\<rparr>)
     (filter (\<lambda>n. n \<notin> sl_number ` set L) [1 ..< Suc count])"

definition list_slots :: "automl_slot list \<Rightarrow> automl_slot list" where
  "list_slots = sort_key sl_number"

section \<open>Claiming\<close>

text \<open>
  The rows of the trial, the study and the slot are locked until the commit. The unique column
  of the slots refuses a trial that another slot still holds.
\<close>

definition claimable :: "uuid \<Rightarrow> automl_trial list \<Rightarrow> automl_trial option" where
  "claimable i R = at_most_one (filter (\<lambda>r. tl_id r = i \<and> tl_status r = TrialQueued \<and>
     tl_attempts r < tl_max_attempts r) R)"

definition active_trials :: "uuid \<Rightarrow> timestamp \<Rightarrow> automl_trial list \<Rightarrow> automl_trial list" where
  "active_trials study now R = filter (\<lambda>r. tl_study r = study \<and> tl_status r = TrialRunning \<and>
     (case tl_lease r of None \<Rightarrow> False | Some l \<Rightarrow> l > now)) R"

definition available_slot :: "timestamp \<Rightarrow> automl_slot list \<Rightarrow> automl_slot option" where
  "available_slot now L = at_most_one (sort_key sl_number
     (filter (\<lambda>s. sl_trial s = None \<or> expired now (sl_lease s)) L))"

definition claimed_trial :: "timestamp \<Rightarrow> timestamp \<Rightarrow> automl_trial \<Rightarrow> automl_trial" where
  "claimed_trial now lease = bump_trial (\<lambda>r. r\<lparr>tl_status := TrialRunning, tl_started_at := Some now,
     tl_lease := Some lease, tl_attempts := Suc (tl_attempts r)\<rparr>)"

definition claimed_slot :: "uuid \<Rightarrow> timestamp \<Rightarrow> automl_slot \<Rightarrow> automl_slot" where
  "claimed_slot trial lease = bump_slot (\<lambda>s. s\<lparr>sl_trial := Some trial, sl_lease := Some lease\<rparr>)"

definition running_study :: "uuid \<Rightarrow> automl_study list \<Rightarrow> automl_study option" where
  "running_study i S = at_most_one (filter (\<lambda>s. su_id s = i \<and> su_status s = StudyRunning \<and>
     su_cancel_requested_at s = None) S)"

definition claim_trial_and_slot ::
    "uuid \<Rightarrow> timestamp \<Rightarrow> timestamp \<Rightarrow> automl_study list \<Rightarrow> automl_trial list \<Rightarrow> automl_slot list \<Rightarrow>
     (automl_trial \<times> automl_slot) option result \<times> automl_trial list \<times> automl_slot list" where
  "claim_trial_and_slot i now lease S R L =
     (case claimable i R of
        None \<Rightarrow> (Inr None, R, L)
      | Some trial \<Rightarrow>
     (case running_study (tl_study trial) S of
        None \<Rightarrow> (Inr None, R, L)
      | Some study \<Rightarrow>
          if expired now (su_deadline_at study) then (Inr None, R, L)
          else if int (length (active_trials (su_id study) now R)) \<ge> su_max_concurrent study
          then (Inr None, R, L)
          else (case available_slot now L of
              None \<Rightarrow> (Inr None, R, L)
            | Some slot \<Rightarrow>
                if list_ex (\<lambda>s. sl_number s \<noteq> sl_number slot \<and> sl_trial s = Some (tl_id trial)) L
                then (Inl (Exc IntegrityError ''automl_execution_slots.trial_id''), R, L)
                else (Inr (Some (claimed_trial now lease trial, claimed_slot (tl_id trial) lease slot)),
                  update_where (\<lambda>r. tl_id r = tl_id trial) (claimed_trial now lease) R,
                  update_where (\<lambda>s. sl_number s = sl_number slot) (claimed_slot (tl_id trial) lease) L))))"

end
