(* ===== verification/AutoML_Worker.thy ===== *)
theory AutoML_Worker
  imports AutoML_Repository
begin

text \<open>
  The trial worker of \<^verbatim>\<open>services/automl_execution.py\<close>: one transaction claims a
  trial with a slot, the cross-validation runs in a child process outside any transaction, and a
  second transaction stores the outcome and releases the slot, both or neither. The child process
  is a parameter; other actors may commit while it runs.
\<close>

section \<open>The store\<close>

record automl_store =
  as_studies :: "automl_study list"
  as_trials :: "automl_trial list"
  as_slots :: "automl_slot list"
  as_audits :: "audit_event list"

datatype execution_state = Progressed | ExecutionRetry | ExecutionTerminal | ExecutionSkipped

section \<open>Requests to the child process\<close>

record cv_request =
  cv_task :: task_type
  cv_plugin :: string
  cv_parameters :: "(string \<times> pyval) list"
  cv_scaler :: scaler_choice
  cv_imputer :: imputer_choice
  cv_metric :: string
  cv_direction :: metric_direction
  cv_seed :: int
  cv_folds :: int
  cv_features :: "real list list"
  cv_targets :: "target_value list"

definition validate_cv_request :: "cv_request \<Rightarrow> cv_request result" where
  "validate_cv_request q =
     (if 1 \<le> length (cv_plugin q) \<and> length (cv_plugin q) \<le> 64 \<and> length (cv_parameters q) \<le> 32 \<and>
         1 \<le> length (cv_metric q) \<and> length (cv_metric q) \<le> 64 \<and> 2 \<le> cv_folds q \<and> cv_folds q \<le> 10 \<and>
         2 \<le> length (cv_features q) \<and> 2 \<le> length (cv_targets q)
      then Inr q else Inl (validation_error ''CrossValidationRequest''))"

definition make_cv_request :: "automl_study \<Rightarrow> automl_trial \<Rightarrow> cv_request result" where
  "make_cv_request study trial =
     bind_result (make_data_reference (su_data study)) (\<lambda>data.
     (case (da_training_features data, da_training_targets data) of
        (Some features, Some targets) \<Rightarrow>
          if su_task study = Classification \<and> list_ex (\<lambda>v. \<not> is_integer_target v) targets
          then Inl (value_error ''Classification AutoML targets must be integer labels.'')
          else validate_cv_request
            \<lparr>cv_task = su_task study, cv_plugin = tl_plugin trial, cv_parameters = tl_parameters trial,
             cv_scaler = su_scaler study, cv_imputer = su_imputer study, cv_metric = su_metric study,
             cv_direction = su_direction study, cv_seed = tl_seed trial, cv_folds = su_folds study,
             cv_features = features, cv_targets = targets\<rparr>
      | _ \<Rightarrow> Inl (value_error ''The AutoML study has no executable data snapshot.'')))"

section \<open>The claim\<close>

datatype 'a claim_step = ClaimRefused | ClaimRejected uuid | ClaimStarted 'a

record started_trial =
  sr_trial :: automl_trial
  sr_slot :: automl_slot
  sr_study :: automl_study
  sr_request :: cv_request

definition rejected_values :: "timestamp \<Rightarrow> automl_trial \<Rightarrow> automl_trial" where
  "rejected_values t r = r\<lparr>tl_finished_at := Some t, tl_lease := None,
     tl_error_code := Some ''trial_validation_failed'',
     tl_error_message := Some ''The persisted AutoML trial could not be validated.''\<rparr>"

definition start_trial ::
    "uuid \<Rightarrow> timestamp \<Rightarrow> timestamp \<Rightarrow> timestamp \<Rightarrow> automl_store \<Rightarrow>
     started_trial claim_step result \<times> automl_store" where
  "start_trial i now lease rejected_at W =
     (case claim_trial_and_slot i now lease (as_studies W) (as_trials W) (as_slots W) of
        (Inl e, R, L) \<Rightarrow> (Inl e, W)
      | (Inr None, R, L) \<Rightarrow> (Inr ClaimRefused, W)
      | (Inr (Some (trial, slot)), R, L) \<Rightarrow>
         (case get_study_by_id None (tl_study trial) (as_studies W) of
            None \<Rightarrow> (Inr ClaimRefused, W)
          | Some study \<Rightarrow>
             (case make_cv_request study trial of
                Inr q \<Rightarrow> (Inr (ClaimStarted \<lparr>sr_trial = trial, sr_slot = slot, sr_study = study, sr_request = q\<rparr>),
                  W\<lparr>as_trials := R, as_slots := L\<rparr>)
              | Inl e \<Rightarrow>
                  if isinstance (exc_of e) [ValueError, ValidationError]
                  then (case conditionally_transition_trial (tl_id trial) TrialRunning (tl_version trial) TrialFailed
                            (rejected_values rejected_at) R of
                      (failed, R') \<Rightarrow>
                        (case release_slot (sl_number slot) (tl_id trial) (sl_version slot) L of
                           (released, L') \<Rightarrow>
                             if failed \<noteq> None \<and> released
                             then (Inr (ClaimRejected (su_id study)), W\<lparr>as_trials := R', as_slots := L'\<rparr>)
                             else (Inr ClaimRefused, W)))
                  else (Inl e, W))))"

section \<open>The outcome\<close>

record process_outcome =
  px_result :: "(metrics list \<times> metrics \<times> pyfloat) option"
  px_error_code :: "string option"
  px_error_message :: "string option"

datatype storage = NotStored | RetryStored | OutcomeStored trial_status

definition release_with ::
    "automl_trial option \<Rightarrow> automl_trial list \<Rightarrow> started_trial \<Rightarrow> storage \<Rightarrow> automl_store \<Rightarrow>
     storage result \<times> automl_store" where
  "release_with changed R st stored W =
     (case release_slot (sl_number (sr_slot st)) (tl_id (sr_trial st)) (sl_version (sr_slot st)) (as_slots W) of
        (released, L) \<Rightarrow>
          if changed = None \<or> \<not> released then (Inr NotStored, W)
          else (Inr stored, W\<lparr>as_trials := R, as_slots := L\<rparr>))"

definition retry_values :: "process_outcome \<Rightarrow> automl_trial \<Rightarrow> automl_trial" where
  "retry_values o' r = r\<lparr>tl_message := None, tl_lease := None, tl_error_code := px_error_code o',
     tl_error_message := px_error_message o'\<rparr>"

definition terminal_values :: "trial_status \<Rightarrow> timestamp \<Rightarrow> process_outcome \<Rightarrow> automl_trial \<Rightarrow> automl_trial" where
  "terminal_values final t o' r =
     (let r' = r\<lparr>tl_finished_at := Some t, tl_lease := None\<rparr> in
      if final = TrialCancelled then r'\<lparr>tl_cancelled_at := Some t\<rparr>
      else if final = TrialFailed
      then r'\<lparr>tl_error_code := px_error_code o', tl_error_message := px_error_message o'\<rparr>
      else r')"

text \<open>
  \<open>terminal_store\<close> is the end of the second transaction, from the version the worker holds:
  the trial moves to its final status and the slot is released, or nothing is kept.
\<close>

definition terminal_store ::
    "started_trial \<Rightarrow> nat \<Rightarrow> trial_status \<Rightarrow> timestamp \<Rightarrow> process_outcome \<Rightarrow> automl_trial list \<Rightarrow> automl_store \<Rightarrow>
     storage result \<times> automl_store" where
  "terminal_store st version final t o' R W =
     (case conditionally_transition_trial (tl_id (sr_trial st)) TrialRunning version final
         (terminal_values final t o') R of
        (changed, R') \<Rightarrow> release_with changed R' st (OutcomeStored final) W)"

definition store_outcome ::
    "started_trial \<Rightarrow> process_outcome \<Rightarrow> timestamp \<Rightarrow> real \<Rightarrow> automl_store \<Rightarrow> storage result \<times> automl_store" where
  "store_outcome st o' t duration W =
     (let i = tl_id (sr_trial st); v = tl_version (sr_trial st) in
      case get_trial_by_id i (as_trials W) of
        None \<Rightarrow> (Inr NotStored, W)
      | Some current \<Rightarrow>
          if tl_version current \<noteq> v then (Inr NotStored, W)
          else (case get_study_by_id None (su_id (sr_study st)) (as_studies W) of
              None \<Rightarrow> terminal_store st v TrialCancelled t o' (as_trials W) W
            | Some study \<Rightarrow>
                if su_cancel_requested_at study \<noteq> None \<or> px_error_code o' = Some ''cancelled''
                then terminal_store st v TrialCancelled t o' (as_trials W) W
                else (case px_result o' of
                    Some (folds, aggregate, primary) \<Rightarrow>
                      (case update_trial_metrics i v \<lparr>tm_folds = folds, tm_aggregate = aggregate,
                            tm_primary = primary, tm_duration = max 0 duration\<rparr> (as_trials W) of
                         (Inl e, R) \<Rightarrow> (Inl e, W)
                       | (Inr None, R) \<Rightarrow> (Inr NotStored, W)
                       | (Inr (Some r), R) \<Rightarrow> terminal_store st (tl_version r) TrialSucceeded t o' R W)
                  | None \<Rightarrow>
                      if px_error_code o' = Some ''process_start_failed'' \<and> tl_attempts current < tl_max_attempts current
                      then (case conditionally_transition_trial i TrialRunning v TrialQueued (retry_values o') (as_trials W) of
                          (changed, R) \<Rightarrow> release_with changed R st RetryStored W)
                      else terminal_store st v TrialFailed t o' (as_trials W) W)))"

end
