(* ===== verification/AutoML_Lifecycle.thy ===== *)
theory AutoML_Lifecycle
  imports AutoML_Worker
begin

text \<open>
  The life cycles of AutoML rows, the transactions that actors commit, and the invariant of every
  store that any interleaving of them reaches while the clock advances: slots are held by running
  trials with the same lease, each by one slot, and the limits on concurrent trials hold.
\<close>

section \<open>Moves of trials\<close>

definition trial_identity where
  "trial_identity r = (tl_id r, tl_study r, tl_number r, tl_plugin r, tl_parameters r, tl_fingerprint r,
     tl_seed r, tl_max_attempts r)"

abbreviation ended :: "automl_trial \<Rightarrow> bool" where
  "ended r \<equiv> tl_status r \<notin> {TrialQueued, TrialRunning}"

inductive trial_move :: "automl_trial \<Rightarrow> automl_trial \<Rightarrow> bool" where
  dispatch: "tl_status r = TrialQueued \<Longrightarrow> trial_move r (bump_trial (\<lambda>r. r\<lparr>tl_message := Some m\<rparr>) r)"
| claim: "tl_status r = TrialQueued \<Longrightarrow> tl_attempts r < tl_max_attempts r \<Longrightarrow> trial_move r (claimed_trial now lease r)"
| cancel_queued: "tl_status r = TrialQueued \<Longrightarrow> trial_move r (bump_trial (\<lambda>r. r\<lparr>tl_status := TrialCancelled,
     tl_cancelled_at := Some t, tl_finished_at := Some t\<rparr>) r)"
| measure: "tl_status r = TrialRunning \<Longrightarrow> trial_move r (bump_trial (\<lambda>r. r\<lparr>tl_fold_metrics := fm,
     tl_aggregate_metrics := am, tl_primary_value := pv, tl_duration := d\<rparr>) r)"
| requeue: "tl_status r = TrialRunning \<Longrightarrow> tl_attempts r < tl_max_attempts r \<Longrightarrow>
     trial_move r (bump_trial (\<lambda>r. r\<lparr>tl_status := TrialQueued, tl_lease := None, tl_message := None,
       tl_error_code := c, tl_error_message := m\<rparr>) r)"
| finish: "tl_status r = TrialRunning \<Longrightarrow> final \<in> {TrialSucceeded, TrialFailed, TrialCancelled} \<Longrightarrow>
     trial_move r (bump_trial (\<lambda>r. r\<lparr>tl_status := final, tl_lease := None, tl_finished_at := Some t,
       tl_cancelled_at := ca, tl_error_code := c, tl_error_message := m\<rparr>) r)"

lemmas trial_moves [step_intros] = trial_move.intros

lemma bump_trial_version [simp]: "tl_version (bump_trial f r) = Suc (tl_version r)"
  by (simp add: bump_trial_def)

lemma trial_move_identity: "trial_move r r' \<Longrightarrow> trial_identity r' = trial_identity r"
  by (induction rule: trial_move.induct) (simp_all add: trial_identity_def bump_trial_def claimed_trial_def)

lemma trial_move_version: "trial_move r r' \<Longrightarrow> tl_version r' = Suc (tl_version r)"
  by (induction rule: trial_move.induct) (simp_all add: claimed_trial_def)

lemma trial_move_not_ended: "trial_move r r' \<Longrightarrow> \<not> ended r"
  by (induction rule: trial_move.induct) simp_all

lemma trial_move_attempts: "trial_move r r' \<Longrightarrow> tl_attempts r \<le> tl_max_attempts r \<Longrightarrow> tl_attempts r' \<le> tl_max_attempts r'"
  by (induction rule: trial_move.induct) (simp_all add: bump_trial_def claimed_trial_def)

interpretation trials: versioned_rows tl_id tl_version trial_move ended
proof unfold_locales
  fix r r' assume m: "trial_move r r'"
  show "tl_id r' = tl_id r" using trial_move_identity [OF m] by (simp add: trial_identity_def)
  show "tl_version r' = Suc (tl_version r)" using m by (rule trial_move_version)
  show "\<not> ended r" using m by (rule trial_move_not_ended)
qed

section \<open>Moves of studies\<close>

definition study_identity where
  "study_identity s = (su_id s, su_company s, su_requester s, su_task s, su_plugins s, su_spaces s, su_data s,
     su_max_concurrent s, su_trial_budget s, su_idempotency_key s, su_fingerprint s, su_register s)"

abbreviation study_ended :: "automl_study \<Rightarrow> bool" where
  "study_ended s \<equiv> su_status s \<notin> {StudyQueued, StudyRunning}"

text \<open>
  A study keeps what was asked for, a request to cancel it stays, and the status of an ended
  study never changes. Error
  texts and links are written by version only, so the row itself may still move.
\<close>

definition study_move :: "automl_study \<Rightarrow> automl_study \<Rightarrow> bool" where
  "study_move s s' \<longleftrightarrow> study_identity s' = study_identity s \<and> su_version s' = Suc (su_version s) \<and>
     (su_cancel_requested_at s \<noteq> None \<longrightarrow> su_cancel_requested_at s' \<noteq> None) \<and>
     (su_status s' = su_status s \<or> su_status s = StudyQueued \<and> su_status s' \<in> {StudyRunning, StudyCancelled} \<or>
      su_status s = StudyRunning \<and> study_ended s')"

interpretation studies: versioned_rows su_id su_version study_move "\<lambda>s. False"
  by unfold_locales (simp_all add: study_move_def study_identity_def)

definition slot_move :: "automl_slot \<Rightarrow> automl_slot \<Rightarrow> bool" where
  "slot_move s s' \<longleftrightarrow> sl_number s' = sl_number s \<and> sl_version s' = Suc (sl_version s)"

interpretation slots: versioned_rows sl_number sl_version slot_move "\<lambda>s. False"
  by unfold_locales (simp_all add: slot_move_def)

section \<open>Transactions\<close>

definition new_trial :: "uuid \<Rightarrow> uuid \<Rightarrow> timestamp \<Rightarrow> trial_specification \<Rightarrow> automl_trial" where
  "new_trial study i t ts = \<lparr>tl_id = i, tl_study = study, tl_number = ts_number ts, tl_plugin = ts_plugin ts,
     tl_status = TrialQueued, tl_parameters = ts_parameters ts, tl_fingerprint = ts_fingerprint ts,
     tl_seed = ts_seed ts, tl_attempts = 0, tl_max_attempts = 3, tl_version = 0, tl_message = None,
     tl_lease = None, tl_queued_at = Some t, tl_started_at = None, tl_finished_at = None,
     tl_cancelled_at = None, tl_fold_metrics = None, tl_aggregate_metrics = None, tl_primary_value = None,
     tl_duration = None, tl_error_code = None, tl_error_message = None\<rparr>"

definition start_values :: "timestamp \<Rightarrow> automl_study \<Rightarrow> automl_study" where
  "start_values now s = s\<lparr>su_started_at := Some now,
     su_deadline_at := Some (now + su_time_budget s * second), su_message := None\<rparr>"

definition finish_values :: "timestamp \<Rightarrow> string option \<Rightarrow> string option \<Rightarrow> automl_study \<Rightarrow> automl_study" where
  "finish_values t code message s = s\<lparr>su_finished_at := Some t, su_error_code := code, su_error_message := message\<rparr>"

definition cancel_values :: "timestamp \<Rightarrow> automl_study \<Rightarrow> automl_study" where
  "cancel_values t s = s\<lparr>su_cancelled_at := Some t, su_finished_at := Some t\<rparr>"

text \<open>A study that succeeds or fails leaves its audit event in the same transaction.\<close>

definition end_study ::
    "uuid \<Rightarrow> nat \<Rightarrow> study_status \<Rightarrow> timestamp \<Rightarrow> string option \<Rightarrow> string option \<Rightarrow> automl_store \<Rightarrow>
     automl_study option \<times> automl_store" where
  "end_study i v final t c m W =
     (case conditionally_transition_study i StudyRunning v final (finish_values t c m) (as_studies W) of
        (None, S) \<Rightarrow> (None, W)
      | (Some s, S) \<Rightarrow> (Some s, W\<lparr>as_studies := S, as_audits := as_audits W @ [study_audit s]\<rparr>))"

text \<open>One reconciliation transaction repairs the leases of slots and trials together.\<close>

definition repair_leases :: "timestamp \<Rightarrow> automl_store \<Rightarrow> automl_store" where
  "repair_leases now W = W\<lparr>as_slots := snd (reclaim_expired_slots now (as_slots W)),
     as_trials := snd (fail_exhausted_expired_trials now (snd (release_expired_trials now (as_trials W))))\<rparr>"

datatype automl_event =
    InsertStudy "uuid \<Rightarrow> uuid option" automl_study
  | StartStudy uuid nat timestamp
  | EndStudy uuid nat study_status timestamp "string option" "string option"
  | CancelRunningStudy uuid nat timestamp
  | CancelQueuedStudy uuid nat timestamp
  | RequestCancellation uuid nat timestamp
  | StudyError uuid nat string string
  | BestTrial uuid uuid nat
  | LinkChampion uuid uuid nat
  | StudyMessage uuid string nat
  | CancelTrials uuid timestamp
  | InsertTrials uuid timestamp "(uuid \<times> trial_specification) list"
  | TrialMessage uuid string nat
  | StartTrial uuid timestamp timestamp timestamp
  | StoreOutcome started_trial process_outcome timestamp real
  | RepairLeases timestamp
  | InitializeSlots nat

definition set_studies :: "automl_store \<Rightarrow> automl_study option \<times> automl_study list \<Rightarrow> automl_store" where
  "set_studies W r = W\<lparr>as_studies := snd r\<rparr>"

fun apply_automl :: "automl_event \<Rightarrow> automl_store \<Rightarrow> automl_store" where
  "apply_automl (InsertStudy company_of n) W = W\<lparr>as_studies := snd (create_study company_of n (as_studies W))\<rparr>"
| "apply_automl (StartStudy i v now) W =
     set_studies W (conditionally_transition_study i StudyQueued v StudyRunning (start_values now) (as_studies W))"
| "apply_automl (EndStudy i v final t c m) W = (if final \<in> {StudySucceeded, StudyFailed}
     then snd (end_study i v final t c m W) else W)"
| "apply_automl (CancelRunningStudy i v t) W =
     set_studies W (conditionally_transition_study i StudyRunning v StudyCancelled (cancel_values t) (as_studies W))"
| "apply_automl (CancelQueuedStudy i v t) W =
     set_studies W (conditionally_transition_study i StudyQueued v StudyCancelled
       (\<lambda>s. (cancel_values t s)\<lparr>su_cancel_requested_at := Some t\<rparr>) (as_studies W))"
| "apply_automl (RequestCancellation i v t) W = set_studies W (request_study_cancellation i v t (as_studies W))"
| "apply_automl (StudyError i v c m) W = set_studies W (update_study_error i v c m (as_studies W))"
| "apply_automl (BestTrial i t v) W = set_studies W (set_best_trial i t v (as_trials W) (as_studies W))"
| "apply_automl (LinkChampion i j v) W = set_studies W (link_champion_training_job i j v (as_studies W))"
| "apply_automl (StudyMessage i m v) W = set_studies W (set_study_queue_identifier i m v (as_studies W))"
| "apply_automl (CancelTrials i t) W = W\<lparr>as_trials := snd (mark_queued_trials_cancelled i t (as_trials W))\<rparr>"
| "apply_automl (InsertTrials study t ts) W =
     (case create_trials (as_studies W) (map (\<lambda>(i, s). new_trial study i t s) ts) (as_trials W) of
        (Inl e, R) \<Rightarrow> W | (Inr rs, R) \<Rightarrow> W\<lparr>as_trials := R\<rparr>)"
| "apply_automl (TrialMessage i m v) W = W\<lparr>as_trials := snd (set_trial_queue_identifier i m v (as_trials W))\<rparr>"
| "apply_automl (StartTrial i now lease t) W = snd (start_trial i now lease t W)"
| "apply_automl (StoreOutcome st o' t d) W = snd (store_outcome st o' t d W)"
| "apply_automl (RepairLeases now) W = repair_leases now W"
| "apply_automl (InitializeSlots n) W = W\<lparr>as_slots := initialize_slots n (as_slots W)\<rparr>"

abbreviation automl_events :: "automl_event list \<Rightarrow> automl_store \<Rightarrow> automl_store" where
  "automl_events es W \<equiv> fold apply_automl es W"

text \<open>Only claims and repairs compare leases with the clock; they read the present time.\<close>

fun event_time :: "automl_event \<Rightarrow> timestamp option" where
  "event_time (StartTrial i now lease t) = Some now"
| "event_time (RepairLeases now) = Some now"
| "event_time _ = None"

definition empty_store :: automl_store where
  "empty_store = \<lparr>as_studies = [], as_trials = [], as_slots = [], as_audits = []\<rparr>"

inductive reachable_at :: "timestamp \<Rightarrow> automl_store \<Rightarrow> bool" where
  initial: "reachable_at c empty_store"
| tick: "reachable_at c W \<Longrightarrow> c \<le> c' \<Longrightarrow> reachable_at c' W"
| commit: "reachable_at c W \<Longrightarrow> event_time e \<in> {None, Some c} \<Longrightarrow> reachable_at c (apply_automl e W)"

section \<open>The invariant\<close>

definition holds_lease :: "timestamp \<Rightarrow> automl_trial \<Rightarrow> bool" where
  "holds_lease now r \<longleftrightarrow> tl_status r = TrialRunning \<and> (case tl_lease r of None \<Rightarrow> False | Some l \<Rightarrow> l > now)"

definition slot_agrees :: "automl_trial list \<Rightarrow> automl_slot \<Rightarrow> bool" where
  "slot_agrees R s \<longleftrightarrow> (case sl_trial s of None \<Rightarrow> True
     | Some t \<Rightarrow> \<exists>r \<in> set R. tl_id r = t \<and> tl_status r = TrialRunning \<and> tl_lease r = sl_lease s \<and> sl_lease s \<noteq> None)"

definition keys_ok :: "automl_store \<Rightarrow> bool" where
  "keys_ok W \<longleftrightarrow> distinct (map su_id (as_studies W)) \<and> distinct (map tl_id (as_trials W)) \<and>
     distinct (map sl_number (as_slots W)) \<and> tl_study ` set (as_trials W) \<subseteq> su_id ` set (as_studies W)"

definition slots_ok :: "timestamp \<Rightarrow> automl_trial list \<Rightarrow> automl_slot list \<Rightarrow> bool" where
  "slots_ok c R L \<longleftrightarrow> (\<forall>s \<in> set L. slot_agrees R s) \<and>
     (\<forall>s \<in> set L. \<forall>s' \<in> set L. sl_trial s = sl_trial s' \<and> sl_trial s \<noteq> None \<longrightarrow> s = s') \<and>
     (\<forall>r \<in> set R. holds_lease c r \<longrightarrow> (\<exists>s \<in> set L. sl_trial s = Some (tl_id r)))"

definition studies_ok :: "timestamp \<Rightarrow> automl_study list \<Rightarrow> automl_trial list \<Rightarrow> bool" where
  "studies_ok c S R \<longleftrightarrow> (\<forall>s \<in> set S. int (length (active_trials (su_id s) c R)) \<le> su_max_concurrent s)"

definition rows_ok :: "automl_trial list \<Rightarrow> bool" where
  "rows_ok R \<longleftrightarrow> (\<forall>r \<in> set R. tl_attempts r \<le> tl_max_attempts r)"

definition store_ok :: "timestamp \<Rightarrow> automl_store \<Rightarrow> bool" where
  "store_ok c W \<longleftrightarrow> keys_ok W \<and> rows_ok (as_trials W) \<and> slots_ok c (as_trials W) (as_slots W) \<and>
     studies_ok c (as_studies W) (as_trials W)"

end
