(* ===== verification/AutoML_Invariants.thy ===== *)
theory AutoML_Invariants
  imports AutoML_Lifecycle
begin

text \<open>
  Every reachable AutoML store satisfies the invariant: operations only make moves of the life
  cycles, slots and running trials agree, and the limits on concurrent trials hold.
\<close>

section \<open>Operations make moves\<close>

named_theorems trial_evolutions "operations that only make moves of trials"
named_theorems study_evolutions "operations that only make moves of studies"

lemma update_study_evolves:
  assumes "\<And>s. p s \<Longrightarrow> study_identity (f s) = study_identity s \<and> su_version (f s) = su_version s \<and>
      (su_cancel_requested_at s \<noteq> None \<longrightarrow> su_cancel_requested_at (f s) \<noteq> None) \<and>
      (su_status (f s) = su_status s \<or> su_status s = StudyQueued \<and> su_status (f s) \<in> {StudyRunning, StudyCancelled} \<or>
       su_status s = StudyRunning \<and> study_ended (f s))"
  shows "evolves study_move S (snd (update_study p f S))"
  using assms by (auto simp: update_study_def study_move_def bump_study_def study_identity_def intro!: evolves_update)

lemma study_operations_evolve [study_evolutions]:
  "evolves study_move S (snd (request_study_cancellation i v t S))"
  "evolves study_move S (snd (update_study_error i v c m S))"
  "evolves study_move S (snd (set_best_trial i tr v R S))"
  "evolves study_move S (snd (link_champion_training_job i j v S))"
  "evolves study_move S (snd (set_study_queue_identifier i msg v S))"
  unfolding request_study_cancellation_def update_study_error_def set_best_trial_def
    link_champion_training_job_def set_study_queue_identifier_def
  by (rule update_study_evolves; simp add: study_identity_def)+

lemma transition_study_evolves:
  assumes "\<And>s. study_identity (f s) = study_identity s \<and> su_version (f s) = su_version s \<and> su_status (f s) = su_status s \<and>
      (su_cancel_requested_at s \<noteq> None \<longrightarrow> su_cancel_requested_at (f s) \<noteq> None)"
    and "old = StudyQueued \<and> new \<in> {StudyRunning, StudyCancelled} \<or>
      old = StudyRunning \<and> new \<in> {StudySucceeded, StudyFailed, StudyCancelled}"
  shows "evolves study_move S (snd (conditionally_transition_study i old v new f S))"
proof -
  have id: "study_identity (f (s\<lparr>su_status := new\<rparr>)) = study_identity s"
    "su_cancel_requested_at s \<noteq> None \<Longrightarrow> su_cancel_requested_at (f (s\<lparr>su_status := new\<rparr>)) \<noteq> None" for s
    using assms(1) [of "s\<lparr>su_status := new\<rparr>"] by (simp_all add: study_identity_def)
  show ?thesis unfolding conditionally_transition_study_def
    by (rule update_study_evolves) (use assms id in auto)
qed

lemma create_study_evolves [study_evolutions]: "evolves study_move S (snd (create_study company_of n S))"
  by (auto simp: create_study_def Let_def split: option.splits)

lemma values_keep [simp]:
  "study_identity (start_values now s) = study_identity s" "su_version (start_values now s) = su_version s"
  "su_status (start_values now s) = su_status s"
  "study_identity (finish_values t c m s) = study_identity s" "su_version (finish_values t c m s) = su_version s"
  "su_status (finish_values t c m s) = su_status s"
  "study_identity (cancel_values t s) = study_identity s" "su_version (cancel_values t s) = su_version s"
  "su_status (cancel_values t s) = su_status s"
  "study_identity (s\<lparr>su_cancel_requested_at := ca\<rparr>) = study_identity s"
  "su_cancel_requested_at (start_values now s) = su_cancel_requested_at s"
  "su_cancel_requested_at (finish_values t c m s) = su_cancel_requested_at s"
  "su_cancel_requested_at (cancel_values t s) = su_cancel_requested_at s"
  by (simp_all add: start_values_def finish_values_def cancel_values_def study_identity_def)

lemma study_transitions_evolve [study_evolutions]:
  "evolves study_move S (snd (conditionally_transition_study i StudyQueued v StudyRunning (start_values now) S))"
  "final \<in> {StudySucceeded, StudyFailed} \<Longrightarrow>
    evolves study_move S (snd (conditionally_transition_study i StudyRunning v final (finish_values t c m) S))"
  "evolves study_move S (snd (conditionally_transition_study i StudyRunning v StudyCancelled (cancel_values t) S))"
  "evolves study_move S (snd (conditionally_transition_study i StudyQueued v StudyCancelled
     (\<lambda>s. (cancel_values t s)\<lparr>su_cancel_requested_at := Some t\<rparr>) S))"
  by (rule transition_study_evolves; auto)+

lemma update_trial_evolves:
  assumes "\<And>r. p r \<Longrightarrow> trial_move r (bump_trial f r)"
  shows "evolves trial_move R (snd (update_trial p f R))"
  using assms by (auto simp: update_trial_def intro: evolves_update)

lemma trial_operations_evolve [trial_evolutions]:
  "evolves trial_move R (snd (set_trial_queue_identifier i m v R))"
  "evolves trial_move R (snd (mark_queued_trials_cancelled study t R))"
  "evolves trial_move R (snd (release_expired_trials now R))"
  "evolves trial_move R (snd (fail_exhausted_expired_trials now R))"
proof -
  show "evolves trial_move R (snd (set_trial_queue_identifier i m v R))"
    unfolding set_trial_queue_identifier_def by (rule update_trial_evolves) (auto intro: dispatch)
  show "evolves trial_move R (snd (mark_queued_trials_cancelled study t R))"
    by (auto simp: mark_queued_trials_cancelled_def Let_def intro!: evolves_update cancel_queued)
  show "evolves trial_move R (snd (release_expired_trials now R))"
    by (auto simp: release_expired_trials_def Let_def intro!: evolves_update requeue)
  have "trial_move r (bump_trial (\<lambda>r. r\<lparr>tl_status := TrialFailed, tl_lease := None, tl_finished_at := Some now,
      tl_error_code := Some c, tl_error_message := Some m\<rparr>) r)" if "tl_status r = TrialRunning" for r c m
    using finish [OF that, of TrialFailed "Some m" "Some c" "tl_cancelled_at r" now] by (simp add: bump_trial_def)
  then show "evolves trial_move R (snd (fail_exhausted_expired_trials now R))"
    by (auto simp: fail_exhausted_expired_trials_def Let_def intro!: evolves_update)
qed

lemma create_trials_evolves [trial_evolutions]: "evolves trial_move R (snd (create_trials S ns R))"
proof (induction ns arbitrary: R)
  case (Cons n ns)
  have "evolves trial_move R (snd (create_trials S ns (R @ [n])))"
    by (rule evolves_trans [OF evolves_append Cons.IH])
  then show ?case by (auto simp: create_trial_def split: prod.splits sum.splits)
qed simp

section \<open>Claims and outcomes\<close>

lemma claimable_Some:
  "claimable i R = Some r \<Longrightarrow> r \<in> set R \<and> tl_id r = i \<and> tl_status r = TrialQueued \<and> tl_attempts r < tl_max_attempts r"
  unfolding claimable_def by (drule at_most_one_Some) auto

lemma running_study_Some:
  "running_study i S = Some s \<Longrightarrow> s \<in> set S \<and> su_id s = i \<and> su_status s = StudyRunning \<and> su_cancel_requested_at s = None"
  unfolding running_study_def by (drule at_most_one_Some) auto

lemma available_slot_Some:
  "available_slot now L = Some s \<Longrightarrow> s \<in> set L \<and> (sl_trial s = None \<or> expired now (sl_lease s))"
  unfolding available_slot_def by (drule at_most_one_Some) auto

definition claim_store :: "automl_trial \<Rightarrow> automl_slot \<Rightarrow> timestamp \<Rightarrow> timestamp \<Rightarrow> automl_store \<Rightarrow> automl_store" where
  "claim_store trial slot now lease W =
     W\<lparr>as_trials := update_where (\<lambda>r. tl_id r = tl_id trial) (claimed_trial now lease) (as_trials W),
       as_slots := update_where (\<lambda>s. sl_number s = sl_number slot) (claimed_slot (tl_id trial) lease) (as_slots W)\<rparr>"

definition may_claim :: "automl_trial \<Rightarrow> automl_study \<Rightarrow> automl_slot \<Rightarrow> timestamp \<Rightarrow> automl_store \<Rightarrow> bool" where
  "may_claim trial study slot now W \<longleftrightarrow>
     trial \<in> set (as_trials W) \<and> tl_status trial = TrialQueued \<and> tl_attempts trial < tl_max_attempts trial \<and>
     study \<in> set (as_studies W) \<and> su_id study = tl_study trial \<and> su_status study = StudyRunning \<and>
     su_cancel_requested_at study = None \<and> \<not> expired now (su_deadline_at study) \<and>
     int (length (active_trials (su_id study) now (as_trials W))) < su_max_concurrent study \<and>
     slot \<in> set (as_slots W) \<and> (sl_trial slot = None \<or> expired now (sl_lease slot))"

lemma claim_cases:
  assumes "claim_trial_and_slot i now lease (as_studies W) (as_trials W) (as_slots W) = (Inr (Some (t, s)), R, L)"
  obtains trial study slot where "may_claim trial study slot now W" "tl_id trial = i"
    "t = claimed_trial now lease trial" "s = claimed_slot i lease slot"
    "W\<lparr>as_trials := R, as_slots := L\<rparr> = claim_store trial slot now lease W"
proof -
  obtain trial where trial: "claimable i (as_trials W) = Some trial"
    using assms by (auto simp: claim_trial_and_slot_def split: option.splits)
  obtain study where study: "running_study (tl_study trial) (as_studies W) = Some study"
    using assms trial by (auto simp: claim_trial_and_slot_def split: option.splits)
  obtain slot where slot: "available_slot now (as_slots W) = Some slot"
    using assms trial study by (auto simp: claim_trial_and_slot_def split: option.splits if_splits)
  have m: "may_claim trial study slot now W"
    using assms claimable_Some [OF trial] running_study_Some [OF study] available_slot_Some [OF slot]
    by (auto simp: claim_trial_and_slot_def trial study slot may_claim_def split: if_splits)
  show thesis
    by (rule that [of trial study slot])
       (use assms m claimable_Some [OF trial] in
         \<open>auto simp: claim_trial_and_slot_def trial study slot claim_store_def split: if_splits\<close>)
qed

text \<open>
  A transaction that settles a trial moves it out of the running state and frees the slot that
  held it; nothing else changes.
\<close>

definition settles :: "uuid \<Rightarrow> automl_store \<Rightarrow> automl_store \<Rightarrow> bool" where
  "settles i W W' \<longleftrightarrow> as_studies W' = as_studies W \<and> as_audits W' = as_audits W \<and>
     evolves trial_move (as_trials W) (as_trials W') \<and> length (as_trials W') = length (as_trials W) \<and>
     (\<forall>r \<in> set (as_trials W'). tl_id r = i \<longrightarrow> tl_status r \<noteq> TrialRunning) \<and>
     (\<forall>r. tl_id r \<noteq> i \<longrightarrow> (r \<in> set (as_trials W') \<longleftrightarrow> r \<in> set (as_trials W))) \<and>
     (\<exists>s \<in> set (as_slots W). sl_trial s = Some i \<and> as_slots W' = update_where
        (\<lambda>s'. sl_number s' = sl_number s \<and> sl_trial s' = Some i \<and> sl_version s' = sl_version s) free_slot (as_slots W))"

lemma release_slot_True:
  assumes "release_slot n i v L = (True, L')"
  shows "\<exists>s \<in> set L. sl_trial s = Some i \<and>
    L' = update_where (\<lambda>s'. sl_number s' = sl_number s \<and> sl_trial s' = Some i \<and> sl_version s' = sl_version s) free_slot L"
proof -
  let ?p = "\<lambda>s. sl_number s = n \<and> sl_trial s = Some i \<and> sl_version s = v"
  have L': "L' = update_where ?p free_slot L" "filter ?p L \<noteq> []"
    using assms by (auto simp: release_slot_def updated_count_def Let_def)
  then obtain s where "s \<in> set L" "?p s" by (auto simp: filter_empty_conv)
  then show ?thesis using L' by auto
qed

lemma transition_settles:
  assumes "distinct (map tl_id (as_trials W))" and "evolves trial_move (as_trials W) R"
    and "length R = length (as_trials W)"
    and "\<And>r. tl_id r \<noteq> i \<Longrightarrow> r \<in> set R \<longleftrightarrow> r \<in> set (as_trials W)"
    and "conditionally_transition_trial i TrialRunning v new f R = (Some r', R')"
    and "new \<noteq> TrialRunning" and "\<And>r. tl_status (f r) = tl_status r \<and> tl_id (f r) = tl_id r"
    and "\<And>r. r \<in> set R \<Longrightarrow> tl_id r = i \<Longrightarrow> tl_status r = TrialRunning \<Longrightarrow> tl_version r = v \<Longrightarrow>
        trial_move r (bump_trial (\<lambda>r. f (r\<lparr>tl_status := new\<rparr>)) r)"
    and "release_slot n i w (as_slots W) = (True, L)"
  shows "settles i W (W\<lparr>as_trials := R', as_slots := L\<rparr>)"
proof -
  let ?p = "\<lambda>r. tl_id r = i \<and> tl_status r = TrialRunning \<and> tl_version r = v"
  let ?f = "bump_trial (\<lambda>r. f (r\<lparr>tl_status := new\<rparr>))"
  have R': "R' = update_where ?p ?f R" and some: "at_most_one (returning ?p ?f R) = Some r'"
    using assms(5) by (auto simp: conditionally_transition_trial_def update_trial_def)
  have ids: "map tl_id R = map tl_id (as_trials W)"
    using trials.evolves_keys [OF assms(2)] assms(3) by (metis append_eq_conv_conj append_self_conv length_map)
  obtain q where q: "q \<in> set R" "?p q" using returning_Some [OF some] by blast
  have only: "r = q" if "r \<in> set R" "tl_id r = i" for r
    using that q assms(1) ids by (metis distinct_map inj_onD)
  have fid: "tl_id (?f r) = tl_id r" "tl_status (?f r) = new" for r
    using assms(7) [of "r\<lparr>tl_status := new\<rparr>"] by (simp_all add: bump_trial_def)
  have ev: "evolves trial_move (as_trials W) R'"
    unfolding R' by (rule evolves_trans [OF assms(2) evolves_update]) (use assms(8) in auto)
  have stopped: "\<forall>r \<in> set R'. tl_id r = i \<longrightarrow> tl_status r \<noteq> TrialRunning"
  proof (intro ballI impI)
    fix r assume r: "r \<in> set R'" "tl_id r = i"
    then consider x where "x \<in> set R" "?p x" "r = ?f x" | "r \<in> set R" "\<not> ?p r"
      by (auto simp: R' set_update_where)
    then show "tl_status r \<noteq> TrialRunning"
    proof cases
      case 2
      then show ?thesis using only [OF 2(1) r(2)] q by simp
    qed (use assms(6) fid in simp)
  qed
  have others: "\<forall>r. tl_id r \<noteq> i \<longrightarrow> (r \<in> set R' \<longleftrightarrow> r \<in> set (as_trials W))"
    using assms(4) fid by (auto simp: R' set_update_where)
  show ?thesis using ev stopped others release_slot_True [OF assms(9)] assms(3)
    by (simp add: settles_def R')
qed

lemma terminal_values_move:
  assumes "tl_status r = TrialRunning" and "final \<in> {TrialSucceeded, TrialFailed, TrialCancelled}"
  shows "trial_move r (bump_trial (\<lambda>r. terminal_values final t o' (r\<lparr>tl_status := final\<rparr>)) r)"
proof -
  have "bump_trial (\<lambda>r. terminal_values final t o' (r\<lparr>tl_status := final\<rparr>)) r =
    bump_trial (\<lambda>r. r\<lparr>tl_status := final, tl_lease := None, tl_finished_at := Some t,
      tl_cancelled_at := if final = TrialCancelled then Some t else tl_cancelled_at r,
      tl_error_code := if final = TrialFailed then px_error_code o' else tl_error_code r,
      tl_error_message := if final = TrialFailed then px_error_message o' else tl_error_message r\<rparr>) r"
    by (cases r) (use assms(2) in \<open>auto simp: terminal_values_def Let_def bump_trial_def\<close>)
  then show ?thesis using finish [OF assms] by (simp add: bump_trial_def)
qed

lemma release_with_cases:
  "snd (release_with changed R st stored W) = W \<or>
   (\<exists>r L. changed = Some r \<and> release_with changed R st stored W = (Inr stored, W\<lparr>as_trials := R, as_slots := L\<rparr>) \<and>
     release_slot (sl_number (sr_slot st)) (tl_id (sr_trial st)) (sl_version (sr_slot st)) (as_slots W) = (True, L))"
  by (cases changed) (auto simp: release_with_def split: prod.split)

lemma terminal_store_cases:
  assumes "distinct (map tl_id (as_trials W))" and "final \<in> {TrialSucceeded, TrialFailed, TrialCancelled}"
    and "evolves trial_move (as_trials W) R" and "length R = length (as_trials W)"
    and "\<And>r. tl_id r \<noteq> tl_id (sr_trial st) \<Longrightarrow> r \<in> set R \<longleftrightarrow> r \<in> set (as_trials W)"
  shows "snd (terminal_store st v final t o' R W) = W \<or>
    settles (tl_id (sr_trial st)) W (snd (terminal_store st v final t o' R W))"
proof -
  obtain changed R' where c: "conditionally_transition_trial (tl_id (sr_trial st)) TrialRunning v final
      (terminal_values final t o') R = (changed, R')" by fastforce
  have keep: "tl_status (terminal_values final t o' r) = tl_status r \<and> tl_id (terminal_values final t o' r) = tl_id r" for r
    by (simp add: terminal_values_def Let_def)
  have store: "terminal_store st v final t o' R W = release_with changed R' st (OutcomeStored final) W"
    by (simp add: terminal_store_def c)
  show ?thesis
  proof (cases "snd (release_with changed R' st (OutcomeStored final) W) = W")
    case False
    then obtain r L where r: "changed = Some r"
      "release_with changed R' st (OutcomeStored final) W = (Inr (OutcomeStored final), W\<lparr>as_trials := R', as_slots := L\<rparr>)"
      "release_slot (sl_number (sr_slot st)) (tl_id (sr_trial st)) (sl_version (sr_slot st)) (as_slots W) = (True, L)"
      using release_with_cases [of changed R' st "OutcomeStored final" W] by blast
    have "settles (tl_id (sr_trial st)) W (W\<lparr>as_trials := R', as_slots := L\<rparr>)"
      by (rule transition_settles [OF assms(1,3,4,5) c [unfolded r(1)] _ keep terminal_values_move [OF _ assms(2)] r(3)])
         (use assms(2) in auto)
    then show ?thesis by (simp add: store r(2))
  qed (simp add: store)
qed

lemma get_trial_by_id_Some: "get_trial_by_id i R = Some r \<Longrightarrow> r \<in> set R \<and> tl_id r = i"
  unfolding get_trial_by_id_def by (drule at_most_one_Some) auto

lemma retry_settles:
  assumes "distinct (map tl_id (as_trials W))" and "current \<in> set (as_trials W)" and "tl_id current = tl_id (sr_trial st)"
    and "tl_attempts current < tl_max_attempts current"
    and "conditionally_transition_trial (tl_id (sr_trial st)) TrialRunning v TrialQueued (retry_values o') (as_trials W) = (changed, R')"
  shows "snd (release_with changed R' st RetryStored W) = W \<or>
    settles (tl_id (sr_trial st)) W (snd (release_with changed R' st RetryStored W))"
proof (cases "snd (release_with changed R' st RetryStored W) = W")
  case False
  then obtain r L where r: "changed = Some r"
    "release_with changed R' st RetryStored W = (Inr RetryStored, W\<lparr>as_trials := R', as_slots := L\<rparr>)"
    "release_slot (sl_number (sr_slot st)) (tl_id (sr_trial st)) (sl_version (sr_slot st)) (as_slots W) = (True, L)"
    using release_with_cases [of changed R' st RetryStored W] by blast
  have only: "r = current" if "r \<in> set (as_trials W)" "tl_id r = tl_id (sr_trial st)" for r
    using that assms(1-3) by (metis distinct_map inj_onD)
  have move: "trial_move r (bump_trial (\<lambda>r. retry_values o' (r\<lparr>tl_status := TrialQueued\<rparr>)) r)"
    if "r \<in> set (as_trials W)" "tl_id r = tl_id (sr_trial st)" "tl_status r = TrialRunning" for r
  proof -
    have "bump_trial (\<lambda>r. retry_values o' (r\<lparr>tl_status := TrialQueued\<rparr>)) r =
      bump_trial (\<lambda>r. r\<lparr>tl_status := TrialQueued, tl_lease := None, tl_message := None,
        tl_error_code := px_error_code o', tl_error_message := px_error_message o'\<rparr>) r"
      by (cases r) (simp add: retry_values_def bump_trial_def)
    then show ?thesis using requeue [OF that(3)] only [OF that(1,2)] assms(4) by simp
  qed
  have "settles (tl_id (sr_trial st)) W (W\<lparr>as_trials := R', as_slots := L\<rparr>)"
    by (rule transition_settles [OF assms(1) evolves_refl refl _ assms(5) [unfolded r(1)] _ _ move r(3)])
       (simp_all add: retry_values_def)
  then show ?thesis by (simp add: r(2))
qed simp

lemma measured_rows:
  assumes "distinct (map tl_id R)" and "current \<in> set R" and "tl_id current = i" and "tl_version current = v"
    and "update_trial_metrics i v m R = (Inr (Some r), R')"
  shows "tl_status current = TrialRunning \<Longrightarrow> evolves trial_move R R'" and "length R' = length R"
    and "x \<in> set R' \<Longrightarrow> tl_id x = i \<Longrightarrow> tl_status x = tl_status current"
    and "tl_id x \<noteq> i \<Longrightarrow> x \<in> set R' \<longleftrightarrow> x \<in> set R"
proof -
  let ?p = "\<lambda>r. tl_id r = i \<and> tl_version r = v"
  let ?f = "bump_trial (\<lambda>r. r\<lparr>tl_fold_metrics := Some (tm_folds m), tl_aggregate_metrics := Some (tm_aggregate m),
    tl_primary_value := Some (tm_primary m), tl_duration := Some (tm_duration m)\<rparr>)"
  have R': "R' = update_where ?p ?f R"
    using assms(5) by (auto simp: update_trial_metrics_def update_trial_def Let_def split: if_splits)
  have only: "r = current" if "r \<in> set R" "tl_id r = i" for r
    using that assms(1-3) by (metis distinct_map inj_onD)
  show "evolves trial_move R R'" if "tl_status current = TrialRunning"
    unfolding R'
  proof (rule evolves_update)
    fix r assume r: "r \<in> set R" "?p r"
    then have "tl_status r = TrialRunning" using only [OF r(1)] that by simp
    then show "trial_move r (?f r)" by (rule measure)
  qed
  show "length R' = length R" by (simp add: R')
  show "tl_status x = tl_status current" if "x \<in> set R'" "tl_id x = i"
  proof -
    from that(1) consider r where "r \<in> set R" "?p r" "x = ?f r" | "x \<in> set R"
      unfolding R' set_update_where by blast
    then show ?thesis
    proof cases
      case 1
      then show ?thesis using only [OF 1(1)] by (simp add: bump_trial_def)
    qed (use only [OF _ that(2)] in simp)
  qed
  show "tl_id x \<noteq> i \<Longrightarrow> x \<in> set R' \<longleftrightarrow> x \<in> set R" by (auto simp: R' set_update_where bump_trial_def)
qed

lemma terminal_store_not_running:
  assumes "\<And>x. x \<in> set R \<Longrightarrow> tl_id x = tl_id (sr_trial st) \<Longrightarrow> tl_status x \<noteq> TrialRunning"
  shows "terminal_store st v final t o' R W = (Inr NotStored, W)"
proof -
  have "returning (\<lambda>r. tl_id r = tl_id (sr_trial st) \<and> tl_status r = TrialRunning \<and> tl_version r = v) f R = []" for f
    using assms by auto
  then show ?thesis
    by (simp add: terminal_store_def conditionally_transition_trial_def update_trial_def release_with_def split: prod.split)
qed

lemma store_outcome_cases:
  assumes "distinct (map tl_id (as_trials W))"
  shows "snd (store_outcome st o' t d W) = W \<or> settles (tl_id (sr_trial st)) W (snd (store_outcome st o' t d W))"
proof -
  let ?i = "tl_id (sr_trial st)"
  let ?v = "tl_version (sr_trial st)"
  have direct: "snd (terminal_store st ?v final t o' (as_trials W) W) = W \<or>
      settles ?i W (snd (terminal_store st ?v final t o' (as_trials W) W))"
    if "final \<in> {TrialSucceeded, TrialFailed, TrialCancelled}" for final
    by (rule terminal_store_cases [OF assms that]) simp_all
  have measured: "snd (terminal_store st w TrialSucceeded t o' R W) = W \<or>
      settles ?i W (snd (terminal_store st w TrialSucceeded t o' R W))"
    if c: "get_trial_by_id ?i (as_trials W) = Some current" "tl_version current = ?v"
      "update_trial_metrics ?i ?v m (as_trials W) = (Inr (Some r), R)" for current m r R w
  proof -
    have cur: "current \<in> set (as_trials W)" "tl_id current = ?i" using get_trial_by_id_Some [OF c(1)] by simp_all
    note rows = measured_rows [OF assms cur c(2,3)]
    show ?thesis
    proof (cases "tl_status current = TrialRunning")
      case True
      show ?thesis by (rule terminal_store_cases [OF assms _ rows(1) [OF True] rows(2)]) (use rows(4) in simp_all)
    next
      case False
      then show ?thesis using terminal_store_not_running [of R st] rows(3) by simp
    qed
  qed
  have retried: "snd (release_with changed R st RetryStored W) = W \<or> settles ?i W (snd (release_with changed R st RetryStored W))"
    if "get_trial_by_id ?i (as_trials W) = Some current" "tl_attempts current < tl_max_attempts current"
      "conditionally_transition_trial ?i TrialRunning ?v TrialQueued (retry_values o') (as_trials W) = (changed, R)"
    for current changed R
    using retry_settles [OF assms _ _ that(2,3)] get_trial_by_id_Some [OF that(1)] by blast
  show ?thesis
  proof (cases "get_trial_by_id ?i (as_trials W)")
    case (Some current)
    show ?thesis
    proof (cases "tl_version current = ?v")
      case True
      note cur = Some True
      show ?thesis
      proof (cases "get_study_by_id None (su_id (sr_study st)) (as_studies W)")
        case None
        then show ?thesis using direct [of TrialCancelled] cur by (simp add: store_outcome_def Let_def)
      next
        case (Some study)
        show ?thesis
        proof (cases "su_cancel_requested_at study \<noteq> None \<or> px_error_code o' = Some ''cancelled''")
          case True
          then show ?thesis using direct [of TrialCancelled] cur Some by (auto simp: store_outcome_def Let_def)
        next
          case False
          show ?thesis
          proof (cases "px_result o'")
            case None
            obtain changed R where "conditionally_transition_trial ?i TrialRunning ?v TrialQueued (retry_values o')
              (as_trials W) = (changed, R)" by fastforce
            then show ?thesis using direct [of TrialFailed] retried [OF cur(1)] cur Some False None
              by (simp add: store_outcome_def Let_def)
          next
            case r: (Some result)
            obtain folds aggregate primary where result: "result = (folds, aggregate, primary)" by (cases result) auto
            obtain x R where "update_trial_metrics ?i ?v \<lparr>tm_folds = folds, tm_aggregate = aggregate,
              tm_primary = primary, tm_duration = max 0 d\<rparr> (as_trials W) = (x, R)" by fastforce
            then show ?thesis using measured [OF cur] cur Some False r
              by (auto simp: store_outcome_def Let_def result split: sum.split option.split)
          qed
        qed
      qed
    qed (use Some in \<open>simp add: store_outcome_def Let_def\<close>)
  qed (simp add: store_outcome_def Let_def)
qed

lemma rejected_move:
  assumes "tl_status r = TrialRunning"
  shows "trial_move r (bump_trial (\<lambda>r. rejected_values t (r\<lparr>tl_status := TrialFailed\<rparr>)) r)"
proof -
  have eq: "bump_trial (\<lambda>r. rejected_values t (r\<lparr>tl_status := TrialFailed\<rparr>)) r =
    bump_trial (\<lambda>x. x\<lparr>tl_status := TrialFailed, tl_lease := None, tl_finished_at := Some t,
      tl_cancelled_at := tl_cancelled_at r, tl_error_code := Some ''trial_validation_failed'',
      tl_error_message := Some ''The persisted AutoML trial could not be validated.''\<rparr>) r"
    by (cases r) (simp add: rejected_values_def bump_trial_def)
  show ?thesis unfolding eq by (rule finish [OF assms]) simp
qed

lemma claim_store_trials [simp]: "map tl_id (as_trials (claim_store trial slot now lease W)) = map tl_id (as_trials W)"
  by (simp add: claim_store_def map_update_where claimed_trial_def bump_trial_def)

lemma start_trial_cases:
  assumes "distinct (map tl_id (as_trials W))"
  shows "snd (start_trial i now lease t W) = W \<or>
    (\<exists>trial study slot. may_claim trial study slot now W \<and> tl_id trial = i \<and>
      (snd (start_trial i now lease t W) = claim_store trial slot now lease W \<or>
       settles i (claim_store trial slot now lease W) (snd (start_trial i now lease t W))))"
proof -
  obtain c R L where claim: "claim_trial_and_slot i now lease (as_studies W) (as_trials W) (as_slots W) = (c, R, L)"
    by (cases "claim_trial_and_slot i now lease (as_studies W) (as_trials W) (as_slots W)") auto
  show ?thesis
  proof (cases "\<exists>r s. c = Inr (Some (r, s))")
    case False
    then show ?thesis by (cases c) (auto simp: start_trial_def claim split: option.splits)
  next
    case True
    then obtain r s where c: "c = Inr (Some (r, s))" by blast
    obtain trial study slot where m: "may_claim trial study slot now W" "tl_id trial = i"
      "r = claimed_trial now lease trial" "W\<lparr>as_trials := R, as_slots := L\<rparr> = claim_store trial slot now lease W"
      using claim_cases [OF claim [unfolded c]] by metis
    let ?C = "claim_store trial slot now lease W"
    have C: "as_trials ?C = R" "as_slots ?C = L" unfolding m(4) [symmetric] by simp_all
    have ri: "tl_id r = i" using m(2,3) by (simp add: claimed_trial_def bump_trial_def)
    obtain failed R' where f: "conditionally_transition_trial i TrialRunning (tl_version r) TrialFailed (rejected_values t) R = (failed, R')"
      by fastforce
    obtain released L' where l: "release_slot (sl_number s) i (sl_version s) L = (released, L')" by fastforce
    have rejected: "settles i ?C (W\<lparr>as_trials := R', as_slots := L'\<rparr>)" if fr: "failed = Some x" "released" for x
    proof -
      have d: "distinct (map tl_id (as_trials ?C))" using assms by simp
      have tr: "conditionally_transition_trial i TrialRunning (tl_version r) TrialFailed (rejected_values t) (as_trials ?C) = (Some x, R')"
        using f fr(1) by (simp add: C)
      have rel: "release_slot (sl_number s) i (sl_version s) (as_slots ?C) = (True, L')"
        using l fr(2) by (simp add: C)
      have "settles i ?C (?C\<lparr>as_trials := R', as_slots := L'\<rparr>)"
        by (rule transition_settles [OF d evolves_refl refl _ tr _ _ rejected_move rel]) (simp_all add: rejected_values_def)
      then show ?thesis unfolding m(4) [symmetric] by simp
    qed
    show ?thesis
    proof (cases "snd (start_trial i now lease t W) = W \<or> snd (start_trial i now lease t W) = ?C")
      case False
      then have "\<exists>x. failed = Some x" "released" "snd (start_trial i now lease t W) = W\<lparr>as_trials := R', as_slots := L'\<rparr>"
        by (auto simp: start_trial_def claim c ri f l m(4) split: option.splits sum.splits if_splits)
      then show ?thesis using rejected m(1,2) by metis
    qed (use m(1,2) in blast)
  qed
qed

end
