(* ===== verification/AutoML_Safety.thy ===== *)
theory AutoML_Safety
  imports AutoML_Invariants
begin

text \<open>
  The invariant of AutoML stores is kept by every transaction and by the passing of time; so
  the limits on running trials hold in every store that any interleaving of actors reaches.
\<close>

section \<open>Transactions that start no lease\<close>

definition no_new_leases ::
    "timestamp \<Rightarrow> automl_trial list \<Rightarrow> automl_slot list \<Rightarrow> timestamp \<Rightarrow> automl_trial list \<Rightarrow> automl_slot list \<Rightarrow> bool" where
  "no_new_leases c R L c' R' L' \<longleftrightarrow>
     (\<forall>r' \<in> set R'. holds_lease c' r' \<longrightarrow> (\<exists>r \<in> set R. tl_id r = tl_id r' \<and> tl_study r = tl_study r' \<and> holds_lease c r \<and>
        (\<forall>s \<in> set L. sl_trial s = Some (tl_id r) \<and> sl_lease s = tl_lease r \<longrightarrow> s \<in> set L'))) \<and>
     (\<forall>s \<in> set L'. sl_trial s \<noteq> None \<longrightarrow> s \<in> set L \<and>
        (\<forall>r \<in> set R. tl_status r = TrialRunning \<and> sl_trial s = Some (tl_id r) \<and> tl_lease r = sl_lease s \<longrightarrow>
           (\<exists>r' \<in> set R'. tl_id r' = tl_id r \<and> tl_status r' = TrialRunning \<and> tl_lease r' = tl_lease r)))"

lemma same_row:
  assumes "distinct (map key xs)" and "x \<in> set xs" and "y \<in> set xs" and "key x = key y"
  shows "x = y"
  using assms by (metis distinct_map inj_onD)

lemma slot_agreesE:
  assumes "slot_agrees R s" and "sl_trial s = Some t"
  obtains r where "r \<in> set R" "tl_id r = t" "tl_status r = TrialRunning" "tl_lease r = sl_lease s" "sl_lease s \<noteq> None"
  using assms by (auto simp: slot_agrees_def)

lemma slots_ok_step:
  assumes d: "distinct (map tl_id R)" and ok: "slots_ok c R L" and q: "no_new_leases c R L c' R' L'"
  shows "slots_ok c' R' L'"
proof -
  have held: "s \<in> set L \<and> slot_agrees R s" if "s \<in> set L'" "sl_trial s \<noteq> None" for s
    using ok q that by (auto simp: slots_ok_def no_new_leases_def)
  have agrees: "slot_agrees R' s" if s: "s \<in> set L'" for s
  proof (cases "sl_trial s")
    case (Some t)
    obtain r where r: "r \<in> set R" "tl_id r = t" "tl_status r = TrialRunning" "tl_lease r = sl_lease s" "sl_lease s \<noteq> None"
      using held [OF s] Some by (auto elim: slot_agreesE)
    then obtain r' where "r' \<in> set R'" "tl_id r' = t" "tl_status r' = TrialRunning" "tl_lease r' = sl_lease s"
      using q s Some unfolding no_new_leases_def by (metis option.distinct(1))
    then show ?thesis using Some r(5) by (auto simp: slot_agrees_def)
  qed (simp add: slot_agrees_def)
  have unique: "s = s'" if "s \<in> set L'" "s' \<in> set L'" "sl_trial s = sl_trial s'" "sl_trial s \<noteq> None" for s s'
    using held that ok unfolding slots_ok_def by metis
  have leased: "\<exists>s \<in> set L'. sl_trial s = Some (tl_id r')" if r': "r' \<in> set R'" "holds_lease c' r'" for r'
  proof -
    obtain r where r: "r \<in> set R" "tl_id r = tl_id r'" "holds_lease c r"
      "\<forall>s \<in> set L. sl_trial s = Some (tl_id r) \<and> sl_lease s = tl_lease r \<longrightarrow> s \<in> set L'"
      using q r' unfolding no_new_leases_def by blast
    obtain s where s: "s \<in> set L" "sl_trial s = Some (tl_id r)"
      using ok r(1,3) unfolding slots_ok_def by blast
    have "slot_agrees R s" using ok s(1) by (simp add: slots_ok_def)
    then obtain r0 where "r0 \<in> set R" "tl_id r0 = tl_id r" "tl_lease r0 = sl_lease s"
      using s(2) by (rule slot_agreesE)
    then have "sl_lease s = tl_lease r" using same_row [OF d, of r0 r] r(1) by simp
    then show ?thesis using r(2,4) s by auto
  qed
  show ?thesis unfolding slots_ok_def using agrees unique leased by blast
qed

lemma active_trials_holds: "active_trials i c R = filter (\<lambda>r. tl_study r = i \<and> holds_lease c r) R"
  by (simp add: active_trials_def holds_lease_def)

lemma active_card:
  assumes "distinct (map tl_id R)"
  shows "length (active_trials i c R) = card (tl_id ` {r \<in> set R. tl_study r = i \<and> holds_lease c r})"
proof -
  have "distinct (map tl_id (active_trials i c R))"
    using assms unfolding active_trials_holds by (rule distinct_map_filter)
  then have "card (set (map tl_id (active_trials i c R))) = length (active_trials i c R)"
    using distinct_card by fastforce
  then show ?thesis by (simp add: active_trials_holds)
qed

lemma active_mono:
  assumes "distinct (map tl_id R)" and "distinct (map tl_id R')"
    and "\<And>r'. r' \<in> set R' \<Longrightarrow> tl_study r' = i \<Longrightarrow> holds_lease c' r' \<Longrightarrow>
      \<exists>r \<in> set R. tl_id r = tl_id r' \<and> tl_study r = i \<and> holds_lease c r"
  shows "length (active_trials i c' R') \<le> length (active_trials i c R)"
proof -
  have "tl_id r' \<in> tl_id ` {r \<in> set R. tl_study r = i \<and> holds_lease c r}"
    if "r' \<in> set R'" "tl_study r' = i" "holds_lease c' r'" for r'
    using assms(3) [OF that] by (metis (mono_tags, lifting) image_eqI mem_Collect_eq)
  then have "tl_id ` {r \<in> set R'. tl_study r = i \<and> holds_lease c' r} \<subseteq> tl_id ` {r \<in> set R. tl_study r = i \<and> holds_lease c r}"
    by blast
  then show ?thesis unfolding active_card [OF assms(1)] active_card [OF assms(2)] by (rule card_mono [rotated]) simp
qed

lemma studies_ok_step:
  assumes "distinct (map tl_id R)" and "distinct (map tl_id R')" and "studies_ok c S R"
    and q: "no_new_leases c R L c' R' L'"
    and "\<And>s'. s' \<in> set S' \<Longrightarrow> (\<exists>s \<in> set S. su_id s = su_id s' \<and> su_max_concurrent s = su_max_concurrent s') \<or>
       su_id s' \<notin> tl_study ` set R' \<and> 1 \<le> su_max_concurrent s'"
  shows "studies_ok c' S' R'"
  unfolding studies_ok_def
proof
  fix s' assume s': "s' \<in> set S'"
  from assms(5) [OF s'] consider
      s where "s \<in> set S" "su_id s = su_id s'" "su_max_concurrent s = su_max_concurrent s'"
    | "su_id s' \<notin> tl_study ` set R'" "1 \<le> su_max_concurrent s'" by blast
  then show "int (length (active_trials (su_id s') c' R')) \<le> su_max_concurrent s'"
  proof cases
    case 1
    have "\<exists>r \<in> set R. tl_id r = tl_id r' \<and> tl_study r = su_id s' \<and> holds_lease c r"
      if "r' \<in> set R'" "tl_study r' = su_id s'" "holds_lease c' r'" for r'
      using q that unfolding no_new_leases_def by metis
    then have "length (active_trials (su_id s') c' R') \<le> length (active_trials (su_id s') c R)"
      by (rule active_mono [OF assms(1,2)])
    moreover have "int (length (active_trials (su_id s') c R)) \<le> su_max_concurrent s'"
      using assms(3) 1 unfolding studies_ok_def by metis
    ultimately show ?thesis by linarith
  next
    case 2
    then have "active_trials (su_id s') c' R' = []"
      unfolding active_trials_def filter_empty_conv by (metis imageI)
    then show ?thesis using 2 by simp
  qed
qed

section \<open>Rows behind an update\<close>

lemma evolves_back:
  assumes "evolves m T T'" and "length T' = length T" and "r' \<in> set T'"
  shows "\<exists>r \<in> set T. m\<^sup>*\<^sup>* r r'"
proof -
  obtain U V where U: "T' = U @ V" "list_all2 (m\<^sup>*\<^sup>*) T U" using assms(1) unfolding evolves_def by blast
  then have "T' = U" using assms(2) list_all2_lengthD [OF U(2)] by simp
  then obtain k where "k < length U" "U ! k = r'" using assms(3) by (auto simp: in_set_conv_nth)
  then show ?thesis using U(2) by (metis list_all2_conv_all_nth nth_mem)
qed

lemma study_moves_identity: "study_move\<^sup>*\<^sup>* s s' \<Longrightarrow> study_identity s' = study_identity s"
  by (induction rule: rtranclp_induct) (auto simp: study_move_def)

lemma trial_moves_identity: "trial_move\<^sup>*\<^sup>* r r' \<Longrightarrow> trial_identity r' = trial_identity r"
  by (induction rule: rtranclp_induct) (auto dest: trial_move_identity)

lemma trial_moves_attempts: "trial_move\<^sup>*\<^sup>* r r' \<Longrightarrow> tl_attempts r \<le> tl_max_attempts r \<Longrightarrow> tl_attempts r' \<le> tl_max_attempts r'"
  by (induction rule: rtranclp_induct) (auto dest: trial_move_attempts)

lemma kept_keys: "evolves trial_move R R' \<Longrightarrow> length R' = length R \<Longrightarrow> map tl_id R' = map tl_id R"
  using trials.evolves_keys [of R R'] by (metis append_eq_conv_conj append_self_conv length_map)

lemma kept_study_keys: "evolves study_move S S' \<Longrightarrow> length S' = length S \<Longrightarrow> map su_id S' = map su_id S"
  using studies.evolves_keys [of S S'] by (metis append_eq_conv_conj append_self_conv length_map)

lemma trial_rows_step:
  assumes "evolves trial_move R R'" and "length R' = length R" and "rows_ok R"
  shows "rows_ok R'" "tl_study ` set R' \<subseteq> tl_study ` set R"
proof -
  have behind: "\<exists>r \<in> set R. trial_move\<^sup>*\<^sup>* r r'" if "r' \<in> set R'" for r'
    by (rule evolves_back [OF assms(1,2) that])
  show "rows_ok R'" using behind assms(3) trial_moves_attempts unfolding rows_ok_def by blast
  have "tl_study r' \<in> tl_study ` set R" if "r' \<in> set R'" for r'
  proof -
    obtain r where r: "r \<in> set R" "trial_move\<^sup>*\<^sup>* r r'" using behind [OF \<open>r' \<in> set R'\<close>] by blast
    then have "tl_study r' = tl_study r" using trial_moves_identity [OF r(2)] by (simp add: trial_identity_def)
    then show ?thesis using r(1) by simp
  qed
  then show "tl_study ` set R' \<subseteq> tl_study ` set R" by blast
qed

text \<open>Transactions that change trials and slots without starting a lease.\<close>

lemma trials_step:
  assumes ok: "store_ok c W" and ev: "evolves trial_move (as_trials W) (as_trials W')"
    and len: "length (as_trials W') = length (as_trials W)" and S: "as_studies W' = as_studies W"
    and L: "map sl_number (as_slots W') = map sl_number (as_slots W)"
    and q: "no_new_leases c (as_trials W) (as_slots W) c (as_trials W') (as_slots W')"
  shows "store_ok c W'"
proof -
  have ids: "map tl_id (as_trials W') = map tl_id (as_trials W)" by (rule kept_keys [OF ev len])
  have d: "distinct (map tl_id (as_trials W))" using ok by (simp add: store_ok_def keys_ok_def)
  have rows: "rows_ok (as_trials W)" using ok by (simp add: store_ok_def)
  note rows' = trial_rows_step [OF ev len rows]
  have keys: "keys_ok W'" using ok rows'(2) unfolding store_ok_def keys_ok_def by (simp add: ids S L) blast
  moreover have "slots_ok c (as_trials W') (as_slots W')"
    by (rule slots_ok_step [OF d _ q]) (use ok in \<open>simp add: store_ok_def\<close>)
  moreover have "studies_ok c (as_studies W') (as_trials W')"
    by (rule studies_ok_step [OF d _ _ q, where S = "as_studies W"]) (use ok d in \<open>auto simp: store_ok_def ids S\<close>)
  ultimately show ?thesis using rows'(1) by (simp add: store_ok_def)
qed

lemma no_new_leases_refl [simp]: "no_new_leases c R L c R L"
  by (auto simp: no_new_leases_def)

lemma studies_step:
  assumes ok: "store_ok c W" and ev: "evolves study_move (as_studies W) S'"
    and len: "length S' = length (as_studies W)"
  shows "store_ok c (W\<lparr>as_studies := S'\<rparr>)"
proof -
  have ids: "map su_id S' = map su_id (as_studies W)" by (rule kept_study_keys [OF ev len])
  then have idset: "su_id ` set S' = su_id ` set (as_studies W)" by (metis set_map)
  have behind: "\<exists>s \<in> set (as_studies W). su_id s = su_id s' \<and> su_max_concurrent s = su_max_concurrent s'" if "s' \<in> set S'" for s'
  proof -
    obtain s where s: "s \<in> set (as_studies W)" "study_move\<^sup>*\<^sup>* s s'" using evolves_back [OF ev len \<open>s' \<in> set S'\<close>] by blast
    have "study_identity s' = study_identity s" by (rule study_moves_identity [OF s(2)])
    then show ?thesis using s(1) by (auto simp: study_identity_def)
  qed
  have d: "distinct (map tl_id (as_trials W))" using ok by (simp add: store_ok_def keys_ok_def)
  have "studies_ok c S' (as_trials W)"
    by (rule studies_ok_step [OF d d _ no_new_leases_refl, where S = "as_studies W"])
       (use ok behind in \<open>auto simp: store_ok_def\<close>)
  then show ?thesis using ok by (simp add: store_ok_def keys_ok_def ids idset)
qed

section \<open>Claims\<close>

lemma claimed_slot_simps [simp]:
  "sl_trial (claimed_slot t lease s) = Some t" "sl_lease (claimed_slot t lease s) = Some lease"
  "sl_number (claimed_slot t lease s) = sl_number s"
  by (simp_all add: claimed_slot_def bump_slot_def)

lemma claimed_trial_simps [simp]:
  "tl_id (claimed_trial now lease r) = tl_id r" "tl_study (claimed_trial now lease r) = tl_study r"
  "tl_status (claimed_trial now lease r) = TrialRunning" "tl_lease (claimed_trial now lease r) = Some lease"
  "tl_attempts (claimed_trial now lease r) = Suc (tl_attempts r)"
  "tl_max_attempts (claimed_trial now lease r) = tl_max_attempts r"
  by (simp_all add: claimed_trial_def bump_trial_def)

lemma claimed_trials_set:
  assumes "distinct (map tl_id R)" and "trial \<in> set R"
  shows "set (update_where (\<lambda>r. tl_id r = tl_id trial) (claimed_trial now lease) R) =
    insert (claimed_trial now lease trial) {r \<in> set R. tl_id r \<noteq> tl_id trial}"
  unfolding set_update_where using assms same_row [OF assms(1) _ assms(2)] by auto

lemma claimed_slots_set:
  assumes "distinct (map sl_number L)" and "slot \<in> set L"
  shows "set (update_where (\<lambda>s. sl_number s = sl_number slot) (claimed_slot t lease) L) =
    insert (claimed_slot t lease slot) {s \<in> set L. sl_number s \<noteq> sl_number slot}"
  unfolding set_update_where using assms same_row [OF assms(1) _ assms(2)] by auto

lemma claim_slots_ok:
  assumes ok: "store_ok c W" and m: "may_claim trial study slot c W"
  shows "slots_ok c (as_trials (claim_store trial slot c lease W)) (as_slots (claim_store trial slot c lease W))"
proof -
  let ?R = "as_trials W" and ?L = "as_slots W"
  let ?R' = "as_trials (claim_store trial slot c lease W)" and ?L' = "as_slots (claim_store trial slot c lease W)"
  have d: "distinct (map tl_id ?R)" "distinct (map sl_number ?L)" and so: "slots_ok c ?R ?L"
    using ok by (simp_all add: store_ok_def keys_ok_def)
  have t: "trial \<in> set ?R" "tl_status trial = TrialQueued" "slot \<in> set ?L"
      "sl_trial slot = None \<or> expired c (sl_lease slot)"
    using m by (simp_all add: may_claim_def)
  have R': "set ?R' = insert (claimed_trial c lease trial) {r \<in> set ?R. tl_id r \<noteq> tl_id trial}"
    unfolding claim_store_def using claimed_trials_set [OF d(1) t(1)] by simp
  have L': "set ?L' = insert (claimed_slot (tl_id trial) lease slot) {s \<in> set ?L. sl_number s \<noteq> sl_number slot}"
    unfolding claim_store_def using claimed_slots_set [OF d(2) t(3)] by simp
  have agree: "slot_agrees ?R s" if "s \<in> set ?L" for s using so that by (simp add: slots_ok_def)
  have free: "sl_trial s \<noteq> Some (tl_id trial)" if s: "s \<in> set ?L" for s
  proof
    assume "sl_trial s = Some (tl_id trial)"
    with agree [OF s] obtain r where "r \<in> set ?R" "tl_id r = tl_id trial" "tl_status r = TrialRunning"
      by (rule slot_agreesE)
    then show False using same_row [OF d(1) _ t(1)] t(2) by force
  qed
  have agree': "slot_agrees ?R' s" if s: "s \<in> set ?L'" for s
  proof (cases "s = claimed_slot (tl_id trial) lease slot")
    case True
    then show ?thesis by (simp add: slot_agrees_def R')
  next
    case False
    then have old: "s \<in> set ?L" using s by (simp add: L')
    show ?thesis using agree [OF old] free [OF old] unfolding slot_agrees_def R' by (auto split: option.splits)
  qed
  have one: "s = s'" if s: "s \<in> set ?L'" "s' \<in> set ?L'" "sl_trial s = sl_trial s'" "sl_trial s \<noteq> None" for s s'
  proof -
    have old: "s = s'" if "s \<in> set ?L" "s' \<in> set ?L"
      using so that s(3,4) unfolding slots_ok_def by blast
    show ?thesis using s old free unfolding L' by auto
  qed
  have leased: "\<exists>s \<in> set ?L'. sl_trial s = Some (tl_id r)" if r: "r \<in> set ?R'" "holds_lease c r" for r
  proof (cases "r = claimed_trial c lease trial")
    case True
    then show ?thesis by (simp add: L')
  next
    case False
    then have old: "r \<in> set ?R" using r(1) by (simp add: R')
    obtain s where s: "s \<in> set ?L" "sl_trial s = Some (tl_id r)"
      using so old r(2) unfolding slots_ok_def by blast
    obtain r0 where r0: "r0 \<in> set ?R" "tl_id r0 = tl_id r" "tl_lease r0 = sl_lease s"
      using agree [OF s(1)] s(2) by (rule slot_agreesE)
    have "r0 = r" by (rule same_row [OF d(1) r0(1) old r0(2)])
    then have "\<not> expired c (sl_lease s)"
      using r(2) r0(3) by (auto simp: holds_lease_def expired_def split: option.splits)
    then have "s \<noteq> slot" using t(4) s(2) by auto
    then have "sl_number s \<noteq> sl_number slot" using same_row [OF d(2) s(1) t(3)] by blast
    then show ?thesis using s by (auto simp: L')
  qed
  show ?thesis unfolding slots_ok_def using agree' one leased by blast
qed

lemma claim_active:
  assumes d: "distinct (map tl_id R)" and t: "trial \<in> set R"
  shows "length (active_trials i c (update_where (\<lambda>r. tl_id r = tl_id trial) (claimed_trial now lease) R)) \<le>
    length (active_trials i c R) + (if tl_study trial = i then 1 else 0)"
proof -
  let ?R' = "update_where (\<lambda>r. tl_id r = tl_id trial) (claimed_trial now lease) R"
  let ?A = "tl_id ` {r \<in> set R. tl_study r = i \<and> holds_lease c r}"
  have d': "distinct (map tl_id ?R')" using d by (simp add: map_update_where)
  have "tl_id ` {r \<in> set ?R'. tl_study r = i \<and> holds_lease c r} \<subseteq> ?A \<union> (if tl_study trial = i then {tl_id trial} else {})"
    unfolding claimed_trials_set [OF d t] by auto
  then have "card (tl_id ` {r \<in> set ?R'. tl_study r = i \<and> holds_lease c r}) \<le> card (?A \<union> (if tl_study trial = i then {tl_id trial} else {}))"
    by (rule card_mono [rotated]) simp
  also have "\<dots> \<le> card ?A + card (if tl_study trial = i then {tl_id trial} else {})" by (rule card_Un_le)
  finally show ?thesis unfolding active_card [OF d] active_card [OF d'] by (simp split: if_splits)
qed

lemma claim_ok:
  assumes ok: "store_ok c W" and m: "may_claim trial study slot c W"
  shows "store_ok c (claim_store trial slot c lease W)"
proof -
  let ?R = "as_trials W" and ?W = "claim_store trial slot c lease W"
  have d: "distinct (map tl_id ?R)" "distinct (map su_id (as_studies W))" using ok by (simp_all add: store_ok_def keys_ok_def)
  have t: "trial \<in> set ?R" "tl_attempts trial < tl_max_attempts trial" "study \<in> set (as_studies W)" "su_id study = tl_study trial"
      "int (length (active_trials (su_id study) c ?R)) < su_max_concurrent study"
    using m unfolding may_claim_def by blast+
  have R': "as_trials ?W = update_where (\<lambda>r. tl_id r = tl_id trial) (claimed_trial c lease) ?R"
      "as_studies ?W = as_studies W"
    by (simp_all add: claim_store_def)
  have sets: "set (as_trials ?W) = insert (claimed_trial c lease trial) {r \<in> set ?R. tl_id r \<noteq> tl_id trial}"
    unfolding R' using claimed_trials_set [OF d(1) t(1)] .
  have fk: "tl_study ` set (as_trials ?W) \<subseteq> su_id ` set (as_studies W)"
    using ok t(1) unfolding store_ok_def keys_ok_def sets by auto
  have "map sl_number (as_slots ?W) = map sl_number (as_slots W)"
    unfolding claim_store_def by (simp add: map_update_where)
  then have keys: "keys_ok ?W" using ok fk unfolding store_ok_def keys_ok_def R'(2) by simp
  have rows: "rows_ok (as_trials ?W)"
    using ok t(2) by (auto simp: store_ok_def rows_ok_def sets)
  have "int (length (active_trials (su_id s) c (as_trials ?W))) \<le> su_max_concurrent s" if s: "s \<in> set (as_studies W)" for s
  proof -
    have le: "length (active_trials (su_id s) c (as_trials ?W)) \<le>
        length (active_trials (su_id s) c ?R) + (if tl_study trial = su_id s then 1 else 0)"
      unfolding R' by (rule claim_active [OF d(1) t(1)])
    have old: "int (length (active_trials (su_id s) c ?R)) \<le> su_max_concurrent s"
      using ok s by (simp add: store_ok_def studies_ok_def)
    show ?thesis
    proof (cases "tl_study trial = su_id s")
      case True
      then have "s = study" using same_row [OF d(2) s t(3)] t(4) by simp
      then show ?thesis using le t(5) True by simp
    qed (use le old in simp)
  qed
  then have "studies_ok c (as_studies ?W) (as_trials ?W)" by (simp add: studies_ok_def R'(2))
  then show ?thesis using keys rows claim_slots_ok [OF ok m] by (simp add: store_ok_def)
qed

section \<open>Every transaction keeps the invariant\<close>

lemma not_running_no_leases:
  assumes "\<And>r'. r' \<in> set R' \<Longrightarrow> tl_status r' = TrialRunning \<Longrightarrow> r' \<in> set R"
    and "\<And>r. r \<in> set R \<Longrightarrow> tl_status r = TrialRunning \<Longrightarrow> r \<in> set R'"
  shows "no_new_leases c R L c R' L"
  using assms unfolding no_new_leases_def holds_lease_def by blast

lemma settles_ok:
  assumes ok: "store_ok c W" and s: "settles i W W'"
  shows "store_ok c W'"
proof -
  obtain slot where slot: "slot \<in> set (as_slots W)" "sl_trial slot = Some i"
    "as_slots W' = update_where (\<lambda>s'. sl_number s' = sl_number slot \<and> sl_trial s' = Some i \<and>
       sl_version s' = sl_version slot) free_slot (as_slots W)"
    using s by (auto simp: settles_def)
  have unique: "s' = slot" if "s' \<in> set (as_slots W)" "sl_trial s' = Some i" for s'
    using ok slot(1,2) that unfolding store_ok_def slots_ok_def by (metis option.distinct(1))
  let ?p = "\<lambda>s'. sl_number s' = sl_number slot \<and> sl_trial s' = Some i \<and> sl_version s' = sl_version slot"
  have "{s' \<in> set (as_slots W). ?p s'} = {slot}" "{s' \<in> set (as_slots W). \<not> ?p s'} = set (as_slots W) - {slot}"
    using slot(1,2) unique by blast+
  then have L': "set (as_slots W') = insert (free_slot slot) (set (as_slots W) - {slot})"
    unfolding slot(3) set_update_where by simp
  have free: "sl_trial (free_slot slot) = None" by (simp add: free_slot_def bump_slot_def)
  have others: "r \<in> set (as_trials W') \<longleftrightarrow> r \<in> set (as_trials W)" if "tl_id r \<noteq> i" for r
    using s that by (simp add: settles_def)
  have stopped: "tl_status r \<noteq> TrialRunning" if "r \<in> set (as_trials W')" "tl_id r = i" for r
    using s that by (simp add: settles_def)
  have leased: "\<exists>r \<in> set (as_trials W). tl_id r = tl_id r' \<and> tl_study r = tl_study r' \<and> holds_lease c r \<and>
      (\<forall>s \<in> set (as_slots W). sl_trial s = Some (tl_id r) \<and> sl_lease s = tl_lease r \<longrightarrow> s \<in> set (as_slots W'))"
    if r': "r' \<in> set (as_trials W')" "holds_lease c r'" for r'
  proof -
    have "tl_id r' \<noteq> i" using stopped [OF r'(1)] r'(2) by (auto simp: holds_lease_def)
    then have old: "r' \<in> set (as_trials W)" using others r'(1) by blast
    have "s \<in> set (as_slots W')" if "s \<in> set (as_slots W)" "sl_trial s = Some (tl_id r')" for s
    proof -
      have "s \<noteq> slot" using that(2) slot(2) \<open>tl_id r' \<noteq> i\<close> by (metis option.inject)
      then show ?thesis unfolding L' using that(1) by blast
    qed
    then show ?thesis using r'(2) old by blast
  qed
  have held: "s' \<in> set (as_slots W) \<and> sl_trial s' \<noteq> Some i" if "s' \<in> set (as_slots W')" "sl_trial s' \<noteq> None" for s'
    using that unique free unfolding L' by blast
  have "no_new_leases c (as_trials W) (as_slots W) c (as_trials W') (as_slots W')"
    unfolding no_new_leases_def
  proof (intro conjI ballI impI)
    fix s' r assume s': "s' \<in> set (as_slots W')" "sl_trial s' \<noteq> None"
      and r: "r \<in> set (as_trials W)"
        "tl_status r = TrialRunning \<and> sl_trial s' = Some (tl_id r) \<and> tl_lease r = sl_lease s'"
    then have "tl_id r \<noteq> i" using held [OF s'] by auto
    then have "r \<in> set (as_trials W')" using others r(1) by blast
    then show "\<exists>r' \<in> set (as_trials W'). tl_id r' = tl_id r \<and> tl_status r' = TrialRunning \<and> tl_lease r' = tl_lease r"
      using r(2) by blast
  next
    fix s' assume "s' \<in> set (as_slots W')" "sl_trial s' \<noteq> None"
    then show "s' \<in> set (as_slots W)" using held by blast
  qed (rule leased)
  moreover have "map sl_number (as_slots W') = map sl_number (as_slots W)"
    unfolding slot(3) by (rule map_update_where) (simp add: free_slot_def bump_slot_def)
  ultimately show ?thesis using s ok by (intro trials_step [OF ok]) (simp_all add: settles_def)
qed

lemma start_trial_ok:
  assumes ok: "store_ok c W"
  shows "store_ok c (snd (start_trial i c lease t W))"
proof -
  have d: "distinct (map tl_id (as_trials W))" using ok by (simp add: store_ok_def keys_ok_def)
  consider "snd (start_trial i c lease t W) = W"
    | trial study slot where "may_claim trial study slot c W"
        "snd (start_trial i c lease t W) = claim_store trial slot c lease W \<or>
         settles i (claim_store trial slot c lease W) (snd (start_trial i c lease t W))"
    using start_trial_cases [OF d, of i c lease t] by blast
  then show ?thesis
  proof cases
    case 2
    note claimed = claim_ok [OF ok 2(1), of lease]
    from 2(2) show ?thesis using claimed settles_ok [OF claimed] by auto
  qed (simp add: ok)
qed

lemma store_outcome_ok:
  assumes ok: "store_ok c W"
  shows "store_ok c (snd (store_outcome st o' t d W))"
proof -
  have "distinct (map tl_id (as_trials W))" using ok by (simp add: store_ok_def keys_ok_def)
  then show ?thesis using store_outcome_cases [of W st o' t d] ok settles_ok [OF ok] by auto
qed

lemma updated_study_length [simp]: "length (snd (update_study p f S)) = length S"
  by (simp add: update_study_def)

lemma study_operations_length [simp]:
  "length (snd (request_study_cancellation i v t S)) = length S"
  "length (snd (update_study_error i v c m S)) = length S"
  "length (snd (set_best_trial i tr v R S)) = length S"
  "length (snd (link_champion_training_job i j v S)) = length S"
  "length (snd (set_study_queue_identifier i msg v S)) = length S"
  "length (snd (conditionally_transition_study i old v new f S)) = length S"
  by (simp_all add: request_study_cancellation_def update_study_error_def set_best_trial_def
    link_champion_training_job_def set_study_queue_identifier_def conditionally_transition_study_def)

lemma set_studies_ok:
  assumes "store_ok c W" and "evolves study_move (as_studies W) (snd x)" and "length (snd x) = length (as_studies W)"
  shows "store_ok c (set_studies W x)"
  unfolding set_studies_def by (rule studies_step [OF assms])

lemma audits_ok [simp]: "store_ok c (W\<lparr>as_audits := a\<rparr>) = store_ok c W"
  by (simp add: store_ok_def keys_ok_def)

lemma end_study_ok:
  assumes ok: "store_ok c W" and final: "final \<in> {StudySucceeded, StudyFailed}"
  shows "store_ok c (snd (end_study i v final t code m W))"
proof -
  obtain r S where rS: "conditionally_transition_study i StudyRunning v final (finish_values t code m) (as_studies W) = (r, S)"
    by fastforce
  have "store_ok c (set_studies W (r, S))"
    by (rule set_studies_ok [OF ok])
       (use study_transitions_evolve(2) [OF final, of "as_studies W" i v t code m]
          study_operations_length(6) [of i StudyRunning v final "finish_values t code m" "as_studies W"] rS in simp_all)
  then have "store_ok c ((W\<lparr>as_studies := S\<rparr>)\<lparr>as_audits := a\<rparr>)" for a
    unfolding audits_ok by (simp add: set_studies_def)
  then show ?thesis using ok by (simp add: end_study_def rS split: option.split)
qed

lemma insert_study_ok:
  assumes ok: "store_ok c W"
  shows "store_ok c (W\<lparr>as_studies := snd (create_study company_of n (as_studies W))\<rparr>)"
proof -
  consider "snd (create_study company_of n (as_studies W)) = as_studies W"
    | company where "snd (create_study company_of n (as_studies W)) = as_studies W @ [n\<lparr>su_company := company\<rparr>]"
        "study_checks n" "su_id n \<notin> su_id ` set (as_studies W)"
  proof (cases "company_of (su_requester n)")
    case (Some company)
    show ?thesis
    proof (cases "study_checks n \<and> \<not> list_ex (study_conflict n) (as_studies W)")
      case True
      then have "su_id n \<notin> su_id ` set (as_studies W)" by (auto simp: list_ex_iff study_conflict_def)
      then show ?thesis using True Some by (intro that(2)) (simp_all add: create_study_def Let_def)
    next
      case False
      then show ?thesis using Some by (intro that(1)) (auto simp: create_study_def)
    qed
  qed (simp add: create_study_def that(1))
  then show ?thesis
  proof cases
    case 1
    then show ?thesis using ok by simp
  next
    case 2
    have fk: "tl_study ` set (as_trials W) \<subseteq> su_id ` set (as_studies W)" and d: "distinct (map tl_id (as_trials W))"
      using ok by (simp_all add: store_ok_def keys_ok_def)
    have fresh: "su_id n \<notin> tl_study ` set (as_trials W)" using fk 2(3) by blast
    have "1 \<le> su_max_concurrent n" using 2(2) by (simp add: study_checks_def)
    then have covered: "(\<exists>s \<in> set (as_studies W). su_id s = su_id s' \<and> su_max_concurrent s = su_max_concurrent s') \<or>
        su_id s' \<notin> tl_study ` set (as_trials W) \<and> 1 \<le> su_max_concurrent s'"
      if s': "s' \<in> set (as_studies W @ [n\<lparr>su_company := company\<rparr>])" for s'
    proof (cases "s' \<in> set (as_studies W)")
      case False
      then have "s' = n\<lparr>su_company := company\<rparr>" using s' by simp
      then show ?thesis using fresh \<open>1 \<le> su_max_concurrent n\<close> by simp
    qed blast
    have "studies_ok c (as_studies W) (as_trials W)" using ok by (simp add: store_ok_def)
    then have "studies_ok c (as_studies W @ [n\<lparr>su_company := company\<rparr>]) (as_trials W)"
      by (rule studies_ok_step [OF d d _ no_new_leases_refl covered])
    moreover have "keys_ok (W\<lparr>as_studies := as_studies W @ [n\<lparr>su_company := company\<rparr>]\<rparr>)"
      using ok 2(3) fk unfolding store_ok_def keys_ok_def by simp blast
    ultimately show ?thesis using ok by (simp add: 2(1) store_ok_def)
  qed
qed

lemma queued_update_ok:
  assumes ok: "store_ok c W" and ev: "evolves trial_move (as_trials W) (update_where p f (as_trials W))"
    and "\<And>r. p r \<Longrightarrow> tl_status r = TrialQueued \<and> tl_status (f r) \<noteq> TrialRunning"
  shows "store_ok c (W\<lparr>as_trials := update_where p f (as_trials W)\<rparr>)"
proof (rule trials_step [OF ok])
  have queued: "tl_status r = TrialQueued" "tl_status (f r) \<noteq> TrialRunning" if "p r" for r using assms(3) that by simp_all
  have "no_new_leases c (as_trials W) (as_slots W) c (update_where p f (as_trials W)) (as_slots W)"
  proof (rule not_running_no_leases)
    show "r' \<in> set (as_trials W)" if "r' \<in> set (update_where p f (as_trials W))" "tl_status r' = TrialRunning" for r'
      using that queued by (force simp: set_update_where)
    show "r \<in> set (update_where p f (as_trials W))" if "r \<in> set (as_trials W)" "tl_status r = TrialRunning" for r
      using that queued by (force simp: set_update_where)
  qed
  then show "no_new_leases c (as_trials W) (as_slots W) c (as_trials (W\<lparr>as_trials := update_where p f (as_trials W)\<rparr>))
    (as_slots (W\<lparr>as_trials := update_where p f (as_trials W)\<rparr>))" by simp
qed (use ev in simp_all)

lemma trial_rows_ok:
  assumes ok: "store_ok c W"
  shows "store_ok c (W\<lparr>as_trials := snd (mark_queued_trials_cancelled i t (as_trials W))\<rparr>)"
    and "store_ok c (W\<lparr>as_trials := snd (set_trial_queue_identifier i m v (as_trials W))\<rparr>)"
proof -
  show "store_ok c (W\<lparr>as_trials := snd (mark_queued_trials_cancelled i t (as_trials W))\<rparr>)"
    using trial_operations_evolve(2) [of "as_trials W" i t]
    by (auto simp: mark_queued_trials_cancelled_def Let_def bump_trial_def intro!: queued_update_ok [OF ok])
  show "store_ok c (W\<lparr>as_trials := snd (set_trial_queue_identifier i m v (as_trials W))\<rparr>)"
    using trial_operations_evolve(1) [of "as_trials W" i m v]
    by (auto simp: set_trial_queue_identifier_def update_trial_def bump_trial_def intro!: queued_update_ok [OF ok])
qed

lemma create_trials_rows:
  assumes "create_trials S ns R = (Inr rs, R')"
  shows "R' = R @ ns \<and> (distinct (map tl_id R) \<longrightarrow> distinct (map tl_id (R @ ns))) \<and>
    (\<forall>n \<in> set ns. trial_checks n \<and> tl_study n \<in> su_id ` set S)"
  using assms
proof (induction ns arbitrary: R rs)
  case (Cons n ns)
  obtain rs' where c: "trial_checks n" "tl_study n \<in> su_id ` set S" "\<not> list_ex (trial_conflict n) R"
    "create_trials S ns (R @ [n]) = (Inr rs', R')"
    using Cons.prems by (auto simp: create_trial_def split: prod.splits sum.splits if_splits)
  have "tl_id n \<notin> tl_id ` set R" using c(3) by (auto simp: list_ex_iff trial_conflict_def)
  then show ?case using Cons.IH [OF c(4)] c(1,2) by auto
qed simp

lemma insert_trials_ok:
  assumes ok: "store_ok c W"
  shows "store_ok c (apply_automl (InsertTrials study t ts) W)"
proof -
  let ?ns = "map (\<lambda>(i, s). new_trial study i t s) ts"
  obtain x R where x: "create_trials (as_studies W) ?ns (as_trials W) = (x, R)" by fastforce
  show ?thesis
  proof (cases x)
    case (Inl e)
    then show ?thesis using ok x by simp
  next
    case (Inr rs)
    have c: "R = as_trials W @ ?ns" "distinct (map tl_id (as_trials W)) \<longrightarrow> distinct (map tl_id (as_trials W @ ?ns))"
      "\<forall>n \<in> set ?ns. trial_checks n \<and> tl_study n \<in> su_id ` set (as_studies W)"
      using create_trials_rows [OF x [unfolded Inr]] by simp_all
    have d: "distinct (map tl_id (as_trials W))" and d': "distinct (map tl_id R)"
      using ok c(1,2) by (simp_all add: store_ok_def keys_ok_def)
    have queued: "tl_status n = TrialQueued" if "n \<in> set ?ns" for n using that by (auto simp: new_trial_def)
    have q: "no_new_leases c (as_trials W) (as_slots W) c R (as_slots W)"
      by (rule not_running_no_leases) (use c(1) queued in force)+
    have fk: "tl_study ` set R \<subseteq> su_id ` set (as_studies W)"
      using ok c(3) unfolding store_ok_def keys_ok_def c(1) by auto
    have "rows_ok R" using ok c(3) unfolding store_ok_def rows_ok_def c(1) by (auto simp: trial_checks_def)
    moreover have "slots_ok c R (as_slots W)" by (rule slots_ok_step [OF d _ q]) (use ok in \<open>simp add: store_ok_def\<close>)
    moreover have "studies_ok c (as_studies W) R"
      by (rule studies_ok_step [OF d d' _ q, where S = "as_studies W"]) (use ok in \<open>auto simp: store_ok_def\<close>)
    moreover have "keys_ok (W\<lparr>as_trials := R\<rparr>)" using ok d' fk by (simp add: store_ok_def keys_ok_def)
    ultimately show ?thesis by (simp add: x Inr store_ok_def)
  qed
qed

lemma reclaimed_slots:
  "set (snd (reclaim_expired_slots now L)) \<supseteq> {s \<in> set L. sl_trial s = None \<or> \<not> expired now (sl_lease s)}"
  "s \<in> set (snd (reclaim_expired_slots now L)) \<Longrightarrow> sl_trial s \<noteq> None \<Longrightarrow> s \<in> set L \<and> \<not> expired now (sl_lease s)"
  "map sl_number (snd (reclaim_expired_slots now L)) = map sl_number L"
  by (auto simp: reclaim_expired_slots_def Let_def set_update_where free_slot_def bump_slot_def intro: map_update_where)

lemma recovered_trials:
  fixes now R
  defines "R' \<equiv> snd (fail_exhausted_expired_trials now (snd (release_expired_trials now R)))"
  shows "r \<in> set R' \<Longrightarrow> tl_status r = TrialRunning \<Longrightarrow> r \<in> set R"
    and "r \<in> set R \<Longrightarrow> \<not> expired now (tl_lease r) \<Longrightarrow> r \<in> set R'"
    and "length R' = length R"
  unfolding R'_def fail_exhausted_expired_trials_def release_expired_trials_def Let_def
  by (auto simp: set_update_where bump_trial_def)

lemma repair_leases_ok:
  assumes ok: "store_ok c W"
  shows "store_ok c (repair_leases c W)"
proof -
  define R' where "R' = snd (fail_exhausted_expired_trials c (snd (release_expired_trials c (as_trials W))))"
  define L' where "L' = snd (reclaim_expired_slots c (as_slots W))"
  note trials = recovered_trials [where now = c and R = "as_trials W", folded R'_def]
  note slots = reclaimed_slots [where now = c and L = "as_slots W", folded L'_def]
  have leased: "\<exists>r \<in> set (as_trials W). tl_id r = tl_id r' \<and> tl_study r = tl_study r' \<and> holds_lease c r \<and>
      (\<forall>s \<in> set (as_slots W). sl_trial s = Some (tl_id r) \<and> sl_lease s = tl_lease r \<longrightarrow> s \<in> set L')"
    if r': "r' \<in> set R'" "holds_lease c r'" for r'
  proof -
    have "r' \<in> set (as_trials W)" using trials(1) [OF r'(1)] r'(2) by (simp add: holds_lease_def)
    moreover have "\<not> expired c (tl_lease r')" using r'(2) by (auto simp: holds_lease_def expired_def split: option.splits)
    ultimately show ?thesis using r'(2) slots(1) by fastforce
  qed
  have "no_new_leases c (as_trials W) (as_slots W) c R' L'"
    unfolding no_new_leases_def
  proof (intro conjI ballI impI)
    fix s r assume s: "s \<in> set L'" "sl_trial s \<noteq> None" and r: "r \<in> set (as_trials W)"
      "tl_status r = TrialRunning \<and> sl_trial s = Some (tl_id r) \<and> tl_lease r = sl_lease s"
    have "\<not> expired c (tl_lease r)" using slots(2) [OF s] r(2) by simp
    then have "r \<in> set R'" by (rule trials(2) [OF r(1)])
    then show "\<exists>r' \<in> set R'. tl_id r' = tl_id r \<and> tl_status r' = TrialRunning \<and> tl_lease r' = tl_lease r"
      using r(2) by blast
  next
    fix s assume "s \<in> set L'" "sl_trial s \<noteq> None"
    then show "s \<in> set (as_slots W)" using slots(2) by blast
  qed (rule leased)
  moreover have "evolves trial_move (as_trials W) R'"
    unfolding R'_def by (rule evolves_trans [OF trial_operations_evolve(3,4)])
  ultimately show ?thesis using trials(3) slots(3)
    by (intro trials_step [OF ok]) (simp_all add: repair_leases_def R'_def L'_def)
qed

lemma no_slots_lost:
  assumes "c \<le> c'" and "set L \<subseteq> set L'" and "\<And>s. s \<in> set L' \<Longrightarrow> sl_trial s \<noteq> None \<Longrightarrow> s \<in> set L"
  shows "no_new_leases c R L c' R L'"
proof -
  have later: "holds_lease c r" if "holds_lease c' r" for r
    using that assms(1) by (auto simp: holds_lease_def split: option.splits)
  show ?thesis unfolding no_new_leases_def
  proof (intro conjI ballI impI)
    fix r assume "r \<in> set R" "holds_lease c' r"
    then show "\<exists>q \<in> set R. tl_id q = tl_id r \<and> tl_study q = tl_study r \<and> holds_lease c q \<and>
        (\<forall>s \<in> set L. sl_trial s = Some (tl_id q) \<and> sl_lease s = tl_lease q \<longrightarrow> s \<in> set L')"
      using later assms(2) by blast
  next
    fix s assume "s \<in> set L'" "sl_trial s \<noteq> None"
    then show "s \<in> set L" by (rule assms(3))
  qed blast
qed

lemma initialize_slots_ok:
  assumes ok: "store_ok c W"
  shows "store_ok c (W\<lparr>as_slots := initialize_slots n (as_slots W)\<rparr>)"
proof -
  let ?L = "initialize_slots n (as_slots W)"
  have new: "sl_trial s = None \<or> s \<in> set (as_slots W)" if "s \<in> set ?L" for s
    using that by (auto simp: initialize_slots_def)
  have old: "set (as_slots W) \<subseteq> set ?L" by (simp add: initialize_slots_def)
  have d: "distinct (map tl_id (as_trials W))" using ok by (simp add: store_ok_def keys_ok_def)
  have "no_new_leases c (as_trials W) (as_slots W) c (as_trials W) ?L"
    by (rule no_slots_lost [OF order_refl old]) (metis new)
  then have "slots_ok c (as_trials W) ?L" by (rule slots_ok_step [OF d, rotated]) (use ok in \<open>simp add: store_ok_def\<close>)
  moreover have "distinct (map sl_number ?L)"
    using ok by (auto simp: initialize_slots_def store_ok_def keys_ok_def comp_def)
  ultimately show ?thesis using ok by (simp add: store_ok_def keys_ok_def)
qed

lemma tick_ok:
  assumes ok: "store_ok c W" and "c \<le> c'"
  shows "store_ok c' W"
proof -
  have q: "no_new_leases c (as_trials W) (as_slots W) c' (as_trials W) (as_slots W)"
    by (rule no_slots_lost [OF assms(2) subset_refl]) simp
  have d: "distinct (map tl_id (as_trials W))" using ok by (simp add: store_ok_def keys_ok_def)
  have "slots_ok c' (as_trials W) (as_slots W)" by (rule slots_ok_step [OF d _ q]) (use ok in \<open>simp add: store_ok_def\<close>)
  moreover have "studies_ok c' (as_studies W) (as_trials W)"
    by (rule studies_ok_step [OF d d _ q, where S = "as_studies W"]) (use ok in \<open>auto simp: store_ok_def\<close>)
  ultimately show ?thesis using ok by (simp add: store_ok_def)
qed

section \<open>Reachable stores\<close>

lemma event_ok:
  assumes ok: "store_ok c W" and t: "event_time e \<in> {None, Some c}"
  shows "store_ok c (apply_automl e W)"
proof (cases e)
  case (InsertTrials study t ts)
  then show ?thesis using insert_trials_ok [OF ok] by blast
next
  case (StartTrial i now lease t')
  then show ?thesis using start_trial_ok [OF ok] t by simp
qed (use ok t in \<open>auto intro!: set_studies_ok end_study_ok study_evolutions insert_study_ok trial_rows_ok store_outcome_ok
      repair_leases_ok initialize_slots_ok split: if_splits\<close>)

lemma reachable_ok: "reachable_at c W \<Longrightarrow> store_ok c W"
proof (induction rule: reachable_at.induct)
  case (initial c)
  show ?case by (simp add: store_ok_def keys_ok_def rows_ok_def slots_ok_def studies_ok_def empty_store_def)
qed (auto intro: tick_ok event_ok)

end
