(* ===== verification/AutoML_Correct.thy ===== *)
theory AutoML_Correct
  imports AutoML_Safety
begin

text \<open>
  The properties of AutoML stores and of the trial worker: bounded concurrency, the life cycle
  of trials, and the fencing of workers by the versions of the rows they claimed.
\<close>

section \<open>Bounded concurrency\<close>

lemma holding_le_slots:
  assumes ok: "store_ok c W"
  shows "length (filter (holds_lease c) (as_trials W)) \<le> length (as_slots W)"
proof -
  let ?F = "filter (holds_lease c) (as_trials W)"
  have "distinct (map tl_id ?F)" using ok by (simp add: store_ok_def keys_ok_def distinct_map_filter)
  then have "length ?F = card (tl_id ` set ?F)" using distinct_card by fastforce
  also have "tl_id ` set ?F \<subseteq> (\<lambda>s. the (sl_trial s)) ` set (as_slots W)"
  proof (rule image_subsetI)
    fix r assume "r \<in> set ?F"
    then have "r \<in> set (as_trials W)" "holds_lease c r" by simp_all
    then obtain s where "s \<in> set (as_slots W)" "sl_trial s = Some (tl_id r)"
      using ok unfolding store_ok_def slots_ok_def by blast
    then show "tl_id r \<in> (\<lambda>s. the (sl_trial s)) ` set (as_slots W)" by (metis image_eqI option.sel)
  qed
  then have "card (tl_id ` set ?F) \<le> card ((\<lambda>s. the (sl_trial s)) ` set (as_slots W))" by (rule card_mono [rotated]) simp
  also have "\<dots> \<le> length (as_slots W)" using card_image_le card_length by (metis List.finite_set le_trans)
  finally show ?thesis .
qed

lemma claim_never_conflicts:
  assumes ok: "store_ok c W"
  shows "fst (claim_trial_and_slot i now lease (as_studies W) (as_trials W) (as_slots W)) \<noteq> Inl e"
proof (cases "claimable i (as_trials W)")
  case (Some trial)
  have t: "trial \<in> set (as_trials W)" "tl_status trial = TrialQueued" using claimable_Some [OF Some] by simp_all
  have "\<not> list_ex (\<lambda>s. sl_number s \<noteq> n \<and> sl_trial s = Some (tl_id trial)) (as_slots W)" for n
  proof
    assume "list_ex (\<lambda>s. sl_number s \<noteq> n \<and> sl_trial s = Some (tl_id trial)) (as_slots W)"
    then obtain s where s: "s \<in> set (as_slots W)" "sl_trial s = Some (tl_id trial)" by (auto simp: list_ex_iff)
    have "slot_agrees (as_trials W) s" using ok s(1) by (simp add: store_ok_def slots_ok_def)
    then obtain r where r: "r \<in> set (as_trials W)" "tl_id r = tl_id trial" "tl_status r = TrialRunning"
      using s(2) by (rule slot_agreesE)
    have "r = trial" by (rule same_row [OF _ r(1) t(1) r(2)]) (use ok in \<open>simp add: store_ok_def keys_ok_def\<close>)
    then show False using t(2) r(3) by simp
  qed
  then show ?thesis by (simp add: claim_trial_and_slot_def Some split: option.split)
qed (simp add: claim_trial_and_slot_def)

definition holders :: "automl_slot list \<Rightarrow> uuid list" where
  "holders L = List.map_filter sl_trial L"

lemma holders_distinct:
  assumes "distinct (map sl_number L)"
    and "\<And>s s'. s \<in> set L \<Longrightarrow> s' \<in> set L \<Longrightarrow> sl_trial s = sl_trial s' \<Longrightarrow> sl_trial s \<noteq> None \<Longrightarrow> s = s'"
  shows "distinct (holders L)"
  using assms
proof (induction L)
  case (Cons s L)
  have IH: "distinct (holders L)" using Cons by simp
  show ?case
  proof (cases "sl_trial s")
    case (Some t)
    have "t \<notin> set (holders L)"
    proof
      assume "t \<in> set (holders L)"
      then obtain s' where s': "s' \<in> set L" "sl_trial s' = Some t"
        by (auto simp: holders_def map_filter_def)
      then have "s' = s" using Cons.prems(2) [of s' s] Some by simp
      then show False using s'(1) Cons.prems(1) by simp
    qed
    then show ?thesis using IH Some by (simp add: holders_def map_filter_simps)
  qed (use IH in \<open>simp add: holders_def map_filter_simps\<close>)
qed (simp add: holders_def map_filter_simps)

lemma reachable_events:
  "reachable_at c W \<Longrightarrow> list_all (\<lambda>e. event_time e \<in> {None, Some c}) es \<Longrightarrow> reachable_at c (automl_events es W)"
  by (induction es arbitrary: W) (auto intro: reachable_at.commit)

text \<open>
  C9: In every store that any interleaving of AutoML transactions reaches, no more trials hold a
  live lease than there are slots, no study has more of them than its limit, every held slot
  belongs to a running trial with the same lease and no two slots to the same trial; and a claim
  never violates the unique column of the slots.
\<close>

theorem automl_concurrency_bounded:
  assumes "reachable_at c W"
  shows "length (filter (holds_lease c) (as_trials W)) \<le> length (as_slots W) \<and>
    list_all (\<lambda>s. int (length (active_trials (su_id s) c (as_trials W))) \<le> su_max_concurrent s) (as_studies W) \<and>
    list_all (slot_agrees (as_trials W)) (as_slots W) \<and> distinct (holders (as_slots W)) \<and>
    fst (claim_trial_and_slot i c lease (as_studies W) (as_trials W) (as_slots W)) \<noteq> Inl e"
proof -
  note ok = reachable_ok [OF assms]
  have "distinct (holders (as_slots W))"
    by (rule holders_distinct) (use ok in \<open>unfold store_ok_def keys_ok_def slots_ok_def, blast+\<close>)
  moreover have "list_all (\<lambda>s. int (length (active_trials (su_id s) c (as_trials W))) \<le> su_max_concurrent s) (as_studies W)"
    "list_all (slot_agrees (as_trials W)) (as_slots W)"
    using ok by (simp_all add: store_ok_def studies_ok_def slots_ok_def list_all_iff)
  ultimately show ?thesis using holding_le_slots [OF ok] claim_never_conflicts [OF ok] by blast
qed

definition sample_data :: data_reference where
  "sample_data = \<lparr>da_dataset_version = None, da_training_fingerprint = Some (replicate 64 CHR ''a''),
     da_evaluation_fingerprint = Some (replicate 64 CHR ''b''), da_training_rows = Some 2,
     da_evaluation_rows = Some 2, da_features = Some 1, da_training_features = Some [[0], [1]],
     da_training_targets = Some [TargetInt 0, TargetInt 1], da_evaluation_features = Some [[0], [1]],
     da_evaluation_targets = Some [TargetInt 0, TargetInt 1]\<rparr>"

definition sample_study :: automl_study where
  "sample_study = \<lparr>su_id = 1, su_company = 0, su_requester = 5, su_dataset_version = None, su_task = Classification,
     su_status = StudyQueued, su_metric = ''accuracy'', su_direction = Maximize, su_seed = 3,
     su_plugins = [''tree''], su_spaces = [], su_scaler = ScalerNone, su_imputer = ImputerNone, su_data = sample_data,
     su_folds = 2, su_trial_budget = 2, su_time_budget = 600, su_trial_timeout = 60, su_max_concurrent = 1,
     su_register = False, su_model_name = None, su_idempotency_key = None, su_fingerprint = ''f'', su_version = 0,
     su_message = None, su_created_at = 0, su_queued_at = Some 0, su_started_at = None, su_deadline_at = None,
     su_finished_at = None, su_cancel_requested_at = None, su_cancelled_at = None, su_best_trial = None,
     su_champion_job = None, su_error_code = None, su_error_message = None\<rparr>"

definition sample_trial :: "nat \<Rightarrow> string \<Rightarrow> trial_specification" where
  "sample_trial n f = \<lparr>ts_study_seed = 3, ts_number = n, ts_plugin = ''tree'', ts_parameters = [], ts_seed = 4,
     ts_fingerprint = f\<rparr>"

definition sample_events :: "automl_event list" where
  "sample_events = [InsertStudy (\<lambda>u. Some 2) sample_study, StartStudy 1 0 0,
     InsertTrials 1 0 [(7, sample_trial 0 ''x''), (8, sample_trial 1 ''y'')], InitializeSlots 2,
     StartTrial 7 0 100 0, StartTrial 8 0 100 0]"

lemmas sample_defs = sample_events_def sample_study_def sample_trial_def sample_data_def empty_store_def

lemmas study_table_defs = create_study_def study_checks_def set_studies_def conditionally_transition_study_def
  update_study_def bump_study_def start_values_def get_study_by_id_def study_visible_def running_study_def

lemmas trial_table_defs = create_trial_def trial_checks_def new_trial_def trial_conflict_def initialize_slots_def
  claim_trial_and_slot_def claimable_def active_trials_def available_slot_def expired_def
  claimed_trial_def claimed_slot_def bump_trial_def bump_slot_def

lemmas request_defs = make_cv_request_def make_data_reference_def data_fields_ok_def given_in_def
  limit_defs validate_cv_request_def

lemma sample_digests: "sha256_digest (replicate 64 CHR ''a'')" "sha256_digest (replicate 64 CHR ''b'')"
  by (simp_all add: sha256_digest_def list_all_iff)

lemma sample_trial_claimed:
  "map tl_status (as_trials (automl_events (take 5 sample_events) empty_store)) = [TrialRunning, TrialQueued]"
  "map sl_trial (as_slots (automl_events (take 5 sample_events) empty_store)) = [Some 7, None]"
  by (simp_all add: sample_digests sample_defs study_table_defs trial_table_defs request_defs start_trial_def Let_def upt_rec numeral_3_eq_3)

lemma sample_store_reachable: "reachable_at 0 (automl_events (take n sample_events) empty_store)"
proof (rule reachable_events [OF reachable_at.initial])
  have "list_all (\<lambda>e. event_time e \<in> {None, Some 0}) sample_events" by (simp add: sample_events_def)
  then show "list_all (\<lambda>e. event_time e \<in> {None, Some 0}) (take n sample_events)"
    by (metis append_take_drop_id list_all_append)
qed

lemma automl_concurrency_bounded_witness:
  "map sl_trial (as_slots (automl_events (take 5 sample_events) empty_store)) = [Some 7, None] \<and>
   length (filter (holds_lease 0) (as_trials (automl_events (take 5 sample_events) empty_store))) \<le> 2 \<and>
   distinct (holders (as_slots (automl_events (take 5 sample_events) empty_store)))"
proof -
  have "length (as_slots (automl_events (take 5 sample_events) empty_store)) = 2"
    using sample_trial_claimed(2) by (metis length_map length_Cons list.size(3) numeral_2_eq_2)
  then show ?thesis using automl_concurrency_bounded [OF sample_store_reachable [of 5]] sample_trial_claimed(2) by simp
qed

section \<open>Life cycles\<close>

lemma claim_evolves:
  "may_claim trial study slot now W \<Longrightarrow> distinct (map tl_id (as_trials W)) \<Longrightarrow>
   evolves trial_move (as_trials W) (as_trials (claim_store trial slot now lease W))"
  unfolding claim_store_def may_claim_def
  using same_row [of tl_id "as_trials W" _ trial] by (auto intro!: evolves_update trial_move.claim)

lemma set_studies_trials [simp]: "as_trials (set_studies W x) = as_trials W"
  by (simp add: set_studies_def)

lemma end_study_trials [simp]: "as_trials (snd (end_study i v final t c m W)) = as_trials W"
  by (simp add: end_study_def split: prod.split option.split)

lemma insert_trials_evolves: "evolves trial_move (as_trials W) (as_trials (apply_automl (InsertTrials i t ts) W))"
  using create_trials_evolves [of "as_trials W" "as_studies W" "map (\<lambda>(i', s). new_trial i i' t s) ts" for i]
  by (auto split: prod.split sum.split) (metis snd_conv)

lemma event_evolves:
  assumes d: "distinct (map tl_id (as_trials W))"
  shows "evolves trial_move (as_trials W) (as_trials (apply_automl e W))"
proof (cases e)
  case (StartTrial i now lease t)
  consider "snd (start_trial i now lease t W) = W"
    | trial study slot where "may_claim trial study slot now W"
        "snd (start_trial i now lease t W) = claim_store trial slot now lease W \<or>
         settles i (claim_store trial slot now lease W) (snd (start_trial i now lease t W))"
    using start_trial_cases [OF d, of i now lease t] by blast
  then show ?thesis
  proof cases
    case 2
    note claimed = claim_evolves [OF 2(1) d, of lease]
    from 2(2) show ?thesis unfolding StartTrial
      using claimed evolves_trans [OF claimed] by (auto simp: settles_def)
  qed (simp add: StartTrial)
next
  case (StoreOutcome st o' t du)
  then show ?thesis using store_outcome_cases [OF d, of st o' t du] by (auto simp: settles_def)
next
  case (RepairLeases now)
  then show ?thesis unfolding RepairLeases
    using evolves_trans [OF trial_operations_evolve(3) trial_operations_evolve(4)] by (simp add: repair_leases_def)
next
  case (InsertTrials i t ts)
  then show ?thesis using insert_trials_evolves by blast
qed (auto intro: trial_evolutions)

text \<open>\<open>leads_to c W c' W'\<close>: transactions of any actors and time lead from one store to another.\<close>

inductive leads_to :: "timestamp \<Rightarrow> automl_store \<Rightarrow> timestamp \<Rightarrow> automl_store \<Rightarrow> bool" where
  nothing: "leads_to c W c W"
| later: "leads_to c W c1 W1 \<Longrightarrow> c1 \<le> c2 \<Longrightarrow> leads_to c W c2 W1"
| committed: "leads_to c W c1 W1 \<Longrightarrow> event_time e \<in> {None, Some c1} \<Longrightarrow> leads_to c W c1 (apply_automl e W1)"

lemma leads_to_evolves:
  assumes "leads_to c W c' W'" and "reachable_at c W"
  shows "reachable_at c' W' \<and> evolves trial_move (as_trials W) (as_trials W')"
  using assms
proof (induction rule: leads_to.induct)
  case (committed c W c1 W1 e)
  then have r: "reachable_at c1 W1" and ev: "evolves trial_move (as_trials W) (as_trials W1)" by simp_all
  have "evolves trial_move (as_trials W1) (as_trials (apply_automl e W1))"
    by (rule event_evolves) (use reachable_ok [OF r] in \<open>simp add: store_ok_def keys_ok_def\<close>)
  then show ?case using evolves_trans [OF ev] reachable_at.commit [OF r committed.hyps(2)] by blast
qed (auto intro: reachable_at.tick)

text \<open>
  Whatever transactions commit later, a trial keeps its identity (study, plugin, parameters,
  seed, retry limit) and only makes moves of its life cycle: it has never more attempts than its
  limit, a row with the same version is the same row, and an ended trial never changes.
\<close>

theorem trials_follow_their_life_cycle:
  assumes "reachable_at c W" and "lookup tl_id i (as_trials W) = Some r" and "leads_to c W c' W'"
  shows "\<exists>r'. lookup tl_id i (as_trials W') = Some r' \<and> trial_identity r' = trial_identity r \<and>
    trial_move\<^sup>*\<^sup>* r r' \<and> tl_attempts r' \<le> tl_max_attempts r' \<and> (ended r \<or> tl_version r' = tl_version r \<longrightarrow> r' = r)"
proof -
  have ok: "tl_attempts r \<le> tl_max_attempts r"
    using reachable_ok [OF assms(1)] lookup_SomeD [OF assms(2)] by (simp add: store_ok_def rows_ok_def)
  obtain r' where r': "lookup tl_id i (as_trials W') = Some r'" "trial_move\<^sup>*\<^sup>* r r'"
    using trials.evolves_lookup [OF _ assms(2)] leads_to_evolves [OF assms(3,1)] by blast
  then show ?thesis
    using trial_moves_identity [OF r'(2)] trial_moves_attempts [OF r'(2) ok]
      trials.reach_final [OF r'(2)] trials.reach_same_ver [OF r'(2)] by blast
qed

lemma trials_follow_their_life_cycle_witness:
  "\<exists>r'. lookup tl_id 8 (as_trials (apply_automl (CancelTrials 1 5) (automl_events (take 5 sample_events) empty_store))) = Some r' \<and>
     tl_attempts r' \<le> tl_max_attempts r'"
proof -
  let ?W = "automl_events (take 5 sample_events) empty_store"
  have "\<exists>r. lookup tl_id 8 (as_trials ?W) = Some r"
    by (simp add: sample_digests sample_defs study_table_defs trial_table_defs request_defs start_trial_def Let_def
        upt_rec numeral_3_eq_3)
  then obtain r where r: "lookup tl_id 8 (as_trials ?W) = Some r" by blast
  have l: "leads_to 0 ?W 0 (apply_automl (CancelTrials 1 5) ?W)" by (rule leads_to.committed [OF leads_to.nothing]) simp
  show ?thesis using trials_follow_their_life_cycle [OF sample_store_reachable [of 5] r l] by blast
qed

section \<open>Fencing of workers\<close>

fun stored_status :: "storage \<Rightarrow> trial_status" where
  "stored_status (OutcomeStored final) = final"
| "stored_status RetryStored = TrialQueued"
| "stored_status NotStored = TrialRunning"

definition stored_by :: "started_trial \<Rightarrow> storage \<Rightarrow> automl_store \<Rightarrow> automl_store \<Rightarrow> bool" where
  "stored_by st x W W' \<longleftrightarrow> (\<exists>v f R r. conditionally_transition_trial (tl_id (sr_trial st)) TrialRunning v (stored_status x) f R =
       (Some r, as_trials W') \<and> (\<forall>r. tl_status (f r) = tl_status r \<and> tl_id (f r) = tl_id r)) \<and>
     release_slot (sl_number (sr_slot st)) (tl_id (sr_trial st)) (sl_version (sr_slot st)) (as_slots W) = (True, as_slots W')"

lemma stored_byI:
  assumes "conditionally_transition_trial (tl_id (sr_trial st)) TrialRunning v (stored_status x) f R = (Some r, as_trials W')"
    and "\<And>r. tl_status (f r) = tl_status r \<and> tl_id (f r) = tl_id r"
    and "release_slot (sl_number (sr_slot st)) (tl_id (sr_trial st)) (sl_version (sr_slot st)) (as_slots W) = (True, as_slots W')"
  shows "stored_by st x W W'"
  unfolding stored_by_def using assms by blast

lemma terminal_stored:
  assumes "terminal_store st v final t o' R W = (Inr x, W')" and "x \<noteq> NotStored"
  shows "stored_by st x W W'"
proof -
  obtain changed R' where c: "conditionally_transition_trial (tl_id (sr_trial st)) TrialRunning v final
      (terminal_values final t o') R = (changed, R')" by fastforce
  obtain released L where l: "release_slot (sl_number (sr_slot st)) (tl_id (sr_trial st)) (sl_version (sr_slot st)) (as_slots W) =
      (released, L)" by fastforce
  have keep: "tl_status (terminal_values final t o' r) = tl_status r \<and> tl_id (terminal_values final t o' r) = tl_id r" for r
    by (simp add: terminal_values_def Let_def)
  obtain r where r: "changed = Some r" "released" "x = OutcomeStored final" "W' = W\<lparr>as_trials := R', as_slots := L\<rparr>"
    using assms c l by (auto simp: terminal_store_def release_with_def split: if_splits)
  show ?thesis
    by (rule stored_byI [where v = v and f = "terminal_values final t o'" and R = R and r = r])
       (use c l r keep in simp_all)
qed

lemma retry_stored:
  assumes "release_with changed R st RetryStored W = (Inr x, W')" and "x \<noteq> NotStored"
    and "conditionally_transition_trial (tl_id (sr_trial st)) TrialRunning v TrialQueued (retry_values o') R0 = (changed, R)"
  shows "stored_by st x W W'"
proof -
  obtain released L where l: "release_slot (sl_number (sr_slot st)) (tl_id (sr_trial st)) (sl_version (sr_slot st)) (as_slots W) =
      (released, L)" by fastforce
  have keep: "tl_status (retry_values o' r) = tl_status r \<and> tl_id (retry_values o' r) = tl_id r" for r
    by (simp add: retry_values_def)
  obtain r where r: "changed = Some r" "released" "x = RetryStored" "W' = W\<lparr>as_trials := R, as_slots := L\<rparr>"
    using assms(1,2) l by (auto simp: release_with_def split: if_splits)
  show ?thesis
    by (rule stored_byI [where v = v and f = "retry_values o'" and R = R0 and r = r])
       (use assms(3) l r keep in simp_all)
qed

lemma store_outcome_stored:
  assumes "store_outcome st o' t d W = (Inr x, W')" and "x \<noteq> NotStored"
  shows "stored_by st x W W'"
    and "\<exists>r. get_trial_by_id (tl_id (sr_trial st)) (as_trials W) = Some r \<and> tl_version r = tl_version (sr_trial st)"
proof -
  show "\<exists>r. get_trial_by_id (tl_id (sr_trial st)) (as_trials W) = Some r \<and> tl_version r = tl_version (sr_trial st)"
    using assms by (auto simp: store_outcome_def Let_def split: option.splits if_splits)
  show "stored_by st x W W'"
    using assms terminal_stored [OF _ assms(2)] retry_stored [OF _ assms(2)]
    unfolding store_outcome_def Let_def
    by (simp split: option.splits if_splits prod.splits sum.splits)
qed

lemma stored_by_outcome:
  assumes r: "reachable_at c W'" and st: "stored_by st x W W'"
  shows "\<exists>r. lookup tl_id (tl_id (sr_trial st)) (as_trials W') = Some r \<and> tl_status r = stored_status x"
proof -
  obtain v f R r where c: "conditionally_transition_trial (tl_id (sr_trial st)) TrialRunning v (stored_status x) f R =
       (Some r, as_trials W')" and keep: "\<And>r. tl_status (f r) = tl_status r \<and> tl_id (f r) = tl_id r"
    using st unfolding stored_by_def by blast
  let ?p = "\<lambda>r. tl_id r = tl_id (sr_trial st) \<and> tl_status r = TrialRunning \<and> tl_version r = v"
  let ?f = "bump_trial (\<lambda>r. f (r\<lparr>tl_status := stored_status x\<rparr>))"
  have W': "as_trials W' = update_where ?p ?f R" "at_most_one (returning ?p ?f R) = Some r"
    using c by (auto simp: conditionally_transition_trial_def update_trial_def)
  obtain q where q: "q \<in> set R" "?p q" "r = ?f q" using returning_Some [OF W'(2)] by blast
  have "r \<in> set (as_trials W')" unfolding W'(1) set_update_where using q by blast
  moreover have "tl_id r = tl_id (sr_trial st)" "tl_status r = stored_status x"
    using q keep [of "q\<lparr>tl_status := stored_status x\<rparr>"] by (simp_all add: bump_trial_def)
  moreover have "distinct (map tl_id (as_trials W'))" using reachable_ok [OF r] by (simp add: store_ok_def keys_ok_def)
  ultimately show ?thesis using lookup_distinct by metis
qed

lemma get_trial_lookup: "get_trial_by_id i R = lookup tl_id i R"
  by (induction R) (auto simp: get_trial_by_id_def)

lemma update_where_same: "update_where p f L = L \<Longrightarrow> r \<in> set L \<Longrightarrow> p r \<Longrightarrow> f r = r"
  by (induction L) auto

lemma free_slot_simps [simp]: "sl_trial (free_slot s) = None" "sl_version (free_slot s) = Suc (sl_version s)"
  by (simp_all add: free_slot_def bump_slot_def)

lemma stored_settles:
  assumes ok: "store_ok c W" and "store_outcome st o' t d W = (Inr x, W')" and "x \<noteq> NotStored"
  shows "settles (tl_id (sr_trial st)) W W'"
proof -
  have "release_slot (sl_number (sr_slot st)) (tl_id (sr_trial st)) (sl_version (sr_slot st)) (as_slots W) = (True, as_slots W')"
    using store_outcome_stored(1) [OF assms(2,3)] by (simp add: stored_by_def)
  then obtain s where s: "s \<in> set (as_slots W)" "sl_trial s = Some (tl_id (sr_trial st))"
    "as_slots W' = update_where (\<lambda>s'. sl_number s' = sl_number s \<and> sl_trial s' = Some (tl_id (sr_trial st)) \<and>
       sl_version s' = sl_version s) free_slot (as_slots W)"
    using release_slot_True by blast
  have "W' \<noteq> W"
  proof
    assume "W' = W"
    then have "free_slot s = s" using update_where_same [OF s(3) [symmetric, unfolded \<open>W' = W\<close>] s(1)] s(2) by simp
    then show False using free_slot_simps(2) [of s] by (metis n_not_Suc_n)
  qed
  moreover have "distinct (map tl_id (as_trials W))" using ok by (simp add: store_ok_def keys_ok_def)
  ultimately show ?thesis using store_outcome_cases [of W st o' t d] assms(2) by simp
qed

lemma settles_holders:
  assumes ok: "store_ok c W" and s: "settles i W W'"
  shows "i \<in> set (holders (as_slots W)) \<and> i \<notin> set (holders (as_slots W')) \<and>
    (\<exists>r \<in> set (as_trials W). tl_id r = i \<and> tl_status r = TrialRunning)"
proof -
  obtain slot where slot: "slot \<in> set (as_slots W)" "sl_trial slot = Some i"
    using s unfolding settles_def by blast
  have "slot_agrees (as_trials W) slot" using ok slot(1) by (simp add: store_ok_def slots_ok_def)
  then have running: "\<exists>r \<in> set (as_trials W). tl_id r = i \<and> tl_status r = TrialRunning"
    using slot(2) by (rule slot_agreesE) blast
  have held: "i \<in> set (holders L) \<longleftrightarrow> (\<exists>s \<in> set L. sl_trial s = Some i)" for L
    by (induction L) (auto simp: holders_def map_filter_simps split: option.splits)
  have "sl_trial s' \<noteq> Some i" if s': "s' \<in> set (as_slots W')" for s'
  proof
    assume i: "sl_trial s' = Some i"
    have ok': "store_ok c W'" by (rule settles_ok [OF ok s])
    then have "slot_agrees (as_trials W') s'" using s' by (simp add: store_ok_def slots_ok_def)
    then obtain r where "r \<in> set (as_trials W')" "tl_id r = i" "tl_status r = TrialRunning" using i by (rule slot_agreesE)
    then show False using s by (auto simp: settles_def)
  qed
  then show ?thesis using running held slot by blast
qed

text \<open>
  C10: A worker whose outcome is stored still held its claim: the row it claimed was running at the
  version it was given, and a slot was held by it. The transaction gives the trial the status of
  the outcome and frees the slot together; and whatever commits later, nothing more is ever
  stored from the same claim.
\<close>

theorem worker_outcome_is_fenced:
  assumes "reachable_at c W" and "store_outcome st o' t d W = (Inr x, W')" and "x \<noteq> NotStored"
    and "leads_to c W' c'' W''"
  shows "(\<exists>r. lookup tl_id (tl_id (sr_trial st)) (as_trials W) = Some r \<and>
       tl_version r = tl_version (sr_trial st) \<and> tl_status r = TrialRunning) \<and>
    (\<exists>r. lookup tl_id (tl_id (sr_trial st)) (as_trials W') = Some r \<and> tl_status r = stored_status x) \<and>
    tl_id (sr_trial st) \<in> set (holders (as_slots W)) \<and> tl_id (sr_trial st) \<notin> set (holders (as_slots W')) \<and>
    store_outcome st o2 t2 d2 W'' = (Inr NotStored, W'')"
proof -
  let ?i = "tl_id (sr_trial st)"
  have ok: "store_ok c W" by (rule reachable_ok [OF assms(1)])
  have d: "distinct (map tl_id (as_trials W))" using ok by (simp add: store_ok_def keys_ok_def)
  have reach': "reachable_at c W'"
    using reachable_at.commit [OF assms(1), of "StoreOutcome st o' t d"] assms(2) by simp
  have s: "settles ?i W W'" by (rule stored_settles [OF ok assms(2,3)])
  note held = settles_holders [OF ok s]
  obtain r where r: "lookup tl_id ?i (as_trials W) = Some r" "tl_version r = tl_version (sr_trial st)"
    using store_outcome_stored(2) [OF assms(2,3)] by (auto simp: get_trial_lookup)
  have running: "tl_status r = TrialRunning" using held r(1) lookup_distinct [OF d] by force
  obtain r' where r': "lookup tl_id ?i (as_trials W') = Some r'" "tl_status r' = stored_status x"
    using stored_by_outcome [OF reach' store_outcome_stored(1) [OF assms(2,3)]] by blast
  have moved: "trial_move\<^sup>*\<^sup>* r r'"
    using trials.evolves_lookup [OF _ r(1), of "as_trials W'"] s r'(1) by (auto simp: settles_def)
  have "tl_status r' \<noteq> TrialRunning" using s lookup_SomeD [OF r'(1)] by (auto simp: settles_def)
  then have "tl_version r' \<noteq> tl_version r" using trials.reach_same_ver [OF moved] running by auto
  then have newer: "tl_version r < tl_version r'" using trials.reach_ver [OF moved] by simp
  obtain r'' where r'': "lookup tl_id ?i (as_trials W'') = Some r''" "trial_move\<^sup>*\<^sup>* r' r''"
    using trials.evolves_lookup [OF _ r'(1)] leads_to_evolves [OF assms(4) reach'] by blast
  have "tl_version r'' \<noteq> tl_version (sr_trial st)" using trials.reach_ver [OF r''(2)] newer r(2) by simp
  then have "store_outcome st o2 t2 d2 W'' = (Inr NotStored, W'')"
    using r''(1) by (simp add: store_outcome_def Let_def get_trial_lookup)
  then show ?thesis using r running r' held by blast
qed

text \<open>The outcome of the first trial of the sample study, stored twice.\<close>

definition sample_outcome :: process_outcome where
  "sample_outcome = \<lparr>px_result = None, px_error_code = Some ''trial_timeout'', px_error_message = Some ''late''\<rparr>"

definition sample_started :: started_trial where
  "sample_started = (case start_trial 7 0 100 0 (automl_events (take 4 sample_events) empty_store) of
     (Inr (ClaimStarted st), W) \<Rightarrow> st | _ \<Rightarrow> undefined)"

lemma sample_stored:
  "fst (store_outcome sample_started sample_outcome 9 2 (automl_events (take 5 sample_events) empty_store)) =
     Inr (OutcomeStored TrialFailed)"
  by (simp add: sample_started_def sample_outcome_def sample_digests sample_defs study_table_defs trial_table_defs request_defs
      start_trial_def Let_def upt_rec numeral_3_eq_3 store_outcome_def get_trial_by_id_def terminal_store_def
      conditionally_transition_trial_def update_trial_def terminal_values_def release_with_def release_slot_def updated_count_def
      free_slot_def)

lemma worker_outcome_is_fenced_witness:
  "\<exists>W'. store_outcome sample_started sample_outcome 9 2 (automl_events (take 5 sample_events) empty_store) =
      (Inr (OutcomeStored TrialFailed), W') \<and>
    store_outcome sample_started sample_outcome 10 3 (apply_automl (RepairLeases 0) W') =
      (Inr NotStored, apply_automl (RepairLeases 0) W')"
proof -
  obtain W' where W': "store_outcome sample_started sample_outcome 9 2 (automl_events (take 5 sample_events) empty_store) =
      (Inr (OutcomeStored TrialFailed), W')"
    using sample_stored by (metis fst_conv surj_pair)
  have l: "leads_to 0 W' 0 (apply_automl (RepairLeases 0) W')" by (rule leads_to.committed [OF leads_to.nothing]) simp
  have "store_outcome sample_started sample_outcome 10 3 (apply_automl (RepairLeases 0) W') =
      (Inr NotStored, apply_automl (RepairLeases 0) W')"
    using worker_outcome_is_fenced [OF sample_store_reachable [of 5] W' _ l, of sample_outcome 10 3] by simp
  then show ?thesis using W' by blast
qed

end
