(* ===== verification/AutoML_Sampling.thy ===== *)
theory AutoML_Sampling
  imports AutoML_Models
begin

text \<open>
  Sampling and materialization of trials (\<^verbatim>\<open>ml/automl/sampling.py\<close>,
  \<^verbatim>\<open>ml/automl/materialization.py\<close>). The random generator of the standard library and
  the SHA-256 digests are parameters; what the code relies on of them is stated by
  \<open>good_generator\<close> and \<open>good_digests\<close>.
\<close>

section \<open>Randomness and digests\<close>

text \<open>
  \<open>gr_log_uniform\<close> stands for the floating-point value of
  \<^verbatim>\<open>exp(uniform(log(low), log(high)))\<close>, which the code clamps to the interval.
  \<open>gr_choice n\<close> is the index that \<^verbatim>\<open>choice\<close> takes in a sequence of length n.
\<close>

record 'g generator =
  gr_seed :: "int \<Rightarrow> 'g"
  gr_randint :: "int \<Rightarrow> int \<Rightarrow> 'g \<Rightarrow> int \<times> 'g"
  gr_choice :: "nat \<Rightarrow> 'g \<Rightarrow> nat \<times> 'g"
  gr_uniform :: "real \<Rightarrow> real \<Rightarrow> 'g \<Rightarrow> real \<times> 'g"
  gr_log_uniform :: "real \<Rightarrow> real \<Rightarrow> 'g \<Rightarrow> real \<times> 'g"

definition good_generator :: "'g generator \<Rightarrow> bool" where
  "good_generator gen \<longleftrightarrow>
     (\<forall>a b g. a \<le> b \<longrightarrow> a \<le> fst (gr_randint gen a b g) \<and> fst (gr_randint gen a b g) \<le> b) \<and>
     (\<forall>n g. 0 < n \<longrightarrow> fst (gr_choice gen n g) < n) \<and>
     (\<forall>a b g. a \<le> b \<longrightarrow> a \<le> fst (gr_uniform gen a b g) \<and> fst (gr_uniform gen a b g) \<le> b)"

record digests =
  dg_space :: "search_space \<Rightarrow> string"
  dg_seed_word :: "int \<Rightarrow> string \<Rightarrow> nat \<Rightarrow> string \<Rightarrow> nat"
  dg_parameters :: "(string \<times> pyval) list \<Rightarrow> string"

definition good_digests :: "digests \<Rightarrow> bool" where
  "good_digests dg \<longleftrightarrow> (\<forall>ps. sha256_digest (dg_parameters dg ps))"

section \<open>Sampling\<close>

definition derive_trial_seed :: "digests \<Rightarrow> int \<Rightarrow> string \<Rightarrow> nat \<Rightarrow> string \<Rightarrow> int" where
  "derive_trial_seed dg study_seed plugin number fingerprint =
     int (dg_seed_word dg study_seed plugin number fingerprint mod 2 ^ 31)"

fun sample_parameter :: "'g generator \<Rightarrow> search_parameter \<Rightarrow> 'g \<Rightarrow> pyval \<times> 'g" where
  "sample_parameter gen (IntegerSearch n low high step d) g =
     (case gr_randint gen 0 ((high - low) div step) g of (k, g') \<Rightarrow> (JInt (low + k * step), g'))"
| "sample_parameter gen (CategoricalSearch n cs d) g =
     (case gr_choice gen (length cs) g of (i, g') \<Rightarrow> (cs ! i, g'))"
| "sample_parameter gen (FloatSearch n low high step d logs) g =
     (if logs then (case gr_log_uniform gen low high g of (v, g') \<Rightarrow> (JFloat (Fin (min (max v low) high)), g'))
      else (case step of
          None \<Rightarrow> (case gr_uniform gen low high g of (v, g') \<Rightarrow> (JFloat (Fin v), g'))
        | Some s \<Rightarrow> (case gr_randint gen 0 \<lfloor>(high - low) / s\<rfloor> g of
            (k, g') \<Rightarrow> (JFloat (Fin (low + s * real_of_int k)), g'))))"

fun sample_parameters :: "'g generator \<Rightarrow> search_parameter list \<Rightarrow> 'g \<Rightarrow> (string \<times> pyval) list" where
  "sample_parameters gen [] g = []"
| "sample_parameters gen (p # ps) g =
     (case sample_parameter gen p g of (v, g') \<Rightarrow> (parameter_name p, v) # sample_parameters gen ps g')"

definition sample_plugin_trial ::
    "'g generator \<Rightarrow> digests \<Rightarrow> model_plugin \<Rightarrow> int \<Rightarrow> nat \<Rightarrow> search_space option \<Rightarrow> trial_specification result" where
  "sample_plugin_trial gen dg pl study_seed number space =
     (case plugin_search_space pl of
        None \<Rightarrow> Inl (value_error ''The plugin does not support AutoML.'')
      | Some plugin_owned \<Rightarrow>
         (let owned = (case space of None \<Rightarrow> plugin_owned | Some sp \<Rightarrow> sp) in
          bind_result (validate_narrowed_search_space plugin_owned owned) (\<lambda>_.
          bind_result (validate_automl_search_space pl owned) (\<lambda>_.
          (let seed = derive_trial_seed dg study_seed (plugin_id pl) number (dg_space dg owned);
               sampled = sample_parameters gen (sort_key parameter_name (ss_parameters owned)) (gr_seed gen seed) in
           bind_result (validate_parameters pl sampled) (\<lambda>_.
           (let canonical = sort_key fst sampled in
            make_trial_specification (dg_parameters dg)
              \<lparr>ts_study_seed = study_seed, ts_number = number, ts_plugin = plugin_id pl,
               ts_parameters = canonical, ts_seed = seed, ts_fingerprint = dg_parameters dg canonical\<rparr>)))))))"

section \<open>Materialization\<close>

record materialization =
  mt_trials :: "trial_specification list"
  mt_exhausted :: bool

definition space_of :: "search_space list \<Rightarrow> string \<rightharpoonup> search_space" where
  "space_of spaces = map_of (rev (map (\<lambda>sp. (ss_plugin sp, sp)) spaces))"

definition plugin_turn :: "string list \<Rightarrow> nat \<Rightarrow> string" where
  "plugin_turn ids number = ids ! (number mod length ids)"

fun materialize_loop ::
    "'g generator \<Rightarrow> digests \<Rightarrow> task_type \<Rightarrow> string list \<Rightarrow> search_space list \<Rightarrow> int \<Rightarrow> nat list \<Rightarrow>
     string list \<Rightarrow> trial_specification list \<Rightarrow> trial_specification list result" where
  "materialize_loop gen dg task ids spaces seed [] seen found = Inr found"
| "materialize_loop gen dg task ids spaces seed (n # ns) seen found =
     bind_result (plugin_registry_get (plugin_turn ids n) (Some task)) (\<lambda>pl.
     bind_result (sample_plugin_trial gen dg pl seed n (space_of spaces (plugin_turn ids n))) (\<lambda>t.
     (let scoped = plugin_turn ids n @ '':'' @ ts_fingerprint t in
      if scoped \<in> set seen then materialize_loop gen dg task ids spaces seed ns seen found
      else materialize_loop gen dg task ids spaces seed ns (scoped # seen) (found @ [t]))))"

definition materialize_trials ::
    "'g generator \<Rightarrow> digests \<Rightarrow> task_type \<Rightarrow> string list \<Rightarrow> search_space list \<Rightarrow> int \<Rightarrow> int \<Rightarrow> materialization result" where
  "materialize_trials gen dg task ids spaces seed budget =
     (if \<not> (1 \<le> budget \<and> budget \<le> 100)
      then Inl (value_error ''AutoML trial budget must be between 1 and 100.'')
      else if ids = []
      then Inl (value_error ''AutoML materialization requires at least one plugin.'')
      else if set (map ss_plugin spaces) \<noteq> set ids
      then Inl (value_error ''Every AutoML plugin requires one search-space snapshot.'')
      else bind_result (materialize_loop gen dg task ids spaces seed [0 ..< nat budget] [] []) (\<lambda>trials.
        Inr \<lparr>mt_trials = trials, mt_exhausted = (int (length trials) < budget)\<rparr>))"

section \<open>Samples are points of the space\<close>

lemma sample_parameter_point:
  assumes gen: "good_generator gen" and wf: "wf_parameter p"
  shows "fst (sample_parameter gen p g) \<in> points p"
proof (cases p)
  case (IntegerSearch n low high step d)
  then have w: "0 < step" "low \<le> high" using wf by auto
  obtain k g' where k: "gr_randint gen 0 ((high - low) div step) g = (k, g')" by fastforce
  have "0 \<le> (high - low) div step" using w by (simp add: pos_imp_zdiv_nonneg_iff)
  then have kb: "0 \<le> k" "k \<le> (high - low) div step"
    using gen k unfolding good_generator_def by (metis fst_conv)+
  have "k * step \<le> (high - low) div step * step" using kb w by (simp add: mult_right_mono)
  also have "\<dots> \<le> high - low" using w by (metis add.commute le_add_same_cancel1 div_mult_mod_eq less_imp_le pos_mod_sign)
  finally show ?thesis using IntegerSearch k kb w by simp
next
  case (FloatSearch n low high step d logs)
  then have w: "low \<le> high" "\<forall>s. step = Some s \<longrightarrow> 0 < s" "logs \<longrightarrow> step = None" using wf by auto
  show ?thesis
  proof (cases logs)
    case True
    obtain v g' where v: "gr_log_uniform gen low high g = (v, g')" by fastforce
    show ?thesis using FloatSearch True w v by auto
  next
    case linear: False
    show ?thesis
    proof (cases step)
      case None
      obtain v g' where v: "gr_uniform gen low high g = (v, g')" by fastforce
      have "low \<le> v" "v \<le> high" using gen w(1) v unfolding good_generator_def by (metis fst_conv)+
      then show ?thesis using FloatSearch linear None v by simp
    next
      case (Some s)
      obtain k g' where k: "gr_randint gen 0 \<lfloor>(high - low) / s\<rfloor> g = (k, g')" by fastforce
      have s: "0 < s" using w(2) Some by simp
      then have "0 \<le> \<lfloor>(high - low) / s\<rfloor>" using w(1) by simp
      then have kb: "0 \<le> k" "k \<le> \<lfloor>(high - low) / s\<rfloor>" using gen k unfolding good_generator_def by (metis fst_conv)+
      have "real_of_int k \<le> (high - low) / s" using kb(2) by (simp add: le_floor_iff)
      then have "low + s * real_of_int k \<le> high" using s by (simp add: field_simps)
      moreover have "aligned (low + s * real_of_int k) low s" using s by (simp add: aligned_def)
      ultimately show ?thesis using FloatSearch linear Some k kb(1) s by simp
    qed
  qed
next
  case (CategoricalSearch n cs d)
  obtain i g' where i: "gr_choice gen (length cs) g = (i, g')" by fastforce
  have "0 < length cs" using wf CategoricalSearch by auto
  then have "i < length cs" using gen i unfolding good_generator_def by (metis fst_conv)
  then show ?thesis using CategoricalSearch i by simp
qed

lemma sampled_points:
  assumes "good_generator gen" and "\<forall>p \<in> set ps. wf_parameter p"
  shows "map fst (sample_parameters gen ps g) = map parameter_name ps \<and>
    list_all2 (\<lambda>p nv. snd nv \<in> points p) ps (sample_parameters gen ps g)"
  using assms(2)
proof (induction ps arbitrary: g)
  case (Cons p ps)
  obtain v g' where v: "sample_parameter gen p g = (v, g')" by fastforce
  have "v \<in> points p" using sample_parameter_point [OF assms(1), of p g] Cons.prems v by simp
  then show ?case using Cons.IH [of g'] Cons.prems v by simp
qed simp

section \<open>A validated study materializes\<close>

lemma registered_plugin:
  assumes "plugin_registry_get i (Some task) = Inr pl"
  shows "pl \<in> set default_plugins \<and> plugin_id pl = i \<and> key_task (plugin_key pl) = task"
proof -
  have "map_of (map (\<lambda>p. (plugin_id p, p)) default_plugins) i = Some pl \<and> key_task (plugin_key pl) = task"
    using assms unfolding plugin_registry_get_def default_registry bind_result.simps registry_get_def plugin_registry.simps
    by (simp split: option.splits if_splits)
  then show ?thesis using map_of_SomeD by fastforce
qed

lemma validated_space:
  assumes "validate_study_spaces task sps = Inr ()" and "sp \<in> set sps"
  shows "\<exists>pl owned r. plugin_registry_get (ss_plugin sp) (Some task) = Inr pl \<and> plugin_search_space pl = Some owned \<and>
    validate_automl_search_space pl sp = Inr () \<and> validate_narrowed_search_space owned sp = Inr r"
  using assms by (induction sps) (auto split: option.splits)

lemma validate_parameters_same:
  assumes "map_of s = map_of s'" and "set (map fst s) = set (map fst s')"
  shows "is_ok (validate_parameters pl s) = is_ok (validate_parameters pl s')"
proof -
  have "unknown_names pl s = [] \<longleftrightarrow> unknown_names pl s' = []"
    using assms(2) unfolding unknown_names_def set_empty [symmetric] set_sort set_filter set_remdups by auto
  then show ?thesis by (simp add: validate_parameters_def validate_definitions_ok assms(1))
qed

lemma made_parameters_length: "make_search_parameters ps = Inr qs \<Longrightarrow> length qs = length ps"
  by (induction ps arbitrary: qs) auto

lemma sampled_valid:
  fixes gen :: "'g generator" and g :: 'g
  assumes gen: "good_generator gen" and sp: "make_search_space sp0 = Inr sp"
    and valid: "validate_automl_search_space pl sp = Inr ()" and pl: "pl \<in> set default_plugins"
  defines "sampled \<equiv> sample_parameters gen (sort_key parameter_name (ss_parameters sp)) g"
  shows "is_ok (validate_parameters pl sampled)" and "length sampled \<le> 32"
    and "list_all (\<lambda>(n, v). \<exists>p \<in> set (ss_parameters sp). parameter_name p = n \<and> v \<in> points p) sampled"
    and "sorted (map fst sampled)" and "distinct (map fst sampled)"
proof -
  let ?ps = "sort_key parameter_name (ss_parameters sp)"
  note wf = made_space_wf [OF sp]
  have s: "map fst sampled = map parameter_name ?ps" "list_all2 (\<lambda>p nv. snd nv \<in> points p) ?ps sampled"
    using sampled_points [OF gen, of ?ps g] wf(2) by (simp_all add: sampled_def)
  have len: "length sampled = length (ss_parameters sp)" using arg_cong [OF s(1), of length] by simp
  show "length sampled \<le> 32" using sp len by (auto simp: make_search_space_def dest: made_parameters_length)
  show "sorted (map fst sampled)" using s(1) by simp
  have dn: "distinct (map parameter_name ?ps)"
    using wf(1) by (metis distinct_map distinct_sort set_sort)
  then show dist: "distinct (map fst sampled)" using s(1) by simp
  have point: "\<exists>v. map_of sampled (parameter_name p) = Some v \<and> v \<in> points p" if p': "p \<in> set (ss_parameters sp)" for p
  proof -
    obtain k where k: "k < length ?ps" "?ps ! k = p" using p' by (metis in_set_conv_nth set_sort)
    then have kl: "k < length sampled" using len by simp
    have "fst (sampled ! k) = parameter_name p" using s(1) k kl by (metis nth_map)
    moreover have "snd (sampled ! k) \<in> points p" using s(2) k by (auto simp: list_all2_conv_all_nth)
    ultimately show ?thesis using dist kl by (metis map_of_eq_Some_iff nth_mem prod.collapse)
  qed
  define f where "f n = the (map_of sampled n)" for n
  have f: "f \<in> assignments sp" using point by (force simp: assignments_def f_def)
  have names: "set (map fst sampled) = parameter_name ` set (ss_parameters sp)" using s(1) by simp
  have same: "map_of sampled = map_of (trial_values sp f)"
  proof
    fix n
    show "map_of sampled n = map_of (trial_values sp f) n"
    proof (cases "n \<in> parameter_name ` set (ss_parameters sp)")
      case True
      then obtain p where p: "p \<in> set (ss_parameters sp)" "n = parameter_name p" by blast
      obtain v where "map_of sampled n = Some v" using point [OF p(1)] p(2) by blast
      then show ?thesis using True by (simp add: trial_lookup f_def)
    next
      case False
      then have "map_of sampled n = None" using names by (simp add: map_of_eq_None_iff)
      then show ?thesis using False by (simp add: trial_lookup)
    qed
  qed
  have "is_ok (validate_parameters pl (trial_values sp f))"
    by (rule trial_values_validate [OF valid f]) (use catalog_defaults_valid [OF pl] in blast)
  then show "is_ok (validate_parameters pl sampled)"
    by (subst validate_parameters_same [OF same]) (simp_all only: names, simp add: trial_values_def image_image)
  show "list_all (\<lambda>(n, v). \<exists>p \<in> set (ss_parameters sp). parameter_name p = n \<and> v \<in> points p) sampled"
  proof (clarsimp simp: list_all_iff)
    fix n v assume nv: "(n, v) \<in> set sampled"
    then have "n \<in> parameter_name ` set (ss_parameters sp)" using names by (metis fst_conv image_eqI set_map)
    then obtain p where p: "p \<in> set (ss_parameters sp)" "n = parameter_name p" by blast
    then show "\<exists>p \<in> set (ss_parameters sp). parameter_name p = n \<and> v \<in> points p"
      using point [OF p(1)] nv dist by (metis map_of_is_SomeI option.inject)
  qed
qed

definition sampled_from :: "search_space list \<Rightarrow> trial_specification \<Rightarrow> bool" where
  "sampled_from spaces t \<longleftrightarrow> (\<exists>sp \<in> set spaces. ss_plugin sp = ts_plugin t \<and>
     sorted (map fst (ts_parameters t)) \<and> distinct (map fst (ts_parameters t)) \<and>
     fst ` set (ts_parameters t) = parameter_name ` set (ss_parameters sp) \<and>
     list_all (\<lambda>(n, v). \<exists>p \<in> set (ss_parameters sp). parameter_name p = n \<and> v \<in> points p) (ts_parameters t))"

lemma safe_name_idem: "safe_name s = Inr t \<Longrightarrow> safe_name t = Inr t"
  by (auto simp: safe_name_def Let_def split: if_splits)

lemma made_space_name: "make_search_space sp0 = Inr sp \<Longrightarrow> is_ok (safe_name (ss_plugin sp))"
proof -
  assume "make_search_space sp0 = Inr sp"
  then have "safe_name (ss_plugin sp0) = Inr (ss_plugin sp)" by (auto simp: make_search_space_def)
  then have "safe_name (ss_plugin sp) = Inr (ss_plugin sp)" by (rule safe_name_idem)
  then show ?thesis by simp
qed

lemma sample_trial_ok:
  fixes gen :: "'g generator"
  assumes gen: "good_generator gen" and dg: "good_digests dg" and sp: "make_search_space sp0 = Inr sp"
    and pl: "pl \<in> set default_plugins" and owned: "plugin_search_space pl = Some owned"
    and valid: "validate_automl_search_space pl sp = Inr ()" "validate_narrowed_search_space owned sp = Inr r"
    and id: "plugin_id pl = ss_plugin sp" and mem: "sp \<in> set spaces"
  shows "\<exists>t. sample_plugin_trial gen dg pl seed n (Some sp) = Inr t \<and> ts_number t = n \<and> ts_plugin t = plugin_id pl \<and>
    ts_study_seed t = seed \<and> 0 \<le> ts_seed t \<and> ts_seed t < 2 ^ 31 \<and> sha256_digest (ts_fingerprint t) \<and> sampled_from spaces t"
proof -
  let ?seed = "derive_trial_seed dg seed (plugin_id pl) n (dg_space dg sp)"
  let ?sampled = "sample_parameters gen (sort_key parameter_name (ss_parameters sp)) (gr_seed gen ?seed)"
  note s = sampled_valid [OF gen sp valid(1) pl, of "gr_seed gen ?seed"]
  have sorted: "sort_key fst ?sampled = ?sampled" using s(4) by (rule sort_key_id_if_sorted)
  obtain vs where vs: "validate_parameters pl ?sampled = Inr vs" using s(1) by (cases "validate_parameters pl ?sampled") auto
  have "map fst ?sampled = map parameter_name (sort_key parameter_name (ss_parameters sp))"
    using sampled_points [OF gen, of "sort_key parameter_name (ss_parameters sp)"] made_space_wf(2) [OF sp] by simp
  then have names: "fst ` set ?sampled = parameter_name ` set (ss_parameters sp)"
    by (metis set_map set_sort)
  have digest: "sha256_digest (dg_parameters dg ?sampled)" using dg by (simp add: good_digests_def)
  let ?t = "\<lparr>ts_study_seed = seed, ts_number = n, ts_plugin = plugin_id pl, ts_parameters = ?sampled, ts_seed = ?seed,
    ts_fingerprint = dg_parameters dg ?sampled\<rparr>"
  have "sample_plugin_trial gen dg pl seed n (Some sp) = Inr ?t"
    using owned valid vs sorted digest s(2) made_space_name [OF sp] id
    by (simp add: sample_plugin_trial_def Let_def make_trial_specification_def)
  moreover have "0 \<le> ?seed" "?seed < 2 ^ 31" by (simp_all add: derive_trial_seed_def)
  moreover have "sampled_from spaces ?t" unfolding sampled_from_def using mem names s(3,4,5) id by (intro bexI [OF _ mem]) simp
  ultimately show ?thesis using digest by (intro exI [of _ ?t]) simp
qed

lemma space_of_distinct:
  "distinct (map ss_plugin spaces) \<Longrightarrow> sp \<in> set spaces \<Longrightarrow> space_of spaces (ss_plugin sp) = Some sp"
  unfolding space_of_def by (rule map_of_is_SomeI) (simp_all add: rev_map [symmetric] comp_def distinct_rev)

definition materialized :: "string list \<Rightarrow> search_space list \<Rightarrow> int \<Rightarrow> nat \<Rightarrow> trial_specification list \<Rightarrow> bool" where
  "materialized ids spaces seed budget ts \<longleftrightarrow>
     sorted_wrt (<) (map ts_number ts) \<and> list_all (\<lambda>t. ts_number t < budget) ts \<and>
     distinct (map (\<lambda>t. (ts_plugin t, ts_fingerprint t)) ts) \<and>
     list_all (\<lambda>t. ts_plugin t = plugin_turn ids (ts_number t) \<and> ts_study_seed t = seed \<and>
       0 \<le> ts_seed t \<and> ts_seed t < 2 ^ 31 \<and> sha256_digest (ts_fingerprint t) \<and> sampled_from spaces t) ts"

lemma scoped_inject:
  assumes "sha256_digest f" and "sha256_digest f'" and "p @ '':'' @ f = p' @ '':'' @ f'"
  shows "p = p' \<and> f = f'"
proof -
  have "length ('':'' @ f) = length ('':'' @ f')" using assms(1,2) by (simp add: sha256_digest_def)
  then show ?thesis using assms(3) by (metis append_eq_append_conv same_append_eq)
qed

lemma materialized_snoc:
  assumes m: "materialized ids spaces seed budget ts" and new: "list_all (\<lambda>t'. ts_number t' < ts_number t) ts"
    and t: "ts_plugin t = plugin_turn ids (ts_number t)" "ts_study_seed t = seed" "0 \<le> ts_seed t" "ts_seed t < 2 ^ 31"
      "sha256_digest (ts_fingerprint t)" "sampled_from spaces t" "ts_number t < budget"
    and fresh: "ts_plugin t @ '':'' @ ts_fingerprint t \<notin> (\<lambda>t. ts_plugin t @ '':'' @ ts_fingerprint t) ` set ts"
  shows "materialized ids spaces seed budget (ts @ [t])"
proof -
  have "(ts_plugin t, ts_fingerprint t) \<notin> (\<lambda>t. (ts_plugin t, ts_fingerprint t)) ` set ts"
    using fresh by force
  then show ?thesis using m new t unfolding materialized_def by (simp add: sorted_wrt_append list_all_iff)
qed

lemma materialize_loop_ok:
  fixes gen :: "'g generator"
  assumes each: "\<And>n. \<exists>pl sp t. plugin_registry_get (plugin_turn ids n) (Some task) = Inr pl \<and>
      space_of spaces (plugin_turn ids n) = Some sp \<and> sample_plugin_trial gen dg pl seed n (Some sp) = Inr t \<and>
      ts_number t = n \<and> ts_plugin t = plugin_turn ids n \<and> ts_study_seed t = seed \<and> 0 \<le> ts_seed t \<and> ts_seed t < 2 ^ 31 \<and>
      sha256_digest (ts_fingerprint t) \<and> sampled_from spaces t"
    and "materialized ids spaces seed budget found" and "seen = rev (map (\<lambda>t. ts_plugin t @ '':'' @ ts_fingerprint t) found)"
    and "sorted_wrt (<) ns" and "\<forall>n \<in> set ns. n < budget \<and> (\<forall>t \<in> set found. ts_number t < n)"
  shows "\<exists>ts. materialize_loop gen dg task ids spaces seed ns seen found = Inr (found @ ts) \<and>
    materialized ids spaces seed budget (found @ ts) \<and> length ts \<le> length ns \<and> (found = [] \<and> ns \<noteq> [] \<longrightarrow> ts \<noteq> [])"
  using assms(2-)
proof (induction ns arbitrary: seen found)
  case (Cons n ns)
  obtain pl sp t where t: "plugin_registry_get (plugin_turn ids n) (Some task) = Inr pl"
    "space_of spaces (plugin_turn ids n) = Some sp" "sample_plugin_trial gen dg pl seed n (Some sp) = Inr t"
    "ts_number t = n" "ts_plugin t = plugin_turn ids n" "ts_study_seed t = seed" "0 \<le> ts_seed t" "ts_seed t < 2 ^ 31"
    "sha256_digest (ts_fingerprint t)" "sampled_from spaces t"
    using each [of n] by blast
  let ?scoped = "plugin_turn ids n @ '':'' @ ts_fingerprint t"
  show ?case
  proof (cases "?scoped \<in> set seen")
    case True
    then have "found \<noteq> []" using Cons.prems(2) by auto
    have "\<exists>ts. materialize_loop gen dg task ids spaces seed ns seen found = Inr (found @ ts) \<and>
      materialized ids spaces seed budget (found @ ts) \<and> length ts \<le> length ns \<and> (found = [] \<and> ns \<noteq> [] \<longrightarrow> ts \<noteq> [])"
      by (rule Cons.IH) (use Cons.prems in auto)
    then show ?thesis using t True \<open>found \<noteq> []\<close> by (auto simp: Let_def)
  next
    case False
    have m: "materialized ids spaces seed budget (found @ [t])"
      by (rule materialized_snoc [OF Cons.prems(1)])
         (use t False Cons.prems in \<open>auto simp: list_all_iff\<close>)
    have "\<exists>ts. materialize_loop gen dg task ids spaces seed ns (?scoped # seen) (found @ [t]) = Inr ((found @ [t]) @ ts) \<and>
      materialized ids spaces seed budget ((found @ [t]) @ ts) \<and> length ts \<le> length ns \<and> (found @ [t] = [] \<and> ns \<noteq> [] \<longrightarrow> ts \<noteq> [])"
      by (rule Cons.IH) (use m t Cons.prems in auto)
    then obtain ts where ts: "materialize_loop gen dg task ids spaces seed ns (?scoped # seen) (found @ [t]) = Inr (found @ t # ts)"
      "materialized ids spaces seed budget (found @ t # ts)" "length ts \<le> length ns" by auto
    have "materialize_loop gen dg task ids spaces seed (n # ns) seen found = Inr (found @ t # ts)"
      using t False ts(1) by (simp add: Let_def)
    then show ?thesis using ts by (intro exI [of _ "t # ts"]) simp
  qed
qed simp

lemma validated_study_parts:
  assumes "make_study_specification sy = Inr sy'"
  shows "distinct (map ss_plugin (sy_spaces sy))" "ss_plugin ` set (sy_spaces sy) = set (sy_plugins sy)"
    "sy_plugins sy \<noteq> []" "validate_study_spaces (sy_task sy) (sy_spaces sy) = Inr ()"
    "1 \<le> bu_trials (sy_budget sy)" "bu_trials (sy_budget sy) \<le> 100"
proof -
  have v: "validate_study sy = Inr ()" and b: "is_ok (make_budget (sy_budget sy))" and l: "1 \<le> length (sy_plugins sy)"
    using assms by (auto simp: make_study_specification_def split: if_splits)
  show "distinct (map ss_plugin (sy_spaces sy))" "ss_plugin ` set (sy_spaces sy) = set (sy_plugins sy)"
    using v by (simp_all add: validate_study_def)
  show "validate_study_spaces (sy_task sy) (sy_spaces sy) = Inr ()"
    using v by (auto simp: validate_study_def)
  show "sy_plugins sy \<noteq> []" using l by auto
  show "1 \<le> bu_trials (sy_budget sy)" "bu_trials (sy_budget sy) \<le> 100"
    using b by (simp_all add: make_budget_def split: if_splits)
qed

text \<open>
  C17: A study whose specification was accepted always materializes: sampling never fails. The
  trials take turns over the plugins, have distinct numbers within the budget and distinct
  parameters per plugin, seeds a database integer can hold, and every parameter lies in the
  search space of the study; a trial is missing only when its sample repeats an earlier one.
\<close>

theorem validated_study_materializes:
  assumes "good_generator gen" and "good_digests dg" and "make_study_specification sy = Inr sy'"
    and "list_all (\<lambda>sp. \<exists>sp0. make_search_space sp0 = Inr sp) (sy_spaces sy)"
  shows "\<exists>m. materialize_trials gen dg (sy_task sy) (sy_plugins sy) (sy_spaces sy) seed (bu_trials (sy_budget sy)) = Inr m \<and>
    materialized (sy_plugins sy) (sy_spaces sy) seed (nat (bu_trials (sy_budget sy))) (mt_trials m) \<and>
    mt_trials m \<noteq> [] \<and> int (length (mt_trials m)) \<le> bu_trials (sy_budget sy) \<and>
    mt_exhausted m = (int (length (mt_trials m)) < bu_trials (sy_budget sy))"
proof -
  let ?ids = "sy_plugins sy" and ?spaces = "sy_spaces sy" and ?task = "sy_task sy" and ?n = "bu_trials (sy_budget sy)"
  note parts = validated_study_parts [OF assms(3)]
  have each: "\<exists>pl sp t. plugin_registry_get (plugin_turn ?ids n) (Some ?task) = Inr pl \<and>
      space_of ?spaces (plugin_turn ?ids n) = Some sp \<and> sample_plugin_trial gen dg pl seed n (Some sp) = Inr t \<and>
      ts_number t = n \<and> ts_plugin t = plugin_turn ?ids n \<and> ts_study_seed t = seed \<and> 0 \<le> ts_seed t \<and> ts_seed t < 2 ^ 31 \<and>
      sha256_digest (ts_fingerprint t) \<and> sampled_from ?spaces t" for n
  proof -
    have "plugin_turn ?ids n \<in> set ?ids" using parts(3) by (simp add: plugin_turn_def)
    then obtain sp where sp: "sp \<in> set ?spaces" "ss_plugin sp = plugin_turn ?ids n" using parts(2) by (metis imageE)
    obtain pl owned r where v: "plugin_registry_get (ss_plugin sp) (Some ?task) = Inr pl" "plugin_search_space pl = Some owned"
      "validate_automl_search_space pl sp = Inr ()" "validate_narrowed_search_space owned sp = Inr r"
      using validated_space [OF parts(4) sp(1)] by blast
    obtain sp0 where sp0: "make_search_space sp0 = Inr sp" using assms(4) sp(1) by (auto simp: list_all_iff)
    note pl = registered_plugin [OF v(1)]
    have id: "plugin_id pl = ss_plugin sp" using pl by simp
    obtain t where "sample_plugin_trial gen dg pl seed n (Some sp) = Inr t" "ts_number t = n" "ts_plugin t = plugin_id pl"
      "ts_study_seed t = seed" "0 \<le> ts_seed t" "ts_seed t < 2 ^ 31" "sha256_digest (ts_fingerprint t)" "sampled_from ?spaces t"
      using sample_trial_ok [OF assms(1,2) sp0 _ v(2,3,4) id sp(1), of seed n] pl by blast
    then show ?thesis using v(1) sp id space_of_distinct [OF parts(1) sp(1)] by (intro exI [of _ pl] exI [of _ sp] exI [of _ t]) simp
  qed
  have "\<exists>ts. materialize_loop gen dg ?task ?ids ?spaces seed [0 ..< nat ?n] [] [] = Inr ([] @ ts) \<and>
    materialized ?ids ?spaces seed (nat ?n) ([] @ ts) \<and> length ts \<le> length [0 ..< nat ?n] \<and>
    ([] = ([] :: trial_specification list) \<and> [0 ..< nat ?n] \<noteq> [] \<longrightarrow> ts \<noteq> [])"
    by (rule materialize_loop_ok [OF each]) (simp_all add: materialized_def)
  then obtain ts where ts: "materialize_loop gen dg ?task ?ids ?spaces seed [0 ..< nat ?n] [] [] = Inr ts"
    "materialized ?ids ?spaces seed (nat ?n) ts" "length ts \<le> nat ?n" "ts \<noteq> []"
    using parts(5) by auto
  have "int (length ts) \<le> ?n" using ts(3) parts(5) by simp
  then show ?thesis using parts ts by (simp add: materialize_trials_def)
qed

definition unit_generator :: "unit generator" where
  "unit_generator = \<lparr>gr_seed = \<lambda>s. (), gr_randint = \<lambda>a b g. (a, g), gr_choice = \<lambda>n g. (0, g),
     gr_uniform = \<lambda>a b g. (a, g), gr_log_uniform = \<lambda>a b g. (a, g)\<rparr>"

definition constant_digests :: digests where
  "constant_digests = \<lparr>dg_space = \<lambda>sp. ''s'', dg_seed_word = \<lambda>s p n f. n, dg_parameters = \<lambda>ps. replicate 64 CHR ''a''\<rparr>"

definition ridge_space :: search_space where
  "ridge_space = \<lparr>ss_plugin = ''ridge_regression'', ss_task = Regression,
     ss_parameters = [FloatSearch ''alpha'' (1/1000) 100 None 1 True,
       CategoricalSearch ''fit_intercept'' [JBool True, JBool False] (JBool True)], ss_probability = False\<rparr>"

definition ridge_study :: study_specification where
  "ridge_study = \<lparr>sy_task = Regression, sy_metric = ''rmse'', sy_direction = Minimize, sy_seed = 3,
     sy_plugins = [''ridge_regression''], sy_spaces = [ridge_space], sy_scaler = ScalerAuto, sy_imputer = ImputerNone,
     sy_data = \<lparr>da_dataset_version = Some 4, da_training_fingerprint = None, da_evaluation_fingerprint = None,
       da_training_rows = None, da_evaluation_rows = None, da_features = None, da_training_features = None,
       da_training_targets = None, da_evaluation_features = None, da_evaluation_targets = None\<rparr>,
     sy_budget = \<lparr>bu_trials = 2, bu_time = 600, bu_trial_timeout = 60, bu_concurrent = 1, bu_folds = 3\<rparr>,
     sy_register = False, sy_model_name = None\<rparr>"

lemma ridge_registered: "plugin_registry_get ''ridge_regression'' (Some Regression) = Inr plugin_ridge_regression"
proof -
  have m: "plugin_ridge_regression \<in> set default_plugins" by (simp add: catalog_defs)
  have "map_of (map (\<lambda>p. (plugin_id p, p)) default_plugins) (plugin_id plugin_ridge_regression) = Some plugin_ridge_regression"
    using m default_ids_distinct by (intro map_of_is_SomeI) (auto simp: comp_def)
  then show ?thesis unfolding plugin_registry_get_def default_registry
    by (simp add: registry_get_def plugin_ridge_regression_def)
qed

lemma ridge_space_made: "make_search_space ridge_space = Inr ridge_space"
  by (simp add: ridge_space_def make_search_space_def safe_name_def strip_def lstrip_def py_isspace_def name_head_def
      lower_char_def upper_char_def ascii_digit_def guard_that_def)

lemma ridge_space_owned: "plugin_search_space plugin_ridge_regression = Some ridge_space"
  by (simp add: plugin_ridge_regression_def ridge_space_def)

lemma ridge_study_accepted: "make_study_specification ridge_study = Inr ridge_study"
proof -
  have "validate_automl_search_space plugin_ridge_regression ridge_space = Inr ()"
    by (rule catalog_space_valid [OF _ ridge_space_owned]) (simp add: catalog_defs)
  moreover have "validate_narrowed_search_space ridge_space ridge_space = Inr ridge_space"
    by (simp add: ridge_space_def validate_narrowed_search_space_def parameter_named_def)
  ultimately have "validate_study_spaces Regression [ridge_space] = Inr ()"
    using ridge_registered ridge_space_owned by (simp add: ridge_space_def)
  then show ?thesis
    by (simp add: ridge_study_def make_study_specification_def make_budget_def make_data_reference_def data_fields_ok_def
        given_in_def validate_study_def require_automl_metric_def automl_metrics_def metric_definitions_def
        integer_targets_def ridge_space_def)
qed

lemma validated_study_materializes_witness:
  "\<exists>m. materialize_trials unit_generator constant_digests Regression [''ridge_regression''] [ridge_space] 3 2 = Inr m \<and>
     mt_trials m \<noteq> [] \<and> mt_exhausted m = (int (length (mt_trials m)) < 2)"
proof -
  have g: "good_generator unit_generator" by (simp add: good_generator_def unit_generator_def)
  have d: "good_digests constant_digests" by (simp add: good_digests_def constant_digests_def sha256_digest_def list_all_iff)
  have sp: "list_all (\<lambda>sp. \<exists>sp0. make_search_space sp0 = Inr sp) (sy_spaces ridge_study)"
    using ridge_space_made by (auto simp: ridge_study_def)
  show ?thesis using validated_study_materializes [OF g d ridge_study_accepted sp, of 3] by (auto simp: ridge_study_def)
qed

end
