(* ===== verification/Python_Text.thy ===== *)
theory Python_Text
  imports Rag_Chunking
begin

text \<open>
  What the importers use of Python's text processing: \<^verbatim>\<open>int(s)\<close>,
  \<^verbatim>\<open>float(s)\<close> and \<^verbatim>\<open>str(n)\<close>, \<^verbatim>\<open>str.casefold\<close>, the Unicode
  categories of Latin-1, and \<^verbatim>\<open>csv.reader(io.StringIO(text, newline=""), strict=True)\<close>
  with its state machine. Reading a table that was written with every field quoted gives the
  table back.
\<close>

section \<open>Numbers\<close>

text \<open>\<^verbatim>\<open>str(n)\<close>.\<close>

fun decimal_digits :: "nat \<Rightarrow> string" where
  "decimal_digits n = (if n < 10 then [char_of (48 + n)] else decimal_digits (n div 10) @ [char_of (48 + n mod 10)])"

declare decimal_digits.simps [simp del]

definition str_of_int :: "int \<Rightarrow> string" where
  "str_of_int n = (if n < 0 then CHR ''-'' # decimal_digits (nat (- n)) else decimal_digits (nat n))"

text \<open>Decimal digits with single underscores between them; the result is without underscores.\<close>

fun digit_part :: "string \<Rightarrow> string option" where
  "digit_part [] = None"
| "digit_part [c] = (if ascii_digit c then Some [c] else None)"
| "digit_part (c # d # s) =
     (if ascii_digit c then map_option ((#) c) (if d = CHR ''_'' then digit_part s else digit_part (d # s)) else None)"

fun signed :: "string \<Rightarrow> bool \<times> string" where
  "signed (c # s) = (if c = CHR ''-'' then (True, s) else if c = CHR ''+'' then (False, s) else (False, c # s))"
| "signed [] = (False, [])"

text \<open>\<^verbatim>\<open>int(s)\<close>; more than 4300 digits raise \<^verbatim>\<open>ValueError\<close> like any other failure.\<close>

definition int_of_text :: "string \<Rightarrow> int option" where
  "int_of_text s = (case signed (strip s) of (negative, t) \<Rightarrow>
     (case digit_part t of
        None \<Rightarrow> None
      | Some ds \<Rightarrow> if 4300 < length ds then None
          else Some (if negative then - int (decimal_value 0 ds) else int (decimal_value 0 ds))))"

definition lower_ascii :: "string \<Rightarrow> string" where
  "lower_ascii = map (\<lambda>c. if upper_char c then char_of (of_char c + 32 :: nat) else c)"

text \<open>The text before the first character that satisfies \<open>p\<close>, and what follows that character.\<close>

definition split_first :: "(char \<Rightarrow> bool) \<Rightarrow> string \<Rightarrow> string \<times> string option" where
  "split_first p s = (takeWhile (\<lambda>c. \<not> p c) s,
     case dropWhile (\<lambda>c. \<not> p c) s of [] \<Rightarrow> None | c # t \<Rightarrow> Some t)"

definition optional_digits :: "string \<Rightarrow> string option" where
  "optional_digits s = (if s = [] then Some [] else digit_part s)"

text \<open>The digits of a mantissa and how many of them follow the point.\<close>

definition mantissa_of :: "string \<Rightarrow> (string \<times> nat) option" where
  "mantissa_of s = (case split_first (\<lambda>c. c = CHR ''.'') s of
     (whole, None) \<Rightarrow> map_option (\<lambda>ds. (ds, 0)) (digit_part whole)
   | (whole, Some rest) \<Rightarrow>
      (case (optional_digits whole, optional_digits rest) of
         (Some ds, Some fs) \<Rightarrow> if ds = [] \<and> fs = [] then None else Some (ds @ fs, length fs)
       | _ \<Rightarrow> None))"

definition exponent_of :: "string option \<Rightarrow> int option" where
  "exponent_of e = (case e of
     None \<Rightarrow> Some 0
   | Some s \<Rightarrow> (case signed s of (negative, t) \<Rightarrow>
        map_option (\<lambda>ds. if negative then - int (decimal_value 0 ds) else int (decimal_value 0 ds)) (digit_part t)))"

definition scaled :: "nat \<Rightarrow> int \<Rightarrow> real" where
  "scaled m e = (if 0 \<le> e then real m * 10 ^ nat e else real m / 10 ^ nat (- e))"

text \<open>Values that round to \<open>2 ^ 1024\<close> or above are infinite; rounding is left out otherwise.\<close>

definition binary64 :: "bool \<Rightarrow> real \<Rightarrow> pyfloat" where
  "binary64 negative x =
     (if 2 ^ 1024 - 2 ^ 970 \<le> x then (if negative then NegInf else PosInf)
      else Fin (if negative then - x else x))"

definition float_of_text :: "string \<Rightarrow> pyfloat option" where
  "float_of_text s = (case signed (strip s) of (negative, t) \<Rightarrow>
     (let u = lower_ascii t in
      if u = ''inf'' \<or> u = ''infinity'' then Some (if negative then NegInf else PosInf)
      else if u = ''nan'' then Some NotANumber
      else (case split_first (\<lambda>c. c = CHR ''e'') u of (m, e) \<Rightarrow>
        (case (mantissa_of m, exponent_of e) of
           (Some (ds, k), Some n) \<Rightarrow> Some (binary64 negative (scaled (decimal_value 0 ds) (n - int k)))
         | _ \<Rightarrow> None))))"

section \<open>Characters\<close>

text \<open>
  \<^verbatim>\<open>str.casefold\<close> on Latin-1. The micro sign folds to a letter outside Latin-1 that
  nothing else in Latin-1 folds to; it stands for that letter.
\<close>

definition fold_char :: "char \<Rightarrow> string" where
  "fold_char c = (let n = of_char c :: nat in
     if upper_char c \<or> (192 \<le> n \<and> n \<le> 222 \<and> n \<noteq> 215) then [char_of (n + 32)]
     else if n = 223 then ''ss'' else [c])"

definition casefold :: "string \<Rightarrow> string" where
  "casefold s = concat (map fold_char s)"

text \<open>The category Cc; surrogates are above Latin-1.\<close>

definition control_char :: "char \<Rightarrow> bool" where
  "control_char c \<longleftrightarrow> (let n = of_char c :: nat in n < 32 \<or> (127 \<le> n \<and> n \<le> 159))"

definition alnum_char :: "char \<Rightarrow> bool" where
  "alnum_char c \<longleftrightarrow> ascii_digit c \<or> lower_char c \<or> upper_char c \<or>
     (let n = of_char c :: nat in n \<in> {170, 178, 179, 181, 185, 186, 188, 189, 190} \<or> (192 \<le> n \<and> n \<noteq> 215 \<and> n \<noteq> 247))"

text \<open>The categories P of Latin-1; it has no marks, and its letters and numbers are alphanumeric.\<close>

definition punctuation_char :: "char \<Rightarrow> bool" where
  "punctuation_char c \<longleftrightarrow> c \<in> set ''!\"#%&'()*,-./:;?@[]_{}'' \<or>
     (of_char c :: nat) \<in> {92, 161, 167, 171, 182, 183, 187, 191}"

definition text_error :: "string \<Rightarrow> 'a result" where
  "text_error m = Inl (Exc ValueError m)"

definition ensure_safe_single_line :: "string \<Rightarrow> string result" where
  "ensure_safe_single_line s =
     (if list_ex control_char s then text_error ''Text contains unsupported control characters.'' else Inr s)"

definition ensure_safe_multiline :: "string \<Rightarrow> string result" where
  "ensure_safe_multiline s = (let t = normalize_newlines s in
     if list_ex (\<lambda>c. control_char c \<and> c \<noteq> CHR 9 \<and> c \<noteq> newline) t
     then text_error ''Text contains unsupported control characters.'' else Inr t)"

section \<open>Lines\<close>

text \<open>
  The lines of \<^verbatim>\<open>io.StringIO(text, newline="")\<close>: they end with a line feed, a carriage
  return, or both, and keep their ends.
\<close>

fun text_lines :: "string \<Rightarrow> string list" where
  "text_lines [] = []"
| "text_lines [c] = [[c]]"
| "text_lines (c # d # s) =
     (if c = newline then [c] # text_lines (d # s)
      else if c = carriage_return then
        (if d = newline then [c, d] # text_lines s else [c] # text_lines (d # s))
      else (case text_lines (d # s) of l # ls \<Rightarrow> (c # l) # ls | [] \<Rightarrow> [[c]]))"

section \<open>The CSV reader\<close>

datatype csv_state = StartRecord | StartField | InField | InQuotedField | QuoteInQuotedField | EatCrnl

record csv_reader =
  cr_state :: csv_state
  cr_field :: string
  cr_fields :: "string list"

definition csv_start :: csv_reader where
  "csv_start = \<lparr>cr_state = StartRecord, cr_field = [], cr_fields = []\<rparr>"

definition field_limit :: nat where "field_limit = 131072"

definition add_char :: "char \<Rightarrow> csv_state \<Rightarrow> csv_reader \<Rightarrow> csv_reader option" where
  "add_char c st r = (if field_limit \<le> length (cr_field r) then None
     else Some (r\<lparr>cr_state := st, cr_field := cr_field r @ [c]\<rparr>))"

definition save_field :: "csv_state \<Rightarrow> csv_reader \<Rightarrow> csv_reader" where
  "save_field st r = r\<lparr>cr_state := st, cr_field := [], cr_fields := cr_fields r @ [cr_field r]\<rparr>"

abbreviation line_end :: "char \<Rightarrow> bool" where
  "line_end c \<equiv> c = newline \<or> c = carriage_return"

definition start_field :: "char \<Rightarrow> csv_reader \<Rightarrow> csv_reader option" where
  "start_field c r =
     (if line_end c then Some (save_field EatCrnl r)
      else if c = CHR ''\"'' then Some (r\<lparr>cr_state := InQuotedField\<rparr>)
      else if c = CHR '','' then Some (save_field StartField r)
      else add_char c InField r)"

text \<open>One character of a line; \<open>None\<close> is \<^verbatim>\<open>csv.Error\<close>.\<close>

definition csv_char :: "char \<Rightarrow> csv_reader \<Rightarrow> csv_reader option" where
  "csv_char c r = (case cr_state r of
     StartRecord \<Rightarrow> if line_end c then Some (r\<lparr>cr_state := EatCrnl\<rparr>) else start_field c r
   | StartField \<Rightarrow> start_field c r
   | InField \<Rightarrow>
       if line_end c then Some (save_field EatCrnl r)
       else if c = CHR '','' then Some (save_field StartField r)
       else add_char c InField r
   | InQuotedField \<Rightarrow>
       if c = CHR ''\"'' then Some (r\<lparr>cr_state := QuoteInQuotedField\<rparr>) else add_char c InQuotedField r
   | QuoteInQuotedField \<Rightarrow>
       if c = CHR ''\"'' then add_char c InQuotedField r
       else if c = CHR '','' then Some (save_field StartField r)
       else if line_end c then Some (save_field EatCrnl r)
       else None
   | EatCrnl \<Rightarrow> if line_end c then Some r else None)"

text \<open>The end of a line.\<close>

definition csv_end :: "csv_reader \<Rightarrow> csv_reader" where
  "csv_end r = (case cr_state r of
     StartRecord \<Rightarrow> r
   | InQuotedField \<Rightarrow> r
   | EatCrnl \<Rightarrow> r\<lparr>cr_state := StartRecord\<rparr>
   | _ \<Rightarrow> save_field StartRecord r)"

fun csv_line :: "string \<Rightarrow> csv_reader \<Rightarrow> csv_reader option" where
  "csv_line [] r = Some (csv_end r)"
| "csv_line (c # s) r = Option.bind (csv_char c r) (csv_line s)"

datatype csv_next = CsvStop | CsvFailed | CsvRecord "string list" "string list"

fun next_record :: "csv_reader \<Rightarrow> string list \<Rightarrow> csv_next" where
  "next_record r [] = (if cr_field r \<noteq> [] \<or> cr_state r = InQuotedField then CsvFailed else CsvStop)"
| "next_record r (l # ls) = (case csv_line l r of
     None \<Rightarrow> CsvFailed
   | Some r' \<Rightarrow> if cr_state r' = StartRecord then CsvRecord (cr_fields r') ls else next_record r' ls)"

text \<open>The reader is an iterator: the rows up to the end of the text or the first error.\<close>

datatype csv_rows = CsvEnd | CsvError | CsvRow "string list" csv_rows

lemma next_record_shorter: "next_record r ls = CsvRecord row ls' \<Longrightarrow> length ls' < length ls"
  by (induction r ls rule: next_record.induct) (auto split: option.splits if_splits intro: less_SucI)

function read_rows :: "string list \<Rightarrow> csv_rows" where
  "read_rows ls = (case next_record csv_start ls of
     CsvStop \<Rightarrow> CsvEnd | CsvFailed \<Rightarrow> CsvError | CsvRecord row rest \<Rightarrow> CsvRow row (read_rows rest))"
  by pat_completeness auto
termination by (relation "measure length") (auto intro: next_record_shorter)

declare read_rows.simps [simp del]

definition csv_reader_rows :: "string \<Rightarrow> csv_rows" where
  "csv_reader_rows t = read_rows (text_lines t)"

section \<open>Quoted tables\<close>

text \<open>A writer that quotes every field, doubles the quotes inside and ends rows with both characters.\<close>

fun escape_quotes :: "string \<Rightarrow> string" where
  "escape_quotes [] = []"
| "escape_quotes (c # s) = (if c = CHR ''\"'' then [c, c] else [c]) @ escape_quotes s"

definition quote_field :: "string \<Rightarrow> string" where
  "quote_field f = CHR ''\"'' # escape_quotes f @ [CHR ''\"'']"

fun quote_fields :: "string list \<Rightarrow> string" where
  "quote_fields [] = []"
| "quote_fields [f] = quote_field f"
| "quote_fields (f # fs) = quote_field f @ CHR '','' # quote_fields fs"

definition quote_row :: "string list \<Rightarrow> string" where
  "quote_row fs = quote_fields fs @ [carriage_return, newline]"

definition quoted_table :: "string list list \<Rightarrow> string" where
  "quoted_table rows = concat (map quote_row rows)"

abbreviation next_text :: "csv_reader \<Rightarrow> string \<Rightarrow> csv_next" where
  "next_text r s \<equiv> next_record r (text_lines s)"

lemma text_lines_ne: "s \<noteq> [] \<Longrightarrow> text_lines s \<noteq> []"
  by (induction s rule: text_lines.induct) (auto split: list.split)

lemma next_text_char:
  assumes "\<not> line_end c" and "s \<noteq> []"
  shows "next_text r (c # s) = (case csv_char c r of None \<Rightarrow> CsvFailed | Some r' \<Rightarrow> next_text r' s)"
proof -
  obtain l ls where l: "text_lines s = l # ls" using text_lines_ne [OF assms(2)] by (cases "text_lines s") auto
  obtain d t where "s = d # t" using assms(2) by (cases s) auto
  then have "text_lines (c # s) = (c # l) # ls" using assms(1) l by simp
  then show ?thesis using l by (simp split: option.split)
qed

lemma csv_char_quoted:
  "cr_state r = InQuotedField \<Longrightarrow> c \<noteq> CHR ''\"'' \<Longrightarrow> length (cr_field r) < field_limit \<Longrightarrow>
   csv_char c r = Some (r\<lparr>cr_field := cr_field r @ [c]\<rparr>)"
  by (simp add: csv_char_def add_char_def)

lemma next_text_quoted:
  assumes "cr_state r = InQuotedField" and "c \<noteq> CHR ''\"''" and "length (cr_field r) + 1 < field_limit" and "s \<noteq> []"
  shows "next_text r (c # s) = next_text (r\<lparr>cr_field := cr_field r @ [c]\<rparr>) s"
proof (cases "line_end c")
  case False
  then show ?thesis using assms by (simp add: next_text_char csv_char_quoted)
next
  case True
  obtain d t where s: "s = d # t" using assms(4) by (cases s) auto
  have alone: "next_record r ([c] # ls) = next_record (r\<lparr>cr_field := cr_field r @ [c]\<rparr>) ls" for ls
    using assms by (simp add: csv_char_quoted csv_end_def)
  show ?thesis
  proof (cases "c = carriage_return \<and> d = newline")
    case True
    then have "text_lines (c # s) = [c, d] # text_lines t" using s by simp
    moreover have "text_lines s = [d] # text_lines t" using True s by (cases t) simp_all
    ultimately show ?thesis using True assms by (simp add: csv_char_quoted csv_end_def)
  next
    case False
    then have "text_lines (c # s) = [c] # text_lines s" using \<open>line_end c\<close> s by auto
    then show ?thesis using alone by simp
  qed
qed

lemma next_text_field:
  assumes "cr_state r = InQuotedField" and "length (cr_field r) + length f < field_limit" and "t \<noteq> []"
  shows "next_text r (escape_quotes f @ CHR ''\"'' # t) =
    next_text (r\<lparr>cr_state := QuoteInQuotedField, cr_field := cr_field r @ f\<rparr>) t"
  using assms(1,2)
proof (induction f arbitrary: r)
  case Nil
  then show ?case using assms(3) by (simp add: next_text_char csv_char_def)
next
  case (Cons c f)
  let ?rest = "escape_quotes f @ CHR ''\"'' # t" and ?r = "r\<lparr>cr_field := cr_field r @ [c]\<rparr>"
  have "next_text r (escape_quotes (c # f) @ CHR ''\"'' # t) = next_text ?r ?rest"
  proof (cases "c = CHR ''\"''")
    case True
    have same: "r\<lparr>cr_state := InQuotedField, cr_field := x\<rparr> = r\<lparr>cr_field := x\<rparr>" for x
      using Cons.prems(1) by (cases r) simp
    have "next_text r (c # c # ?rest) = next_text (r\<lparr>cr_state := QuoteInQuotedField\<rparr>) (c # ?rest)"
      using Cons.prems(1) True by (simp add: next_text_char csv_char_def del: text_lines.simps)
    also have "\<dots> = next_text ?r ?rest"
      using Cons.prems True by (simp add: next_text_char csv_char_def add_char_def same del: text_lines.simps)
    finally show ?thesis using True by simp
  next
    case False
    then show ?thesis using next_text_quoted [of r c ?rest] Cons.prems by simp
  qed
  also have "\<dots> = next_text (?r\<lparr>cr_state := QuoteInQuotedField, cr_field := cr_field ?r @ f\<rparr>) t"
    using Cons.prems by (intro Cons.IH) simp_all
  finally show ?case by simp
qed

lemma next_text_open:
  assumes "cr_state r \<in> {StartRecord, StartField}" and "cr_field r = []" and "length f < field_limit" and "t \<noteq> []"
  shows "next_text r (quote_field f @ t) = next_text (r\<lparr>cr_state := QuoteInQuotedField, cr_field := f\<rparr>) t"
proof -
  have "next_text r (quote_field f @ t) = next_text (r\<lparr>cr_state := InQuotedField\<rparr>) (escape_quotes f @ CHR ''\"'' # t)"
    using assms(1) by (auto simp: quote_field_def next_text_char csv_char_def start_field_def simp del: text_lines.simps)
  then show ?thesis using next_text_field [of "r\<lparr>cr_state := InQuotedField\<rparr>" f t] assms(2-4) by simp
qed

lemma next_text_row:
  assumes "cr_state r \<in> {StartRecord, StartField}" and "cr_field r = []" and "fs \<noteq> []"
    and "list_all (\<lambda>f. length f < field_limit) fs"
  shows "next_text r (quote_row fs @ t) = CsvRecord (cr_fields r @ fs) (text_lines t)"
  using assms
proof (induction fs arbitrary: r rule: quote_fields.induct)
  case (2 f)
  let ?r = "r\<lparr>cr_state := QuoteInQuotedField, cr_field := f\<rparr>"
  have "next_text r (quote_row [f] @ t) = next_text ?r (carriage_return # newline # t)"
    using next_text_open [of r f "carriage_return # newline # t"] 2 by (simp add: quote_row_def)
  then show ?case by (simp add: csv_char_def save_field_def csv_end_def)
next
  case (3 f g fs)
  let ?rest = "quote_row (g # fs) @ t" and ?r = "r\<lparr>cr_state := QuoteInQuotedField, cr_field := f\<rparr>"
  have "next_text r (quote_row (f # g # fs) @ t) = next_text ?r (CHR '','' # ?rest)"
    using next_text_open [of r f "CHR '','' # ?rest"] 3 by (simp add: quote_row_def)
  also have "\<dots> = next_text (save_field StartField ?r) ?rest"
    by (simp add: next_text_char csv_char_def quote_row_def del: text_lines.simps)
  also have "\<dots> = CsvRecord (cr_fields (save_field StartField ?r) @ g # fs) (text_lines t)"
    using 3 by (intro "3.IH") (simp_all add: save_field_def)
  finally show ?case by (simp add: save_field_def)
qed simp

lemma quoted_table_rows:
  assumes "list_all (\<lambda>fs. fs \<noteq> [] \<and> list_all (\<lambda>f. length f < field_limit) fs) rows"
  shows "csv_reader_rows (quoted_table rows) = foldr CsvRow rows CsvEnd"
  unfolding csv_reader_rows_def using assms
proof (induction rows)
  case Nil
  then show ?case by (simp add: quoted_table_def read_rows.simps csv_start_def)
next
  case (Cons fs rows)
  have "next_text csv_start (quoted_table (fs # rows)) = CsvRecord fs (text_lines (quoted_table rows))"
    using next_text_row [of csv_start fs "quoted_table rows"] Cons.prems by (simp add: quoted_table_def csv_start_def)
  then show ?case using Cons by (simp add: read_rows.simps [of "text_lines (quoted_table (fs # rows))"])
qed

end
