(* ===== verification/AutoML_Execution.thy ===== *)
theory AutoML_Execution
  imports AutoML_Correct AutoML_Sampling Python_Text
begin

text \<open>
  The actors of \<^verbatim>\<open>services/automl_execution.py\<close>: the coordinator of a study, the
  worker of a trial and the reconciler, as sequences of the transactions of the store. Between
  two transactions of an actor any others may commit: \<open>others k\<close> is their effect at the
  k-th such point. The broker, the clock, the child process and the training service's
  environment are parameters.
\<close>


section \<open>The world\<close>

record automl_world =
  aw_store :: automl_store
  aw_jobs :: "training_job list"

abbreviation set_store :: "automl_world \<Rightarrow> automl_store \<Rightarrow> automl_world" where
  "set_store W S \<equiv> W\<lparr>aw_store := S\<rparr>"

type_synonym interference = "nat \<Rightarrow> automl_store \<Rightarrow> automl_store"

definition study_step ::
    "(automl_study list \<Rightarrow> automl_study option \<times> automl_study list) \<Rightarrow> automl_store \<Rightarrow>
     automl_study option \<times> automl_store" where
  "study_step op W = (case op (as_studies W) of (None, S) \<Rightarrow> (None, W) | (Some s, S) \<Rightarrow> (Some s, W\<lparr>as_studies := S\<rparr>))"

section \<open>The trial worker\<close>

record 'g trial_env =
  te_now :: timestamp
  te_lease_seconds :: int
  te_rejected_at :: timestamp
  te_process :: "cv_request \<Rightarrow> real \<Rightarrow> process_outcome"
  te_others :: "automl_store \<Rightarrow> automl_store"
  te_finished_at :: timestamp
  te_duration :: real
  te_enqueue_study :: "uuid \<Rightarrow> string result"

definition trial_timeout :: "timestamp \<Rightarrow> automl_study \<Rightarrow> real" where
  "trial_timeout now study = min (real_of_int (su_trial_timeout study))
     (case su_deadline_at study of
        Some d \<Rightarrow> max (real_of_int (d - now) / real_of_int second) (1 / 100)
      | None \<Rightarrow> real_of_int (su_trial_timeout study))"

definition nudge_study :: "'g trial_env \<Rightarrow> uuid \<Rightarrow> execution_state" where
  "nudge_study env i = (if is_ok (te_enqueue_study env i) then ExecutionTerminal else ExecutionRetry)"

definition execute_trial :: "'g trial_env \<Rightarrow> uuid \<Rightarrow> automl_store \<Rightarrow> execution_state result \<times> automl_store" where
  "execute_trial env i W =
     (case start_trial i (te_now env) (te_now env + te_lease_seconds env * second) (te_rejected_at env) W of
        (Inl e, W1) \<Rightarrow> (Inl e, W1)
      | (Inr ClaimRefused, W1) \<Rightarrow> (Inr ExecutionSkipped, W1)
      | (Inr (ClaimRejected study), W1) \<Rightarrow> (Inr (nudge_study env study), W1)
      | (Inr (ClaimStarted st), W1) \<Rightarrow>
         (case store_outcome st (te_process env (sr_request st) (trial_timeout (te_now env) (sr_study st)))
             (te_finished_at env) (te_duration env) (te_others env W1) of
            (Inl e, W2) \<Rightarrow> (Inl e, W2)
          | (Inr NotStored, W2) \<Rightarrow> (Inr ExecutionSkipped, W2)
          | (Inr RetryStored, W2) \<Rightarrow> (Inr ExecutionRetry, W2)
          | (Inr (OutcomeStored final), W2) \<Rightarrow> (Inr (nudge_study env (su_id (sr_study st))), W2)))"

section \<open>The reconciler\<close>

fun nudge_studies :: "(uuid \<Rightarrow> string result) \<Rightarrow> interference \<Rightarrow> nat \<Rightarrow> automl_study list \<Rightarrow> automl_store \<Rightarrow> automl_store" where
  "nudge_studies enqueue others k [] W = W"
| "nudge_studies enqueue others k (s # ss) W =
     (if su_status s \<in> {StudyQueued, StudyRunning}
      then (case enqueue (su_id s) of
          Inl e \<Rightarrow> nudge_studies enqueue others (Suc k) ss (others k W)
        | Inr message \<Rightarrow> nudge_studies enqueue others (Suc k) ss
            (snd (study_step (set_study_queue_identifier (su_id s) message (su_version s)) (others k W))))
      else nudge_studies enqueue others k ss W)"

definition reconcile_page :: "automl_study list \<Rightarrow> automl_study list" where
  "reconcile_page S = sp_items (list_studies None None None None None None 100 0 S)"

definition reconcile_automl ::
    "timestamp \<Rightarrow> (uuid \<Rightarrow> string result) \<Rightarrow> interference \<Rightarrow> automl_store \<Rightarrow> (nat \<times> nat) \<times> automl_store" where
  "reconcile_automl now enqueue others W =
     ((fst (reclaim_expired_slots now (as_slots W)), fst (release_expired_trials now (as_trials W))),
      nudge_studies enqueue others 0 (reconcile_page (as_studies W)) (repair_leases now W))"

section \<open>The coordinator: materialization and scheduling\<close>

record 'g coordinator_env =
  co_now :: timestamp
  co_finished_at :: timestamp
  co_slots :: nat
  co_enqueue_trial :: "uuid \<Rightarrow> string result"
  co_generator :: "'g generator"
  co_digests :: digests
  co_trial_id :: "nat \<Rightarrow> uuid"
  co_training :: "(submit_env \<times> service_config) option"
  co_has_training_repository :: bool
  co_tenant :: tenant
  co_others :: interference

fun validate_spaces :: "search_space list \<Rightarrow> search_space list result" where
  "validate_spaces [] = Inr []"
| "validate_spaces (sp # sps) =
     bind_result (make_search_space sp) (\<lambda>q. bind_result (validate_spaces sps) (\<lambda>qs. Inr (q # qs)))"

definition materialize_study :: "'g coordinator_env \<Rightarrow> automl_study \<Rightarrow> materialization result" where
  "materialize_study env study =
     bind_result (validate_spaces (su_spaces study)) (\<lambda>spaces.
     materialize_trials (co_generator env) (co_digests env) (su_task study) (su_plugins study) spaces
       (su_seed study) (su_trial_budget study))"

definition new_trials :: "'g coordinator_env \<Rightarrow> automl_study \<Rightarrow> materialization \<Rightarrow> (uuid \<times> trial_specification) list" where
  "new_trials env study m = map (\<lambda>t. (co_trial_id env (ts_number t), t)) (mt_trials m)"

definition fail_study ::
    "'g coordinator_env \<Rightarrow> nat \<Rightarrow> automl_study \<Rightarrow> string \<Rightarrow> string \<Rightarrow> automl_world \<Rightarrow> automl_world" where
  "fail_study env k study code message W =
     (let S = co_others env k (aw_store W) in
      case get_study_by_id None (su_id study) (as_studies S) of
        None \<Rightarrow> set_store W S
      | Some current \<Rightarrow>
          if su_status current \<noteq> StudyRunning then set_store W S
          else set_store W (snd (end_study (su_id current) (su_version current) StudyFailed (co_finished_at env)
            (Some code) (Some message) S)))"

text \<open>One transaction inserts the trials and, when the space is exhausted, a note on the study.\<close>

definition exhausted_note :: "automl_study \<Rightarrow> materialization \<Rightarrow> automl_store \<Rightarrow> automl_store" where
  "exhausted_note study m W = (if mt_exhausted m
     then snd (study_step (update_study_error (su_id study) (su_version study) ''search_space_exhausted''
       ''The finite search space was exhausted before the trial budget.'') W)
     else W)"

definition insert_materialized ::
    "'g coordinator_env \<Rightarrow> automl_study \<Rightarrow> materialization \<Rightarrow> automl_store \<Rightarrow> unit result \<times> automl_store" where
  "insert_materialized env study m W =
     (case create_trials (as_studies W) (map (\<lambda>(i, s). new_trial (su_id study) i (co_now env) s) (new_trials env study m))
         (as_trials W) of
        (Inl e, R) \<Rightarrow> (Inl e, W)
      | (Inr rs, R) \<Rightarrow> (Inr (), exhausted_note study m (W\<lparr>as_trials := R\<rparr>)))"

fun schedule_trials ::
    "'g coordinator_env \<Rightarrow> nat \<Rightarrow> automl_trial list \<Rightarrow> automl_store \<Rightarrow> nat \<times> automl_store" where
  "schedule_trials env k [] W = (0, W)"
| "schedule_trials env k (r # rs) W =
     (case co_enqueue_trial env (tl_id r) of
        Inl e \<Rightarrow> schedule_trials env (Suc k) rs (co_others env k W)
      | Inr message \<Rightarrow>
         (let W1 = co_others env k W in
          case set_trial_queue_identifier (tl_id r) message (tl_version r) (as_trials W1) of
            (None, R) \<Rightarrow> schedule_trials env (Suc k) rs W1
          | (Some r', R) \<Rightarrow>
             (case schedule_trials env (Suc k) rs (W1\<lparr>as_trials := R\<rparr>) of (n, W2) \<Rightarrow> (Suc n, W2))))"

definition dispatched_trials :: "automl_trial list \<Rightarrow> automl_trial list" where
  "dispatched_trials = filter (\<lambda>r. tl_status r = TrialQueued \<and> tl_message r \<noteq> None)"

definition waiting_trials :: "automl_trial list \<Rightarrow> automl_trial list" where
  "waiting_trials = filter (\<lambda>r. tl_status r = TrialQueued \<and> tl_message r = None)"

definition running_trials :: "automl_trial list \<Rightarrow> automl_trial list" where
  "running_trials = filter (\<lambda>r. tl_status r = TrialRunning)"

definition dispatch_capacity :: "automl_study \<Rightarrow> automl_trial list \<Rightarrow> nat" where
  "dispatch_capacity study rs =
     nat (max (su_max_concurrent study - int (length (running_trials rs)) - int (length (dispatched_trials rs))) 0)"

section \<open>The coordinator: champions and the end of a study\<close>

definition champion_value :: "string \<Rightarrow> automl_trial \<Rightarrow> champion_candidate option" where
  "champion_value metric r = (case (tl_status r, tl_primary_value r) of
     (TrialSucceeded, Some v) \<Rightarrow> Some \<lparr>cc_trial = tl_id r, cc_number = tl_number r, cc_value = v,
       cc_deviation = (case (case tl_aggregate_metrics r of None \<Rightarrow> None | Some ms \<Rightarrow> ms (metric @ ''_std'')) of
         None \<Rightarrow> Fin (10 ^ 308) | Some d \<Rightarrow> d)\<rparr>
   | _ \<Rightarrow> None)"

definition champion_candidates :: "automl_study \<Rightarrow> automl_trial list \<Rightarrow> champion_candidate list" where
  "champion_candidates study rs = List.map_filter (champion_value (su_metric study)) rs"

fun target_label :: "target_value \<Rightarrow> int" where
  "target_label (TargetInt n) = n"
| "target_label (TargetFloat x) = (if 0 \<le> x then \<lfloor>x\<rfloor> else \<lceil>x\<rceil>)"

fun target_float :: "target_value \<Rightarrow> pyfloat" where
  "target_float (TargetInt n) = Fin (real_of_int n)"
| "target_float (TargetFloat x) = Fin x"

definition training_targets_of :: "task_type \<Rightarrow> target_value list \<Rightarrow> targets" where
  "training_targets_of task vs =
     (if task = Classification then LabelTargets (map target_label vs) else FloatTargets (map target_float vs))"

definition incomplete_snapshot :: pyexc where
  "incomplete_snapshot = value_error ''Champion training requires a complete execution snapshot.''"

definition training_specification :: "automl_study \<Rightarrow> automl_trial \<Rightarrow> job_spec result" where
  "training_specification study trial =
     bind_result (make_data_reference (su_data study)) (\<lambda>data.
     (case (da_training_features data, da_training_targets data, da_evaluation_features data,
            da_evaluation_targets data, su_model_name study) of
        (Some tf, Some tt, Some ef, Some et, Some name) \<Rightarrow>
          validate_spec \<lparr>spec_task = su_task study, spec_training_features = map (map Fin) tf,
            spec_evaluation_features = map (map Fin) ef,
            spec_training_targets = training_targets_of (su_task study) tt,
            spec_evaluation_targets = training_targets_of (su_task study) et,
            spec_dataset_version_id = da_dataset_version data, spec_random_seed = Some (tl_seed trial),
            spec_experiment_name = ''AutoML '' @ uuid_str (su_id study),
            spec_run_name = Some (''automl-champion-'' @ decimal_digits (tl_number trial)),
            spec_registered_model_name = name, spec_tags = [(''workflow'', ''automl'')],
            spec_model_description = None,
            spec_hyperparameters = PluginParameters (tl_plugin trial) (tl_parameters trial)
              (su_scaler study) (su_imputer study)\<rparr>
      | _ \<Rightarrow> Inl incomplete_snapshot))"

definition handoff_key :: "automl_study \<Rightarrow> string" where
  "handoff_key study = ''automl-study-'' @ uuid_str (su_id study)"

text \<open>A study whose champion is in training follows the job; \<open>follow_champion\<close> is that branch.\<close>

definition follow_champion ::
    "'g coordinator_env \<Rightarrow> automl_study \<Rightarrow> uuid \<Rightarrow> automl_world \<Rightarrow> execution_state \<times> automl_world" where
  "follow_champion env study linked_job W =
     (if \<not> co_has_training_repository env then (ExecutionRetry, W)
      else (case get_by_id (co_tenant env) linked_job (aw_jobs W) of
          None \<Rightarrow> (ExecutionSkipped, W)
        | Some job \<Rightarrow>
            if job_status job \<in> {Queued, Running} then (ExecutionSkipped, W)
            else (let ok = (job_status job = Succeeded);
                      final = (if ok then StudySucceeded else StudyFailed) in
              case end_study (su_id study) (su_version study) final (co_finished_at env)
                  (if ok then None else Some ''champion_training_failed'')
                  (if ok then None else Some ''The champion training job failed.'') (aw_store W) of
                (None, S) \<Rightarrow> (ExecutionSkipped, W)
              | (Some s, S) \<Rightarrow> (ExecutionTerminal, set_store W S))))"

definition stop_iteration :: pyexc where
  "stop_iteration = Exc RuntimeError ''coroutine raised StopIteration''"

definition submit_champion ::
    "'g coordinator_env \<Rightarrow> submit_env \<Rightarrow> service_config \<Rightarrow> nat \<Rightarrow> automl_study \<Rightarrow> automl_trial list \<Rightarrow> automl_world \<Rightarrow>
     execution_state result \<times> automl_world" where
  "submit_champion env senv cfg k study rs W =
     (case List.find (\<lambda>r. Some (tl_id r) = su_best_trial study) rs of
        None \<Rightarrow> (Inl stop_iteration, W)
      | Some trial \<Rightarrow>
         (case bind_result (training_specification study trial) (\<lambda>spec.
               bind_result (plugin_registry_get (tl_plugin trial) (Some (su_task study))) (\<lambda>pl. Inr (spec, plugin_key pl))) of
            Inl e \<Rightarrow> (Inl e, W)
          | Inr (spec, key) \<Rightarrow>
             (case submit senv cfg (co_tenant env) (su_requester study) key spec (Some (handoff_key study)) False (aw_jobs W) of
                (Inl e, T) \<Rightarrow> (Inl e, W\<lparr>aw_jobs := T\<rparr>)
              | (Inr sub, T) \<Rightarrow>
                 (let S = co_others env k (aw_store W) in
                  case get_study_by_id None (su_id study) (as_studies S) of
                    None \<Rightarrow> (Inr ExecutionSkipped, \<lparr>aw_store = S, aw_jobs = T\<rparr>)
                  | Some current \<Rightarrow>
                     (case study_step (link_champion_training_job (su_id current) (job_id (sub_job sub)) (su_version current)) S of
                        (None, S') \<Rightarrow> (Inr ExecutionSkipped, \<lparr>aw_store = S, aw_jobs = T\<rparr>)
                      | (Some s, S') \<Rightarrow> (Inr Progressed, \<lparr>aw_store = S', aw_jobs = T\<rparr>))))))"

definition handoff ::
    "'g coordinator_env \<Rightarrow> nat \<Rightarrow> automl_study \<Rightarrow> automl_trial list \<Rightarrow> automl_world \<Rightarrow>
     execution_state result \<times> automl_world" where
  "handoff env k study rs W = (case co_training env of
     None \<Rightarrow> (Inr ExecutionRetry, W)
   | Some (senv, cfg) \<Rightarrow> (case su_champion_job study of
        Some job \<Rightarrow> (case follow_champion env study job W of (st, W') \<Rightarrow> (Inr st, W'))
      | None \<Rightarrow> submit_champion env senv cfg k study rs W))"

definition complete_study ::
    "'g coordinator_env \<Rightarrow> nat \<Rightarrow> automl_study \<Rightarrow> automl_trial list \<Rightarrow> automl_world \<Rightarrow>
     execution_state result \<times> automl_world" where
  "complete_study env k current rs W =
     (if su_register current then handoff env k current rs W
      else (case end_study (su_id current) (su_version current) StudySucceeded (co_finished_at env) None None (aw_store W) of
          (None, S) \<Rightarrow> (Inr ExecutionSkipped, W)
        | (Some s, S) \<Rightarrow> (Inr ExecutionTerminal, set_store W S)))"

definition finalize_study ::
    "'g coordinator_env \<Rightarrow> nat \<Rightarrow> automl_study \<Rightarrow> automl_trial list \<Rightarrow> automl_world \<Rightarrow>
     execution_state result \<times> automl_world" where
  "finalize_study env k study rs W =
     (case select_champion (champion_candidates study rs) (su_direction study) of
        None \<Rightarrow> (Inr ExecutionTerminal,
          fail_study env k study ''no_successful_trials'' ''No AutoML trial completed successfully.'' W)
      | Some champion \<Rightarrow>
         (let S = co_others env k (aw_store W) in
          case get_study_by_id None (su_id study) (as_studies S) of
            None \<Rightarrow> (Inr ExecutionSkipped, set_store W S)
          | Some current \<Rightarrow>
              if su_best_trial current = None
              then (case study_step (set_best_trial (su_id current) (cc_trial champion) (su_version current) (as_trials S)) S of
                  (None, S') \<Rightarrow> (Inr ExecutionSkipped, set_store W S)
                | (Some linked, S') \<Rightarrow> complete_study env (Suc k) linked rs (set_store W S'))
              else complete_study env (Suc k) current rs (set_store W S)))"

definition finalize_cancellation ::
    "'g coordinator_env \<Rightarrow> nat \<Rightarrow> automl_study \<Rightarrow> automl_store \<Rightarrow> execution_state \<times> automl_store" where
  "finalize_cancellation env k study W =
     (let S = co_others env k W in
      if list_ex (\<lambda>r. tl_status r = TrialRunning) (list_all_trials (su_id study) (as_trials S)) then (ExecutionSkipped, S)
      else (case get_study_by_id None (su_id study) (as_studies S) of
          None \<Rightarrow> (ExecutionSkipped, S)
        | Some current \<Rightarrow>
            if su_status current \<noteq> StudyRunning then (ExecutionSkipped, S)
            else (case study_step (conditionally_transition_study (su_id current) StudyRunning (su_version current)
                   StudyCancelled (cancel_values (co_finished_at env))) S of
                (None, S') \<Rightarrow> (ExecutionSkipped, S)
              | (Some s, S') \<Rightarrow> (ExecutionTerminal, S'))))"

section \<open>The coordinator: one message\<close>

definition cancel_waiting :: "uuid \<Rightarrow> timestamp \<Rightarrow> automl_store \<Rightarrow> automl_store" where
  "cancel_waiting i t W = W\<lparr>as_trials := snd (mark_queued_trials_cancelled i t (as_trials W))\<rparr>"

definition deadline_passed :: "timestamp \<Rightarrow> automl_study \<Rightarrow> bool" where
  "deadline_passed now study \<longleftrightarrow> expired now (su_deadline_at study)"

text \<open>Dispatch what the limit admits, or finish the study when no trial is left.\<close>

definition dispatch_study ::
    "'g coordinator_env \<Rightarrow> automl_study \<Rightarrow> automl_trial list \<Rightarrow> automl_world \<Rightarrow> execution_state result \<times> automl_world" where
  "dispatch_study env study rs W =
     (let capacity = dispatch_capacity study rs; batch = take capacity (waiting_trials rs) in
      case schedule_trials env 4 batch (aw_store W) of
        (scheduled, S) \<Rightarrow>
          if scheduled \<noteq> 0 then (Inr Progressed, set_store W S)
          else (let S1 = co_others env (4 + length batch) S; now_trials = list_all_trials (su_id study) (as_trials S1) in
            if list_ex (\<lambda>r. tl_status r \<in> {TrialQueued, TrialRunning}) now_trials
            then (Inr ExecutionSkipped, set_store W S1)
            else finalize_study env (5 + length batch) study now_trials (set_store W S1)))"

definition advance_study ::
    "'g coordinator_env \<Rightarrow> automl_study \<Rightarrow> automl_world \<Rightarrow> execution_state result \<times> automl_world" where
  "advance_study env study W =
     (let late = deadline_passed (co_now env) study;
          S = (if late then cancel_waiting (su_id study) (co_now env) (aw_store W) else aw_store W);
          S1 = co_others env 2 S;
          rs = list_all_trials (su_id study) (as_trials S1) in
      if rs = [] \<and> \<not> late
      then (case materialize_study env study of
          Inl e \<Rightarrow> if isinstance (exc_of e) [ValueError, ValidationError]
            then (Inr ExecutionTerminal, fail_study env 3 study ''materialization_failed''
              ''The persisted AutoML search space could not be materialized.'' (set_store W S1))
            else (Inl e, set_store W S1)
        | Inr m \<Rightarrow> (case insert_materialized env study m S1 of
            (Inl e, S2) \<Rightarrow> (Inl e, set_store W S1)
          | (Inr u, S2) \<Rightarrow> (let S3 = co_others env 3 S2 in
              dispatch_study env study (list_all_trials (su_id study) (as_trials S3)) (set_store W S3))))
      else dispatch_study env study rs (set_store W S1))"

definition continue_study ::
    "'g coordinator_env \<Rightarrow> uuid \<Rightarrow> automl_world \<Rightarrow> execution_state result \<times> automl_world" where
  "continue_study env i W =
     (let S0 = co_others env 0 (aw_store W);
          S1 = co_others env 1 (S0\<lparr>as_slots := initialize_slots (co_slots env) (as_slots S0)\<rparr>) in
      case get_study_by_id None i (as_studies S1) of
        None \<Rightarrow> (Inr ExecutionSkipped, set_store W S1)
      | Some study \<Rightarrow>
          if su_cancel_requested_at study \<noteq> None
          then (case finalize_cancellation env 2 study (cancel_waiting i (co_now env) S1) of
            (st, S2) \<Rightarrow> (Inr st, set_store W S2))
          else advance_study env study (set_store W S1))"

definition coordinate ::
    "'g coordinator_env \<Rightarrow> uuid \<Rightarrow> automl_world \<Rightarrow> execution_state result \<times> automl_world" where
  "coordinate env i W =
     (case get_study_by_id None i (as_studies (aw_store W)) of
        None \<Rightarrow> (Inr ExecutionSkipped, W)
      | Some study \<Rightarrow>
          if study_ended study then (Inr ExecutionSkipped, W)
          else if su_status study = StudyQueued
          then (case study_step (conditionally_transition_study i StudyQueued (su_version study) StudyRunning
                 (start_values (co_now env))) (aw_store W) of
              (None, S) \<Rightarrow> (Inr ExecutionSkipped, W)
            | (Some s, S) \<Rightarrow> continue_study env i (set_store W S))
          else continue_study env i W)"

end
