(* ===== verification/AutoML_Service.thy ===== *)
theory AutoML_Service
  imports AutoML_Execution
begin

text \<open>
  The management service of studies (\<^verbatim>\<open>services/automl.py\<close>): idempotent creation,
  scoped queries, and cancellation.
\<close>

section \<open>Submission\<close>

record study_submission =
  as_study :: automl_study
  as_created :: bool

record study_service_env =
  sv_company_of :: "uuid \<Rightarrow> uuid option"
  sv_fingerprint :: "study_specification \<Rightarrow> string"
  sv_new_id :: uuid
  sv_now :: timestamp
  sv_others :: interference

definition study_row ::
    "study_service_env \<Rightarrow> uuid \<Rightarrow> study_specification \<Rightarrow> string option \<Rightarrow> automl_study" where
  "study_row env owner spec key =
     \<lparr>su_id = sv_new_id env, su_company = 0, su_requester = owner,
      su_dataset_version = da_dataset_version (sy_data spec), su_task = sy_task spec, su_status = StudyQueued,
      su_metric = sy_metric spec, su_direction = sy_direction spec, su_seed = sy_seed spec,
      su_plugins = sy_plugins spec, su_spaces = sy_spaces spec, su_scaler = sy_scaler spec,
      su_imputer = sy_imputer spec, su_data = sy_data spec, su_folds = bu_folds (sy_budget spec),
      su_trial_budget = bu_trials (sy_budget spec), su_time_budget = bu_time (sy_budget spec),
      su_trial_timeout = bu_trial_timeout (sy_budget spec), su_max_concurrent = bu_concurrent (sy_budget spec),
      su_register = sy_register spec, su_model_name = sy_model_name spec, su_idempotency_key = key,
      su_fingerprint = sv_fingerprint env spec, su_version = 0, su_message = None, su_created_at = sv_now env,
      su_queued_at = Some (sv_now env), su_started_at = None, su_deadline_at = None, su_finished_at = None,
      su_cancel_requested_at = None, su_cancelled_at = None, su_best_trial = None, su_champion_job = None,
      su_error_code = None, su_error_message = None\<rparr>"

definition replay_study :: "automl_study \<Rightarrow> string \<Rightarrow> study_submission result" where
  "replay_study study fingerprint =
     (if su_fingerprint study \<noteq> fingerprint
      then Inl (Exc AutoMLConflictError ''The idempotency key was already used with a different request.'')
      else Inr \<lparr>as_study = study, as_created = False\<rparr>)"

text \<open>
  \<^verbatim>\<open>idempotency_key.strip() if idempotency_key else None\<close>, and the test
  \<^verbatim>\<open>if key\<close>: the key that strips to the empty string is stored but never looked up.
\<close>

definition submission_key_of :: "string option \<Rightarrow> string option" where
  "submission_key_of given = (case given of None \<Rightarrow> None | Some s \<Rightarrow> if s = [] then None else Some (strip s))"

definition effective_key :: "string option \<Rightarrow> string option" where
  "effective_key key = (case key of None \<Rightarrow> None | Some s \<Rightarrow> if s = [] then None else Some s)"

definition find_replay ::
    "study_service_env \<Rightarrow> tenant \<Rightarrow> uuid \<Rightarrow> study_specification \<Rightarrow> string option \<Rightarrow> automl_study list \<Rightarrow>
     study_submission option result" where
  "find_replay env tn owner spec key S =
     (case effective_key key of
        None \<Rightarrow> Inr None
      | Some k \<Rightarrow> bind_result (find_by_scoped_idempotency_key tn owner k S) (\<lambda>found. case found of
          None \<Rightarrow> Inr None
        | Some study \<Rightarrow> bind_result (replay_study study (sv_fingerprint env spec)) (\<lambda>s. Inr (Some s))))"

definition submit_study ::
    "study_service_env \<Rightarrow> tenant \<Rightarrow> uuid \<Rightarrow> study_specification \<Rightarrow> string option \<Rightarrow> automl_store \<Rightarrow>
     study_submission result \<times> automl_store" where
  "submit_study env tn owner spec given W =
     (let key = submission_key_of given in
      case find_replay env tn owner spec key (as_studies W) of
        Inl e \<Rightarrow> (Inl e, W)
      | Inr (Some s) \<Rightarrow> (Inr s, W)
      | Inr None \<Rightarrow>
         (let W1 = sv_others env 0 W in
          case create_study (sv_company_of env) (study_row env owner spec key) (as_studies W1) of
            (Inr (study, refs), S) \<Rightarrow> (Inr \<lparr>as_study = study, as_created = True\<rparr>, W1\<lparr>as_studies := S\<rparr>)
          | (Inl e, S) \<Rightarrow>
              if \<not> isinstance (exc_of e) [IntegrityError] \<or> effective_key key = None then (Inl e, W1)
              else (case find_replay env tn owner spec key (as_studies W1) of
                  Inl e' \<Rightarrow> (Inl e', W1)
                | Inr (Some s) \<Rightarrow> (Inr s, W1)
                | Inr None \<Rightarrow> (Inl e, W1))))"

section \<open>Queries\<close>

definition study_not_found :: pyexc where
  "study_not_found = Exc AutoMLNotFoundError ''AutoML study not found.''"

definition get_study :: "tenant \<Rightarrow> uuid \<Rightarrow> uuid \<Rightarrow> bool \<Rightarrow> automl_study list \<Rightarrow> automl_study result" where
  "get_study tn i user is_admin S =
     bind_result (if is_admin then Inr (get_study_by_id tn i S) else get_owned_study tn i user S)
       (\<lambda>found. case found of None \<Rightarrow> Inl study_not_found | Some study \<Rightarrow> Inr study)"

definition list_user_studies ::
    "tenant \<Rightarrow> uuid \<Rightarrow> bool \<Rightarrow> study_status option \<Rightarrow> task_type option \<Rightarrow> string option \<Rightarrow> uuid option \<Rightarrow>
     nat \<Rightarrow> nat \<Rightarrow> automl_study list \<Rightarrow> study_page" where
  "list_user_studies tn user is_admin status task plugin requester limit offset S =
     list_studies tn (if is_admin then None else Some user) status task plugin
       (if is_admin then requester else None) limit offset S"

definition list_study_trials ::
    "tenant \<Rightarrow> uuid \<Rightarrow> uuid \<Rightarrow> bool \<Rightarrow> trial_status option \<Rightarrow> string option \<Rightarrow> nat \<Rightarrow> nat \<Rightarrow> bool \<Rightarrow>
     automl_store \<Rightarrow> trial_page result" where
  "list_study_trials tn i user is_admin status plugin limit offset descending W =
     bind_result (get_study tn i user is_admin (as_studies W))
       (\<lambda>_. Inr (list_trials_for_study i status plugin limit offset descending (as_trials W)))"

definition get_study_trial :: "tenant \<Rightarrow> uuid \<Rightarrow> uuid \<Rightarrow> uuid \<Rightarrow> bool \<Rightarrow> automl_store \<Rightarrow> automl_trial result" where
  "get_study_trial tn i trial user is_admin W =
     bind_result (get_study tn i user is_admin (as_studies W)) (\<lambda>_.
     (case get_trial_by_id trial (as_trials W) of
        None \<Rightarrow> Inl (Exc AutoMLNotFoundError ''AutoML trial not found.'')
      | Some r \<Rightarrow> if tl_study r \<noteq> i then Inl (Exc AutoMLNotFoundError ''AutoML trial not found.'') else Inr r))"

section \<open>Cancellation\<close>

definition study_changed :: "string \<Rightarrow> pyexc" where
  "study_changed m = Exc AutoMLConflictError (''The AutoML study changed before cancellation '' @ m)"

definition cancel_with ::
    "uuid \<Rightarrow> timestamp \<Rightarrow> string \<Rightarrow> string \<Rightarrow> automl_study option \<times> automl_store \<Rightarrow>
     (automl_study \<times> string) result \<times> automl_store" where
  "cancel_with i now outcome conflict r = (case r of
     (None, W) \<Rightarrow> (Inl (study_changed conflict), W)
   | (Some s, W) \<Rightarrow> (Inr (s, outcome), cancel_waiting i now W))"

definition cancel_study ::
    "study_service_env \<Rightarrow> tenant \<Rightarrow> uuid \<Rightarrow> uuid \<Rightarrow> bool \<Rightarrow> automl_store \<Rightarrow>
     (automl_study \<times> string) result \<times> automl_store" where
  "cancel_study env tn i user is_admin W =
     (case get_study tn i user is_admin (as_studies W) of
        Inl e \<Rightarrow> (Inl e, W)
      | Inr current \<Rightarrow>
         (let now = sv_now env; W1 = sv_others env 0 W in
          if su_status current = StudyQueued
          then cancel_with i now ''cancelled'' ''completed.'' (study_step
            (conditionally_transition_study i StudyQueued (su_version current) StudyCancelled
              (\<lambda>s. (cancel_values now s)\<lparr>su_cancel_requested_at := Some now\<rparr>)) W1)
          else if su_status current = StudyRunning \<and> su_cancel_requested_at current = None
          then cancel_with i now ''requested'' ''was requested.'' (study_step
            (request_study_cancellation i (su_version current) now) W1)
          else (Inr (current, ''unchanged''), W)))"

end
