(* ===== verification/AutoML_Actors.thy ===== *)
theory AutoML_Actors
  imports AutoML_Service
begin

text \<open>
  The actors of AutoML refine the events of the store: whatever they do, and whatever others do
  between their transactions, the store they leave is one that events lead to. So the invariants
  of reachable stores hold for the whole of AutoML.
\<close>

section \<open>Stores that events lead to\<close>

definition reaches :: "automl_store \<Rightarrow> automl_store \<Rightarrow> bool" where
  "reaches W W' \<longleftrightarrow> (\<forall>c. reachable_at c W \<longrightarrow> (\<exists>c'. leads_to c W c' W'))"

named_theorems reach_steps "transactions that lead from one store to another"

lemma leads_to_trans:
  assumes "leads_to c1 W1 c2 W2" and "leads_to c W c1 W1"
  shows "leads_to c W c2 W2"
  using assms by (induction rule: leads_to.induct) (auto intro: leads_to.intros)

lemma reaches_refl [simp, intro]: "reaches W W"
  unfolding reaches_def using leads_to.nothing by blast

lemma reaches_trans [trans]: "reaches W W1 \<Longrightarrow> reaches W1 W2 \<Longrightarrow> reaches W W2"
  unfolding reaches_def using leads_to_trans leads_to_evolves by meson

lemma reaches_event: "event_time e = None \<Longrightarrow> reaches W (apply_automl e W)"
  unfolding reaches_def by (auto intro!: exI leads_to.committed [OF leads_to.nothing])

definition well_behaved :: "interference \<Rightarrow> bool" where
  "well_behaved others \<longleftrightarrow> (\<forall>k W. reaches W (others k W))"

lemma reaches_others: "well_behaved others \<Longrightarrow> reaches W V \<Longrightarrow> reaches W (others k V)"
  unfolding well_behaved_def using reaches_trans by blast

section \<open>Steps on studies and trials\<close>

lemma update_study_none: "fst (update_study p f S) = None \<Longrightarrow> snd (update_study p f S) = S"
  by (auto simp: update_study_def intro: update_where_none)

lemma study_step_set:
  assumes "op = update_study p f"
  shows "snd (study_step op W) = set_studies W (op (as_studies W))"
proof (cases "fst (op (as_studies W))")
  case None
  then have "snd (op (as_studies W)) = as_studies W" using update_study_none assms by blast
  then show ?thesis using None by (cases "op (as_studies W)") (simp add: study_step_def set_studies_def)
next
  case (Some s)
  then show ?thesis by (cases "op (as_studies W)") (simp add: study_step_def set_studies_def)
qed

lemma study_steps_reach [reach_steps]:
  "reaches W (snd (study_step (conditionally_transition_study i StudyQueued v StudyRunning (start_values now)) W))"
  "reaches W (snd (study_step (conditionally_transition_study i StudyRunning v StudyCancelled (cancel_values t)) W))"
  "reaches W (snd (study_step (set_study_queue_identifier i m v) W))"
  "reaches W (snd (study_step (update_study_error i v code text) W))"
  "reaches W (snd (study_step (set_best_trial i tr v (as_trials W)) W))"
  "reaches W (snd (study_step (link_champion_training_job i j v) W))"
  "reaches W (snd (study_step (request_study_cancellation i v t) W))"
  "reaches W (snd (study_step (conditionally_transition_study i StudyQueued v StudyCancelled
     (\<lambda>s. (cancel_values t s)\<lparr>su_cancel_requested_at := Some t\<rparr>)) W))"
proof -
  have by_event: "reaches W (snd (study_step op W))"
    if "op = update_study p f" "set_studies W (op (as_studies W)) = apply_automl e W" "event_time e = None" for op p f e
    unfolding study_step_set [OF that(1)] that(2) by (rule reaches_event [OF that(3)])
  show "reaches W (snd (study_step (conditionally_transition_study i StudyQueued v StudyRunning (start_values now)) W))"
    by (rule by_event [where e = "StartStudy i v now"]) (auto simp: conditionally_transition_study_def fun_eq_iff)
  show "reaches W (snd (study_step (conditionally_transition_study i StudyRunning v StudyCancelled (cancel_values t)) W))"
    by (rule by_event [where e = "CancelRunningStudy i v t"]) (auto simp: conditionally_transition_study_def fun_eq_iff)
  show "reaches W (snd (study_step (set_study_queue_identifier i m v) W))"
    by (rule by_event [where e = "StudyMessage i m v"]) (auto simp: set_study_queue_identifier_def fun_eq_iff)
  show "reaches W (snd (study_step (update_study_error i v code text) W))"
    by (rule by_event [where e = "StudyError i v code text"]) (auto simp: update_study_error_def fun_eq_iff)
  show "reaches W (snd (study_step (set_best_trial i tr v (as_trials W)) W))"
    by (rule by_event [where e = "BestTrial i tr v"]) (auto simp: set_best_trial_def fun_eq_iff)
  show "reaches W (snd (study_step (link_champion_training_job i j v) W))"
    by (rule by_event [where e = "LinkChampion i j v"]) (auto simp: link_champion_training_job_def fun_eq_iff)
  show "reaches W (snd (study_step (request_study_cancellation i v t) W))"
    by (rule by_event [where e = "RequestCancellation i v t"]) (auto simp: request_study_cancellation_def fun_eq_iff)
  show "reaches W (snd (study_step (conditionally_transition_study i StudyQueued v StudyCancelled
     (\<lambda>s. (cancel_values t s)\<lparr>su_cancel_requested_at := Some t\<rparr>)) W))"
    by (rule by_event [where e = "CancelQueuedStudy i v t"]) (auto simp: conditionally_transition_study_def fun_eq_iff)
qed

lemma end_study_reaches [reach_steps]:
  "final \<in> {StudySucceeded, StudyFailed} \<Longrightarrow> reaches W (snd (end_study i v final t c m W))"
  using reaches_event [of "EndStudy i v final t c m" W] by simp

lemma cancel_waiting_reaches [reach_steps]: "reaches W (cancel_waiting i t W)"
  using reaches_event [of "CancelTrials i t" W] by (simp add: cancel_waiting_def)

lemma initialize_reaches [reach_steps]: "reaches W (W\<lparr>as_slots := initialize_slots n (as_slots W)\<rparr>)"
  using reaches_event [of "InitializeSlots n" W] by simp

lemma trial_message_reaches [reach_steps]:
  "reaches W (W\<lparr>as_trials := snd (set_trial_queue_identifier i m v (as_trials W))\<rparr>)"
  using reaches_event [of "TrialMessage i m v" W] by simp

lemma insert_materialized_reaches [reach_steps]: "reaches W (snd (insert_materialized env study m W))"
proof -
  let ?e = "InsertTrials (su_id study) (co_now env) (new_trials env study m)"
  obtain x R where x: "create_trials (as_studies W)
      (map (\<lambda>(i, s). new_trial (su_id study) i (co_now env) s) (new_trials env study m)) (as_trials W) = (x, R)" by fastforce
  show ?thesis
  proof (cases x)
    case (Inr rs)
    have inserted: "reaches W (W\<lparr>as_trials := R\<rparr>)"
      using reaches_event [of ?e W] x Inr by simp
    have "reaches (W\<lparr>as_trials := R\<rparr>) (exhausted_note study m (W\<lparr>as_trials := R\<rparr>))"
      unfolding exhausted_note_def by (simp add: reach_steps)
    then show ?thesis using reaches_trans [OF inserted] x Inr by (simp add: insert_materialized_def)
  qed (simp add: insert_materialized_def x)
qed

section \<open>Actors\<close>

lemma schedule_reaches:
  assumes "well_behaved (co_others env)"
  shows "reaches W (snd (schedule_trials env k rs W))"
proof (induction rs arbitrary: k W)
  case (Cons r rs)
  let ?W1 = "co_others env k W"
  have o': "reaches W ?W1" using reaches_others [OF assms reaches_refl] .
  show ?case
  proof (cases "co_enqueue_trial env (tl_id r)")
    case (Inl e)
    then show ?thesis using reaches_trans [OF o' Cons.IH] by simp
  next
    case (Inr message)
    obtain x R where x: "set_trial_queue_identifier (tl_id r) message (tl_version r) (as_trials ?W1) = (x, R)" by fastforce
    have sent: "reaches ?W1 (?W1\<lparr>as_trials := R\<rparr>)"
      using trial_message_reaches [of ?W1 "tl_id r" message "tl_version r"] x by simp
    show ?thesis
    proof (cases x)
      case None
      then show ?thesis using reaches_trans [OF o' Cons.IH] Inr x by (simp add: Let_def)
    next
      case (Some r')
      have "reaches W (snd (schedule_trials env (Suc k) rs (?W1\<lparr>as_trials := R\<rparr>)))"
        by (rule reaches_trans [OF o' reaches_trans [OF sent Cons.IH]])
      then show ?thesis using Some Inr x by (simp add: Let_def case_prod_beta)
    qed
  qed
qed simp

lemma fail_study_reaches:
  assumes "well_behaved (co_others env)"
  shows "reaches (aw_store W) (aw_store (fail_study env k study code m W))"
proof -
  have o': "reaches (aw_store W) (co_others env k (aw_store W))" by (rule reaches_others [OF assms reaches_refl])
  show ?thesis using o' reaches_trans [OF o'] end_study_reaches [of StudyFailed]
    by (auto simp: fail_study_def Let_def split: option.split)
qed

lemma end_study_snd: "end_study i v final t c m W = (x, S) \<Longrightarrow> S = snd (end_study i v final t c m W)"
  by simp

lemma study_step_snd: "study_step op W = (x, S) \<Longrightarrow> S = snd (study_step op W)"
  by simp

lemma follow_champion_reaches: "reaches (aw_store W) (aw_store (snd (follow_champion env study j W)))"
proof -
  have "reaches (aw_store W) S"
    if "end_study i v final t c m (aw_store W) = (Some s, S)" "final \<in> {StudySucceeded, StudyFailed}" for i v final t c m s S
    using end_study_reaches [OF that(2), of "aw_store W" i v t c m] that(1) by simp
  then show ?thesis by (auto simp: follow_champion_def Let_def split: option.splits prod.splits)
qed

lemma submit_champion_reaches:
  assumes "well_behaved (co_others env)"
  shows "reaches (aw_store W) (aw_store (snd (submit_champion env senv cfg k study rs W)))"
proof -
  let ?S = "co_others env k (aw_store W)"
  have o': "reaches (aw_store W) ?S" by (rule reaches_others [OF assms reaches_refl])
  have linked: "reaches (aw_store W) S'" if "study_step (link_champion_training_job i j v) ?S = (x, S')" for i j v x S'
    using reaches_trans [OF o' study_steps_reach(6) [of ?S i j v]] that by simp
  show ?thesis using o' linked
    by (auto simp: submit_champion_def Let_def split: option.splits sum.splits prod.splits)
qed

lemma complete_study_reaches:
  assumes "well_behaved (co_others env)"
  shows "reaches (aw_store W) (aw_store (snd (complete_study env k study rs W)))"
proof -
  have h: "reaches (aw_store W) (aw_store (snd (handoff env k study rs W)))"
    using submit_champion_reaches [OF assms, of W] follow_champion_reaches [of W env study]
    by (cases "su_champion_job study") (simp_all add: handoff_def case_prod_beta split: option.split)
  have "reaches (aw_store W) S" if "end_study i v StudySucceeded t c m (aw_store W) = (x, S)" for i v t c m x S
    using end_study_reaches [of StudySucceeded "aw_store W" i v t c m] that by simp
  then show ?thesis using h by (auto simp: complete_study_def split: option.splits prod.splits)
qed

lemma finalize_study_reaches:
  assumes "well_behaved (co_others env)"
  shows "reaches (aw_store W) (aw_store (snd (finalize_study env k study rs W)))"
proof -
  let ?S = "co_others env k (aw_store W)"
  have o': "reaches (aw_store W) ?S" by (rule reaches_others [OF assms reaches_refl])
  have direct: "reaches (aw_store W) (aw_store (snd (complete_study env j current rs (set_store W ?S))))" for j current
    using reaches_trans [OF o'] complete_study_reaches [OF assms, of "set_store W ?S"] by simp
  have linked: "reaches (aw_store W) (aw_store (snd (complete_study env j current rs (set_store W S'))))"
    if "study_step (set_best_trial i t v (as_trials ?S)) ?S = (x, S')" for i t v x S' j current
    using reaches_trans [OF reaches_trans [OF o' study_steps_reach(5) [of ?S i t v]]]
      complete_study_reaches [OF assms, of "set_store W S'"] that by simp
  show ?thesis using o' direct linked fail_study_reaches [OF assms, of W]
    by (auto simp: finalize_study_def Let_def split: option.splits prod.splits)
qed

lemma finalize_cancellation_reaches:
  assumes "well_behaved (co_others env)"
  shows "reaches W (snd (finalize_cancellation env k study W))"
proof -
  let ?S = "co_others env k W"
  have o': "reaches W ?S" by (rule reaches_others [OF assms reaches_refl])
  have "reaches W S'" if "study_step (conditionally_transition_study i StudyRunning v StudyCancelled (cancel_values t)) ?S = (x, S')"
    for i v t x S'
    using reaches_trans [OF o' study_steps_reach(2) [of ?S i v t]] that by simp
  then show ?thesis using o' by (auto simp: finalize_cancellation_def Let_def split: option.splits prod.splits)
qed

lemma dispatch_reaches:
  assumes wb: "well_behaved (co_others env)"
  shows "reaches (aw_store W) (aw_store (snd (dispatch_study env study rs W)))"
proof -
  let ?b = "take (dispatch_capacity study rs) (waiting_trials rs)"
  obtain n S where s: "schedule_trials env 4 ?b (aw_store W) = (n, S)" by fastforce
  have S: "reaches (aw_store W) S" using schedule_reaches [OF wb, of "aw_store W" 4 ?b] s by simp
  let ?S1 = "co_others env (4 + length ?b) S"
  have S1: "reaches (aw_store W) ?S1" by (rule reaches_others [OF wb S])
  have "reaches (aw_store W) (aw_store (snd (finalize_study env j study rs' (set_store W ?S1))))" for j rs'
    using reaches_trans [OF S1] finalize_study_reaches [OF wb, of "set_store W ?S1"] by simp
  then show ?thesis using S S1 by (simp add: dispatch_study_def Let_def s)
qed

lemma advance_reaches:
  assumes wb: "well_behaved (co_others env)"
  shows "reaches (aw_store W) (aw_store (snd (advance_study env study W)))"
proof -
  define S where "S = (if deadline_passed (co_now env) study then cancel_waiting (su_id study) (co_now env) (aw_store W) else aw_store W)"
  let ?S1 = "co_others env 2 S"
  have "reaches (aw_store W) S" by (simp add: S_def cancel_waiting_reaches)
  then have S1: "reaches (aw_store W) ?S1" by (rule reaches_others [OF wb])
  have dispatched: "reaches (aw_store W) (aw_store (snd (dispatch_study env study rs (set_store W V))))"
    if "reaches (aw_store W) V" for rs V
    using reaches_trans [OF that] dispatch_reaches [OF wb, of "set_store W V" study rs] by simp
  have failed: "reaches (aw_store W) (aw_store (fail_study env 3 study code m (set_store W ?S1)))" for code m
    using reaches_trans [OF S1] fail_study_reaches [OF wb, of "set_store W ?S1"] by simp
  have inserted: "reaches (aw_store W) (co_others env 3 S2)" if "insert_materialized env study m ?S1 = (x, S2)" for m x S2
    using reaches_others [OF wb reaches_trans [OF S1 insert_materialized_reaches [of ?S1 env study m]]] that by simp
  show ?thesis
    unfolding advance_study_def Let_def S_def [symmetric]
    using S1 dispatched [OF S1] failed dispatched [OF inserted]
    by (simp split: sum.split prod.split)
qed

lemma continue_reaches:
  assumes wb: "well_behaved (co_others env)"
  shows "reaches (aw_store W) (aw_store (snd (continue_study env i W)))"
proof -
  let ?S0 = "co_others env 0 (aw_store W)"
  let ?S1 = "co_others env 1 (?S0\<lparr>as_slots := initialize_slots (co_slots env) (as_slots ?S0)\<rparr>)"
  have S0: "reaches (aw_store W) ?S0" by (rule reaches_others [OF wb reaches_refl])
  have S1: "reaches (aw_store W) ?S1" by (rule reaches_others [OF wb reaches_trans [OF S0 initialize_reaches]])
  have cancelled: "reaches (aw_store W) (snd (finalize_cancellation env 2 study (cancel_waiting i (co_now env) ?S1)))" for study
    by (rule reaches_trans [OF reaches_trans [OF S1 cancel_waiting_reaches] finalize_cancellation_reaches [OF wb]])
  have "reaches (aw_store W) (aw_store (snd (advance_study env study (set_store W ?S1))))" for study
    using reaches_trans [OF S1] advance_reaches [OF wb, of "set_store W ?S1" study] by simp
  then show ?thesis using S1 cancelled
    by (auto simp: continue_study_def Let_def split: option.split prod.split) (metis snd_conv)
qed

lemma coordinate_reaches:
  assumes wb: "well_behaved (co_others env)"
  shows "reaches (aw_store W) (aw_store (snd (coordinate env i W)))"
proof -
  have started: "reaches (aw_store W) (aw_store (snd (continue_study env i (set_store W S))))"
    if "study_step (conditionally_transition_study i StudyQueued v StudyRunning (start_values now)) (aw_store W) = (x, S)" for v now x S
    using reaches_trans [OF study_steps_reach(1) [of "aw_store W" i v now]] continue_reaches [OF wb, of "set_store W S" i] that
    by simp
  show ?thesis using started continue_reaches [OF wb, of W i]
    by (auto simp: coordinate_def split: option.split prod.split)
qed

section \<open>The worker and the reconciler\<close>

lemma execute_reaches:
  assumes c: "reachable_at c W" and now: "te_now env = c" and others: "\<And>V. reaches V (te_others env V)"
  shows "\<exists>c'. leads_to c W c' (snd (execute_trial env i W))"
proof -
  let ?r = "start_trial i c (c + te_lease_seconds env * second) (te_rejected_at env) W"
  have started: "leads_to c W c (snd ?r)"
    using leads_to.committed [OF leads_to.nothing, of "StartTrial i c (c + te_lease_seconds env * second) (te_rejected_at env)" c W]
    by simp
  have reach1: "reachable_at c (snd ?r)" using leads_to_evolves [OF started c] by simp
  obtain c1 where c1: "leads_to c (snd ?r) c1 (te_others env (snd ?r))"
    using others [of "snd ?r"] reach1 unfolding reaches_def by blast
  have stored: "leads_to c W c1 (snd (store_outcome st o' t d (te_others env (snd ?r))))" for st o' t d
    using leads_to_trans [OF leads_to.committed [OF c1, of "StoreOutcome st o' t d"] started] by simp
  show ?thesis
  proof (cases "\<exists>st. fst ?r = Inr (ClaimStarted st)")
    case True
    then obtain st where st: "?r = (Inr (ClaimStarted st), snd ?r)" by (metis prod.collapse)
    have "snd (execute_trial env i W) = snd (store_outcome st (te_process env (sr_request st) (trial_timeout c (sr_study st)))
        (te_finished_at env) (te_duration env) (te_others env (snd ?r)))"
      by (subst execute_trial_def, subst now, subst now, subst st)
         (simp add: now case_prod_beta split: sum.split storage.split)
    then show ?thesis using stored by metis
  next
    case False
    then have "snd (execute_trial env i W) = snd ?r"
      by (cases "?r") (auto simp: execute_trial_def now split: sum.split claim_step.split)
    then show ?thesis using started by metis
  qed
qed

lemma nudge_reaches:
  assumes "well_behaved others"
  shows "reaches W (nudge_studies enqueue others k ss W)"
proof (induction ss arbitrary: k W)
  case (Cons s ss)
  have o': "reaches W (others k W)" by (rule reaches_others [OF assms reaches_refl])
  show ?case
  proof (cases "su_status s \<in> {StudyQueued, StudyRunning}")
    case True
    show ?thesis
    proof (cases "enqueue (su_id s)")
      case (Inl e)
      then show ?thesis using True reaches_trans [OF o' Cons.IH] by simp
    next
      case (Inr m)
      have "reaches W (snd (study_step (set_study_queue_identifier (su_id s) m (su_version s)) (others k W)))"
        by (rule reaches_trans [OF o' study_steps_reach(3)])
      then show ?thesis using True Inr reaches_trans [OF _ Cons.IH] by simp
    qed
  qed (use Cons.IH in simp)
qed simp

lemma reconcile_reaches:
  assumes c: "reachable_at c W" and wb: "well_behaved others"
  shows "\<exists>c'. leads_to c W c' (snd (reconcile_automl c enqueue others W))"
proof -
  have repaired: "leads_to c W c (repair_leases c W)"
    using leads_to.committed [OF leads_to.nothing, of "RepairLeases c" c W] by simp
  have "reachable_at c (repair_leases c W)" using leads_to_evolves [OF repaired c] by simp
  then obtain c' where "leads_to c (repair_leases c W) c' (snd (reconcile_automl c enqueue others W))"
    using nudge_reaches [OF wb] unfolding reaches_def reconcile_automl_def by (metis snd_conv)
  then show ?thesis using leads_to_trans [OF _ repaired] by blast
qed

section \<open>The management service\<close>

lemma create_study_reaches: "reaches W (W\<lparr>as_studies := snd (create_study company_of n (as_studies W))\<rparr>)"
  using reaches_event [of "InsertStudy company_of n" W] by simp

lemma submit_study_reaches:
  assumes "well_behaved (sv_others env)"
  shows "reaches W (snd (submit_study env tn owner spec given W))"
proof -
  let ?W1 = "sv_others env 0 W"
  have o': "reaches W ?W1" by (rule reaches_others [OF assms reaches_refl])
  have "reaches W (?W1\<lparr>as_studies := S\<rparr>)" if "create_study (sv_company_of env) n (as_studies ?W1) = (x, S)" for n x S
    using reaches_trans [OF o' create_study_reaches [of ?W1 "sv_company_of env" n]] that by simp
  then show ?thesis using o'
    by (auto simp: submit_study_def Let_def split: option.splits sum.splits prod.splits)
qed

lemma cancel_with_reaches:
  assumes "reaches W (snd r)"
  shows "reaches W (snd (cancel_with i t outcome conflict r))"
  using assms reaches_trans [OF assms cancel_waiting_reaches]
  by (cases r) (auto simp: cancel_with_def split: option.split)

lemma cancel_study_reaches:
  assumes "well_behaved (sv_others env)"
  shows "reaches W (snd (cancel_study env tn i user is_admin W))"
proof -
  have o': "reaches W (sv_others env 0 W)" by (rule reaches_others [OF assms reaches_refl])
  note steps = reaches_trans [OF o' study_steps_reach(7)] reaches_trans [OF o' study_steps_reach(8)]
  show ?thesis using cancel_with_reaches [OF steps(1)] cancel_with_reaches [OF steps(2)]
    by (simp add: cancel_study_def Let_def split: sum.split)
qed

section \<open>Refinement\<close>

text \<open>
  C11: The coordinator, the trial worker, the reconciler and the management service only commit
  events of the store: whatever they answer, and whatever others commit between their
  transactions while time passes, events lead from the store before to the store after. So the
  invariants of reachable stores hold throughout AutoML.
\<close>

theorem automl_actors_refine_events:
  assumes "reachable_at c (aw_store W)" and "well_behaved others" and "te_now tenv = c"
    and "co_others cenv = others" and "sv_others senv = others" and "te_others tenv = others 0"
  shows "(\<exists>c'. leads_to c (aw_store W) c' (aw_store (snd (coordinate cenv i W)))) \<and>
    (\<exists>c'. leads_to c (aw_store W) c' (snd (execute_trial tenv t (aw_store W)))) \<and>
    (\<exists>c'. leads_to c (aw_store W) c' (snd (reconcile_automl c enqueue others (aw_store W)))) \<and>
    (\<exists>c'. leads_to c (aw_store W) c' (snd (submit_study senv tn owner spec given (aw_store W)))) \<and>
    (\<exists>c'. leads_to c (aw_store W) c' (snd (cancel_study senv tn i user is_admin (aw_store W))))"
proof -
  have c: "\<exists>c'. leads_to c (aw_store W) c' V" if "reaches (aw_store W) V" for V
    using that assms(1) by (simp add: reaches_def)
  have te: "reaches V (te_others tenv V)" for V using assms(2,6) by (simp add: well_behaved_def)
  show ?thesis
    using c [OF coordinate_reaches [of cenv W i]] execute_reaches [OF assms(1,3) te, of t]
      reconcile_reaches [OF assms(1,2), of enqueue] c [OF submit_study_reaches [of senv]] c [OF cancel_study_reaches [of senv]]
      assms(2,4,5) by simp
qed

text \<open>A coordinator's environment for the sample study, in which nobody interferes.\<close>

definition sample_coordinator :: "unit coordinator_env" where
  "sample_coordinator = \<lparr>co_now = 0, co_finished_at = 1, co_slots = 2, co_enqueue_trial = \<lambda>i. Inr ''m'',
     co_generator = unit_generator, co_digests = constant_digests, co_trial_id = \<lambda>n. n, co_training = None,
     co_has_training_repository = True, co_tenant = None, co_others = \<lambda>k W. W\<rparr>"

definition sample_trial_env :: "unit trial_env" where
  "sample_trial_env = \<lparr>te_now = 0, te_lease_seconds = 60, te_rejected_at = 0,
     te_process = \<lambda>q t. sample_outcome, te_others = \<lambda>W. W, te_finished_at = 9, te_duration = 1, te_enqueue_study = \<lambda>i. Inr ''m''\<rparr>"

definition sample_service :: study_service_env where
  "sample_service = \<lparr>sv_company_of = \<lambda>u. Some 2, sv_fingerprint = \<lambda>s. ''f'', sv_new_id = 30, sv_now = 5, sv_others = \<lambda>k W. W\<rparr>"

lemma nobody_interferes: "well_behaved (\<lambda>k W. W)"
  by (simp add: well_behaved_def)

lemma automl_actors_refine_events_witness:
  "\<exists>c'. leads_to 0 (automl_events (take 4 sample_events) empty_store) c'
     (snd (execute_trial sample_trial_env 7 (automl_events (take 4 sample_events) empty_store)))"
proof -
  let ?W = "\<lparr>aw_store = automl_events (take 4 sample_events) empty_store, aw_jobs = []\<rparr>"
  have r: "reachable_at 0 (aw_store ?W)" using sample_store_reachable [of 4] by simp
  show ?thesis
    using automl_actors_refine_events [OF r nobody_interferes, of sample_trial_env sample_coordinator sample_service 1 7]
    by (simp add: sample_trial_env_def sample_coordinator_def sample_service_def)
qed

end
