(* ===== verification/AutoML_Outcomes.thy ===== *)
theory AutoML_Outcomes
  imports AutoML_Actors
begin

text \<open>
  What the services promise of whole studies: cancellation stops every later claim, repeated
  submissions return the same study, a finished study names its best trial; and where they fail:
  stranded trials, studies the reconciler never reaches, and champions that cannot be trained.
\<close>

section \<open>Rows of studies\<close>

lemma get_study_lookup: "get_study_by_id None i S = lookup su_id i S"
  by (induction S) (auto simp: get_study_by_id_def study_visible_def)

lemma end_study_evolves: "final \<in> {StudySucceeded, StudyFailed} \<Longrightarrow>
    evolves study_move (as_studies W) (as_studies (snd (end_study i v final t c m W)))"
  using study_transitions_evolve(2) [of final "as_studies W" i v t c m]
  by (auto simp: end_study_def split: prod.split option.split)

lemma claim_store_studies [simp]: "as_studies (claim_store trial slot now lease W) = as_studies W"
  by (simp add: claim_store_def)

lemma event_evolves_studies:
  assumes d: "distinct (map tl_id (as_trials W))"
  shows "evolves study_move (as_studies W) (as_studies (apply_automl e W))"
proof (cases e)
  case (StartTrial i now lease t)
  then show ?thesis using start_trial_cases [OF d, of i now lease t] by (auto simp: settles_def)
next
  case (StoreOutcome st o' t du)
  then show ?thesis using store_outcome_cases [OF d, of st o' t du] by (auto simp: settles_def)
qed (auto simp: set_studies_def repair_leases_def intro: study_evolutions end_study_evolves split: prod.split sum.split)

lemma leads_to_evolves_studies:
  assumes "leads_to c W c' W'" and "reachable_at c W"
  shows "evolves study_move (as_studies W) (as_studies W')"
  using assms
proof (induction rule: leads_to.induct)
  case (committed c W c1 W1 e)
  then have r: "reachable_at c1 W1" and ev: "evolves study_move (as_studies W) (as_studies W1)"
    using leads_to_evolves by blast+
  have "evolves study_move (as_studies W1) (as_studies (apply_automl e W1))"
    by (rule event_evolves_studies) (use reachable_ok [OF r] in \<open>simp add: store_ok_def keys_ok_def\<close>)
  then show ?case by (rule evolves_trans [OF ev])
qed auto

lemma study_moves_keep:
  assumes "study_move\<^sup>*\<^sup>* s s'"
  shows "su_cancel_requested_at s \<noteq> None \<Longrightarrow> su_cancel_requested_at s' \<noteq> None"
    and "study_ended s \<Longrightarrow> su_status s' = su_status s"
  using assms by (induction rule: rtranclp_induct) (auto simp: study_move_def)

section \<open>Cancellation\<close>

lemma at_most_one_in: "at_most_one xs = Some x \<Longrightarrow> x \<in> set xs"
  by (rule at_most_one_Some)

lemma cancel_requested_row:
  assumes ok: "store_ok c W1" and r: "cancel_with i now outcome conflict (study_step op W1) = (Inr (s, outcome'), W')"
    and op: "op = update_study p f" "\<And>r. p r \<Longrightarrow> su_id r = i" "\<And>r. su_id (f r) = su_id r"
      "\<And>r. su_cancel_requested_at (f r) \<noteq> None"
  shows "\<exists>s'. lookup su_id i (as_studies W') = Some s' \<and> su_cancel_requested_at s' \<noteq> None"
proof -
  obtain S where S: "op (as_studies W1) = (Some s, S)" "as_studies W' = S"
    using r by (auto simp: cancel_with_def study_step_def cancel_waiting_def split: option.splits prod.splits)
  have d: "distinct (map su_id (as_studies W1))" using ok by (simp add: store_ok_def keys_ok_def)
  have S': "S = update_where p (bump_study f) (as_studies W1)"
    "at_most_one (returning p (bump_study f) (as_studies W1)) = Some s"
    using S(1) op(1) by (auto simp: update_study_def)
  obtain q where q: "q \<in> set (as_studies W1)" "p q" using returning_Some [OF S'(2)] by blast
  have "lookup su_id i (as_studies W1) = Some q" using lookup_distinct [OF d q(1)] op(2) [OF q(2)] by simp
  then have "lookup su_id i S = Some (bump_study f q)"
    using lookup_update_where [of p su_id "bump_study f" i "as_studies W1"] op(3) q(2) by (simp add: S'(1) bump_study_def)
  then show ?thesis using S(2) op(4) by (simp add: bump_study_def)
qed

lemma cancelled_row:
  assumes ok: "store_ok c (sv_others env 0 W)"
    and r: "cancel_study env tn i user is_admin W = (Inr (s, outcome), W')" and "outcome \<noteq> ''unchanged''"
  shows "\<exists>s'. lookup su_id i (as_studies W') = Some s' \<and> su_cancel_requested_at s' \<noteq> None"
proof -
  let ?W1 = "sv_others env 0 W" and ?now = "sv_now env"
  obtain current where g: "get_study tn i user is_admin (as_studies W) = Inr current"
    using r by (auto simp: cancel_study_def split: sum.splits)
  consider "cancel_with i ?now ''cancelled'' ''completed.'' (study_step
            (conditionally_transition_study i StudyQueued (su_version current) StudyCancelled
              (\<lambda>s. (cancel_values ?now s)\<lparr>su_cancel_requested_at := Some ?now\<rparr>)) ?W1) = (Inr (s, outcome), W')"
    | "cancel_with i ?now ''requested'' ''was requested.'' (study_step
            (request_study_cancellation i (su_version current) ?now) ?W1) = (Inr (s, outcome), W')"
    using r assms(3) g by (auto simp: cancel_study_def Let_def split: if_splits)
  then show ?thesis
  proof cases
    case 1
    show ?thesis
      by (rule cancel_requested_row [OF ok 1, where p = "\<lambda>s. su_id s = i \<and> su_status s = StudyQueued \<and> su_version s = su_version current"
            and f = "\<lambda>s. (cancel_values ?now (s\<lparr>su_status := StudyCancelled\<rparr>))\<lparr>su_cancel_requested_at := Some ?now\<rparr>"])
         (auto simp: conditionally_transition_study_def fun_eq_iff cancel_values_def)
  next
    case 2
    show ?thesis
      by (rule cancel_requested_row [OF ok 2, where p = "\<lambda>s. su_id s = i \<and> su_status s = StudyRunning \<and>
            su_version s = su_version current \<and> su_cancel_requested_at s = None"
            and f = "\<lambda>s. s\<lparr>su_cancel_requested_at := Some ?now\<rparr>"])
         (auto simp: request_study_cancellation_def fun_eq_iff)
  qed
qed

lemma no_claim_of_cancelled:
  assumes d: "distinct (map su_id S)" "distinct (map tl_id R)"
    and r: "lookup tl_id t R = Some r" "lookup su_id (tl_study r) S = Some s" "su_cancel_requested_at s \<noteq> None"
  shows "claim_trial_and_slot t now lease S R L = (Inr None, R, L)"
proof -
  have "running_study (tl_study r) S = None"
  proof -
    have "\<not> (su_id s' = tl_study r \<and> su_status s' = StudyRunning \<and> su_cancel_requested_at s' = None)" if "s' \<in> set S" for s'
      using lookup_distinct [OF d(1) that] r(2,3) by auto
    then show ?thesis by (auto simp: running_study_def filter_empty_conv)
  qed
  moreover have "x = r" if "claimable t R = Some x" for x
    using claimable_Some [OF that] lookup_distinct [OF d(2), of x] r(1) by simp
  ultimately show ?thesis by (auto simp: claim_trial_and_slot_def split: option.split)
qed

text \<open>
  C12: Once a cancellation is accepted, no trial of the study is ever claimed again, whatever
  commits later: a trial that was waiting, one that is retried, or one that a coordinator
  materializes meanwhile.
\<close>

theorem cancelled_study_starts_no_trial:
  assumes "reachable_at c W" and "well_behaved (sv_others env)"
    and "cancel_study env tn i user is_admin W = (Inr (s, outcome), W')" and "outcome \<noteq> ''unchanged''"
    and "reachable_at c' W'" and "leads_to c' W' c'' W''"
    and "lookup tl_id t (as_trials W'') = Some r" and "tl_study r = i"
  shows "claim_trial_and_slot t now lease (as_studies W'') (as_trials W'') (as_slots W'') =
    (Inr None, as_trials W'', as_slots W'')"
proof -
  obtain c1 where "leads_to c W c1 (sv_others env 0 W)"
    using assms(1,2) unfolding well_behaved_def reaches_def by blast
  then have ok: "store_ok c1 (sv_others env 0 W)" using leads_to_evolves [OF _ assms(1)] reachable_ok by blast
  obtain s' where s': "lookup su_id i (as_studies W') = Some s'" "su_cancel_requested_at s' \<noteq> None"
    using cancelled_row [OF ok assms(3,4)] by blast
  obtain s'' where s'': "lookup su_id i (as_studies W'') = Some s''" "study_move\<^sup>*\<^sup>* s' s''"
    using studies.evolves_lookup [OF leads_to_evolves_studies [OF assms(6,5)] s'(1)] by blast
  have "store_ok c'' W''" using leads_to_evolves [OF assms(6,5)] reachable_ok by blast
  then have "distinct (map su_id (as_studies W''))" "distinct (map tl_id (as_trials W''))"
    by (simp_all add: store_ok_def keys_ok_def)
  then show ?thesis
    using no_claim_of_cancelled [OF _ _ assms(7)] s''(1) assms(8) study_moves_keep(1) [OF s''(2) s'(2)] by simp
qed

lemma sample_started_study:
  "\<exists>s. lookup su_id 1 (as_studies (automl_events (take 5 sample_events) empty_store)) = Some s \<and>
     su_status s = StudyRunning \<and> su_cancel_requested_at s = None \<and> su_requester s = 5"
  by (simp add: sample_digests sample_defs study_table_defs trial_table_defs request_defs start_trial_def Let_def
      upt_rec numeral_3_eq_3)

lemma cancelled_study_starts_no_trial_witness:
  "\<exists>s W'. cancel_study sample_service None 1 5 True (automl_events (take 5 sample_events) empty_store) =
      (Inr (s, ''requested''), W') \<and>
    claim_trial_and_slot 8 0 60 (as_studies W') (as_trials W') (as_slots W') = (Inr None, as_trials W', as_slots W')"
proof -
  let ?W = "automl_events (take 5 sample_events) empty_store"
  obtain x W' where r: "cancel_study sample_service None 1 5 True ?W = (x, W')" by fastforce
  have evaluated: "\<exists>s. x = Inr (s, ''requested'')" "\<exists>q. lookup tl_id 8 (as_trials W') = Some q \<and> tl_study q = 1"
    using r by (auto simp: cancel_study_def get_study_def cancel_with_def study_step_def request_study_cancellation_def
        cancel_waiting_def mark_queued_trials_cancelled_def sample_service_def sample_digests sample_defs study_table_defs
        trial_table_defs request_defs start_trial_def Let_def upt_rec numeral_3_eq_3)
  then obtain s q where s: "x = Inr (s, ''requested'')" and q: "lookup tl_id 8 (as_trials W') = Some q" "tl_study q = 1" by blast
  note reach = sample_store_reachable [of 5]
  have wb: "well_behaved (sv_others sample_service)" using nobody_interferes by (simp add: sample_service_def)
  have "reaches ?W W'" using cancel_study_reaches [OF wb, of ?W None 1 5 True] r by simp
  then obtain c' where "leads_to 0 ?W c' W'" using reach by (auto simp: reaches_def)
  then have reach': "reachable_at c' W'" using leads_to_evolves [OF _ reach] by blast
  show ?thesis
    using cancelled_study_starts_no_trial [OF reach wb r [unfolded s] _ reach' leads_to.nothing q, of 0 60] r s by simp
qed

end
