(* ===== verification/AutoML_Findings.thy ===== *)
theory AutoML_Findings
  imports AutoML_Outcomes Job_Service_Correct
begin

text \<open>
  How AutoML studies end and how they fail to: the best trial of a finished study, trials and
  studies that no actor reaches any more, and champions that no training job accepts.
\<close>

section \<open>Stranded trials\<close>

text \<open>
  C14: A message that reaches a worker while every slot is taken is consumed without an effect,
  but its trial still counts as dispatched: when the study admits one trial at a time, the
  coordinator then neither sends it again nor sends another. Nothing changes until the deadline.
\<close>

theorem refused_delivery_strands_study:
  assumes "lookup su_id i (as_studies W) = Some study" and "su_status study = StudyRunning"
    and "su_cancel_requested_at study = None" and "su_max_concurrent study = 1"
    and "su_deadline_at study = Some d" and "co_now env < d"
    and "r \<in> set (as_trials W)" and "tl_study r = i" and "tl_status r = TrialQueued" and "tl_message r \<noteq> None"
    and "available_slot (te_now tenv) (as_slots W) = None"
    and "initialize_slots (co_slots env) (as_slots W) = as_slots W" and "co_others env = (\<lambda>k W. W)"
  shows "execute_trial tenv (tl_id r) W = (Inr ExecutionSkipped, W) \<and>
    coordinate env i \<lparr>aw_store = W, aw_jobs = T\<rparr> = (Inr ExecutionSkipped, \<lparr>aw_store = W, aw_jobs = T\<rparr>)"
proof
  have "claim_trial_and_slot t (te_now tenv) lease (as_studies W) (as_trials W) (as_slots W) =
      (Inr None, as_trials W, as_slots W)" for t lease
    using assms(11) by (auto simp: claim_trial_and_slot_def split: option.split)
  then show "execute_trial tenv (tl_id r) W = (Inr ExecutionSkipped, W)"
    by (simp add: execute_trial_def start_trial_def)
  let ?V = "\<lparr>aw_store = W, aw_jobs = T\<rparr>"
  let ?rs = "list_all_trials i (as_trials W)"
  have id: "su_id study = i" using lookup_SomeD [OF assms(1)] by simp
  have member: "r \<in> set ?rs" using assms(7,8) by (simp add: list_all_trials_def)
  then have "r \<in> set (dispatched_trials ?rs)" using assms(9,10) by (simp add: dispatched_trials_def)
  then have "1 \<le> length (dispatched_trials ?rs)" by (cases "dispatched_trials ?rs") auto
  then have none: "dispatch_capacity study ?rs = 0" using assms(4) by (simp add: dispatch_capacity_def)
  have waits: "list_ex (\<lambda>r. tl_status r \<in> {TrialQueued, TrialRunning}) ?rs"
    using member assms(9) by (auto simp: list_ex_iff)
  have "dispatch_study env study ?rs ?V = (Inr ExecutionSkipped, ?V)"
    using none waits by (simp add: dispatch_study_def Let_def assms(13) id)
  moreover have "\<not> deadline_passed (co_now env) study" using assms(5,6) by (simp add: deadline_passed_def expired_def)
  moreover have "?rs \<noteq> []" using member by auto
  ultimately have "advance_study env study ?V = (Inr ExecutionSkipped, ?V)"
    by (simp add: advance_study_def Let_def assms(13) id)
  then show "coordinate env i ?V = (Inr ExecutionSkipped, ?V)"
    by (simp add: coordinate_def continue_study_def Let_def get_study_lookup assms(1-3,12,13))
qed

text \<open>Two studies share one slot: trial 9 of the second one holds it when trial 7 is delivered.\<close>

definition crowded_events :: "automl_event list" where
  "crowded_events = [InsertStudy (\<lambda>u. Some 2) sample_study, StartStudy 1 0 0,
     InsertTrials 1 0 [(7, sample_trial 0 ''x'')], InsertStudy (\<lambda>u. Some 2) (sample_study\<lparr>su_id := 2\<rparr>),
     StartStudy 2 0 0, InsertTrials 2 0 [(9, sample_trial 0 ''x'')], InitializeSlots 1,
     TrialMessage 7 ''m'' 0, StartTrial 9 0 100 0]"

lemmas crowded_defs = crowded_events_def study_conflict_def sample_digests sample_defs study_table_defs trial_table_defs request_defs
  start_trial_def set_trial_queue_identifier_def update_trial_def Let_def upt_rec numeral_3_eq_3

lemma crowded_studies:
  "map (\<lambda>s. (su_id s, su_status s, su_cancel_requested_at s, su_max_concurrent s, su_deadline_at s))
      (as_studies (automl_events crowded_events empty_store)) =
    [(1, StudyRunning, None, 1, Some (600 * second)), (2, StudyRunning, None, 1, Some (600 * second))]"
  by (simp add: crowded_defs)

lemma crowded_trials:
  "map (\<lambda>r. (tl_id r, tl_study r, tl_status r, tl_message r)) (as_trials (automl_events crowded_events empty_store)) =
    [(7, 1, TrialQueued, Some ''m''), (9, 2, TrialRunning, None)]"
  by (simp add: crowded_defs)

lemma crowded_slots:
  "available_slot 0 (as_slots (automl_events crowded_events empty_store)) = None"
  "initialize_slots 1 (as_slots (automl_events crowded_events empty_store)) = as_slots (automl_events crowded_events empty_store)"
  by (simp_all add: crowded_defs)

lemma refused_delivery_strands_study_witness:
  "\<exists>W. reachable_at 0 W \<and> execute_trial sample_trial_env 7 W = (Inr ExecutionSkipped, W) \<and>
     coordinate (sample_coordinator\<lparr>co_slots := 1\<rparr>) 1 \<lparr>aw_store = W, aw_jobs = []\<rparr> =
       (Inr ExecutionSkipped, \<lparr>aw_store = W, aw_jobs = []\<rparr>)"
proof -
  let ?W = "automl_events crowded_events empty_store"
  have "list_all (\<lambda>e. event_time e \<in> {None, Some 0}) crowded_events" by (simp add: crowded_events_def)
  then have reach: "reachable_at 0 ?W" by (rule reachable_events [OF reachable_at.initial])
  obtain study where study: "lookup su_id 1 (as_studies ?W) = Some study" "su_status study = StudyRunning"
      "su_cancel_requested_at study = None" "su_max_concurrent study = 1" "su_deadline_at study = Some (600 * second)"
    using crowded_studies by (auto simp: map_eq_Cons_conv)
  obtain r where r: "r \<in> set (as_trials ?W)" "tl_id r = 7" "tl_study r = 1" "tl_status r = TrialQueued" "tl_message r \<noteq> None"
    using crowded_trials by (auto simp: map_eq_Cons_conv intro: that)
  have "execute_trial sample_trial_env (tl_id r) ?W = (Inr ExecutionSkipped, ?W) \<and>
      coordinate (sample_coordinator\<lparr>co_slots := 1\<rparr>) 1 \<lparr>aw_store = ?W, aw_jobs = []\<rparr> =
        (Inr ExecutionSkipped, \<lparr>aw_store = ?W, aw_jobs = []\<rparr>)"
    by (rule refused_delivery_strands_study [OF study _ r(1,3-5)])
       (simp_all add: sample_coordinator_def sample_trial_env_def crowded_slots crowded_slots(2) [simplified])
  then show ?thesis using reach r(2) by auto
qed

section \<open>Studies the reconciler does not reach\<close>

lemma take_sorted_smaller:
  assumes "x \<in> set (take n (sort_key f xs))"
  shows "length (filter (\<lambda>y. f y < f x) xs) < n"
proof -
  let ?ys = "sort_key f xs"
  obtain k where k: "k < length ?ys" "k < n" "?ys ! k = x" using assms by (auto simp: in_set_conv_nth)
  have "i < k" if i: "i < length ?ys" "f (?ys ! i) < f x" for i
  proof (rule ccontr)
    assume "\<not> i < k"
    then have "k \<le> i" by simp
    moreover have "sorted (map f ?ys)" by simp
    ultimately have "map f ?ys ! k \<le> map f ?ys ! i" using sorted_nth_mono [of "map f ?ys" k i] i(1) by simp
    then show False using i k by simp
  qed
  then have "{i. i < length ?ys \<and> f (?ys ! i) < f x} \<subseteq> {..< k}" by blast
  then have "card {i. i < length ?ys \<and> f (?ys ! i) < f x} \<le> k" using card_mono [of "{..< k}"] by fastforce
  then have "length (filter (\<lambda>y. f y < f x) ?ys) \<le> k" by (simp add: length_filter_conv_card)
  moreover have "length (filter (\<lambda>y. f y < f x) xs) = length (filter (\<lambda>y. f y < f x) ?ys)"
    by (metis filter_sort length_sort)
  ultimately show ?thesis using k(2) by simp
qed

lemma page_recent:
  assumes "s \<in> set (reconcile_page S)"
  shows "length (filter (\<lambda>s'. su_created_at s < su_created_at s') S) < 100"
proof -
  have page: "reconcile_page S = take 100 (sort_key (\<lambda>s. (- su_created_at s, su_id s)) S)"
    by (simp add: reconcile_page_def list_studies_def Let_def study_visible_def)
  have le: "length (filter P xs) \<le> length (filter Q xs)" if "\<And>x. P x \<Longrightarrow> Q x" for P Q and xs :: "automl_study list"
    using that by (induction xs) auto
  have "length (filter (\<lambda>y. (- su_created_at y, su_id y) < (- su_created_at s, su_id s)) S) < 100"
    using take_sorted_smaller assms unfolding page by fastforce
  moreover have "length (filter (\<lambda>s'. su_created_at s < su_created_at s') S) \<le>
      length (filter (\<lambda>y. (- su_created_at y, su_id y) < (- su_created_at s, su_id s)) S)"
    by (rule le) simp
  ultimately show ?thesis by simp
qed

lemma nudge_keeps:
  assumes "\<And>s. s \<in> set ss \<Longrightarrow> su_id s \<noteq> i"
  shows "lookup su_id i (as_studies (nudge_studies enqueue (\<lambda>k W. W) k ss W)) = lookup su_id i (as_studies W)"
  using assms
proof (induction ss arbitrary: k W)
  case (Cons s ss)
  have "lookup su_id i (as_studies (snd (study_step (set_study_queue_identifier (su_id s) m v) W))) = lookup su_id i (as_studies W)" for m v
  proof -
    have "snd (study_step (set_study_queue_identifier (su_id s) m v) W) =
        set_studies W (set_study_queue_identifier (su_id s) m v (as_studies W))"
      by (rule study_step_set) (auto simp: set_study_queue_identifier_def fun_eq_iff)
    moreover have "lookup su_id i (update_where (\<lambda>r. su_id r = su_id s \<and> su_version r = v \<and> su_status r \<in> {StudyQueued, StudyRunning})
        (bump_study (\<lambda>s. s\<lparr>su_message := Some m\<rparr>)) S) = lookup su_id i S" for S
      using Cons.prems [of s] by (induction S) (auto simp: bump_study_def)
    ultimately show ?thesis
      by (simp only: set_studies_def set_study_queue_identifier_def update_study_def) simp
  qed
  then show ?case using Cons by (simp split: sum.split)
qed simp

text \<open>
  C15: The reconciler looks at the hundred newest studies of the platform, ended ones included. A
  running study with a hundred newer ones is never nudged again: its row stays as it is, although
  only the reconciler wakes a study whose champion is in training.
\<close>

theorem reconciler_overlooks_older_studies:
  assumes "lookup su_id i (as_studies W) = Some s"
    and "distinct (map su_id (as_studies W))"
    and "100 \<le> length (filter (\<lambda>s'. su_created_at s < su_created_at s') (as_studies W))"
  shows "lookup su_id i (as_studies (snd (reconcile_automl now enqueue (\<lambda>k W. W) W))) = Some s"
proof -
  have s: "s \<in> set (as_studies W)" "su_id s = i" using lookup_SomeD [OF assms(1)] by simp_all
  have "su_id s' \<noteq> i" if s': "s' \<in> set (reconcile_page (as_studies W))" for s'
  proof
    assume i: "su_id s' = i"
    have "s' \<in> set (as_studies W)"
      using s' by (auto simp: reconcile_page_def list_studies_def Let_def study_visible_def dest!: in_set_takeD)
    then have "s' = s" using same_row [OF assms(2) _ s(1)] s(2) i by simp
    then show False using page_recent [OF s'] assms(3) by simp
  qed
  then show ?thesis using assms(1)
    by (simp add: reconcile_automl_def nudge_keeps repair_leases_def)
qed

definition many_studies :: "automl_study list" where
  "many_studies = map (\<lambda>n. sample_study\<lparr>su_id := n, su_created_at := int n, su_status := StudyRunning\<rparr>) [0..<101]"

lemma reconciler_overlooks_older_studies_witness:
  "lookup su_id 0 (as_studies (snd (reconcile_automl 0 (\<lambda>i. Inr ''m'') (\<lambda>k W. W)
      (empty_store\<lparr>as_studies := many_studies\<rparr>)))) =
    Some (sample_study\<lparr>su_id := 0, su_created_at := 0, su_status := StudyRunning\<rparr>)"
proof -
  have "[0..<101] = 0 # [1..<101::nat]" by (simp add: upt_rec)
  then have "lookup su_id 0 many_studies = Some (sample_study\<lparr>su_id := 0, su_created_at := 0, su_status := StudyRunning\<rparr>)"
    by (simp add: many_studies_def)
  moreover have "map su_id many_studies = [0..<101]" by (simp add: many_studies_def o_def)
  moreover have "filter ((<) 0) [0..<101] = [1..<101::nat]" using \<open>[0..<101] = 0 # [1..<101::nat]\<close> by (simp add: filter_id_conv)
  then have "length (filter (\<lambda>s. 0 < su_created_at s) many_studies) = 100"
    by (simp add: many_studies_def filter_map o_def)
  ultimately show ?thesis
    using reconciler_overlooks_older_studies [of 0 "empty_store\<lparr>as_studies := many_studies\<rparr>"] by simp
qed

section \<open>Finished studies\<close>

lemma filter_key_singleton:
  "distinct (map key rs) \<Longrightarrow> t \<in> set rs \<Longrightarrow> filter (\<lambda>r. key r = key t) rs = [t]"
  by (induction rs) (auto simp: filter_empty_conv rev_image_eqI)

lemma bump_study_register: "su_register (bump_study f s) = su_register (f s)"
  by (simp add: bump_study_def)

lemma study_update_row:
  assumes "distinct (map su_id S)" and "lookup su_id i S = Some s" and "q s"
    and "su_id (f s) = i" and "\<And>r. su_id (f r) = su_id r"
  shows "\<exists>S'. update_study (\<lambda>s. su_id s = i \<and> q s) f S = (Some (bump_study f s), S') \<and>
    lookup su_id i S' = Some (bump_study f s) \<and> distinct (map su_id S')"
proof -
  have id: "su_id (bump_study f r) = su_id r" for r using assms(5) by (simp add: bump_study_def)
  show ?thesis
    using at_most_one_returning [OF assms(1), of "\<lambda>s. su_id s = i \<and> q s" i q "bump_study f"] assms(1-3)
      lookup_SomeD [OF assms(2)] id
    by (simp add: update_study_def lookup_update_where map_update_where)
qed

lemma candidate_trial:
  assumes "x \<in> set (champion_candidates study rs)"
  shows "\<exists>r \<in> set rs. tl_id r = cc_trial x \<and> tl_status r = TrialSucceeded"
proof -
  obtain r where "r \<in> set rs" "champion_value (su_metric study) r = Some x"
    using assms by (auto simp: champion_candidates_def List.map_filter_def)
  then show ?thesis by (auto simp: champion_value_def split: trial_status.splits option.splits)
qed

text \<open>With every trial of a running study ended, an undisturbed coordinator finalizes the study.\<close>

lemma coordinate_finalizes:
  assumes "lookup su_id i (as_studies W) = Some study" and "su_status study = StudyRunning"
    and "su_cancel_requested_at study = None" and "\<not> deadline_passed (co_now env) study"
    and "list_all_trials i (as_trials W) = rs" and "rs \<noteq> []" and "list_all (\<lambda>r. tl_status r \<notin> {TrialQueued, TrialRunning}) rs"
    and "initialize_slots (co_slots env) (as_slots W) = as_slots W" and "co_others env = (\<lambda>k W. W)"
  shows "coordinate env i \<lparr>aw_store = W, aw_jobs = T\<rparr> = finalize_study env 5 study rs \<lparr>aw_store = W, aw_jobs = T\<rparr>"
proof -
  have id: "su_id study = i" using lookup_SomeD [OF assms(1)] by simp
  have none: "waiting_trials rs = []" "\<not> list_ex (\<lambda>r. tl_status r \<in> {TrialQueued, TrialRunning}) rs"
    using assms(7) by (auto simp: waiting_trials_def filter_empty_conv list_all_iff list_ex_iff)
  then have "dispatch_study env study rs \<lparr>aw_store = W, aw_jobs = T\<rparr> = finalize_study env 5 study rs \<lparr>aw_store = W, aw_jobs = T\<rparr>"
    using assms(5) by (simp add: dispatch_study_def Let_def assms(9) id)
  then show ?thesis
    by (simp add: coordinate_def continue_study_def advance_study_def Let_def get_study_lookup id assms)
qed


text \<open>The first trial of the sample study succeeds, the second one is cancelled.\<close>

definition good_outcome :: process_outcome where
  "good_outcome = \<lparr>px_result = Some ([], [''accuracy'' \<mapsto> Fin (1 / 2), ''accuracy_std'' \<mapsto> Fin 0], Fin (1 / 2)),
     px_error_code = None, px_error_message = None\<rparr>"

definition finished_store :: automl_store where
  "finished_store = apply_automl (CancelTrials 1 0) (apply_automl (StoreOutcome sample_started good_outcome 9 2)
     (automl_events (take 5 sample_events) empty_store))"

lemma finished_store_reachable: "reachable_at 0 finished_store"
  unfolding finished_store_def
  by (intro reachable_at.commit sample_store_reachable) simp_all

lemmas finished_store_defs = finished_store_def good_outcome_def sample_started_def sample_digests sample_defs study_table_defs
  trial_table_defs request_defs start_trial_def Let_def upt_rec numeral_3_eq_3 store_outcome_def get_trial_by_id_def
  terminal_store_def conditionally_transition_trial_def update_trial_def terminal_values_def release_with_def release_slot_def
  updated_count_def free_slot_def update_trial_metrics_def storable_metric_def mark_queued_trials_cancelled_def

lemma finished_studies:
  "map (\<lambda>s. (su_id s, su_status s, su_cancel_requested_at s, su_deadline_at s, su_best_trial s, su_register s, su_metric s, su_champion_job s))
      (as_studies finished_store) =
    [(1, StudyRunning, None, Some (600 * second), None, False, ''accuracy'', None)]"
  by (simp add: finished_store_defs)

lemma finished_trials:
  "map (\<lambda>r. (tl_id r, tl_study r, tl_status r, tl_primary_value r, map_option (\<lambda>m. m ''accuracy_std'') (tl_aggregate_metrics r)))
      (as_trials finished_store) =
    [(7, 1, TrialSucceeded, Some (Fin (1 / 2)), Some (Some (Fin 0))), (8, 1, TrialCancelled, None, None)]"
  by (simp add: finished_store_defs)

lemma finished_slots: "length (as_slots finished_store) = 2" "initialize_slots 2 (as_slots finished_store) = as_slots finished_store"
  by (simp_all add: finished_store_defs)

lemma finished_study:
  "\<exists>study. as_studies finished_store = [study] \<and> lookup su_id 1 (as_studies finished_store) = Some study \<and>
     su_status study = StudyRunning \<and> su_cancel_requested_at study = None \<and> su_deadline_at study = Some (600 * second) \<and>
     su_best_trial study = None \<and> \<not> su_register study \<and> su_metric study = ''accuracy'' \<and> su_champion_job study = None"
  using finished_studies by (auto simp: map_eq_Cons_conv)

lemma finished_candidate:
  shows "\<exists>r. r \<in> set (list_all_trials 1 (as_trials finished_store)) \<and> tl_id r = 7"
    and "list_all (\<lambda>r. tl_status r \<notin> {TrialQueued, TrialRunning}) (list_all_trials 1 (as_trials finished_store))"
    and "su_metric study = ''accuracy'' \<Longrightarrow>
       list_ex finite_candidate (champion_candidates study (list_all_trials 1 (as_trials finished_store)))"
proof -
  obtain r q where t: "as_trials finished_store = [r, q]" "tl_id r = 7" "tl_study r = 1" "tl_study q = 1" "tl_status r = TrialSucceeded"
      "tl_status q = TrialCancelled" "tl_primary_value r = Some (Fin (1 / 2))"
      "map_option (\<lambda>m. m ''accuracy_std'') (tl_aggregate_metrics r) = Some (Some (Fin 0))"
    using finished_trials by (auto simp: map_eq_Cons_conv)
  show "list_all (\<lambda>r. tl_status r \<notin> {TrialQueued, TrialRunning}) (list_all_trials 1 (as_trials finished_store))"
    using t by (auto simp: list_all_trials_def list_all_iff)
  have r: "r \<in> set (list_all_trials 1 (as_trials finished_store))" using t by (simp add: list_all_trials_def)
  then show "\<exists>r. r \<in> set (list_all_trials 1 (as_trials finished_store)) \<and> tl_id r = 7" using t(2) by blast
  obtain m where "tl_aggregate_metrics r = Some m" "m ''accuracy_std'' = Some (Fin 0)" using t(8) by auto
  then have "champion_value ''accuracy'' r =
      Some \<lparr>cc_trial = 7, cc_number = tl_number r, cc_value = Fin (1 / 2), cc_deviation = Fin 0\<rparr>"
    using t(2,5,7) by (simp add: champion_value_def)
  then obtain x where x: "champion_value ''accuracy'' r = Some x" "finite_candidate x"
    by (simp add: finite_candidate_def isfinite_def)
  then show "list_ex finite_candidate (champion_candidates study (list_all_trials 1 (as_trials finished_store)))"
    if "su_metric study = ''accuracy''"
    using that r by (force simp: champion_candidates_def List.map_filter_def list_ex_iff)
qed


section \<open>Champions that no training job accepts\<close>

lemma wide_champion_invalid:
  assumes "make_data_reference (su_data study) = Inr data" and "da_training_features data \<noteq> None"
    and "da_features data = Some n" and "max_feature_columns < n" and "su_model_name study \<noteq> None"
  shows "\<exists>m. training_specification study trial = Inl (Exc ValidationError m)"
proof -
  have same: "data = su_data study"
    using assms(1) by (auto simp: make_data_reference_def Let_def split: if_splits option.splits)
  obtain tf tt ef et where snapshot: "da_training_features data = Some tf" "da_training_targets data = Some tt"
      "da_evaluation_features data = Some ef" "da_evaluation_targets data = Some et"
      "tf \<noteq> []" "list_all (\<lambda>row. length row = n) tf"
    using assms(1-3) by (auto simp: make_data_reference_def Let_def list_all_iff list_ex_iff split: if_splits option.splits)
  have width: "matrix_width ''training_features'' (map (map Fin) tf) = Inr n"
    using snapshot(5,6) assms(4) by (auto simp: matrix_width_Inr max_feature_columns_def list_all_iff)
  have limits: "\<exists>m. validate_training_matrix_limits a b n = Inl (value_error m)" for a b
    using assms(4) by (auto simp: validate_training_matrix_limits_def Let_def)
  have other: "\<exists>m. matrix_width name es = Inl (value_error m)" if "\<not> is_ok (matrix_width name es)" for name es
    using that by (auto simp: matrix_width_def Let_def split: if_splits)
  have "\<exists>m. validate_common_values s = Inl (value_error m)" if s: "spec_training_features s = map (map Fin) tf" for s
  proof (cases "matrix_width ''evaluation_features'' (spec_evaluation_features s)")
    case (Inl e)
    then show ?thesis using other [of "''evaluation_features''" "spec_evaluation_features s"] s
      by (auto simp: validate_common_values_def width)
  next
    case (Inr w)
    then show ?thesis using limits [of "length (spec_training_features s)" "length (spec_evaluation_features s)"] s
      by (cases "n = w") (auto simp: validate_common_values_def width guard_that_def)
  qed
  then have "\<exists>m. validate_spec s = Inl (Exc ValidationError m)" if "spec_training_features s = map (map Fin) tf" for s
    using that by (fastforce simp: validate_spec_def validation_error_def value_error_def isinstance_def)
  then show ?thesis using assms(1,5) snapshot(1-4) by (auto simp: training_specification_def)
qed


text \<open>The finished study with a snapshot of 257 columns, its champion to be registered.\<close>

definition wide_data :: data_reference where
  "wide_data = (let rows = [replicate 257 0, replicate 257 1] in
     sample_data\<lparr>da_features := Some 257, da_training_features := Some rows, da_evaluation_features := Some rows\<rparr>)"

lemma wide_data_made: "make_data_reference wide_data = Inr wide_data"
  by (simp add: wide_data_def Let_def sample_data_def make_data_reference_def data_fields_ok_def given_in_def limit_defs
      sample_digests)

definition wide_store :: automl_store where
  "wide_store = finished_store\<lparr>as_studies := map (\<lambda>s. s\<lparr>su_register := True, su_model_name := Some ''model'',
     su_best_trial := Some 7, su_data := wide_data\<rparr>) (as_studies finished_store)\<rparr>"


end
