(* ===== verification/Dataset_Ingestion.thy ===== *)
theory Dataset_Ingestion
  imports AutoML_Models Python_Text
begin

text \<open>
  The importers of \<^verbatim>\<open>datasets/ingestion.py\<close> and the contracts of
  \<^verbatim>\<open>datasets/domain.py\<close> they use: CSV uploads are checked and get a schema with inferred
  types, text uploads are normalised, and a registered CSV is resolved into a training and an
  evaluation set. UTF-8 decoding is the parameter \<open>decode\<close>, from bytes to a text whose code
  points are below 256.
\<close>

section \<open>Contracts\<close>

type_synonym bytes = "nat list"

type_synonym decoder = "bytes \<Rightarrow> string option"

datatype column_type = IntegerColumn | FloatColumn | StringColumn | BooleanColumn

record tabular_column =
  tc_name :: string
  tc_type :: column_type
  tc_nullable :: bool

record tabular_schema =
  sm_columns :: "tabular_column list"
  sm_target :: "string option"
  sm_split :: "string option"

definition name_ok :: "string \<Rightarrow> bool" where
  "name_ok s \<longleftrightarrow> 1 \<le> length s \<and> length s \<le> 128"

definition make_tabular_schema :: "tabular_schema \<Rightarrow> tabular_schema result" where
  "make_tabular_schema s =
     (let names = map tc_name (sm_columns s); references = [sm_target s, sm_split s] in
      if \<not> (1 \<le> length (sm_columns s) \<and> length (sm_columns s) \<le> 256 \<and> list_all name_ok names \<and>
          list_all (pred_option name_ok) references)
      then Inl (validation_error ''TabularSchema'')
      else if \<not> distinct names then Inl (validation_error ''Dataset columns must be unique.'')
      else if list_ex (\<lambda>v. v \<noteq> None \<and> the v \<notin> set names) references
      then Inl (validation_error ''Schema column references must exist.'')
      else if sm_target s \<noteq> None \<and> sm_target s = sm_split s
      then Inl (validation_error ''Target and split columns must be different.'')
      else Inr s)"

record ingestion_options =
  io_target :: "string option"
  io_split :: "string option"
  io_fraction :: real

definition make_ingestion_options :: "ingestion_options \<Rightarrow> ingestion_options result" where
  "make_ingestion_options opts =
     (if \<not> (list_all (pred_option name_ok) [io_target opts, io_split opts] \<and>
          1 / 10 \<le> io_fraction opts \<and> io_fraction opts \<le> 4 / 10)
      then Inl (validation_error ''IngestionOptions'')
      else if io_target opts \<noteq> None \<and> io_target opts = io_split opts
      then Inl (validation_error ''Target and split columns must be different.'')
      else Inr opts)"

record readiness =
  rd_numeric_features :: "string list"
  rd_non_numeric_features :: "string list"
  rd_target :: "string option"
  rd_target_type :: "column_type option"
  rd_distinct_targets :: nat
  rd_distribution :: "(string \<times> nat) list"
  rd_classification :: bool
  rd_regression :: bool
  rd_ready :: bool
  rd_blockers :: "string list"
  rd_warnings :: "string list"

datatype schema_snapshot =
    NoSnapshot
  | TabularSnapshot tabular_schema readiness
  | TextSnapshot nat

record ingestion_result =
  ir_schema :: schema_snapshot
  ir_rows :: "nat option"
  ir_columns :: "nat option"
  ir_text :: "string option"

record csv_limits =
  cl_rows :: nat
  cl_columns :: nat
  cl_cell :: nat

abbreviation ingestion_error :: "string \<Rightarrow> 'a result" where
  "ingestion_error m \<equiv> Inl (Exc DatasetIngestionError m)"

text \<open>\<^verbatim>\<open>except ValueError as exc: raise DatasetIngestionError(m)\<close>\<close>

fun wrap_ingestion :: "string \<Rightarrow> 'a result \<Rightarrow> 'a result" where
  "wrap_ingestion m (Inr x) = Inr x"
| "wrap_ingestion m (Inl e) = (if isinstance (exc_of e) [ValueError] then ingestion_error m else Inl e)"

section \<open>Cells and types\<close>

definition decode_text :: "decoder \<Rightarrow> bytes \<Rightarrow> string result" where
  "decode_text decode payload = (case decode payload of
     None \<Rightarrow> ingestion_error ''Uploads must use valid UTF-8 encoding.'' | Some t \<Rightarrow> Inr t)"

definition looks_executable :: "string \<Rightarrow> bool" where
  "looks_executable v = (case v of
     [] \<Rightarrow> False
   | c # _ \<Rightarrow>
      if c \<in> {CHR ''='', CHR ''+'', CHR ''@''} then True
      else if c = CHR ''-'' then (case float_of_text v of None \<Rightarrow> True | Some x \<Rightarrow> \<not> isfinite x)
      else False)"

definition present :: "string list \<Rightarrow> string list" where
  "present vs = filter (\<lambda>v. v \<noteq> []) vs"

definition integer_text :: "string \<Rightarrow> bool" where
  "integer_text v \<longleftrightarrow> (case int_of_text v of
     None \<Rightarrow> False | Some n \<Rightarrow> str_of_int n = v \<or> (v \<noteq> [] \<and> hd v = CHR ''+''))"

definition float_text :: "string \<Rightarrow> bool" where
  "float_text v \<longleftrightarrow> (case float_of_text v of None \<Rightarrow> False | Some x \<Rightarrow> isfinite x)"

definition infer_type :: "string list \<Rightarrow> column_type" where
  "infer_type vs = (let ps = present vs in
     if ps \<noteq> [] \<and> list_all (\<lambda>v. casefold v \<in> {''true'', ''false''}) ps then BooleanColumn
     else if ps \<noteq> [] \<and> list_all integer_text ps then IntegerColumn
     else if ps \<noteq> [] \<and> list_all float_text ps then FloatColumn
     else StringColumn)"

section \<open>Readiness\<close>

definition numeric_type :: "column_type \<Rightarrow> bool" where
  "numeric_type t \<longleftrightarrow> t \<in> {IntegerColumn, FloatColumn}"

definition positive_text :: "string \<Rightarrow> bool" where
  "positive_text v \<longleftrightarrow> (case float_of_text v of Some (Fin x) \<Rightarrow> 0 < x | Some PosInf \<Rightarrow> True | _ \<Rightarrow> False)"

definition training_readiness ::
    "string list \<Rightarrow> string list list \<Rightarrow> tabular_column list \<Rightarrow> string option \<Rightarrow> string option \<Rightarrow> readiness" where
  "training_readiness names cols inferred target split =
     (let type_of = map_of (map (\<lambda>c. (tc_name c, tc_type c)) inferred);
          features = filter (\<lambda>n. Some n \<notin> {target, split}) names;
          numeric = (\<lambda>n. case type_of n of None \<Rightarrow> False | Some t \<Rightarrow> numeric_type t);
          others = filter (\<lambda>n. \<not> numeric n) features;
          target_type = Option.bind target type_of;
          targets = (case target of None \<Rightarrow> []
            | Some t \<Rightarrow> (case map_of (zip names cols) t of None \<Rightarrow> [] | Some vs \<Rightarrow> present vs));
          values = remdups targets;
          numeric_target = (case target_type of None \<Rightarrow> False | Some t \<Rightarrow> numeric_type t);
          blockers =
            (if target = None then [''Choose a target column before using this dataset for training.''] else []) @
            (if features = [] then [''At least one feature column is required for training.''] else []) @
            (if others \<noteq> [] then [''The current training algorithms require numeric feature columns; '' @
               ''transform or exclude the listed non-numeric columns.''] else []) @
            (if target \<noteq> None \<and> \<not> numeric_target
             then [''The current training workflows require a numeric target column.''] else []);
          warnings =
            (if target \<noteq> None \<and> length values < 2
             then [''The target contains only one class/value; classification training '' @
               ''requires at least two classes.''] else []) @
            (if numeric_target \<and> targets \<noteq> [] \<and> \<not> list_ex positive_text targets
             then [''No positive target examples were detected.''] else []);
          common = (blockers = [] \<and> numeric_target \<and> filter numeric features \<noteq> []) in
      \<lparr>rd_numeric_features = filter numeric features, rd_non_numeric_features = others, rd_target = target,
       rd_target_type = target_type, rd_distinct_targets = length values,
       rd_distribution = (if length values \<le> 20 then map (\<lambda>v. (v, count_list targets v)) (sort values) else []),
       rd_classification = (common \<and> target_type = Some IntegerColumn \<and> 2 \<le> length values \<and>
         length values \<le> min 20 (max 2 (length targets div 2))),
       rd_regression = (common \<and> 2 \<le> length values), rd_ready = (common \<and> 2 \<le> length values),
       rd_blockers = blockers, rd_warnings = warnings\<rparr>)"

section \<open>CSV uploads\<close>

fun append_cells :: "nat \<Rightarrow> string list \<Rightarrow> string list list \<Rightarrow> string list list result" where
  "append_cells limit [] cols = Inr cols"
| "append_cells limit (v # vs) [] = Inr []"
| "append_cells limit (v # vs) (c # cols) =
     (let cell = strip v in
      if limit < length cell then ingestion_error ''CSV contains an oversized value.''
      else bind_result (wrap_ingestion ''CSV contains unsupported characters.'' (ensure_safe_multiline cell)) (\<lambda>_.
        if looks_executable cell then ingestion_error ''CSV formulas are not supported.''
        else bind_result (append_cells limit vs cols) (\<lambda>rest. Inr ((c @ [cell]) # rest))))"

fun read_data :: "csv_limits \<Rightarrow> nat \<Rightarrow> nat \<Rightarrow> string list list \<Rightarrow> csv_rows \<Rightarrow> (nat \<times> string list list) result" where
  "read_data lm width k cols CsvEnd = Inr (k, cols)"
| "read_data lm width k cols CsvError = ingestion_error ''CSV could not be parsed.''"
| "read_data lm width k cols (CsvRow row rest) =
     (if cl_rows lm < Suc k then ingestion_error ''CSV contains too many rows.''
      else if length row \<noteq> width then ingestion_error ''CSV rows must match the header width.''
      else bind_result (append_cells (cl_cell lm) row cols) (\<lambda>cols'. read_data lm width (Suc k) cols' rest))"

definition csv_header :: "csv_limits \<Rightarrow> string list \<Rightarrow> string list result" where
  "csv_header lm header =
     (let names = map strip header in
      if names = [] \<or> list_ex (\<lambda>n. n = []) names then ingestion_error ''CSV column names cannot be empty.''
      else if cl_columns lm < length names then ingestion_error ''CSV contains too many columns.''
      else if \<not> distinct (map casefold names) then ingestion_error ''CSV column names must be unique.''
      else if list_ex (\<lambda>n. 128 < length n) names then ingestion_error ''CSV column names are too long.''
      else if list_ex (list_ex control_char) names
      then ingestion_error ''CSV column names contain unsupported characters.''
      else Inr names)"

definition infer_columns :: "string list \<Rightarrow> string list list \<Rightarrow> tabular_column list" where
  "infer_columns names cols =
     map2 (\<lambda>n vs. \<lparr>tc_name = n, tc_type = infer_type vs, tc_nullable = list_ex (\<lambda>v. v = []) vs\<rparr>) names cols"

datatype split_role = TrainingRow | EvaluationRow

definition split_role_of :: "string \<Rightarrow> split_role option" where
  "split_role_of v = (let s = casefold (strip v) in
     if s \<in> {''train'', ''training''} then Some TrainingRow
     else if s \<in> {''eval'', ''evaluation'', ''test'', ''validation''} then Some EvaluationRow
     else None)"

definition check_split :: "string list \<Rightarrow> unit result" where
  "check_split vs = (let roles = map split_role_of vs in
     if None \<in> set roles then ingestion_error ''Split values must be train or evaluation.''
     else if count_list roles (Some TrainingRow) < 2 \<or> count_list roles (Some EvaluationRow) < 2
     then ingestion_error ''Explicit splits require at least two training and evaluation rows.''
     else Inr ())"

definition ingest_rows ::
    "csv_limits \<Rightarrow> string option \<Rightarrow> string option \<Rightarrow> string list \<Rightarrow> nat \<times> string list list \<Rightarrow> ingestion_result result" where
  "ingest_rows lm target split names data =
     (case data of (k, cols) \<Rightarrow>
      if k < 4 then ingestion_error ''CSV must contain at least four data rows.''
      else if list_ex (list_all (\<lambda>v. v = [])) cols then ingestion_error ''CSV columns cannot be entirely empty.''
      else (let inferred = infer_columns names cols in
        bind_result (wrap_ingestion ''Dataset column configuration is invalid.''
          (make_tabular_schema \<lparr>sm_columns = inferred, sm_target = target, sm_split = split\<rparr>)) (\<lambda>schema.
        bind_result (case split of None \<Rightarrow> Inr ()
          | Some s \<Rightarrow> (case map_of (zip names cols) s of None \<Rightarrow> Inr () | Some vs \<Rightarrow> check_split vs)) (\<lambda>_.
        Inr \<lparr>ir_schema = TabularSnapshot schema (training_readiness names cols inferred target split),
          ir_rows = Some k, ir_columns = Some (length names), ir_text = None\<rparr>))))"

definition ingest_table ::
    "csv_limits \<Rightarrow> string option \<Rightarrow> string option \<Rightarrow> csv_rows \<Rightarrow> ingestion_result result" where
  "ingest_table lm target split rows = (case rows of
     CsvRow header rest \<Rightarrow>
       bind_result (csv_header lm header) (\<lambda>names.
       bind_result (read_data lm (length names) 0 (replicate (length names) []) rest)
         (ingest_rows lm target split names))
   | _ \<Rightarrow> ingestion_error ''CSV could not be parsed.'')"

definition ingest_csv ::
    "decoder \<Rightarrow> csv_limits \<Rightarrow> string option \<Rightarrow> string option \<Rightarrow> bytes \<Rightarrow> ingestion_result result" where
  "ingest_csv decode lm target split payload =
     bind_result (decode_text decode payload) (\<lambda>t. ingest_table lm target split (csv_reader_rows t))"

section \<open>Text uploads\<close>

definition ingest_plain_text :: "decoder \<Rightarrow> nat \<Rightarrow> bytes \<Rightarrow> ingestion_result result" where
  "ingest_plain_text decode limit payload =
     bind_result (decode_text decode payload) (\<lambda>t.
     let normalized = strip (normalize_newlines t) in
     if normalized = [] then ingestion_error ''The document contains no text.''
     else if limit < length normalized then ingestion_error ''The extracted document text is too large.''
     else if char_of (0 :: nat) \<in> set normalized then ingestion_error ''The document contains unsupported characters.''
     else bind_result (wrap_ingestion ''The document contains unsupported characters.''
         (ensure_safe_multiline normalized)) (\<lambda>text.
       Inr \<lparr>ir_schema = TextSnapshot (length text), ir_rows = None, ir_columns = None, ir_text = Some text\<rparr>))"

section \<open>Training sets\<close>

text \<open>
  \<^verbatim>\<open>csv.DictReader\<close>: a row as a dictionary over the first row; blank rows are skipped,
  missing cells are \<^verbatim>\<open>None\<close>.
\<close>

definition dict_row :: "string list \<Rightarrow> string list \<Rightarrow> string \<Rightarrow> string option" where
  "dict_row header row name = map_of (rev (zip header row)) name"

definition finite_number :: "string option \<Rightarrow> target_value result" where
  "finite_number v = (case v of
     None \<Rightarrow> Inl (value_error ''Missing numeric value.'')
   | Some s \<Rightarrow>
      if strip s = [] then Inl (value_error ''Missing numeric value.'')
      else (case float_of_text (strip s) of
          None \<Rightarrow> Inl (value_error ''could not convert string to float'')
        | Some (Fin x) \<Rightarrow> Inr (if x = of_int \<lfloor>x\<rfloor> then TargetInt \<lfloor>x\<rfloor> else TargetFloat x)
        | Some _ \<Rightarrow> Inl (value_error ''Non-finite numeric value.'')))"

fun finite_numbers :: "string option list \<Rightarrow> target_value list result" where
  "finite_numbers [] = Inr []"
| "finite_numbers (v # vs) =
     bind_result (finite_number v) (\<lambda>x. bind_result (finite_numbers vs) (\<lambda>xs. Inr (x # xs)))"

type_synonym parsed_row = "target_value list \<times> target_value \<times> string option"

definition numeric_error :: string where
  "numeric_error = ''Training datasets require finite numeric features and targets.''"

fun parse_rows ::
    "string list \<Rightarrow> string list \<Rightarrow> string \<Rightarrow> string option \<Rightarrow> csv_rows \<Rightarrow> parsed_row list result" where
  "parse_rows header features target split CsvEnd = Inr []"
| "parse_rows header features target split CsvError = ingestion_error numeric_error"
| "parse_rows header features target split (CsvRow row rest) =
     (if row = [] then parse_rows header features target split rest
      else (let get = dict_row header row in
        bind_result (wrap_ingestion numeric_error (finite_numbers (map get features))) (\<lambda>xs.
        bind_result (wrap_ingestion numeric_error (finite_number (get target))) (\<lambda>y.
        bind_result (parse_rows header features target split rest) (\<lambda>rows.
          Inr ((xs, y, Option.bind split get) # rows))))))"

record training_sets =
  st_training_features :: "target_value list list"
  st_training_targets :: "target_value list"
  st_evaluation_features :: "target_value list list"
  st_evaluation_targets :: "target_value list"

definition training_sets_of :: "parsed_row list \<Rightarrow> parsed_row list \<Rightarrow> training_sets" where
  "training_sets_of training evaluation =
     \<lparr>st_training_features = map fst training, st_training_targets = map (fst \<circ> snd) training,
      st_evaluation_features = map fst evaluation, st_evaluation_targets = map (fst \<circ> snd) evaluation\<rparr>"

text \<open>\<^verbatim>\<open>round(x)\<close>: to the nearest integer, ties to the even one.\<close>

definition round_half_even :: "real \<Rightarrow> int" where
  "round_half_even x = (let n = \<lfloor>x\<rfloor>; d = x - of_int n in
     if d < 1 / 2 then n else if 1 / 2 < d then n + 1 else if even n then n else n + 1)"

definition row_role :: "parsed_row \<Rightarrow> split_role option" where
  "row_role r = split_role_of (case snd (snd r) of None \<Rightarrow> [] | Some s \<Rightarrow> s)"

definition explicit_split :: "parsed_row list \<Rightarrow> training_sets result" where
  "explicit_split rows =
     (if None \<in> set (map row_role rows) then ingestion_error ''Split values must be train or evaluation.''
      else (let training = filter (\<lambda>r. row_role r = Some TrainingRow) rows;
                evaluation = filter (\<lambda>r. row_role r = Some EvaluationRow) rows in
        if length training < 2 \<or> length evaluation < 2
        then ingestion_error ''Explicit splits require at least two training and evaluation rows.''
        else Inr (training_sets_of training evaluation)))"

definition held_out_split :: "real \<Rightarrow> parsed_row list \<Rightarrow> training_sets result" where
  "held_out_split fraction rows =
     (let evaluation_rows = max 2 (round_half_even (real (length rows) * fraction));
          boundary = int (length rows) - evaluation_rows in
      if boundary < 2 then ingestion_error ''Dataset is too small for a held-out split.''
      else Inr (training_sets_of (take (nat boundary) rows) (drop (nat boundary) rows)))"

definition tabular_training_snapshot ::
    "decoder \<Rightarrow> schema_snapshot \<Rightarrow> real \<Rightarrow> bytes \<Rightarrow> training_sets result" where
  "tabular_training_snapshot decode snapshot fraction payload =
     (case snapshot of
        TabularSnapshot schema _ \<Rightarrow>
          (case sm_target schema of
             None \<Rightarrow> ingestion_error ''The dataset has no configured target column.''
           | Some target \<Rightarrow>
             (let names = map tc_name (sm_columns schema);
                  features = filter (\<lambda>n. n \<noteq> target \<and> Some n \<noteq> sm_split schema) names in
              if target \<notin> set names then ingestion_error ''The dataset schema is invalid.''
              else bind_result (decode_text decode payload) (\<lambda>t.
                if features = [] then ingestion_error ''The dataset requires numeric feature columns.''
                else bind_result
                  (case csv_reader_rows t of
                     CsvEnd \<Rightarrow> Inr []
                   | CsvError \<Rightarrow> ingestion_error numeric_error
                   | CsvRow header rest \<Rightarrow> parse_rows header features target (sm_split schema) rest)
                  (if sm_split schema = None then held_out_split fraction else explicit_split))))
      | _ \<Rightarrow> ingestion_error ''The dataset has no configured target column.'')"

end
