(* ===== verification/Dataset_Repository.thy ===== *)
theory Dataset_Repository
  imports Job_Repository Dataset_Ingestion
begin

text \<open>
  The tables of \<^verbatim>\<open>models/datasets.py\<close> and the repository of
  \<^verbatim>\<open>repositories/datasets.py\<close>. A dataset is a name with numbered versions; a version
  is one uploaded object with its processing state. Which versions an active knowledge base
  references is the parameter \<open>referenced\<close>, since the tables of knowledge bases are another
  component; which users and companies exist is \<open>parents\<close>.
\<close>

section \<open>Rows\<close>

datatype dataset_kind = Tabular | DocumentCollection
datatype dataset_status = DatasetActive | DatasetArchived | DatasetFailed
datatype dataset_version_status = VersionPending | VersionProcessing | VersionReady | VersionFailed | VersionArchived
datatype source_type = UploadSource | GeneratedSource | ImportedSource
datatype document_status = DocumentPending | DocumentExtracting | DocumentChunking | DocumentEmbedding
  | DocumentReady | DocumentFailed | DocumentCancelled

record dataset =
  ds_id :: uuid
  ds_owner :: uuid
  ds_company :: uuid
  ds_name :: string
  ds_normalized :: string
  ds_description :: "string option"
  ds_kind :: dataset_kind
  ds_status :: dataset_status
  ds_current :: "uuid option"
  ds_version :: nat
  ds_created_at :: timestamp
  ds_updated_at :: timestamp
  ds_archived_at :: "timestamp option"

record processing_result =
  pr_rows :: "nat option"
  pr_columns :: "nat option"
  pr_documents :: "nat option"
  pr_chunks :: "nat option"

record dataset_version =
  dv_id :: uuid
  dv_dataset :: uuid
  dv_number :: nat
  dv_status :: dataset_version_status
  dv_source :: source_type
  dv_key :: string
  dv_filename :: "string option"
  dv_media_type :: string
  dv_size :: nat
  dv_digest :: string
  dv_results :: processing_result
  dv_schema :: schema_snapshot
  dv_options :: ingestion_options
  dv_created_by :: uuid
  dv_created_at :: timestamp
  dv_started_at :: "timestamp option"
  dv_enqueued_at :: "timestamp option"
  dv_attempts :: nat
  dv_ready_at :: "timestamp option"
  dv_failed_at :: "timestamp option"
  dv_error_code :: "string option"
  dv_error_message :: "string option"
  dv_version :: nat

record document_record =
  dr_id :: uuid
  dr_version :: uuid
  dr_number :: nat
  dr_title :: string
  dr_filename :: string
  dr_media_type :: string
  dr_size :: nat
  dr_digest :: string
  dr_characters :: nat
  dr_status :: document_status
  dr_text :: "string option"
  dr_started_at :: "timestamp option"
  dr_ready_at :: "timestamp option"

record dataset_store =
  dt_datasets :: "dataset list"
  dt_versions :: "dataset_version list"
  dt_documents :: "document_record list"
  dt_usage :: "(uuid \<times> string \<times> uuid) list"

definition empty_datasets :: dataset_store where
  "empty_datasets = \<lparr>dt_datasets = [], dt_versions = [], dt_documents = [], dt_usage = []\<rparr>"

definition no_results :: processing_result where
  "no_results = \<lparr>pr_rows = None, pr_columns = None, pr_documents = None, pr_chunks = None\<rparr>"

abbreviation integrity_error :: "string \<Rightarrow> pyexc" where
  "integrity_error m \<equiv> Exc IntegrityError m"

section \<open>Inserts\<close>

definition create_dataset_row ::
    "(uuid \<Rightarrow> uuid \<Rightarrow> bool) \<Rightarrow> dataset \<Rightarrow> dataset_store \<Rightarrow> dataset result \<times> dataset_store" where
  "create_dataset_row parents d S =
     (if \<not> parents (ds_owner d) (ds_company d) then (Inl (integrity_error ''foreign key''), S)
      else if list_ex (\<lambda>e. ds_id e = ds_id d) (dt_datasets S) then (Inl (integrity_error ''datasets_pkey''), S)
      else if list_ex (\<lambda>e. ds_company e = ds_company d \<and> ds_normalized e = ds_normalized d) (dt_datasets S)
      then (Inl (integrity_error ''uq_datasets_company_name''), S)
      else (Inr d, S\<lparr>dt_datasets := dt_datasets S @ [d]\<rparr>))"

definition version_conflict :: "dataset_version \<Rightarrow> dataset_version \<Rightarrow> bool" where
  "version_conflict v w \<longleftrightarrow> dv_id w = dv_id v \<or> dv_key w = dv_key v \<or>
     (dv_dataset w = dv_dataset v \<and> (dv_number w = dv_number v \<or> dv_digest w = dv_digest v))"

definition create_version_row :: "dataset_version \<Rightarrow> dataset_store \<Rightarrow> dataset_version result \<times> dataset_store" where
  "create_version_row v S =
     (if \<not> list_ex (\<lambda>d. ds_id d = dv_dataset v) (dt_datasets S) then (Inl (integrity_error ''foreign key''), S)
      else if list_ex (version_conflict v) (dt_versions S) \<or> dv_number v = 0 \<or> dv_size v = 0
      then (Inl (integrity_error ''dataset_versions''), S)
      else (Inr v, S\<lparr>dt_versions := dt_versions S @ [v]\<rparr>))"

definition create_document :: "document_record \<Rightarrow> dataset_store \<Rightarrow> document_record result \<times> dataset_store" where
  "create_document r S =
     (if \<not> list_ex (\<lambda>v. dv_id v = dr_version r) (dt_versions S) \<or> dr_number r = 0 \<or>
        list_ex (\<lambda>q. dr_id q = dr_id r \<or> (dr_version q = dr_version r \<and> dr_number q = dr_number r)) (dt_documents S)
      then (Inl (integrity_error ''document_records''), S)
      else (Inr r, S\<lparr>dt_documents := dt_documents S @ [r]\<rparr>))"

definition add_usage_reference :: "uuid \<Rightarrow> string \<Rightarrow> uuid \<Rightarrow> dataset_store \<Rightarrow> unit result \<times> dataset_store" where
  "add_usage_reference i usage reference S =
     (if \<not> list_ex (\<lambda>v. dv_id v = i) (dt_versions S) \<or> (i, usage, reference) \<in> set (dt_usage S)
      then (Inl (integrity_error ''uq_dataset_usage_reference''), S)
      else (Inr (), S\<lparr>dt_usage := dt_usage S @ [(i, usage, reference)]\<rparr>))"

section \<open>Queries\<close>

text \<open>The tenant guard restricts every \<^verbatim>\<open>SELECT\<close> on datasets, also inside joins.\<close>

definition dataset_visible :: "tenant \<Rightarrow> uuid option \<Rightarrow> dataset \<Rightarrow> bool" where
  "dataset_visible tn owner d \<longleftrightarrow> (case tn of None \<Rightarrow> True | Some c \<Rightarrow> ds_company d = c) \<and>
     (case owner of None \<Rightarrow> True | Some c \<Rightarrow> ds_company d = c)"

definition get_dataset_row :: "tenant \<Rightarrow> uuid \<Rightarrow> uuid option \<Rightarrow> dataset_store \<Rightarrow> dataset option" where
  "get_dataset_row tn i owner S =
     at_most_one (filter (\<lambda>d. ds_id d = i \<and> dataset_visible tn owner d) (dt_datasets S))"

definition get_dataset_by_name :: "tenant \<Rightarrow> uuid \<Rightarrow> string \<Rightarrow> dataset_store \<Rightarrow> dataset option" where
  "get_dataset_by_name tn company normalized S =
     at_most_one (filter (\<lambda>d. ds_normalized d = normalized \<and> dataset_visible tn (Some company) d) (dt_datasets S))"

record dataset_page =
  dp_items :: "dataset list"
  dp_total :: nat

definition list_dataset_rows ::
    "tenant \<Rightarrow> uuid option \<Rightarrow> dataset_kind option \<Rightarrow> dataset_status option \<Rightarrow> nat \<Rightarrow> nat \<Rightarrow> dataset_store \<Rightarrow> dataset_page" where
  "list_dataset_rows tn owner kind status limit offset S =
     (let rows = filter (\<lambda>d. dataset_visible tn owner d \<and> (kind = None \<or> kind = Some (ds_kind d)) \<and>
            (status = None \<or> status = Some (ds_status d))) (dt_datasets S) in
      \<lparr>dp_items = take limit (drop offset (sort_key (\<lambda>d. (- ds_created_at d, ds_id d)) rows)), dp_total = length rows\<rparr>)"

definition versions_of :: "uuid \<Rightarrow> dataset_store \<Rightarrow> dataset_version list" where
  "versions_of i S = filter (\<lambda>v. dv_dataset v = i) (dt_versions S)"

definition next_version_number :: "uuid \<Rightarrow> dataset_store \<Rightarrow> nat" where
  "next_version_number i S = Suc (fold max (map dv_number (versions_of i S)) 0)"

definition list_version_rows :: "uuid \<Rightarrow> nat \<Rightarrow> nat \<Rightarrow> dataset_store \<Rightarrow> dataset_version list \<times> nat" where
  "list_version_rows i limit offset S =
     (take limit (drop offset (sort_key (\<lambda>v. - int (dv_number v)) (versions_of i S))), length (versions_of i S))"

text \<open>The join of versions with the datasets they belong to.\<close>

definition with_dataset ::
    "tenant \<Rightarrow> uuid option \<Rightarrow> (dataset \<Rightarrow> dataset_version \<Rightarrow> bool) \<Rightarrow> dataset_store \<Rightarrow> dataset_version option" where
  "with_dataset tn owner p S =
     at_most_one (filter (\<lambda>v. list_ex (\<lambda>d. ds_id d = dv_dataset v \<and> dataset_visible tn owner d \<and> p d v) (dt_datasets S))
       (dt_versions S))"

definition get_version_row :: "tenant \<Rightarrow> uuid \<Rightarrow> uuid \<Rightarrow> uuid option \<Rightarrow> dataset_store \<Rightarrow> dataset_version option" where
  "get_version_row tn dataset_id i owner S =
     with_dataset tn owner (\<lambda>d v. dv_id v = i \<and> dv_dataset v = dataset_id) S"

definition get_version_by_id :: "uuid \<Rightarrow> dataset_store \<Rightarrow> dataset_version option" where
  "get_version_by_id i S = lookup dv_id i (dt_versions S)"

definition get_ready_tabular_version :: "tenant \<Rightarrow> uuid \<Rightarrow> uuid option \<Rightarrow> dataset_store \<Rightarrow> dataset_version option" where
  "get_ready_tabular_version tn i owner S =
     with_dataset tn owner (\<lambda>d v. dv_id v = i \<and> dv_status v = VersionReady \<and> ds_kind d = Tabular \<and>
       ds_status d = DatasetActive) S"

definition get_version_reference :: "tenant \<Rightarrow> uuid \<Rightarrow> uuid option \<Rightarrow> dataset_store \<Rightarrow> dataset_version option" where
  "get_version_reference tn i owner S = with_dataset tn owner (\<lambda>d v. dv_id v = i) S"

definition get_document_row ::
    "tenant \<Rightarrow> uuid \<Rightarrow> uuid \<Rightarrow> uuid \<Rightarrow> uuid option \<Rightarrow> dataset_store \<Rightarrow> document_record option" where
  "get_document_row tn dataset_id i document owner S =
     at_most_one (filter (\<lambda>r. dr_id r = document \<and> dr_version r = i \<and>
       get_version_row tn dataset_id i owner S \<noteq> None) (dt_documents S))"

definition list_document_rows :: "uuid \<Rightarrow> nat \<Rightarrow> nat \<Rightarrow> dataset_store \<Rightarrow> document_record list \<times> nat" where
  "list_document_rows i limit offset S =
     (let rows = filter (\<lambda>r. dr_version r = i) (dt_documents S) in
      (take limit (drop offset (sort_key dr_number rows)), length rows))"

section \<open>Updates of versions\<close>

definition bump_dataset :: "(dataset \<Rightarrow> dataset) \<Rightarrow> dataset \<Rightarrow> dataset" where
  "bump_dataset f d = (f d)\<lparr>ds_version := Suc (ds_version d)\<rparr>"

definition update_dataset ::
    "(dataset \<Rightarrow> bool) \<Rightarrow> (dataset \<Rightarrow> dataset) \<Rightarrow> dataset_store \<Rightarrow> dataset option \<times> dataset_store" where
  "update_dataset p f S = (at_most_one (returning p (bump_dataset f) (dt_datasets S)),
     S\<lparr>dt_datasets := update_where p (bump_dataset f) (dt_datasets S)\<rparr>)"

definition bump_version :: "(dataset_version \<Rightarrow> dataset_version) \<Rightarrow> dataset_version \<Rightarrow> dataset_version" where
  "bump_version f v = (f v)\<lparr>dv_version := Suc (dv_version v)\<rparr>"

definition update_version ::
    "(dataset_version \<Rightarrow> bool) \<Rightarrow> (dataset_version \<Rightarrow> dataset_version) \<Rightarrow> dataset_store \<Rightarrow>
     dataset_version option \<times> dataset_store" where
  "update_version p f S = (at_most_one (returning p (bump_version f) (dt_versions S)),
     S\<lparr>dt_versions := update_where p (bump_version f) (dt_versions S)\<rparr>)"

definition claim_active_dataset :: "uuid \<Rightarrow> nat \<Rightarrow> timestamp \<Rightarrow> dataset_store \<Rightarrow> bool \<times> dataset_store" where
  "claim_active_dataset i expected now S =
     (case update_dataset (\<lambda>d. ds_id d = i \<and> ds_status d = DatasetActive \<and> ds_version d = expected)
        (\<lambda>d. d\<lparr>ds_updated_at := now\<rparr>) S of (r, S') \<Rightarrow> (r \<noteq> None, S'))"

definition claim_version :: "uuid \<Rightarrow> timestamp \<Rightarrow> dataset_store \<Rightarrow> dataset_version option \<times> dataset_store" where
  "claim_version i now S =
     update_version (\<lambda>v. dv_id v = i \<and> dv_status v = VersionPending)
       (\<lambda>v. v\<lparr>dv_status := VersionProcessing, dv_started_at := Some now\<rparr>) S"

record ready_values =
  rv_results :: processing_result
  rv_schema :: schema_snapshot

definition mark_version_ready ::
    "uuid \<Rightarrow> nat \<Rightarrow> ready_values \<Rightarrow> timestamp \<Rightarrow> dataset_store \<Rightarrow> dataset_version option \<times> dataset_store" where
  "mark_version_ready i expected values now S =
     update_version (\<lambda>v. dv_id v = i \<and> dv_status v = VersionProcessing \<and> dv_version v = expected)
       (\<lambda>v. v\<lparr>dv_status := VersionReady, dv_ready_at := Some now, dv_results := rv_results values,
         dv_schema := rv_schema values, dv_error_code := None, dv_error_message := None\<rparr>) S"

definition mark_version_failed :: "uuid \<Rightarrow> string \<Rightarrow> string \<Rightarrow> timestamp \<Rightarrow> dataset_store \<Rightarrow> dataset_store" where
  "mark_version_failed i code message now S =
     snd (update_version (\<lambda>v. dv_id v = i \<and> dv_status v \<in> {VersionPending, VersionProcessing})
       (\<lambda>v. v\<lparr>dv_status := VersionFailed, dv_failed_at := Some now, dv_error_code := Some code,
         dv_error_message := Some message\<rparr>) S)"

definition release_version_for_retry :: "uuid \<Rightarrow> nat \<Rightarrow> string \<Rightarrow> dataset_store \<Rightarrow> bool \<times> dataset_store" where
  "release_version_for_retry i expected message S =
     (case update_version (\<lambda>v. dv_id v = i \<and> dv_status v = VersionProcessing \<and> dv_version v = expected)
        (\<lambda>v. v\<lparr>dv_status := VersionPending, dv_started_at := None, dv_error_code := Some ''processing_retry_pending'',
          dv_error_message := Some message\<rparr>) S of (r, S') \<Rightarrow> (r \<noteq> None, S'))"

section \<open>Stale versions\<close>

definition enqueued_or_created :: "dataset_version \<Rightarrow> timestamp" where
  "enqueued_or_created v = (case dv_enqueued_at v of None \<Rightarrow> dv_created_at v | Some t \<Rightarrow> t)"

definition stale_version :: "timestamp \<Rightarrow> dataset_version \<Rightarrow> bool" where
  "stale_version before v \<longleftrightarrow>
     (dv_status v = VersionProcessing \<and> (case dv_started_at v of None \<Rightarrow> False | Some t \<Rightarrow> t < before)) \<or>
     (dv_status v = VersionPending \<and>
        dv_error_code v \<in> {Some ''processing_retry_pending'', Some ''stale_processing_recovered''} \<and>
        enqueued_or_created v < before)"

definition list_stale_processing_ids :: "timestamp \<Rightarrow> nat \<Rightarrow> nat \<Rightarrow> dataset_store \<Rightarrow> uuid list" where
  "list_stale_processing_ids before attempts limit S =
     map dv_id (take limit (sort_key (\<lambda>v. case dv_started_at v of Some t \<Rightarrow> t | None \<Rightarrow> enqueued_or_created v)
       (filter (\<lambda>v. stale_version before v \<and> dv_attempts v < attempts) (dt_versions S))))"

definition fail_exhausted_stale_versions ::
    "timestamp \<Rightarrow> nat \<Rightarrow> nat \<Rightarrow> timestamp \<Rightarrow> dataset_store \<Rightarrow> nat \<times> dataset_store" where
  "fail_exhausted_stale_versions before attempts limit now S =
     (let exhausted = (\<lambda>v. stale_version before v \<and> attempts \<le> dv_attempts v);
          candidates = map dv_id (take limit (sort_key (\<lambda>v. (dv_created_at v, dv_id v)) (filter exhausted (dt_versions S))));
          p = (\<lambda>v. dv_id v \<in> set candidates \<and> exhausted v) in
      (length (filter p (dt_versions S)),
       snd (update_version p (\<lambda>v. v\<lparr>dv_status := VersionFailed, dv_failed_at := Some now,
         dv_error_code := Some ''processing_retries_exhausted'',
         dv_error_message := Some ''Dataset processing could not be delivered after bounded retries.''\<rparr>) S)))"

definition reconcile_stale_version ::
    "uuid \<Rightarrow> timestamp \<Rightarrow> nat \<Rightarrow> timestamp \<Rightarrow> dataset_store \<Rightarrow> bool \<times> dataset_store" where
  "reconcile_stale_version i before attempts now S =
     (case update_version (\<lambda>v. dv_id v = i \<and> stale_version before v \<and> dv_attempts v < attempts)
        (\<lambda>v. v\<lparr>dv_status := VersionPending, dv_started_at := None, dv_enqueued_at := Some now,
          dv_attempts := Suc (dv_attempts v), dv_error_code := Some ''stale_processing_recovered'',
          dv_error_message := Some ''Dataset processing was safely queued for retry.''\<rparr>) S of
        (r, S') \<Rightarrow> (r \<noteq> None, S'))"

section \<open>Updates of datasets\<close>

definition ready_number :: "uuid \<Rightarrow> uuid \<Rightarrow> dataset_store \<Rightarrow> nat option" where
  "ready_number dataset_id i S = map_option dv_number
     (at_most_one (filter (\<lambda>v. dv_id v = i \<and> dv_dataset v = dataset_id \<and> dv_status v = VersionReady) (dt_versions S)))"

definition current_allows :: "nat \<Rightarrow> dataset \<Rightarrow> dataset_store \<Rightarrow> bool" where
  "current_allows n d S \<longleftrightarrow> (case ds_current d of None \<Rightarrow> True
     | Some c \<Rightarrow> (case lookup dv_id c (dt_versions S) of None \<Rightarrow> False | Some v \<Rightarrow> dv_number v \<le> n))"

definition set_current_version :: "uuid \<Rightarrow> uuid \<Rightarrow> nat \<Rightarrow> timestamp \<Rightarrow> dataset_store \<Rightarrow> bool \<times> dataset_store" where
  "set_current_version dataset_id i expected now S =
     (case update_dataset (\<lambda>d. ds_id d = dataset_id \<and> ds_status d = DatasetActive \<and> ds_version d = expected \<and>
          (case ready_number dataset_id i S of None \<Rightarrow> False | Some n \<Rightarrow> current_allows n d S))
        (\<lambda>d. d\<lparr>ds_current := Some i, ds_updated_at := now\<rparr>) S of (r, S') \<Rightarrow> (r \<noteq> None, S'))"

definition archive_dataset_row ::
    "(uuid \<Rightarrow> bool) \<Rightarrow> uuid \<Rightarrow> nat \<Rightarrow> timestamp \<Rightarrow> dataset_store \<Rightarrow> dataset option \<times> dataset_store" where
  "archive_dataset_row referenced i expected now S =
     update_dataset (\<lambda>d. ds_id d = i \<and> ds_status d = DatasetActive \<and> ds_version d = expected \<and>
         \<not> list_ex (\<lambda>v. dv_status v \<in> {VersionPending, VersionProcessing}) (versions_of i S) \<and>
         \<not> list_ex (\<lambda>v. referenced (dv_id v)) (versions_of i S))
       (\<lambda>d. d\<lparr>ds_status := DatasetArchived, ds_archived_at := Some now, ds_updated_at := now\<rparr>) S"

end
