(* ===== verification/Dataset_Service.thy ===== *)
theory Dataset_Service
  imports Dataset_Repository
begin

text \<open>
  Object storage (\<^verbatim>\<open>datasets/storage.py\<close>), names (\<^verbatim>\<open>datasets/naming.py\<close>),
  and the registry service and the worker-side processor of \<^verbatim>\<open>datasets/service.py\<close>.
  The broker, the clock, the SHA-256 digest, the Unicode normal form, generated keys and time
  limits are parameters. Between two transactions others may act: \<open>de_others k\<close> is their
  effect at the k-th such point.
\<close>

section \<open>Object storage\<close>

text \<open>
  Objects are files below a root that only the application writes, so there are no symbolic links;
  a key is two names, of two and of 32 alphanumeric characters.
\<close>

type_synonym object_store = "string \<rightharpoonup> bytes"

record stored_object =
  so_key :: string
  so_size :: nat
  so_digest :: string

abbreviation storage_error :: "string \<Rightarrow> 'a result" where
  "storage_error m \<equiv> Inl (Exc DatasetStorageError m)"

definition storage_key_ok :: "string \<Rightarrow> bool" where
  "storage_key_ok k \<longleftrightarrow> length k = 35 \<and> k ! 2 = CHR ''/'' \<and> list_all alnum_char (take 2 k @ drop 3 k)"

definition storage_path :: "string \<Rightarrow> string result" where
  "storage_path k = (if storage_key_ok k then Inr k else storage_error ''The storage key is invalid.'')"

definition storage_write ::
    "(bytes \<Rightarrow> string) \<Rightarrow> string \<Rightarrow> nat \<Rightarrow> bytes \<Rightarrow> object_store \<Rightarrow> stored_object result \<times> object_store" where
  "storage_write digest key maximum source B =
     (if maximum = 0 then (Inl (value_error ''Maximum object size must be positive.''), B)
      else (case storage_path key of
          Inl e \<Rightarrow> (Inl e, B)
        | Inr path \<Rightarrow>
            if maximum < length source then (storage_error ''The uploaded object is too large.'', B)
            else if source = [] then (storage_error ''The uploaded object is empty.'', B)
            else if B path \<noteq> None then (storage_error ''The generated object key already exists.'', B)
            else (Inr \<lparr>so_key = key, so_size = length source, so_digest = digest source\<rparr>, B(path \<mapsto> source))))"

definition storage_read :: "string \<Rightarrow> nat \<Rightarrow> object_store \<Rightarrow> bytes result" where
  "storage_read key maximum B =
     bind_result (storage_path key) (\<lambda>path. case B path of
       None \<Rightarrow> storage_error ''The stored object is unavailable.''
     | Some payload \<Rightarrow>
         if payload = [] \<or> maximum < length payload then storage_error ''The stored object size is invalid.''
         else Inr payload)"

definition storage_delete :: "string \<Rightarrow> object_store \<Rightarrow> unit result \<times> object_store" where
  "storage_delete key B = (case storage_path key of Inl e \<Rightarrow> (Inl e, B) | Inr path \<Rightarrow> (Inr (), B(path := None)))"

definition storage_stat :: "(bytes \<Rightarrow> string) \<Rightarrow> string \<Rightarrow> nat \<Rightarrow> object_store \<Rightarrow> stored_object result" where
  "storage_stat digest key maximum B =
     (if maximum = 0 then Inl (value_error ''Maximum object size must be positive.'')
      else bind_result (storage_read key maximum B) (\<lambda>payload.
        Inr \<lparr>so_key = key, so_size = length payload, so_digest = digest payload\<rparr>))"

definition storage_verify :: "(bytes \<Rightarrow> string) \<Rightarrow> string \<Rightarrow> string \<Rightarrow> nat \<Rightarrow> object_store \<Rightarrow> bool result" where
  "storage_verify digest key expected maximum B =
     bind_result (storage_stat digest key maximum B) (\<lambda>o'. Inr (so_digest o' = expected))"

section \<open>Names\<close>

text \<open>\<^verbatim>\<open>" ".join(value.split())\<close>\<close>

fun split_words :: "string \<Rightarrow> string \<Rightarrow> string list" where
  "split_words w [] = (if w = [] then [] else [w])"
| "split_words w (c # s) =
     (if py_isspace c then (if w = [] then split_words [] s else w # split_words [] s) else split_words (w @ [c]) s)"

fun join_blank :: "string list \<Rightarrow> string" where
  "join_blank [] = []"
| "join_blank [w] = w"
| "join_blank (w # ws) = w @ CHR '' '' # join_blank ws"

definition normalize_spacing :: "string \<Rightarrow> string" where
  "normalize_spacing s = join_blank (split_words [] s)"

definition display_char :: "char \<Rightarrow> bool" where
  "display_char c \<longleftrightarrow> c = CHR '' '' \<or> alnum_char c \<or> punctuation_char c"

definition validate_dataset_display_name :: "string \<Rightarrow> string result" where
  "validate_dataset_display_name s = (let name = normalize_spacing s in
     bind_result (ensure_safe_single_line name) (\<lambda>_.
     if length name < 3 \<or> 128 < length name
     then text_error ''Dataset names must contain between 3 and 128 characters.''
     else if \<not> alnum_char (hd name) then text_error ''Dataset names must begin with a letter or number.''
     else if list_ex (\<lambda>c. c \<in> {CHR ''/'', char_of (92 :: nat), CHR ''<'', CHR ''>''}) name
     then text_error ''Dataset names cannot contain path separators or angle brackets.''
     else if list_ex (\<lambda>c. \<not> display_char c) name
     then text_error ''Dataset names may use letters, numbers, spaces, and normal punctuation.''
     else Inr name))"

definition normalize_dataset_name :: "(string \<Rightarrow> string) \<Rightarrow> string \<Rightarrow> string result" where
  "normalize_dataset_name normal_form s = bind_result (validate_dataset_display_name s) (\<lambda>n. Inr (normal_form n))"

text \<open>\<^verbatim>\<open>PurePath(name).suffix\<close> and \<^verbatim>\<open>stem\<close> of a name without separators.\<close>

definition last_dot :: "string \<Rightarrow> int" where
  "last_dot s = rfind CHR ''.'' s 0 (length s)"

definition path_suffix :: "string \<Rightarrow> string" where
  "path_suffix s = (let i = last_dot s in if 0 < i \<and> i < int (length s) - 1 then drop (nat i) s else [])"

definition path_stem :: "string \<Rightarrow> string" where
  "path_stem s = (let i = last_dot s in if 0 < i \<and> i < int (length s) - 1 then take (nat i) s else s)"

definition validated_filename :: "string \<Rightarrow> string result" where
  "validated_filename filename = (let s = strip filename; bad = Inl (Exc DatasetValidationError ''The upload filename is invalid.'') in
     if s = [] \<or> 255 < length s \<or> s \<in> {''.'', ''..''} \<or>
       list_ex (\<lambda>c. c \<in> {CHR ''/'', char_of (92 :: nat), char_of (0 :: nat), carriage_return, newline}) s
     then bad
     else (case ensure_safe_single_line s of Inl e \<Rightarrow> bad | Inr _ \<Rightarrow> Inr s))"

definition upload_contract :: "dataset_kind \<Rightarrow> string \<times> string" where
  "upload_contract kind = (if kind = Tabular then (''.csv'', ''text/csv'') else (''.txt'', ''text/plain''))"

definition validate_upload_contract :: "dataset_kind \<Rightarrow> string \<Rightarrow> string \<Rightarrow> unit result" where
  "validate_upload_contract kind filename media_type =
     guard_that ((casefold (path_suffix filename), media_type) = upload_contract kind)
       (Exc DatasetValidationError (''This dataset accepts '' @ (if kind = Tabular then ''CSV'' else ''plain-text'') @ '' uploads only.''))"

definition normalized_media_type :: "string \<Rightarrow> string" where
  "normalized_media_type s = casefold (strip (takeWhile (\<lambda>c. c \<noteq> CHR '';'') s))"

section \<open>The registry service\<close>

record dataset_limits =
  li_upload :: nat
  li_csv :: csv_limits
  li_document :: nat
  li_stale_seconds :: int
  li_attempts :: nat

record dataset_world =
  dw_store :: dataset_store
  dw_objects :: object_store

record dataset_env =
  de_parents :: "uuid \<Rightarrow> uuid \<Rightarrow> bool"
  de_referenced :: "uuid \<Rightarrow> bool"
  de_normal_form :: "string \<Rightarrow> string"
  de_decode :: decoder
  de_digest :: "bytes \<Rightarrow> string"
  de_new_id :: uuid
  de_new_key :: string
  de_now :: "nat \<Rightarrow> timestamp"
  de_enqueue :: "uuid \<Rightarrow> string result"
  de_fault :: "nat \<Rightarrow> pyexc option"
  de_timeout :: bool
  de_tenant :: tenant
  de_limits :: dataset_limits
  de_others :: "nat \<Rightarrow> dataset_world \<Rightarrow> dataset_world"

definition with_store :: "dataset_world \<Rightarrow> dataset_store \<Rightarrow> dataset_world" where
  "with_store W S = W\<lparr>dw_store := S\<rparr>"

definition delete_object :: "string \<Rightarrow> dataset_world \<Rightarrow> dataset_world" where
  "delete_object key W = W\<lparr>dw_objects := snd (storage_delete key (dw_objects W))\<rparr>"

abbreviation name_taken :: pyexc where
  "name_taken \<equiv> Exc DatasetConflictError ''A dataset with this name already exists.''"

definition new_dataset :: "dataset_env \<Rightarrow> uuid \<Rightarrow> uuid \<Rightarrow> string \<Rightarrow> string \<Rightarrow> string option \<Rightarrow> dataset_kind \<Rightarrow> dataset" where
  "new_dataset env owner company display normalized description kind =
     \<lparr>ds_id = de_new_id env, ds_owner = owner, ds_company = company, ds_name = display, ds_normalized = normalized,
      ds_description = map_option strip description, ds_kind = kind, ds_status = DatasetActive, ds_current = None,
      ds_version = 0, ds_created_at = de_now env 0, ds_updated_at = de_now env 0, ds_archived_at = None\<rparr>"

definition create_dataset ::
    "dataset_env \<Rightarrow> uuid \<Rightarrow> uuid option \<Rightarrow> string \<Rightarrow> string option \<Rightarrow> dataset_kind \<Rightarrow> dataset_world \<Rightarrow>
     dataset result \<times> dataset_world" where
  "create_dataset env owner company name description kind W =
     (case bind_result (validate_dataset_display_name name) (\<lambda>display.
         bind_result (normalize_dataset_name (de_normal_form env) display) (\<lambda>normalized. Inr (display, normalized))) of
        Inl e \<Rightarrow> (Inl e, W)
      | Inr (display, normalized) \<Rightarrow>
         (let resolved = (case company of None \<Rightarrow> owner | Some c \<Rightarrow> c) in
          if get_dataset_by_name (de_tenant env) resolved normalized (dw_store W) \<noteq> None then (Inl name_taken, W)
          else (let W1 = de_others env 0 W in
            case create_dataset_row (de_parents env)
                (new_dataset env owner resolved display normalized description kind) (dw_store W1) of
              (Inr d, S) \<Rightarrow> (Inr d, with_store W1 S)
            | (Inl e, S) \<Rightarrow> if isinstance (exc_of e) [IntegrityError] then (Inl name_taken, W1) else (Inl e, W1))))"

definition get_dataset :: "tenant \<Rightarrow> uuid \<Rightarrow> uuid option \<Rightarrow> dataset_store \<Rightarrow> dataset result" where
  "get_dataset tn i owner S = (case get_dataset_row tn i owner S of
     None \<Rightarrow> Inl (Exc DatasetNotFoundError ''Dataset not found.'') | Some d \<Rightarrow> Inr d)"

definition list_datasets ::
    "tenant \<Rightarrow> uuid option \<Rightarrow> dataset_kind option \<Rightarrow> dataset_status option \<Rightarrow> nat \<Rightarrow> nat \<Rightarrow> dataset_store \<Rightarrow> dataset_page" where
  "list_datasets tn owner kind status limit offset S = list_dataset_rows tn owner kind status limit offset S"

definition get_version :: "tenant \<Rightarrow> uuid \<Rightarrow> uuid \<Rightarrow> uuid option \<Rightarrow> dataset_store \<Rightarrow> dataset_version result" where
  "get_version tn dataset_id i owner S = (case get_version_row tn dataset_id i owner S of
     None \<Rightarrow> Inl (Exc DatasetNotFoundError ''Dataset version not found.'') | Some v \<Rightarrow> Inr v)"

definition list_versions ::
    "tenant \<Rightarrow> uuid \<Rightarrow> uuid option \<Rightarrow> nat \<Rightarrow> nat \<Rightarrow> dataset_store \<Rightarrow> (dataset_version list \<times> nat) result" where
  "list_versions tn i owner limit offset S =
     bind_result (get_dataset tn i owner S) (\<lambda>_. Inr (list_version_rows i limit offset S))"

definition list_documents ::
    "tenant \<Rightarrow> uuid \<Rightarrow> uuid \<Rightarrow> uuid option \<Rightarrow> nat \<Rightarrow> nat \<Rightarrow> dataset_store \<Rightarrow> (document_record list \<times> nat) result" where
  "list_documents tn dataset_id i owner limit offset S =
     bind_result (get_version tn dataset_id i owner S) (\<lambda>v.
     if dv_media_type v \<noteq> ''text/plain''
     then Inl (Exc DatasetConflictError ''This version does not contain documents.'')
     else Inr (list_document_rows i limit offset S))"

definition get_document ::
    "tenant \<Rightarrow> uuid \<Rightarrow> uuid \<Rightarrow> uuid \<Rightarrow> uuid option \<Rightarrow> dataset_store \<Rightarrow> document_record result" where
  "get_document tn dataset_id i document owner S = (case get_document_row tn dataset_id i document owner S of
     None \<Rightarrow> Inl (Exc DatasetNotFoundError ''Document not found.'') | Some r \<Rightarrow> Inr r)"

section \<open>Uploads\<close>

record upload =
  ul_dataset :: uuid
  ul_owner :: "uuid option"
  ul_user :: uuid
  ul_source :: bytes
  ul_filename :: string
  ul_media_type :: string
  ul_options :: ingestion_options

definition check_upload :: "dataset_env \<Rightarrow> upload \<Rightarrow> dataset_store \<Rightarrow> (dataset \<times> string \<times> string) result" where
  "check_upload env u S =
     bind_result (get_dataset (de_tenant env) (ul_dataset u) (ul_owner u) S) (\<lambda>d.
     bind_result (guard_that (ds_status d = DatasetActive)
       (Exc DatasetConflictError ''Archived datasets cannot accept new versions.'')) (\<lambda>_.
     bind_result (validated_filename (ul_filename u)) (\<lambda>filename.
     bind_result (validate_upload_contract (ds_kind d) filename (normalized_media_type (ul_media_type u))) (\<lambda>_.
     Inr (d, filename, normalized_media_type (ul_media_type u))))))"

definition store_upload :: "dataset_env \<Rightarrow> upload \<Rightarrow> dataset_world \<Rightarrow> stored_object result \<times> dataset_world" where
  "store_upload env u W =
     (case (case de_fault env 0 of Some e \<Rightarrow> (Inl e, dw_objects W)
          | None \<Rightarrow> storage_write (de_digest env) (de_new_key env) (li_upload (de_limits env)) (ul_source u) (dw_objects W)) of
        (Inr o', B) \<Rightarrow> (Inr o', W\<lparr>dw_objects := B\<rparr>)
      | (Inl e, B) \<Rightarrow> (Inl (if isinstance (exc_of e) [DatasetStorageError, OSError]
            then Exc DatasetValidationError ''The upload could not be stored safely.'' else e), W))"

definition new_version :: "dataset_env \<Rightarrow> upload \<Rightarrow> string \<Rightarrow> string \<Rightarrow> stored_object \<Rightarrow> nat \<Rightarrow> dataset_version" where
  "new_version env u filename media_type o' number =
     \<lparr>dv_id = de_new_id env, dv_dataset = ul_dataset u, dv_number = number, dv_status = VersionPending,
      dv_source = UploadSource, dv_key = so_key o', dv_filename = Some filename, dv_media_type = media_type,
      dv_size = so_size o', dv_digest = so_digest o', dv_results = no_results, dv_schema = NoSnapshot,
      dv_options = ul_options u, dv_created_by = ul_user u, dv_created_at = de_now env 1, dv_started_at = None,
      dv_enqueued_at = Some (de_now env 1), dv_attempts = 1, dv_ready_at = None, dv_failed_at = None,
      dv_error_code = None, dv_error_message = None, dv_version = 0\<rparr>"

text \<open>One transaction claims the dataset, so that uploads and archival are serialised, and inserts the version.\<close>

definition insert_version ::
    "dataset_env \<Rightarrow> upload \<Rightarrow> dataset \<Rightarrow> string \<Rightarrow> string \<Rightarrow> stored_object \<Rightarrow> dataset_world \<Rightarrow>
     dataset_version result \<times> dataset_world" where
  "insert_version env u d filename media_type o' W =
     (case de_fault env 1 of Some e \<Rightarrow> (Inl e, delete_object (so_key o') W)
      | None \<Rightarrow> (case claim_active_dataset (ds_id d) (ds_version d) (de_now env 1) (dw_store W) of
          (False, S) \<Rightarrow> (Inl (Exc DatasetConflictError
            ''The dataset changed while the upload was stored; retry the operation.''), delete_object (so_key o') W)
        | (True, S) \<Rightarrow>
           (case (case de_fault env 2 of Some e \<Rightarrow> (Inl e, S)
                | None \<Rightarrow> create_version_row (new_version env u filename media_type o' (next_version_number (ds_id d) S)) S) of
              (Inr v, S') \<Rightarrow> (Inr v, with_store W S')
            | (Inl e, S') \<Rightarrow> (Inl (if isinstance (exc_of e) [IntegrityError]
                then Exc DatasetConflictError ''This dataset content is already registered as a version.'' else e),
                delete_object (so_key o') W))))"

definition create_version :: "dataset_env \<Rightarrow> upload \<Rightarrow> dataset_world \<Rightarrow> dataset_version result \<times> dataset_world" where
  "create_version env u W =
     (case check_upload env u (dw_store W) of
        Inl e \<Rightarrow> (Inl e, W)
      | Inr (d, filename, media_type) \<Rightarrow>
         (case store_upload env u W of
            (Inl e, W1) \<Rightarrow> (Inl e, W1)
          | (Inr o', W1) \<Rightarrow>
             (case insert_version env u d filename media_type o' (de_others env 0 W1) of
                (Inl e, W2) \<Rightarrow> (Inl e, W2)
              | (Inr v, W2) \<Rightarrow>
                 (case de_enqueue env (dv_id v) of
                    Inr m \<Rightarrow> (Inr v, W2)
                  | Inl e \<Rightarrow>
                     (let W3 = de_others env 1 W2 in
                      (Inl (Exc DatasetQueueError ''Dataset processing could not be queued.''),
                       delete_object (so_key o') (with_store W3 (mark_version_failed (dv_id v) ''enqueue_failed''
                         ''Dataset processing could not be queued.'' (de_now env 2) (dw_store W3)))))))))"

section \<open>Archival and training\<close>

definition archive_dataset :: "dataset_env \<Rightarrow> uuid \<Rightarrow> uuid option \<Rightarrow> dataset_world \<Rightarrow> dataset result \<times> dataset_world" where
  "archive_dataset env i owner W =
     (case get_dataset (de_tenant env) i owner (dw_store W) of
        Inl e \<Rightarrow> (Inl e, W)
      | Inr current \<Rightarrow>
          if ds_status current = DatasetArchived then (Inr current, W)
          else (let W1 = de_others env 0 W in
            case archive_dataset_row (de_referenced env) i (ds_version current) (de_now env 0) (dw_store W1) of
              (None, S) \<Rightarrow> (Inl (Exc DatasetConflictError (''Finish active processing and detach the dataset from active '' @
                ''knowledge bases before archiving.'')), W1)
            | (Some d, S) \<Rightarrow> (Inr d, with_store W1 S)))"

definition unavailable :: "string \<Rightarrow> pyexc" where
  "unavailable m = Exc DatasetQueueError m"

definition resolve_training_snapshot :: "dataset_env \<Rightarrow> uuid \<Rightarrow> uuid option \<Rightarrow> dataset_world \<Rightarrow> training_sets result" where
  "resolve_training_snapshot env i owner W =
     (case get_version_reference (de_tenant env) i owner (dw_store W) of
        None \<Rightarrow> Inl (Exc DatasetNotFoundError ''Dataset version not found.'')
      | Some v \<Rightarrow>
         (case get_dataset_row (de_tenant env) (dv_dataset v) owner (dw_store W) of
            None \<Rightarrow> Inl (Exc DatasetNotFoundError ''Dataset version not found.'')
          | Some d \<Rightarrow>
             if ds_kind d \<noteq> Tabular \<or> ds_status d \<noteq> DatasetActive \<or> dv_status v \<noteq> VersionReady
             then Inl (Exc DatasetConflictError ''Training requires a ready tabular dataset version.'')
             else (case (case de_fault env 0 of Some e \<Rightarrow> Inl e
                  | None \<Rightarrow> storage_read (dv_key v) (li_upload (de_limits env)) (dw_objects W)) of
                Inl e \<Rightarrow> Inl (if isinstance (exc_of e) [DatasetStorageError, OSError]
                  then unavailable ''The registered dataset is temporarily unavailable.'' else e)
              | Inr payload \<Rightarrow>
                 if de_digest env payload \<noteq> dv_digest v
                 then Inl (unavailable ''The registered dataset failed integrity verification.'')
                 else bind_result (make_ingestion_options (dv_options v)) (\<lambda>opts.
                   if de_timeout env then Inl (unavailable ''The registered dataset could not be resolved in time.'')
                   else (case tabular_training_snapshot (de_decode env) (dv_schema v) (io_fraction opts) payload of
                       Inl e \<Rightarrow> Inl (if isinstance (exc_of e) [DatasetIngestionError]
                         then Exc DatasetConflictError ''The registered dataset is not compatible with numeric training.'' else e)
                     | Inr s \<Rightarrow> Inr s)))))"

section \<open>The processor\<close>

definition terminal_failure :: "dataset_env \<Rightarrow> uuid \<Rightarrow> string \<Rightarrow> string \<Rightarrow> dataset_world \<Rightarrow> dataset_world" where
  "terminal_failure env i code message W =
     with_store W (mark_version_failed i code message (de_now env 3) (dw_store W))"

text \<open>The stored object of a claimed version, checked against its digest.\<close>

definition load_object :: "dataset_env \<Rightarrow> dataset_version \<Rightarrow> dataset_world \<Rightarrow> bytes result" where
  "load_object env v W =
     (case de_fault env 0 of Some e \<Rightarrow> Inl e
      | None \<Rightarrow> bind_result (storage_read (dv_key v) (li_upload (de_limits env)) (dw_objects W)) (\<lambda>payload.
          if de_digest env payload \<noteq> dv_digest v then storage_error ''Stored object digest mismatch.'' else Inr payload))"

definition ingest :: "dataset_env \<Rightarrow> dataset_kind \<Rightarrow> ingestion_options \<Rightarrow> bytes \<Rightarrow> ingestion_result result" where
  "ingest env kind opts payload =
     (if kind = Tabular
      then ingest_csv (de_decode env) (li_csv (de_limits env)) (io_target opts) (io_split opts) payload
      else ingest_plain_text (de_decode env) (li_document (de_limits env)) payload)"

definition version_values :: "dataset_kind \<Rightarrow> ingestion_result \<Rightarrow> ready_values" where
  "version_values kind r =
     (if kind = Tabular
      then \<lparr>rv_results = \<lparr>pr_rows = ir_rows r, pr_columns = ir_columns r, pr_documents = None, pr_chunks = None\<rparr>, rv_schema = ir_schema r\<rparr>
      else \<lparr>rv_results = \<lparr>pr_rows = None, pr_columns = None, pr_documents = Some 1, pr_chunks = Some 0\<rparr>, rv_schema = ir_schema r\<rparr>)"

definition new_document :: "dataset_env \<Rightarrow> dataset_version \<Rightarrow> string \<Rightarrow> document_record" where
  "new_document env v text =
     (let filename = (case dv_filename v of None \<Rightarrow> ''document.txt'' | Some f \<Rightarrow> if f = [] then ''document.txt'' else f) in
      \<lparr>dr_id = de_new_id env, dr_version = dv_id v, dr_number = 1, dr_title = take 255 (path_stem filename),
       dr_filename = filename, dr_media_type = dv_media_type v, dr_size = dv_size v, dr_digest = dv_digest v,
       dr_characters = length text, dr_status = DocumentReady, dr_text = Some text,
       dr_started_at = dv_started_at v, dr_ready_at = Some (de_now env 1)\<rparr>)"

text \<open>The transaction that makes a version ready, with its document, and moves the pointer of the dataset.\<close>

definition publish ::
    "dataset_env \<Rightarrow> dataset_version \<Rightarrow> dataset \<Rightarrow> ingestion_result \<Rightarrow> dataset_world \<Rightarrow> bool result \<times> dataset_world" where
  "publish env v d r W =
     (case (case ir_text r of None \<Rightarrow> (Inr (), dw_store W)
          | Some text \<Rightarrow> (case create_document (new_document env v text) (dw_store W) of
              (Inl e, S) \<Rightarrow> (Inl e, S) | (Inr q, S) \<Rightarrow> (Inr (), S))) of
        (Inl e, S) \<Rightarrow> (Inl e, W)
      | (Inr u, S) \<Rightarrow>
         (case mark_version_ready (dv_id v) (dv_version v) (version_values (ds_kind d) r) (de_now env 2) S of
            (None, S') \<Rightarrow> (Inr False, W)
          | (Some ready, S') \<Rightarrow>
             (case set_current_version (ds_id d) (dv_id v) (ds_version d) (de_now env 2) S' of
                (True, S'') \<Rightarrow> (Inr True, with_store W S'')
              | (False, S'') \<Rightarrow>
                 (let W1 = de_others env 2 (with_store W S') in
                  case get_dataset_row None (ds_id d) None (dw_store W1) of
                    None \<Rightarrow> (Inr True, W1)
                  | Some current \<Rightarrow> (Inr True, with_store W1
                      (snd (set_current_version (ds_id d) (dv_id v) (ds_version current) (de_now env 3) (dw_store W1))))))))"

definition retry_later :: "dataset_env \<Rightarrow> dataset_version \<Rightarrow> dataset_world \<Rightarrow> dataset_world" where
  "retry_later env v W =
     (case release_version_for_retry (dv_id v) (dv_version v) ''Dataset storage is temporarily unavailable.'' (dw_store W) of
        (released, S) \<Rightarrow> if released then with_store W S else W)"

text \<open>A claimed version: read, check, import, publish.\<close>

definition process_claimed ::
    "dataset_env \<Rightarrow> dataset_version \<Rightarrow> dataset \<Rightarrow> dataset_world \<Rightarrow> bool result \<times> dataset_world" where
  "process_claimed env v d W =
     (let W1 = de_others env 1 W in
      case load_object env v W of
        Inl e \<Rightarrow>
          if isinstance (exc_of e) [DatasetStorageError, OSError]
          then (Inl (Exc RetryableDatasetProcessingError ''Dataset storage is temporarily unavailable.''), retry_later env v W1)
          else (Inl e, W1)
      | Inr payload \<Rightarrow>
         (case make_ingestion_options (dv_options v) of
            Inl e \<Rightarrow> (Inl e, W1)
          | Inr opts \<Rightarrow>
              if de_timeout env
              then (Inr True, terminal_failure env (dv_id v) ''processing_timeout''
                ''Dataset processing exceeded the safe time limit.'' W1)
              else (case ingest env (ds_kind d) opts payload of
                  Inl e \<Rightarrow>
                    if isinstance (exc_of e) [DatasetIngestionError]
                    then (Inr True, terminal_failure env (dv_id v) ''validation_failed'' (exc_message e) W1)
                    else (Inl e, W1)
                | Inr r \<Rightarrow> publish env v d r W1)))"

definition process_version :: "dataset_env \<Rightarrow> uuid \<Rightarrow> dataset_world \<Rightarrow> bool result \<times> dataset_world" where
  "process_version env i W =
     (case claim_version i (de_now env 0) (dw_store W) of
        (None, S) \<Rightarrow> (Inr False, W)
      | (Some v, S) \<Rightarrow>
         (let W1 = de_others env 0 (with_store W S) in
          case get_dataset_row None (dv_dataset v) None (dw_store W1) of
            None \<Rightarrow> (Inr True, terminal_failure env i ''dataset_missing'' ''The parent dataset is unavailable.'' W1)
          | Some d \<Rightarrow> process_claimed env v d W1))"

fun reconcile_ids ::
    "dataset_env \<Rightarrow> timestamp \<Rightarrow> nat \<Rightarrow> uuid list \<Rightarrow> dataset_world \<Rightarrow> nat \<times> dataset_world" where
  "reconcile_ids env before k [] W = (0, W)"
| "reconcile_ids env before k (i # is) W =
     (let W1 = de_others env k W in
      case reconcile_stale_version i before (li_attempts (de_limits env)) (de_now env k) (dw_store W1) of
        (False, S) \<Rightarrow> reconcile_ids env before (Suc k) is W1
      | (True, S) \<Rightarrow>
         (case reconcile_ids env before (Suc k) is (with_store W1 S) of (n, W2) \<Rightarrow>
            (if is_ok (de_enqueue env i) then Suc n else n, W2)))"

definition reconcile_stale :: "dataset_env \<Rightarrow> dataset_world \<Rightarrow> nat \<times> dataset_world" where
  "reconcile_stale env W =
     (let before = de_now env 0 - li_stale_seconds (de_limits env) * second;
          W1 = with_store W (snd (fail_exhausted_stale_versions before (li_attempts (de_limits env)) 100 (de_now env 0) (dw_store W)));
          W2 = de_others env 0 W1 in
      reconcile_ids env before 1
        (list_stale_processing_ids before (li_attempts (de_limits env)) 100 (dw_store W2)) W2)"

end
