(* ===== verification/Dataset_Lifecycle.thy ===== *)
theory Dataset_Lifecycle
  imports Dataset_Service
begin

text \<open>
  The life cycles of datasets and versions: which moves their rows make, that every operation of
  the repository makes only such moves, and the invariant of every reachable store. Versions and
  datasets are two instances of the discipline of conditional transitions.
\<close>

section \<open>Moves of a version\<close>

definition version_identity where
  "version_identity v = (dv_id v, dv_dataset v, dv_number v, dv_key v, dv_digest v, dv_size v, dv_options v,
     dv_filename v, dv_media_type v)"

inductive version_move :: "dataset_version \<Rightarrow> dataset_version \<Rightarrow> bool" where
  claim [step_intros]: "dv_status v = VersionPending \<Longrightarrow> dv_status v' = VersionProcessing \<Longrightarrow>
    version_identity v' = version_identity v \<Longrightarrow> dv_version v' = Suc (dv_version v) \<Longrightarrow> dv_attempts v' = dv_attempts v \<Longrightarrow>
    version_move v v'"
| ready [step_intros]: "dv_status v = VersionProcessing \<Longrightarrow> dv_status v' = VersionReady \<Longrightarrow>
    version_identity v' = version_identity v \<Longrightarrow> dv_version v' = Suc (dv_version v) \<Longrightarrow> dv_attempts v' = dv_attempts v \<Longrightarrow>
    version_move v v'"
| fail [step_intros]: "dv_status v \<in> {VersionPending, VersionProcessing} \<Longrightarrow> dv_status v' = VersionFailed \<Longrightarrow>
    version_identity v' = version_identity v \<Longrightarrow> dv_version v' = Suc (dv_version v) \<Longrightarrow> dv_attempts v' = dv_attempts v \<Longrightarrow>
    version_move v v'"
| release [step_intros]: "dv_status v = VersionProcessing \<Longrightarrow> dv_status v' = VersionPending \<Longrightarrow>
    version_identity v' = version_identity v \<Longrightarrow> dv_version v' = Suc (dv_version v) \<Longrightarrow> dv_attempts v' = dv_attempts v \<Longrightarrow>
    version_move v v'"
| requeue [step_intros]: "dv_status v \<in> {VersionPending, VersionProcessing} \<Longrightarrow> dv_status v' = VersionPending \<Longrightarrow>
    version_identity v' = version_identity v \<Longrightarrow> dv_version v' = Suc (dv_version v) \<Longrightarrow> dv_attempts v' = Suc (dv_attempts v) \<Longrightarrow>
    version_move v v'"

abbreviation version_final :: "dataset_version \<Rightarrow> bool" where
  "version_final v \<equiv> dv_status v \<notin> {VersionPending, VersionProcessing}"

lemma version_moves:
  assumes "version_move v v'"
  shows version_move_identity: "version_identity v' = version_identity v"
    and version_move_version: "dv_version v' = Suc (dv_version v)"
    and version_move_live: "\<not> version_final v"
  using assms by (cases; auto)+

interpretation versions: versioned_rows dv_id dv_version version_move version_final
proof
  fix v v' assume m: "version_move v v'"
  show "dv_id v' = dv_id v" using version_move_identity [OF m] by (simp add: version_identity_def)
  show "dv_version v' = Suc (dv_version v)" using m by (rule version_move_version)
  show "\<not> version_final v" using m by (rule version_move_live)
qed

section \<open>Moves of a dataset\<close>

definition dataset_identity where
  "dataset_identity d = (ds_id d, ds_company d, ds_owner d, ds_normalized d, ds_kind d)"

definition dataset_move :: "dataset \<Rightarrow> dataset \<Rightarrow> bool" where
  "dataset_move d d' \<longleftrightarrow> dataset_identity d' = dataset_identity d \<and> ds_version d' = Suc (ds_version d) \<and>
     ds_status d = DatasetActive \<and> (ds_current d \<noteq> None \<longrightarrow> ds_current d' \<noteq> None) \<and>
     (ds_status d' = DatasetActive \<or> ds_status d' = DatasetArchived \<and> ds_current d' = ds_current d)"

abbreviation dataset_final :: "dataset \<Rightarrow> bool" where
  "dataset_final d \<equiv> ds_status d \<noteq> DatasetActive"

interpretation datasets: versioned_rows ds_id ds_version dataset_move dataset_final
  by unfold_locales (auto simp: dataset_move_def dataset_identity_def)

section \<open>Events\<close>

datatype dataset_event =
    NewDataset "uuid \<Rightarrow> uuid \<Rightarrow> bool" dataset
  | NewVersion dataset_version
  | NewDocument document_record
  | NewUsage uuid string uuid
  | ClaimDataset uuid nat timestamp
  | ClaimVersion uuid timestamp
  | PublishVersion uuid nat ready_values timestamp
  | FailVersion uuid string string timestamp
  | ReleaseVersion uuid nat string
  | FailExhausted timestamp nat nat timestamp
  | RequeueVersion uuid timestamp nat timestamp
  | SetCurrent uuid uuid nat timestamp
  | ArchiveDataset "uuid \<Rightarrow> bool" uuid nat timestamp

text \<open>A new version starts pending, with one delivery.\<close>

definition fresh_version :: "dataset_version \<Rightarrow> bool" where
  "fresh_version v \<longleftrightarrow> dv_status v = VersionPending \<and> dv_attempts v = 1 \<and> dv_version v = 0"

definition fresh_dataset :: "dataset \<Rightarrow> bool" where
  "fresh_dataset d \<longleftrightarrow> ds_status d = DatasetActive \<and> ds_current d = None \<and> ds_version d = 0"

fun apply_dataset :: "dataset_event \<Rightarrow> dataset_store \<Rightarrow> dataset_store" where
  "apply_dataset (NewDataset parents d) S = (if fresh_dataset d then snd (create_dataset_row parents d S) else S)"
| "apply_dataset (NewVersion v) S = (if fresh_version v then snd (create_version_row v S) else S)"
| "apply_dataset (NewDocument r) S = snd (create_document r S)"
| "apply_dataset (NewUsage i u r) S = snd (add_usage_reference i u r S)"
| "apply_dataset (ClaimDataset i n t) S = snd (claim_active_dataset i n t S)"
| "apply_dataset (ClaimVersion i t) S = snd (claim_version i t S)"
| "apply_dataset (PublishVersion i n vs t) S = snd (mark_version_ready i n vs t S)"
| "apply_dataset (FailVersion i c m t) S = mark_version_failed i c m t S"
| "apply_dataset (ReleaseVersion i n m) S = snd (release_version_for_retry i n m S)"
| "apply_dataset (FailExhausted b a l t) S = snd (fail_exhausted_stale_versions b a l t S)"
| "apply_dataset (RequeueVersion i b a t) S = snd (reconcile_stale_version i b a t S)"
| "apply_dataset (SetCurrent d i n t) S = snd (set_current_version d i n t S)"
| "apply_dataset (ArchiveDataset ref i n t) S = snd (archive_dataset_row ref i n t S)"

abbreviation dataset_events :: "dataset_event list \<Rightarrow> dataset_store \<Rightarrow> dataset_store" where
  "dataset_events es S \<equiv> fold apply_dataset es S"

lemmas dataset_operations = create_dataset_row_def create_version_row_def create_document_def add_usage_reference_def
  claim_active_dataset_def claim_version_def mark_version_ready_def mark_version_failed_def release_version_for_retry_def
  fail_exhausted_stale_versions_def reconcile_stale_version_def set_current_version_def archive_dataset_row_def
  update_dataset_def update_version_def bump_dataset_def bump_version_def

lemma versions_evolve: "evolves version_move (dt_versions S) (dt_versions (apply_dataset e S))"
  by (cases e)
     (auto simp: dataset_operations Let_def version_identity_def stale_version_def version_move.simps intro!: evolves_update
       split: if_splits)

lemma datasets_evolve: "evolves dataset_move (dt_datasets S) (dt_datasets (apply_dataset e S))"
  by (cases e) (auto simp: dataset_operations Let_def dataset_move_def dataset_identity_def intro!: evolves_update split: if_splits)

lemma dataset_events_evolve:
  "evolves version_move (dt_versions S) (dt_versions (dataset_events es S))"
  "evolves dataset_move (dt_datasets S) (dt_datasets (dataset_events es S))"
proof (induction es arbitrary: S)
  case (Cons e es)
  case 1 show ?case using evolves_trans [OF versions_evolve Cons(1)] by simp
  case 2 show ?case using evolves_trans [OF datasets_evolve Cons(2)] by simp
qed simp_all

end
