(* ===== verification/Dataset_Correct.thy ===== *)
theory Dataset_Correct
  imports Dataset_Lifecycle
begin

text \<open>
  The invariant of every store that events reach: unique names, numbers, contents and storage keys,
  and pointers to ready versions that only move forward.
\<close>

section \<open>The invariant\<close>

definition dataset_keys :: "dataset_store \<Rightarrow> bool" where
  "dataset_keys S \<longleftrightarrow> distinct (map ds_id (dt_datasets S)) \<and>
     distinct (map (\<lambda>d. (ds_company d, ds_normalized d)) (dt_datasets S)) \<and>
     distinct (map dv_id (dt_versions S)) \<and> distinct (map dv_key (dt_versions S)) \<and>
     distinct (map (\<lambda>v. (dv_dataset v, dv_number v)) (dt_versions S)) \<and>
     distinct (map (\<lambda>v. (dv_dataset v, dv_digest v)) (dt_versions S)) \<and>
     dv_dataset ` set (dt_versions S) \<subseteq> ds_id ` set (dt_datasets S)"

definition ready_version :: "dataset_store \<Rightarrow> uuid \<Rightarrow> uuid \<Rightarrow> dataset_version \<Rightarrow> bool" where
  "ready_version S d i v \<longleftrightarrow> v \<in> set (dt_versions S) \<and> dv_id v = i \<and> dv_dataset v = d \<and> dv_status v = VersionReady"

definition current_ready :: "dataset_store \<Rightarrow> bool" where
  "current_ready S \<longleftrightarrow> (\<forall>d \<in> set (dt_datasets S). \<forall>c. ds_current d = Some c \<longrightarrow> (\<exists>v. ready_version S (ds_id d) c v))"

lemma version_columns:
  assumes "\<And>v. version_identity (f v) = version_identity v"
  shows "map dv_id (update_where p (bump_version f) V) = map dv_id V" "map dv_key (update_where p (bump_version f) V) = map dv_key V"
    "map (\<lambda>v. (dv_dataset v, dv_number v)) (update_where p (bump_version f) V) = map (\<lambda>v. (dv_dataset v, dv_number v)) V"
    "map (\<lambda>v. (dv_dataset v, dv_digest v)) (update_where p (bump_version f) V) = map (\<lambda>v. (dv_dataset v, dv_digest v)) V"
    "map dv_dataset (update_where p (bump_version f) V) = map dv_dataset V"
  using assms by (simp_all add: map_update_where bump_version_def version_identity_def)

lemma dataset_columns:
  assumes "\<And>d. dataset_identity (f d) = dataset_identity d"
  shows "map ds_id (update_where p (bump_dataset f) D) = map ds_id D"
    "map (\<lambda>d. (ds_company d, ds_normalized d)) (update_where p (bump_dataset f) D) = map (\<lambda>d. (ds_company d, ds_normalized d)) D"
  using assms by (simp_all add: map_update_where bump_dataset_def dataset_identity_def)

lemma keys_of_versions:
  assumes "dataset_keys S" and "\<And>v. version_identity (f v) = version_identity v"
  shows "dataset_keys (snd (update_version p f S))"
proof -
  have "dv_dataset ` set (update_where p (bump_version f) (dt_versions S)) = dv_dataset ` set (dt_versions S)"
    using arg_cong [OF version_columns(5) [of f p "dt_versions S", OF assms(2)], of set] by simp
  then show ?thesis using assms(1) version_columns(1-4) [of f p "dt_versions S", OF assms(2)]
    by (simp add: dataset_keys_def update_version_def)
qed

lemma keys_of_datasets:
  assumes "dataset_keys S" and "\<And>d. dataset_identity (f d) = dataset_identity d"
  shows "dataset_keys (snd (update_dataset p f S))"
proof -
  have "ds_id ` set (update_where p (bump_dataset f) (dt_datasets S)) = ds_id ` set (dt_datasets S)"
    using arg_cong [OF dataset_columns(1) [of f p "dt_datasets S", OF assms(2)], of set] by simp
  then show ?thesis using assms(1) dataset_columns [of f p "dt_datasets S", OF assms(2)]
    by (simp add: dataset_keys_def update_dataset_def)
qed

lemmas keys_of_updates = keys_of_versions keys_of_datasets

lemma keys_same: "dt_datasets S' = dt_datasets S \<Longrightarrow> dt_versions S' = dt_versions S \<Longrightarrow> dataset_keys S' = dataset_keys S"
  by (simp add: dataset_keys_def)

lemma keys_step: "dataset_keys S \<Longrightarrow> dataset_keys (apply_dataset e S)"
proof (cases e)
  case (NewDataset parents d)
  assume "dataset_keys S"
  then show ?thesis using NewDataset
    by (auto simp: create_dataset_row_def dataset_keys_def list_ex_iff image_iff)
next
  case (NewVersion v)
  assume "dataset_keys S"
  then show ?thesis using NewVersion
    by (auto simp: create_version_row_def version_conflict_def dataset_keys_def list_ex_iff image_iff) metis
next
  case (NewDocument r)
  assume "dataset_keys S"
  then show ?thesis using NewDocument keys_same [of "snd (create_document r S)" S] by (auto simp: create_document_def)
next
  case (NewUsage i u r)
  assume "dataset_keys S"
  then show ?thesis using NewUsage keys_same [of "snd (add_usage_reference i u r S)" S] by (auto simp: add_usage_reference_def)
qed (auto simp: claim_active_dataset_def claim_version_def mark_version_ready_def
    mark_version_failed_def release_version_for_retry_def fail_exhausted_stale_versions_def reconcile_stale_version_def
    set_current_version_def archive_dataset_row_def Let_def version_identity_def dataset_identity_def case_prod_beta
    intro!: keys_of_updates)

lemma final_version_stays:
  assumes "dataset_keys S" and "v \<in> set (dt_versions S)" and "version_final v"
  shows "v \<in> set (dt_versions (dataset_events es S))"
proof -
  have "lookup dv_id (dv_id v) (dt_versions S) = Some v"
    using assms(1,2) by (intro lookup_distinct) (simp_all add: dataset_keys_def)
  then have "lookup dv_id (dv_id v) (dt_versions (dataset_events es S)) = Some v"
    using versions.evolves_final [OF dataset_events_evolve(1)] assms(3) by blast
  then show ?thesis using lookup_SomeD by metis
qed

lemma ready_version_stays: "dataset_keys S \<Longrightarrow> ready_version S d i v \<Longrightarrow> ready_version (dataset_events es S) d i v"
  using final_version_stays [of S v es] by (simp add: ready_version_def)

section \<open>The current version\<close>

text \<open>What a step does to the pointer of a dataset.\<close>

lemma pointer_step:
  assumes "dataset_keys S" and "d' \<in> set (dt_datasets (apply_dataset e S))"
  shows "ds_current d' = None \<or> (\<exists>d \<in> set (dt_datasets S). ds_id d = ds_id d' \<and>
    (ds_current d' = ds_current d \<or>
     (\<exists>i v. ds_current d' = Some i \<and> ready_version S (ds_id d) i v \<and> current_allows (dv_number v) d S)))"
proof (cases e)
  case (NewDataset parents d)
  then show ?thesis using assms(2) by (auto simp: create_dataset_row_def fresh_dataset_def split: if_splits)
next
  case (SetCurrent dataset i n t)
  show ?thesis
  proof (cases "d' \<in> set (dt_datasets S)")
    case False
    then obtain d m where d: "d \<in> set (dt_datasets S)" "ds_id d = dataset" "ready_number dataset i S = Some m" "current_allows m d S"
        "d' = bump_dataset (\<lambda>d. d\<lparr>ds_current := Some i, ds_updated_at := t\<rparr>) d"
      using assms(2) SetCurrent
      by (auto simp: set_current_version_def update_dataset_def set_update_where split: option.splits)
    obtain v where "v \<in> set (dt_versions S)" "dv_id v = i" "dv_dataset v = dataset" "dv_status v = VersionReady" "dv_number v = m"
      using d(3) by (auto simp: ready_number_def dest!: at_most_one_Some)
    then show ?thesis using d by (auto simp: ready_version_def bump_dataset_def)
  qed auto
qed (use assms(2) in \<open>auto simp: dataset_operations Let_def set_update_where split: if_splits\<close>)

lemma current_step:
  assumes "dataset_keys S" and "current_ready S"
  shows "current_ready (apply_dataset e S)"
  unfolding current_ready_def
proof (intro ballI allI impI)
  fix d' c assume d': "d' \<in> set (dt_datasets (apply_dataset e S))" and c: "ds_current d' = Some c"
  obtain d where d: "d \<in> set (dt_datasets S)" "ds_id d = ds_id d'" and
      "ds_current d' = ds_current d \<or> (\<exists>i v. ds_current d' = Some i \<and> ready_version S (ds_id d) i v)"
    using pointer_step [OF assms(1) d'] c by (metis option.distinct(1))
  then have "ds_current d = Some c \<or> (\<exists>v. ready_version S (ds_id d) c v)" using c by auto
  then obtain v where "ready_version S (ds_id d) c v" using assms(2) d(1) by (auto simp: current_ready_def)
  then show "\<exists>v. ready_version (apply_dataset e S) (ds_id d') c v"
    using ready_version_stays [OF assms(1), of "ds_id d" c v "[e]"] d(2) by auto
qed

lemma reachable_datasets: "dataset_keys (dataset_events es empty_datasets) \<and> current_ready (dataset_events es empty_datasets)"
proof (induction es rule: rev_induct)
  case Nil
  then show ?case by (simp add: dataset_keys_def current_ready_def empty_datasets_def)
next
  case (snoc e es)
  then show ?case using keys_step current_step by simp
qed

text \<open>
  C28: In every reachable store the names of a company's datasets are unique, so are the numbers and
  the contents of a dataset's versions and all storage keys, every version belongs to a dataset,
  and the current version of a dataset is one of its own ready versions.
\<close>

theorem reachable_datasets_consistent:
  fixes es :: "dataset_event list"
  defines "S \<equiv> dataset_events es empty_datasets"
  shows "distinct (map (\<lambda>d. (ds_company d, ds_normalized d)) (dt_datasets S)) \<and>
    distinct (map (\<lambda>v. (dv_dataset v, dv_number v)) (dt_versions S)) \<and>
    distinct (map (\<lambda>v. (dv_dataset v, dv_digest v)) (dt_versions S)) \<and> distinct (map dv_key (dt_versions S)) \<and>
    (\<forall>v \<in> set (dt_versions S). \<exists>d \<in> set (dt_datasets S). ds_id d = dv_dataset v) \<and>
    (\<forall>d \<in> set (dt_datasets S). \<forall>c. ds_current d = Some c \<longrightarrow>
      (\<exists>v \<in> set (dt_versions S). dv_id v = c \<and> dv_dataset v = ds_id d \<and> dv_status v = VersionReady))"
  using reachable_datasets [of es] by (fastforce simp: S_def dataset_keys_def current_ready_def ready_version_def)

definition current_number :: "dataset_store \<Rightarrow> dataset \<Rightarrow> nat option" where
  "current_number S d = Option.bind (ds_current d) (\<lambda>c. map_option dv_number (lookup dv_id c (dt_versions S)))"

lemma same_key: "distinct (map key xs) \<Longrightarrow> x \<in> set xs \<Longrightarrow> y \<in> set xs \<Longrightarrow> key x = key y \<Longrightarrow> x = y"
  by (metis distinct_map inj_onD)

lemma current_number_step:
  assumes "dataset_keys S" and "d \<in> set (dt_datasets S)" and "current_number S d = Some n"
  shows "\<exists>d' m. d' \<in> set (dt_datasets (apply_dataset e S)) \<and> ds_id d' = ds_id d \<and>
    current_number (apply_dataset e S) d' = Some m \<and> n \<le> m"
proof -
  let ?S = "apply_dataset e S"
  have distinct: "distinct (map ds_id (dt_datasets S))" "distinct (map dv_id (dt_versions S))"
    using assms(1) by (simp_all add: dataset_keys_def)
  obtain c v where c: "ds_current d = Some c" "lookup dv_id c (dt_versions S) = Some v" "dv_number v = n"
    using assms(3) by (auto simp: current_number_def bind_eq_Some_conv)
  have number: "\<exists>w. lookup dv_id i (dt_versions ?S) = Some w \<and> dv_number w = dv_number u" if u: "lookup dv_id i (dt_versions S) = Some u" for i u
  proof -
    obtain w where w: "lookup dv_id i (dt_versions ?S) = Some w" "version_move\<^sup>*\<^sup>* u w"
      using versions.evolves_lookup [OF versions_evolve u] by blast
    have "version_identity w = version_identity u"
      using w(2) by (induction rule: rtranclp_induct) (auto dest: version_move_identity)
    then show ?thesis using w(1) by (simp add: version_identity_def)
  qed
  obtain d' where d': "lookup ds_id (ds_id d) (dt_datasets ?S) = Some d'" "dataset_move\<^sup>*\<^sup>* d d'"
    using datasets.evolves_lookup [OF datasets_evolve lookup_distinct [OF distinct(1) assms(2)]] by blast
  have mem: "d' \<in> set (dt_datasets ?S)" "ds_id d' = ds_id d" using lookup_SomeD [OF d'(1)] by simp_all
  have unique: "d2 = d" if "d2 \<in> set (dt_datasets S)" "ds_id d2 = ds_id d" for d2
    using same_key [OF distinct(1) that(1) assms(2) that(2)] .
  have "ds_current d \<noteq> None \<longrightarrow> ds_current d' \<noteq> None"
    using d'(2) by (induction rule: rtranclp_induct) (simp_all add: dataset_move_def)
  then have "ds_current d' \<noteq> None" using c(1) by simp
  then have "ds_current d' = Some c \<or> (\<exists>i w. ds_current d' = Some i \<and> ready_version S (ds_id d) i w \<and> current_allows (dv_number w) d S)"
    using pointer_step [OF assms(1) mem(1)] mem(2) unique c(1) by (metis option.distinct(1))
  then show ?thesis
  proof (elim disjE exE conjE)
    assume "ds_current d' = Some c"
    then show ?thesis using number [OF c(2)] c(3) mem by (auto simp: current_number_def bind_eq_Some_conv)
  next
    fix i w assume w: "ds_current d' = Some i" "ready_version S (ds_id d) i w" "current_allows (dv_number w) d S"
    have "lookup dv_id i (dt_versions S) = Some w"
      using w(2) lookup_distinct [OF distinct(2), of w] by (auto simp: ready_version_def)
    moreover have "n \<le> dv_number w" using w(3) c by (simp add: current_allows_def)
    moreover obtain u where "lookup dv_id i (dt_versions ?S) = Some u" "dv_number u = dv_number w"
      using number [OF calculation(1)] by blast
    ultimately show ?thesis using w(1) mem by (intro exI [of _ d'] exI [of _ "dv_number w"]) (simp add: current_number_def)
  qed
qed

text \<open>
  C29: What was published stays. Whatever happens to a reachable store, a version that is ready,
  failed or archived keeps its row, and the current version of a dataset is only ever replaced by one
  of at least the same number.
\<close>

theorem published_versions_stay:
  assumes "S = dataset_events es empty_datasets" and "S' = dataset_events es' S"
  shows "(\<forall>v \<in> set (dt_versions S). version_final v \<longrightarrow> v \<in> set (dt_versions S')) \<and>
    (\<forall>d \<in> set (dt_datasets S). \<forall>n. current_number S d = Some n \<longrightarrow>
      (\<exists>d' \<in> set (dt_datasets S'). \<exists>m. ds_id d' = ds_id d \<and> current_number S' d' = Some m \<and> n \<le> m))"
proof -
  have keys: "dataset_keys S" using reachable_datasets assms(1) by simp
  have "\<exists>d' \<in> set (dt_datasets (dataset_events es' S)). \<exists>m. ds_id d' = ds_id d \<and>
      current_number (dataset_events es' S) d' = Some m \<and> n \<le> m"
    if "d \<in> set (dt_datasets S)" "current_number S d = Some n" for d n
    using keys that
  proof (induction es' arbitrary: S d n)
    case (Cons e es')
    obtain d' m where "d' \<in> set (dt_datasets (apply_dataset e S))" "ds_id d' = ds_id d"
        "current_number (apply_dataset e S) d' = Some m" "n \<le> m"
      using current_number_step [OF Cons.prems] by blast
    moreover obtain d'' k where "d'' \<in> set (dt_datasets (dataset_events es' (apply_dataset e S)))" "ds_id d'' = ds_id d'"
        "current_number (dataset_events es' (apply_dataset e S)) d'' = Some k" "m \<le> k"
      using Cons.IH [OF keys_step [OF Cons.prems(1)] calculation(1,3)] by blast
    ultimately show ?case by (intro bexI [of _ d''] exI [of _ k]) simp_all
  qed auto
  then show ?thesis using final_version_stays [OF keys] by (simp add: assms(2))
qed

end
