(* ===== verification/Dataset_Actors.thy ===== *)
theory Dataset_Actors
  imports Dataset_Correct
begin

text \<open>
  The service and the processor as actors on the store: every run is a sequence of the events of
  the repository, so what holds of reachable stores holds after every run.
\<close>

section \<open>Reachability\<close>

definition dataset_reaches :: "dataset_store \<Rightarrow> dataset_store \<Rightarrow> bool" where
  "dataset_reaches S S' \<longleftrightarrow> (\<exists>es. S' = dataset_events es S)"

lemma dataset_reaches_refl [simp, intro]: "dataset_reaches S S"
  unfolding dataset_reaches_def by (rule exI [of _ "[]"]) simp

lemma dataset_reaches_trans [trans]: "dataset_reaches S T \<Longrightarrow> dataset_reaches T U \<Longrightarrow> dataset_reaches S U"
  unfolding dataset_reaches_def by (metis comp_apply fold_append)

lemma dataset_reaches_step: "dataset_reaches S T \<Longrightarrow> dataset_reaches S (apply_dataset e T)"
  by (rule dataset_reaches_trans) (auto simp: dataset_reaches_def intro: exI [of _ "[e]"])

text \<open>One rule per transaction step, in the form the services use it.\<close>

lemma dataset_steps:
  assumes "dataset_reaches S T"
  shows "create_dataset_row parents d T = (x1, T1) \<Longrightarrow> fresh_dataset d \<Longrightarrow> dataset_reaches S T1"
    and "create_version_row v T = (x2, T2) \<Longrightarrow> fresh_version v \<Longrightarrow> dataset_reaches S T2"
    and "create_document q T = (x3, T3) \<Longrightarrow> dataset_reaches S T3"
    and "claim_active_dataset i n t T = (x4, T4) \<Longrightarrow> dataset_reaches S T4"
    and "claim_version i t T = (x5, T5) \<Longrightarrow> dataset_reaches S T5"
    and "mark_version_ready i n vs t T = (x6, T6) \<Longrightarrow> dataset_reaches S T6"
    and "dataset_reaches S (mark_version_failed i c m t T)"
    and "release_version_for_retry i n m T = (x7, T7) \<Longrightarrow> dataset_reaches S T7"
    and "dataset_reaches S (snd (fail_exhausted_stale_versions b a l t T))"
    and "reconcile_stale_version i b a t T = (x8, T8) \<Longrightarrow> dataset_reaches S T8"
    and "set_current_version e i n t T = (x9, T9) \<Longrightarrow> dataset_reaches S T9"
    and "dataset_reaches S (snd (set_current_version e i n t T))"
    and "archive_dataset_row ref i n t T = (x10, T10) \<Longrightarrow> dataset_reaches S T10"
  using dataset_reaches_step [OF assms, of "NewDataset parents d"] dataset_reaches_step [OF assms, of "NewVersion v"]
    dataset_reaches_step [OF assms, of "NewDocument q"] dataset_reaches_step [OF assms, of "ClaimDataset i n t"]
    dataset_reaches_step [OF assms, of "ClaimVersion i t"] dataset_reaches_step [OF assms, of "PublishVersion i n vs t"]
    dataset_reaches_step [OF assms, of "FailVersion i c m t"] dataset_reaches_step [OF assms, of "ReleaseVersion i n m"]
    dataset_reaches_step [OF assms, of "FailExhausted b a l t"] dataset_reaches_step [OF assms, of "RequeueVersion i b a t"]
    dataset_reaches_step [OF assms, of "SetCurrent e i n t"] dataset_reaches_step [OF assms, of "ArchiveDataset ref i n t"]
  by simp_all

section \<open>Actors\<close>

definition datasets_fair :: "(nat \<Rightarrow> dataset_world \<Rightarrow> dataset_world) \<Rightarrow> bool" where
  "datasets_fair others \<longleftrightarrow> (\<forall>k W. dataset_reaches (dw_store W) (dw_store (others k W)))"

lemma fair_reaches: "datasets_fair others \<Longrightarrow> dataset_reaches S (dw_store W) \<Longrightarrow> dataset_reaches S (dw_store (others k W))"
  unfolding datasets_fair_def by (blast intro: dataset_reaches_trans)

lemma world_stores [simp]: "dw_store (with_store W S) = S" "dw_store (delete_object key W) = dw_store W"
  "dw_store (W\<lparr>dw_objects := B\<rparr>) = dw_store W"
  by (simp_all add: with_store_def delete_object_def)

lemma fresh_rows [simp]: "fresh_dataset (new_dataset env owner company n m d k)" "fresh_version (new_version env u f t q number)"
  by (simp_all add: fresh_dataset_def new_dataset_def fresh_version_def new_version_def)

lemma create_dataset_reaches:
  assumes "datasets_fair (de_others env)"
  shows "dataset_reaches (dw_store W) (dw_store (snd (create_dataset env owner company name desc kind W)))"
proof -
  let ?W1 = "de_others env 0 W"
  have r: "dataset_reaches (dw_store W) (dw_store ?W1)" by (rule fair_reaches [OF assms dataset_reaches_refl])
  have "dataset_reaches (dw_store W) (snd (create_dataset_row (de_parents env) (new_dataset env owner c n m desc kind) (dw_store ?W1)))" for c n m
    using dataset_steps(1) [OF r] fresh_rows(1) by (metis surj_pair snd_conv)
  then have "dataset_reaches (dw_store W) T" if "create_dataset_row (de_parents env) (new_dataset env owner c n m desc kind) (dw_store ?W1) = (x, T)" for c n m x T
    using that by (metis snd_conv)
  then show ?thesis using r by (simp add: create_dataset_def Let_def split: sum.split prod.split)
qed

lemma insert_version_reaches:
  "dataset_reaches S (dw_store W) \<Longrightarrow> insert_version env u d f t q W = (x, W') \<Longrightarrow> dataset_reaches S (dw_store W')"
proof -
  assume r: "dataset_reaches S (dw_store W)" and i: "insert_version env u d f t q W = (x, W')"
  obtain ok T where c: "claim_active_dataset (ds_id d) (ds_version d) (de_now env 1) (dw_store W) = (ok, T)" by fastforce
  have T: "dataset_reaches S T" by (rule dataset_steps(4) [OF r c])
  have "dataset_reaches S T'" if "create_version_row (new_version env u f t q n) T = (y, T')" for n y T'
    by (rule dataset_steps(2) [OF T that]) simp
  then show ?thesis using r i c by (auto simp: insert_version_def split: option.splits prod.splits bool.splits sum.splits)
qed

lemma store_upload_store [simp]: "store_upload env u W = (x, W') \<Longrightarrow> dw_store W' = dw_store W"
  by (auto simp: store_upload_def split: option.splits prod.splits sum.splits)

lemma create_version_reaches:
  assumes "datasets_fair (de_others env)"
  shows "dataset_reaches (dw_store W) (dw_store (snd (create_version env u W)))"
proof (cases "check_upload env u (dw_store W)")
  case (Inr c)
  obtain d f t where c: "c = (d, f, t)" by (cases c)
  obtain x W1 where s: "store_upload env u W = (x, W1)" by fastforce
  have r1: "dataset_reaches (dw_store W) (dw_store W1)" using store_upload_store [OF s] by simp
  show ?thesis
  proof (cases x)
    case (Inr q)
    obtain y W2 where i: "insert_version env u d f t q (de_others env 0 W1) = (y, W2)" by fastforce
    have r2: "dataset_reaches (dw_store W) (dw_store W2)"
      by (rule insert_version_reaches [OF fair_reaches [OF assms r1] i])
    show ?thesis using r2 fair_reaches [OF assms r2]
      by (auto simp: create_version_def \<open>check_upload env u (dw_store W) = Inr c\<close> c s Inr i Let_def split: sum.split intro: dataset_steps(7))
  qed (simp add: create_version_def Inr c s r1)
qed (simp add: create_version_def)

lemma archive_reaches:
  assumes "datasets_fair (de_others env)"
  shows "dataset_reaches (dw_store W) (dw_store (snd (archive_dataset env i owner W)))"
proof -
  let ?W1 = "de_others env 0 W"
  have r: "dataset_reaches (dw_store W) (dw_store ?W1)" by (rule fair_reaches [OF assms dataset_reaches_refl])
  have "dataset_reaches (dw_store W) T" if "archive_dataset_row ref j n t (dw_store ?W1) = (x, T)" for ref j n t x T
    by (rule dataset_steps(13) [OF r that])
  then show ?thesis using r by (simp add: archive_dataset_def Let_def split: sum.split prod.split option.split)
qed

lemma publish_reaches:
  assumes "datasets_fair (de_others env)" and "dataset_reaches S (dw_store W)"
  shows "dataset_reaches S (dw_store (snd (publish env v d r W)))"
proof -
  obtain x T where x: "(case ir_text r of None \<Rightarrow> (Inr (), dw_store W)
      | Some text \<Rightarrow> (case create_document (new_document env v text) (dw_store W) of
          (Inl e, S) \<Rightarrow> (Inl e, S) | (Inr q, S) \<Rightarrow> (Inr (), S))) = (x :: unit result, T)" by fastforce
  have T: "dataset_reaches S T" using x assms(2)
    by (auto split: option.splits prod.splits sum.splits intro: dataset_steps(3))
  obtain y T1 where m: "mark_version_ready (dv_id v) (dv_version v) (version_values (ds_kind d) r) (de_now env 2) T = (y, T1)"
    by fastforce
  have T1: "dataset_reaches S T1" by (rule dataset_steps(6) [OF T m])
  have r: "dataset_reaches S (dw_store (de_others env 2 (with_store W T1)))" using fair_reaches [OF assms(1)] T1 by simp
  show ?thesis
    using assms(2) T1 dataset_steps(11) [OF T1] r dataset_steps(12) [OF r]
    by (auto simp: publish_def x m Let_def split: sum.split prod.split option.split bool.split)
qed

lemma process_reaches:
  assumes "datasets_fair (de_others env)"
  shows "dataset_reaches (dw_store W) (dw_store (snd (process_version env i W)))"
proof -
  obtain x T where c: "claim_version i (de_now env 0) (dw_store W) = (x, T)" by fastforce
  let ?W1 = "de_others env 0 (with_store W T)"
  have "dataset_reaches (dw_store W) T" by (rule dataset_steps(5) [OF dataset_reaches_refl c])
  then have r1: "dataset_reaches (dw_store W) (dw_store ?W1)" using fair_reaches [OF assms, of _ "with_store W T"] by simp
  then have r2: "dataset_reaches (dw_store W) (dw_store (de_others env 1 ?W1))" by (rule fair_reaches [OF assms])
  have fails: "dataset_reaches (dw_store W) (dw_store (terminal_failure env j code m V))" if "dataset_reaches (dw_store W) (dw_store V)" for j code m V
    using dataset_steps(7) [OF that] by (simp add: terminal_failure_def)
  have retry: "dataset_reaches (dw_store W) (dw_store (retry_later env v V))" if "dataset_reaches (dw_store W) (dw_store V)" for v V
    using dataset_steps(8) [OF that] that by (auto simp: retry_later_def split: prod.split)
  have "dataset_reaches (dw_store W) (dw_store (snd (process_claimed env v d ?W1)))" for v d
    using r1 r2 fails [OF r2] retry [OF r2] publish_reaches [OF assms r2]
    by (auto simp: process_claimed_def Let_def split: sum.split)
  then show ?thesis using fails [OF r1] by (auto simp: process_version_def c Let_def split: option.split)
qed

lemma reconcile_ids_reaches:
  assumes "datasets_fair (de_others env)"
  shows "dataset_reaches S (dw_store W) \<Longrightarrow> dataset_reaches S (dw_store (snd (reconcile_ids env before k is W)))"
proof (induction "is" arbitrary: k W)
  case (Cons i "is")
  let ?W1 = "de_others env k W"
  have r: "dataset_reaches S (dw_store ?W1)" by (rule fair_reaches [OF assms Cons.prems])
  obtain x T where t: "reconcile_stale_version i before (li_attempts (de_limits env)) (de_now env k) (dw_store ?W1) = (x, T)"
    by fastforce
  have "dataset_reaches S (dw_store (with_store ?W1 T))" using dataset_steps(10) [OF r t] by simp
  then have "dataset_reaches S (dw_store (snd (reconcile_ids env before (Suc k) is (with_store ?W1 T))))" by (rule Cons.IH)
  moreover have "dataset_reaches S (dw_store (snd (reconcile_ids env before (Suc k) is ?W1)))" by (rule Cons.IH [OF r])
  ultimately show ?case using t by (cases x) (simp_all add: Let_def case_prod_beta)
qed simp

lemma reconcile_versions_reaches:
  assumes "datasets_fair (de_others env)"
  shows "dataset_reaches (dw_store W) (dw_store (snd (reconcile_stale env W)))"
  unfolding reconcile_stale_def Let_def
  by (rule reconcile_ids_reaches [OF assms], rule fair_reaches [OF assms]) (simp add: dataset_steps(9) [OF dataset_reaches_refl])


end
