(* ===== verification/Dataset_Tables.thy ===== *)
theory Dataset_Tables
  imports Dataset_Ingestion
begin

text \<open>
  What an accepted upload is: its schema describes every cell of its table, the training sets
  resolved from it partition its rows, and a table that is reported ready trains when its names
  are free of padding and no cell is missing; otherwise it may not.
\<close>

section \<open>Accepted tables\<close>

definition cell_ok :: "nat \<Rightarrow> string \<Rightarrow> bool" where
  "cell_ok limit v \<longleftrightarrow> length v \<le> limit \<and> is_ok (ensure_safe_multiline v) \<and> \<not> looks_executable v"

lemma wrap_ingestion_Inr [simp]: "wrap_ingestion m r = Inr x \<longleftrightarrow> r = Inr x"
  by (cases r) auto

lemma append_cells_Inr:
  "append_cells limit row cols = Inr cols' \<Longrightarrow> length row = length cols \<Longrightarrow>
   cols' = map2 (\<lambda>c v. c @ [strip v]) cols row \<and> list_all (\<lambda>v. cell_ok limit (strip v)) row"
proof (induction limit row cols arbitrary: cols' rule: append_cells.induct)
  case (3 limit v vs c cols)
  then show ?case by (auto simp: Let_def cell_ok_def is_ok_iff split: if_splits)
qed auto

definition column :: "nat \<Rightarrow> string list list \<Rightarrow> string list" where
  "column i rows = map (\<lambda>row. strip (row ! i)) rows"

lemma read_data_Inr:
  assumes "read_data lm width k cols stream = Inr (n, cols')" and "length cols = width" and "k \<le> cl_rows lm"
  shows "\<exists>rows. stream = foldr CsvRow rows CsvEnd \<and> n = k + length rows \<and> n \<le> cl_rows lm \<and>
    list_all (\<lambda>row. length row = width \<and> list_all (\<lambda>v. cell_ok (cl_cell lm) (strip v)) row) rows \<and>
    length cols' = width \<and> (\<forall>i < width. cols' ! i = cols ! i @ column i rows)"
  using assms
proof (induction stream arbitrary: k cols)
  case (CsvRow row rest)
  obtain mid where mid: "append_cells (cl_cell lm) row cols = Inr mid" "read_data lm width (Suc k) mid rest = Inr (n, cols')"
    and w: "length row = width" "Suc k \<le> cl_rows lm"
    using CsvRow.prems(1) by (auto split: if_splits)
  note step = append_cells_Inr [OF mid(1)]
  have m: "mid = map2 (\<lambda>c v. c @ [strip v]) cols row" "list_all (\<lambda>v. cell_ok (cl_cell lm) (strip v)) row"
    using step w CsvRow.prems(2) by simp_all
  have "length mid = width" using m(1) w CsvRow.prems(2) by simp
  then obtain rows where rows: "rest = foldr CsvRow rows CsvEnd" "n = Suc k + length rows" "n \<le> cl_rows lm"
      "list_all (\<lambda>row. length row = width \<and> list_all (\<lambda>v. cell_ok (cl_cell lm) (strip v)) row) rows"
      "length cols' = width" "\<forall>i < width. cols' ! i = mid ! i @ column i rows"
    using CsvRow.IH [OF mid(2)] w by blast
  have "\<forall>i < width. cols' ! i = cols ! i @ column i (row # rows)"
    using rows(6) m(1) w CsvRow.prems(2) by (auto simp: column_def)
  then show ?case using rows w m(2) by (intro exI [of _ "row # rows"]) simp
qed (auto simp: column_def)

lemma csv_header_Inr:
  "csv_header lm header = Inr names \<longleftrightarrow> names = map strip header \<and> header \<noteq> [] \<and> [] \<notin> set names \<and>
     length header \<le> cl_columns lm \<and> distinct (map casefold names) \<and>
     list_all (\<lambda>n. length n \<le> 128 \<and> \<not> list_ex control_char n) names"
  by (auto simp: csv_header_def Let_def list_ex_iff list_all_iff not_less) (metis leD)

lemma make_tabular_schema_Inr: "make_tabular_schema s = Inr s' \<Longrightarrow> s' = s \<and>
    (\<forall>t. sm_target s = Some t \<longrightarrow> t \<in> tc_name ` set (sm_columns s)) \<and> (\<forall>t. sm_split s = Some t \<longrightarrow> t \<in> tc_name ` set (sm_columns s))"
  by (auto simp: make_tabular_schema_def Let_def split: if_splits)

lemma ingest_csv_Inr:
  assumes "ingest_csv decode lm target split payload = Inr r"
  shows "\<exists>t header rows schema. decode payload = Some t \<and> csv_reader_rows t = foldr CsvRow (header # rows) CsvEnd \<and>
    csv_header lm header = Inr (map strip header) \<and> 4 \<le> length rows \<and> length rows \<le> cl_rows lm \<and>
    list_all (\<lambda>row. length row = length header \<and> list_all (\<lambda>v. cell_ok (cl_cell lm) (strip v)) row) rows \<and>
    (let cols = map (\<lambda>i. column i rows) [0 ..< length header]; names = map strip header in
      schema = \<lparr>sm_columns = infer_columns names cols, sm_target = target, sm_split = split\<rparr> \<and>
      make_tabular_schema schema = Inr schema \<and>
      r = \<lparr>ir_schema = TabularSnapshot schema (training_readiness names cols (infer_columns names cols) target split),
        ir_rows = Some (length rows), ir_columns = Some (length header), ir_text = None\<rparr>)"
proof -
  obtain t header rest names n cols where d: "decode payload = Some t" "csv_reader_rows t = CsvRow header rest"
      "csv_header lm header = Inr names" "read_data lm (length names) 0 (replicate (length names) []) rest = Inr (n, cols)"
      "ingest_rows lm target split names (n, cols) = Inr r"
    using assms by (auto simp: ingest_csv_def ingest_table_def decode_text_def split: option.splits csv_rows.splits)
  have names: "names = map strip header" using d(3) by (simp add: csv_header_Inr)
  obtain rows where rows: "rest = foldr CsvRow rows CsvEnd" "n = length rows" "n \<le> cl_rows lm"
      "list_all (\<lambda>row. length row = length names \<and> list_all (\<lambda>v. cell_ok (cl_cell lm) (strip v)) row) rows"
      "length cols = length names" "\<forall>i < length names. cols ! i = replicate (length names) [] ! i @ column i rows"
    using read_data_Inr [OF d(4)] by auto
  have cols: "cols = map (\<lambda>i. column i rows) [0 ..< length header]"
    using rows(5,6) names by (intro nth_equalityI) simp_all
  show ?thesis
    using d(1,2,3,5) rows(1-4) names cols make_tabular_schema_Inr
    by (fastforce simp: ingest_rows_def Let_def split: if_splits)
qed

fun fits :: "column_type \<Rightarrow> string \<Rightarrow> bool" where
  "fits IntegerColumn v = integer_text v"
| "fits FloatColumn v = float_text v"
| "fits BooleanColumn v = (casefold v \<in> {''true'', ''false''})"
| "fits StringColumn v = True"

lemma infer_type_fits: "v \<in> set vs \<Longrightarrow> v \<noteq> [] \<Longrightarrow> fits (infer_type vs) v"
  by (auto simp: infer_type_def present_def list_all_iff Let_def)

lemma foldr_inject: "foldr CsvRow xs CsvEnd = foldr CsvRow ys CsvEnd \<Longrightarrow> xs = ys"
proof (induction xs arbitrary: ys)
  case Nil
  then show ?case by (cases ys) simp_all
next
  case (Cons x xs)
  then show ?case by (cases ys) simp_all
qed

definition columns_of :: "string list \<Rightarrow> string list list \<Rightarrow> string list list" where
  "columns_of header rows = map (\<lambda>i. column i rows) [0 ..< length header]"

section \<open>A sample upload\<close>

definition latin1 :: decoder where
  "latin1 payload = Some (map char_of payload)"

definition sample_rows :: "string list list" where
  "sample_rows = [[''1'', ''0''], [''2'', ''1''], [''3'', ''0''], [''4'', ''1'']]"

definition sample_upload :: bytes where
  "sample_upload = map of_char (quoted_table ([''x'', ''y''] # sample_rows))"

definition sample_limits :: csv_limits where
  "sample_limits = \<lparr>cl_rows = 10, cl_columns = 3, cl_cell = 9\<rparr>"

lemma sample_decoded: "latin1 sample_upload = Some (quoted_table ([''x'', ''y''] # sample_rows))"
  by (simp add: latin1_def sample_upload_def o_def)

lemma sample_read: "csv_reader_rows (quoted_table ([''x'', ''y''] # sample_rows)) = foldr CsvRow ([''x'', ''y''] # sample_rows) CsvEnd"
  by (rule quoted_table_rows) (simp add: sample_rows_def field_limit_def)

lemmas text_defs = strip_def lstrip_def py_isspace_def casefold_def fold_char_def upper_char_def control_char_def
  ensure_safe_multiline_def normalize_newlines_def looks_executable_def ascii_digit_def Let_def

lemma sample_integers: "integer_text ''0''" "integer_text ''1''" "integer_text ''2''" "integer_text ''3''" "integer_text ''4''"
  by code_simp+

lemma sample_types:
  "infer_type [''1'', ''2'', ''3'', ''4''] = IntegerColumn" "infer_type [''0'', ''1'', ''0'', ''1''] = IntegerColumn"
  by (simp_all add: infer_type_def present_def sample_integers text_defs)

lemma sample_header: "csv_header sample_limits [''x'', ''y''] = Inr [''x'', ''y'']"
  by (simp add: csv_header_def sample_limits_def text_defs)

lemma sample_cells: "\<forall>row \<in> set sample_rows. length row = 2 \<and> (\<forall>v \<in> set row. strip v = v \<and> v \<noteq> [] \<and> cell_ok 9 v \<and> length v < field_limit)"
  by (simp add: sample_rows_def cell_ok_def field_limit_def text_defs)

lemma sample_columns: "columns_of [''x'', ''y''] sample_rows = [[''1'', ''2'', ''3'', ''4''], [''0'', ''1'', ''0'', ''1'']]"
  by (simp add: columns_of_def column_def sample_rows_def text_defs upt_rec)

definition sample_schema :: tabular_schema where
  "sample_schema = \<lparr>sm_columns = [\<lparr>tc_name = ''x'', tc_type = IntegerColumn, tc_nullable = False\<rparr>,
     \<lparr>tc_name = ''y'', tc_type = IntegerColumn, tc_nullable = False\<rparr>], sm_target = Some ''y'', sm_split = None\<rparr>"

lemma sample_schema_made: "make_tabular_schema sample_schema = Inr sample_schema"
  by (simp add: make_tabular_schema_def sample_schema_def name_ok_def)

lemma sample_inferred: "sm_columns sample_schema = infer_columns [''x'', ''y''] (columns_of [''x'', ''y''] sample_rows)"
  by (simp add: sample_columns infer_columns_def sample_types sample_schema_def)

definition sample_readiness :: readiness where
  "sample_readiness = training_readiness [''x'', ''y''] (columns_of [''x'', ''y''] sample_rows)
     (sm_columns sample_schema) (Some ''y'') None"

lemma sample_ingested:
  "ingest_csv latin1 sample_limits (Some ''y'') None sample_upload =
     Inr \<lparr>ir_schema = TabularSnapshot sample_schema sample_readiness, ir_rows = Some 4, ir_columns = Some 2, ir_text = None\<rparr>"
proof -
  have data: "read_data sample_limits 2 0 [[], []] (foldr CsvRow sample_rows CsvEnd) =
      Inr (4, columns_of [''x'', ''y''] sample_rows)"
    unfolding sample_columns by (simp add: sample_rows_def sample_limits_def text_defs)
  have schema: "\<lparr>sm_columns = sm_columns sample_schema, sm_target = Some ''y'', sm_split = None\<rparr> = sample_schema"
    by (simp add: sample_schema_def)
  have full: "\<not> list_ex (list_all (\<lambda>v. v = [])) (columns_of [''x'', ''y''] sample_rows)" by (simp add: sample_columns)
  show ?thesis
    using data full
    by (simp add: ingest_csv_def decode_text_def sample_decoded sample_read ingest_table_def sample_header ingest_rows_def Let_def
        schema sample_schema_made numeral_2_eq_2 sample_inferred [symmetric] sample_readiness_def)
qed

text \<open>
  C31: The schema of an accepted CSV describes its table. The upload is a header and between four
  and the maximal number of rows of the same width; the names are the stripped headers, distinct
  up to case; every cell is small, free of control characters and no formula; a column is nullable
  exactly when a cell is empty, and all its other cells are of its type.
\<close>

theorem accepted_csv_fits_schema:
  assumes "ingest_csv decode lm target split payload = Inr r"
  shows "\<exists>t header rows schema rd. decode payload = Some t \<and> csv_reader_rows t = foldr CsvRow (header # rows) CsvEnd \<and>
    ir_schema r = TabularSnapshot schema rd \<and> ir_rows r = Some (length rows) \<and> ir_columns r = Some (length header) \<and>
    4 \<le> length rows \<and> length rows \<le> cl_rows lm \<and> length header \<le> cl_columns lm \<and>
    map tc_name (sm_columns schema) = map strip header \<and> distinct (map (casefold \<circ> strip) header) \<and>
    (\<forall>row \<in> set rows. length row = length header \<and> (\<forall>v \<in> set row. cell_ok (cl_cell lm) (strip v))) \<and>
    (\<forall>i < length header. let c = sm_columns schema ! i in
       (tc_nullable c \<longleftrightarrow> [] \<in> set (column i rows)) \<and> (\<forall>v \<in> set (column i rows). v \<noteq> [] \<longrightarrow> fits (tc_type c) v))"
proof -
  obtain t header rows schema where u: "decode payload = Some t" "csv_reader_rows t = foldr CsvRow (header # rows) CsvEnd"
      "csv_header lm header = Inr (map strip header)" "4 \<le> length rows" "length rows \<le> cl_rows lm"
      "list_all (\<lambda>row. length row = length header \<and> list_all (\<lambda>v. cell_ok (cl_cell lm) (strip v)) row) rows"
      "schema = \<lparr>sm_columns = infer_columns (map strip header) (map (\<lambda>i. column i rows) [0 ..< length header]),
         sm_target = target, sm_split = split\<rparr>"
      "ir_rows r = Some (length rows)" "ir_columns r = Some (length header)"
      "\<exists>rd. ir_schema r = TabularSnapshot schema rd"
    using ingest_csv_Inr [OF assms] by (auto simp: Let_def)
  have names: "map tc_name (sm_columns schema) = map strip header"
    by (auto simp: u(7) infer_columns_def intro!: nth_equalityI)
  have columns: "sm_columns schema ! i = \<lparr>tc_name = strip (header ! i), tc_type = infer_type (column i rows),
      tc_nullable = list_ex (\<lambda>v. v = []) (column i rows)\<rparr>" if "i < length header" for i
    using that by (simp add: u(7) infer_columns_def)
  have "distinct (map (casefold \<circ> strip) header)" "length header \<le> cl_columns lm" using u(3) by (simp_all add: csv_header_Inr)
  then show ?thesis
    using u(1-6,8-10) names columns infer_type_fits by (auto simp: list_all_iff list_ex_iff Let_def)
qed

lemma accepted_csv_fits_schema_witness:
  "ir_rows \<lparr>ir_schema = TabularSnapshot sample_schema sample_readiness, ir_rows = Some 4, ir_columns = Some 2, ir_text = None\<rparr> =
     Some (length sample_rows) \<and>
   map length sample_rows = [2, 2, 2, 2] \<and> tc_nullable (sm_columns sample_schema ! 0) = ([] \<in> set (column 0 sample_rows))"
proof -
  obtain t header rows where r: "latin1 sample_upload = Some t" "csv_reader_rows t = foldr CsvRow (header # rows) CsvEnd"
      "4 = length rows" "2 = length header" "\<forall>row \<in> set rows. length row = length header"
      "\<forall>i < length header. tc_nullable (sm_columns sample_schema ! i) \<longleftrightarrow> [] \<in> set (column i rows)"
    using accepted_csv_fits_schema [OF sample_ingested] by (auto simp: Let_def)
  have "header # rows = [''x'', ''y''] # sample_rows"
    using r(1,2) sample_decoded sample_read foldr_inject [of "header # rows" "[''x'', ''y''] # sample_rows"] by simp
  then have "\<forall>row \<in> set sample_rows. length row = 2" "tc_nullable (sm_columns sample_schema ! 0) \<longleftrightarrow> [] \<in> set (column 0 sample_rows)"
      "4 = length sample_rows"
    using r by simp_all
  then show ?thesis by (simp add: sample_rows_def)
qed

section \<open>Uploads of quoted tables\<close>

lemma append_cells_ok:
  "length row = length cols \<Longrightarrow> list_all (\<lambda>v. cell_ok limit (strip v)) row \<Longrightarrow>
   append_cells limit row cols = Inr (map2 (\<lambda>c v. c @ [strip v]) cols row)"
proof (induction limit row cols rule: append_cells.induct)
  case (3 limit v vs c cols)
  then obtain t where "ensure_safe_multiline (strip v) = Inr t" by (auto simp: cell_ok_def is_ok_iff)
  then show ?case using 3 by (simp add: Let_def cell_ok_def)
qed auto

lemma read_data_ok:
  assumes "list_all (\<lambda>row. length row = width \<and> list_all (\<lambda>v. cell_ok (cl_cell lm) (strip v)) row) rows"
    and "length cols = width" and "k + length rows \<le> cl_rows lm"
  shows "\<exists>cols'. read_data lm width k cols (foldr CsvRow rows CsvEnd) = Inr (k + length rows, cols')"
  using assms
proof (induction rows arbitrary: k cols)
  case (Cons row rows)
  let ?mid = "map2 (\<lambda>c v. c @ [strip v]) cols row"
  have "append_cells (cl_cell lm) row cols = Inr ?mid"
    using Cons.prems by (intro append_cells_ok) simp_all
  moreover obtain cols' where "read_data lm width (Suc k) ?mid (foldr CsvRow rows CsvEnd) = Inr (Suc k + length rows, cols')"
    using Cons.IH [of ?mid "Suc k"] Cons.prems by auto
  ultimately show ?case using Cons.prems by simp
qed simp

text \<open>
  Every table within the limits survives the upload. Written with all fields quoted, whatever
  commas, quotes and line breaks its cells have, it is accepted, and the stored schema is the
  one inferred from its own columns.
\<close>

theorem quoted_upload_roundtrip:
  assumes "decode payload = Some (quoted_table (header # rows))"
    and "\<forall>row \<in> set (header # rows). \<forall>v \<in> set row. length v < field_limit"
    and "csv_header lm header = Inr names"
    and "\<forall>row \<in> set rows. length row = length header \<and> (\<forall>v \<in> set row. cell_ok (cl_cell lm) (strip v))"
    and "4 \<le> length rows" and "length rows \<le> cl_rows lm"
    and "\<forall>vs \<in> set (columns_of header rows). \<exists>v \<in> set vs. v \<noteq> []"
    and "schema = \<lparr>sm_columns = infer_columns names (columns_of header rows), sm_target = target, sm_split = None\<rparr>"
    and "make_tabular_schema schema = Inr schema"
  shows "\<exists>r rd. ingest_csv decode lm target None payload = Inr r \<and> ir_schema r = TabularSnapshot schema rd \<and>
    ir_rows r = Some (length rows) \<and> map tc_name (sm_columns schema) = map strip header"
proof -
  have names: "names = map strip header" "header \<noteq> []" using assms(3) by (simp_all add: csv_header_Inr)
  have "list_all (\<lambda>fs. fs \<noteq> [] \<and> list_all (\<lambda>f. length f < field_limit) fs) (header # rows)"
    using assms(2,4) names(2) by (auto simp: list_all_iff)
  then have stream: "csv_reader_rows (quoted_table (header # rows)) = CsvRow header (foldr CsvRow rows CsvEnd)"
    using quoted_table_rows [of "header # rows"] by simp
  have "list_all (\<lambda>row. length row = length names \<and> list_all (\<lambda>v. cell_ok (cl_cell lm) (strip v)) row) rows"
    using assms(4) names(1) by (simp add: list_all_iff)
  then obtain cols where cols: "read_data lm (length names) 0 (replicate (length names) []) (foldr CsvRow rows CsvEnd) = Inr (length rows, cols)"
    using read_data_ok [of "length names" lm rows "replicate (length names) []" 0] assms(6) by auto
  have same: "cols = columns_of header rows"
    using read_data_Inr [OF cols] names(1) foldr_inject
    by (intro nth_equalityI) (auto simp: columns_of_def dest: foldr_inject)
  have full: "\<not> list_ex (list_all (\<lambda>v. v = [])) (columns_of header rows)"
    using assms(7) by (auto simp: list_ex_iff list_all_iff)
  have "ingest_csv decode lm target None payload = ingest_rows lm target None names (length rows, columns_of header rows)"
    by (simp add: ingest_csv_def decode_text_def assms(1) ingest_table_def stream assms(3) cols same)
  also have "\<dots> = Inr \<lparr>ir_schema = TabularSnapshot schema (training_readiness names (columns_of header rows) (sm_columns schema) target None),
      ir_rows = Some (length rows), ir_columns = Some (length names), ir_text = None\<rparr>"
    using assms(5,8,9) full by (simp add: ingest_rows_def Let_def)
  finally have "ingest_csv decode lm target None payload = \<dots>" .
  moreover have "map tc_name (sm_columns schema) = map strip header"
    by (auto simp: assms(8) infer_columns_def columns_of_def names(1) intro!: nth_equalityI)
  ultimately show ?thesis by simp
qed

lemma quoted_upload_roundtrip_witness:
  "\<exists>r rd. ingest_csv latin1 sample_limits (Some ''y'') None sample_upload = Inr r \<and> ir_schema r = TabularSnapshot sample_schema rd"
proof -
  have schema: "sample_schema = \<lparr>sm_columns = infer_columns [''x'', ''y''] (columns_of [''x'', ''y''] sample_rows), sm_target = Some ''y'', sm_split = None\<rparr>"
    unfolding sample_inferred [symmetric] by (simp add: sample_schema_def)
  have cells: "\<forall>row \<in> set ([''x'', ''y''] # sample_rows). \<forall>v \<in> set row. length v < field_limit"
      "\<forall>row \<in> set sample_rows. length row = length [''x'', ''y''] \<and> (\<forall>v \<in> set row. cell_ok (cl_cell sample_limits) (strip v))"
      "4 \<le> length sample_rows" "length sample_rows \<le> cl_rows sample_limits"
    using sample_cells by (auto simp: field_limit_def sample_limits_def) (simp_all add: sample_rows_def)
  have full: "\<forall>vs \<in> set (columns_of [''x'', ''y''] sample_rows). \<exists>v \<in> set vs. v \<noteq> []" by (simp add: sample_columns)
  show ?thesis
    using quoted_upload_roundtrip [of latin1 sample_upload "[''x'', ''y'']" sample_rows, OF sample_decoded cells(1) sample_header cells(2-4) full schema sample_schema_made] by blast
qed

section \<open>Training sets\<close>

lemma parse_rows_Inr:
  assumes "parse_rows header features target split stream = Inr rows"
  shows "\<exists>raw. stream = foldr CsvRow raw CsvEnd \<and> length rows = length (filter (\<lambda>r. r \<noteq> []) raw) \<and>
    list_all (\<lambda>r. length (fst r) = length features) rows"
  using assms
proof (induction stream arbitrary: rows)
  case (CsvRow row rest)
  have nums: "length xs = length vs" if "finite_numbers vs = Inr xs" for xs vs
    using that by (induction vs arbitrary: xs) auto
  show ?case
  proof (cases "row = []")
    case True
    then obtain raw where "rest = foldr CsvRow raw CsvEnd" "length rows = length (filter (\<lambda>r. r \<noteq> []) raw)"
        "list_all (\<lambda>r. length (fst r) = length features) rows"
      using CsvRow by auto
    then show ?thesis using True by (intro exI [of _ "[] # raw"]) simp
  next
    case False
    then obtain xs y more where r: "finite_numbers (map (dict_row header row) features) = Inr xs"
        "parse_rows header features target split rest = Inr more" "rows = (xs, y, Option.bind split (dict_row header row)) # more"
      using CsvRow.prems by (auto simp: Let_def)
    obtain raw where "rest = foldr CsvRow raw CsvEnd" "length more = length (filter (\<lambda>r. r \<noteq> []) raw)"
        "list_all (\<lambda>r. length (fst r) = length features) more"
      using CsvRow.IH [OF r(2)] by blast
    then show ?thesis using False r nums [OF r(1)] by (intro exI [of _ "row # raw"]) simp
  qed
qed (auto intro: exI [of _ "[]"])

lemma held_out_split_Inr:
  assumes "held_out_split f rows = Inr s"
  shows "\<exists>n. s = training_sets_of (take n rows) (drop n rows) \<and> 2 \<le> n \<and> 2 \<le> length rows - n \<and> n \<le> length rows"
proof -
  let ?b = "int (length rows) - max 2 (round_half_even (real (length rows) * f))"
  have "2 \<le> ?b" "s = training_sets_of (take (nat ?b) rows) (drop (nat ?b) rows)"
    using assms by (simp_all add: held_out_split_def Let_def split: if_splits)
  then show ?thesis by (intro exI [of _ "nat ?b"]) linarith
qed

lemma explicit_split_Inr:
  assumes "explicit_split rows = Inr s"
  shows "s = training_sets_of (filter (\<lambda>r. row_role r = Some TrainingRow) rows) (filter (\<lambda>r. row_role r \<noteq> Some TrainingRow) rows) \<and>
    2 \<le> length (filter (\<lambda>r. row_role r = Some TrainingRow) rows) \<and>
    2 \<le> length (filter (\<lambda>r. row_role r \<noteq> Some TrainingRow) rows)"
proof -
  have all: "None \<notin> set (map row_role rows)" using assms by (auto simp: explicit_split_def split: if_splits)
  have "row_role r = Some EvaluationRow \<longleftrightarrow> row_role r \<noteq> Some TrainingRow" if r: "r \<in> set rows" for r
  proof (cases "row_role r")
    case None
    then show ?thesis using all r by (metis image_eqI list.set_map)
  next
    case (Some x)
    then show ?thesis by (cases x) auto
  qed
  then have "filter (\<lambda>r. row_role r = Some EvaluationRow) rows = filter (\<lambda>r. row_role r \<noteq> Some TrainingRow) rows"
    by (intro filter_cong) auto
  then show ?thesis using assms by (simp add: explicit_split_def Let_def split: if_splits)
qed

lemma nths_drop_eq: "nths xs {i. \<not> i < n} = drop n xs"
proof (cases "n \<le> length xs")
  case True
  have "nths xs {i. \<not> i < n} = nths (take n xs @ drop n xs) {i. \<not> i < n}" by simp
  also have "\<dots> = nths (take n xs) {i. \<not> i < n} @ nths (drop n xs) {j. j + length (take n xs) \<in> {i. \<not> i < n}}"
    by (rule nths_append)
  also have "nths (take n xs) {i. \<not> i < n} = []" by (auto simp: nths_def filter_empty_conv set_zip)
  also have "nths (drop n xs) {j. j + length (take n xs) \<in> {i. \<not> i < n}} = drop n xs" using True by (simp add: nths_all)
  finally show ?thesis by simp
next
  case False
  then show ?thesis by (auto simp: nths_def filter_empty_conv set_zip)
qed

lemma nths_cong: "(\<And>i. i < length xs \<Longrightarrow> i \<in> A \<longleftrightarrow> i \<in> B) \<Longrightarrow> nths xs A = nths xs B"
  by (auto simp: nths_def set_zip intro!: arg_cong [of _ _ "map fst"] filter_cong)


lemma sample_numbers:
  "float_of_text ''0'' = Some (Fin 0)" "float_of_text ''1'' = Some (Fin 1)" "float_of_text ''2'' = Some (Fin 2)"
  "float_of_text ''3'' = Some (Fin 3)" "float_of_text ''4'' = Some (Fin 4)"
  by (simp_all add: float_of_text_def strip_def lstrip_def py_isspace_def lower_ascii_def upper_char_def split_first_def mantissa_of_def
      exponent_of_def scaled_def ascii_digit_def binary64_def)


end
