(* ===== verification/Dataset_Readiness.thy ===== *)
theory Dataset_Readiness
  imports Dataset_Tables
begin

text \<open>
  When a table that is reported ready for numeric training really trains, and when it does not.
\<close>

section \<open>Integers are floats\<close>

lemma digit_part_Some:
  "digit_part s = Some ds \<Longrightarrow> ds \<noteq> [] \<and> s \<noteq> [] \<and> ascii_digit (hd s) \<and> list_all (\<lambda>c. ascii_digit c \<or> c = CHR ''_'') s"
  by (induction s arbitrary: ds rule: digit_part.induct) (auto split: if_splits)

lemma digit_chars:
  assumes "list_all (\<lambda>c. ascii_digit c \<or> c = CHR ''_'') s"
  shows "lower_ascii s = s" and "CHR ''e'' \<notin> set s" and "CHR ''.'' \<notin> set s"
proof -
  have "\<not> upper_char c" if "ascii_digit c \<or> c = CHR ''_''" for c
    using that by (auto simp: ascii_digit_def upper_char_def)
  then show "lower_ascii s = s" unfolding lower_ascii_def using assms by (intro map_idI) (simp add: list_all_iff)
  show "CHR ''e'' \<notin> set s" "CHR ''.'' \<notin> set s" using assms by (auto simp: list_all_iff ascii_digit_def)
qed

lemma split_first_none: "\<forall>c \<in> set s. \<not> p c \<Longrightarrow> split_first p s = (s, None)"
proof -
  assume "\<forall>c \<in> set s. \<not> p c"
  then have "takeWhile (\<lambda>c. \<not> p c) s = s" "dropWhile (\<lambda>c. \<not> p c) s = []" by simp_all
  then show ?thesis by (simp only: split_first_def) simp
qed

lemma integer_is_float:
  assumes "int_of_text v = Some n" and "\<bar>n\<bar> < 2 ^ 1023"
  shows "float_of_text v = Some (Fin (of_int n))"
proof -
  obtain negative t where t: "signed (strip v) = (negative, t)" by fastforce
  obtain ds where ds: "digit_part t = Some ds" "n = (if negative then - int (decimal_value 0 ds) else int (decimal_value 0 ds))"
    using assms(1) t by (auto simp: int_of_text_def split: option.splits if_splits)
  note shape = digit_part_Some [OF ds(1)]
  note chars = digit_chars [of t]
  have "hd t \<noteq> CHR ''i''" "hd t \<noteq> CHR ''n''" using shape by (auto simp: ascii_digit_def)
  then have words: "t \<noteq> ''inf''" "t \<noteq> ''infinity''" "t \<noteq> ''nan''" by auto
  have e: "split_first (\<lambda>c. c = CHR ''e'') t = (t, None)" "split_first (\<lambda>c. c = CHR ''.'') t = (t, None)"
    using chars shape by (intro split_first_none; auto)+
  have "real (decimal_value 0 ds) = real_of_int \<bar>n\<bar>" using ds(2) by simp
  also have "\<dots> < 2 ^ 1023" using assms(2) by (metis of_int_less_numeral_power_cancel_iff)
  finally have small: "real (decimal_value 0 ds) < 2 ^ 1023" .
  have "(2 :: real) ^ 970 \<le> 2 ^ 1023" by (rule power_increasing) simp_all
  moreover have "(2 :: real) ^ 1024 = 2 * 2 ^ 1023" by (simp add: power_Suc [symmetric] del: power_Suc)
  ultimately have "\<not> 2 ^ 1024 - 2 ^ 970 \<le> real (decimal_value 0 ds)" using small by linarith
  then show ?thesis
    using t chars(1) shape words e ds by (simp add: float_of_text_def mantissa_of_def exponent_of_def scaled_def binary64_def)
qed

section \<open>Ready tables\<close>

lemma map_of_rev: "distinct (map fst xs) \<Longrightarrow> map_of (rev xs) = map_of xs"
  by (rule map_of_eqI) (auto simp: map_of_eq_Some_iff rev_map [symmetric] distinct_rev)

lemma dict_row_nth:
  assumes "distinct header" and "length row = length header" and "i < length header"
  shows "dict_row header row (header ! i) = Some (row ! i)"
  using assms by (simp add: dict_row_def map_of_rev map_of_zip_nth)

definition numeric_cell :: "string \<Rightarrow> bool" where
  "numeric_cell v \<longleftrightarrow> (\<exists>x. float_of_text (strip v) = Some (Fin x)) \<and> strip v \<noteq> []"

lemma finite_number_ok: "numeric_cell v \<Longrightarrow> \<exists>x. finite_number (Some v) = Inr x"
  by (auto simp: numeric_cell_def finite_number_def)

lemma finite_numbers_ok: "\<forall>v \<in> set vs. \<exists>w. v = Some w \<and> numeric_cell w \<Longrightarrow> \<exists>xs. finite_numbers vs = Inr xs"
  by (induction vs) (auto dest: finite_number_ok)

lemma parse_rows_ok:
  assumes "distinct header" and "set features \<subseteq> set header" and "target \<in> set header"
    and "\<forall>row \<in> set rows. length row = length header \<and>
      (\<forall>i < length header. header ! i \<in> insert target (set features) \<longrightarrow> numeric_cell (row ! i))"
    and "header \<noteq> []"
  shows "\<exists>parsed. parse_rows header features target split (foldr CsvRow rows CsvEnd) = Inr parsed \<and> length parsed = length rows"
  using assms(4)
proof (induction rows)
  case (Cons row rows)
  have cell: "\<exists>w. dict_row header row n = Some w \<and> numeric_cell w" if n: "n \<in> insert target (set features)" for n
  proof -
    have "n \<in> set header" using n assms(2,3) by auto
    then obtain i where "i < length header" "header ! i = n" by (auto simp: in_set_conv_nth)
    then show ?thesis using dict_row_nth [OF assms(1)] Cons.prems n by auto
  qed
  obtain xs where xs: "finite_numbers (map (dict_row header row) features) = Inr xs"
    using finite_numbers_ok [of "map (dict_row header row) features"] cell by auto
  obtain y where y: "finite_number (dict_row header row target) = Inr y"
    using cell [of target] finite_number_ok by fastforce
  obtain parsed where "parse_rows header features target split (foldr CsvRow rows CsvEnd) = Inr parsed" "length parsed = length rows"
    using Cons by auto
  moreover have "row \<noteq> []" using Cons.prems assms(5) by auto
  ultimately show ?case using xs y by (simp add: Let_def)
qed simp

lemma round_share:
  assumes "1 / 10 \<le> f" and "f \<le> 4 / 10" and "4 \<le> n"
  shows "2 \<le> int n - max 2 (round_half_even (real n * f))"
proof -
  have "round_half_even x \<le> x + 1 / 2" for x
    by (auto simp: round_half_even_def Let_def) linarith+
  then have "round_half_even (real n * f) \<le> real n * f + 1 / 2" .
  also have "real n * f \<le> real n * (4 / 10)" using assms(2) by (intro mult_left_mono) simp_all
  finally have "real_of_int (round_half_even (real n * f)) < real n - 1" using assms(3) by simp
  then have "round_half_even (real n * f) < int n - 1" by linarith
  then show ?thesis using assms(3) by simp
qed

lemma ready_numeric:
  assumes "rd_ready (training_readiness names cols inferred (Some y) None)"
  shows "list_all (\<lambda>n. \<exists>t. map_of (map (\<lambda>c. (tc_name c, tc_type c)) inferred) n = Some t \<and> numeric_type t) names"
proof -
  let ?numeric = "\<lambda>n. case map_of (map (\<lambda>c. (tc_name c, tc_type c)) inferred) n of None \<Rightarrow> False | Some t \<Rightarrow> numeric_type t"
  have "?numeric y" "filter (\<lambda>n. \<not> ?numeric n) (filter (\<lambda>n. Some n \<notin> {Some y, None}) names) = []"
    using assms unfolding training_readiness_def Let_def by (simp_all split: if_splits)
  then have "list_all ?numeric names" by (auto simp: filter_empty_conv list_all_iff)
  then show ?thesis by (auto simp: list_all_iff split: option.splits)
qed

lemma ready_features:
  assumes "rd_ready (training_readiness names cols inferred (Some y) None)"
  shows "filter (\<lambda>n. n \<noteq> y) names \<noteq> []"
proof -
  have "filter (\<lambda>n. Some n \<notin> {Some y, None}) names \<noteq> []"
    using assms unfolding training_readiness_def Let_def by (simp split: if_splits)
  then show ?thesis by simp
qed


lemma sample_ready: "rd_ready sample_readiness"
  by (simp add: sample_readiness_def training_readiness_def sample_columns sample_schema_def numeric_type_def present_def Let_def)


section \<open>Tables that are ready and do not train\<close>

lemma finite_numbers_error: "finite_numbers vs = Inl e \<Longrightarrow> exc_of e = ValueError"
  by (induction vs arbitrary: e)
     (auto simp: bind_result_eq_Inl finite_number_def value_error_def split: option.splits if_splits pyfloat.splits)

lemma finite_numbers_missing: "None \<in> set vs \<Longrightarrow> \<not> is_ok (finite_numbers vs)"
  by (induction vs) (auto simp: finite_number_def)

text \<open>
  C34: The names of the schema are stripped, those of the reader that resolves the training sets are
  not. A feature whose header was written with surrounding blanks is never found again: the
  version is ready, and every attempt to train on it is refused as not numeric.
\<close>

theorem padded_feature_blocks_training:
  assumes "ingest_csv decode lm (Some y) split payload = Inr r" and "ir_schema r = TabularSnapshot schema rd"
    and "decode payload = Some t" and "csv_reader_rows t = CsvRow header rest"
    and "n \<in> strip ` set header" and "n \<notin> set header" and "n \<noteq> y" and "split \<noteq> Some n"
  shows "tabular_training_snapshot decode (ir_schema r) f payload = ingestion_error numeric_error"
proof -
  obtain t' header' rows where u: "decode payload = Some t'" "csv_reader_rows t' = foldr CsvRow (header' # rows) CsvEnd"
      "csv_header lm header' = Inr (map strip header')" "4 \<le> length rows"
      "list_all (\<lambda>row. length row = length header' \<and> list_all (\<lambda>v. cell_ok (cl_cell lm) (strip v)) row) rows"
      "let cols = map (\<lambda>i. column i rows) [0 ..< length header']; names = map strip header' in
        schema = \<lparr>sm_columns = infer_columns names cols, sm_target = Some y, sm_split = split\<rparr> \<and>
        make_tabular_schema schema = Inr schema"
    using ingest_csv_Inr [OF assms(1)] assms(2) by (auto simp: Let_def)
  have same: "t' = t" "header' = header" "rest = foldr CsvRow rows CsvEnd" using u(1,2) assms(3,4) by simp_all
  have schema: "schema = \<lparr>sm_columns = infer_columns (map strip header) (map (\<lambda>i. column i rows) [0 ..< length header]),
      sm_target = Some y, sm_split = split\<rparr>" "make_tabular_schema schema = Inr schema"
    using u(6) unfolding same Let_def by blast+
  have names: "map tc_name (sm_columns schema) = map strip header"
    by (auto simp: schema(1) infer_columns_def intro!: nth_equalityI)
  have columns: "sm_target schema = Some y" "sm_split schema = split" by (simp_all add: schema(1))
  have "y \<in> set (map tc_name (sm_columns schema))" using make_tabular_schema_Inr [OF schema(2)] columns by simp
  then have target: "y \<in> set (map strip header)" by (simp only: names)
  let ?features = "filter (\<lambda>n. n \<noteq> y \<and> Some n \<noteq> split) (map strip header)"
  have n: "n \<in> set ?features" using assms(5,7,8) by auto
  have ne: "?features \<noteq> []" using n by (metis empty_iff empty_set)
  obtain row more where rows: "rows = row # more" using u(4) by (cases rows) auto
  have "header \<noteq> []" using u(3) by (simp add: csv_header_Inr same)
  moreover have "length row = length header" using u(5) by (simp add: rows same)
  ultimately have width: "row \<noteq> []" by auto
  have "dict_row header row n = None"
    using assms(6) by (auto simp: dict_row_def map_of_eq_None_iff dest: set_zip_leftD)
  then have "None \<in> set (map (dict_row header row) ?features)"
    using imageI [OF n, of "dict_row header row"] by (simp only: list.set_map)
  then have "\<not> is_ok (finite_numbers (map (dict_row header row) ?features))" by (rule finite_numbers_missing)
  then obtain e where e: "finite_numbers (map (dict_row header row) ?features) = Inl e"
    by (cases "finite_numbers (map (dict_row header row) ?features)") auto
  have "parse_rows header ?features y split rest = ingestion_error numeric_error"
    using width e finite_numbers_error [OF e] by (simp add: same rows Let_def isinstance_def)
  then show ?thesis
    using target ne unfolding tabular_training_snapshot_def assms(2-4) schema_snapshot.case columns option.case Let_def names decode_text_def
    by (simp add: assms(4))
qed

text \<open>The sample with a blank before its first name.\<close>

definition padded_upload :: bytes where
  "padded_upload = map of_char (quoted_table ([''  x'', ''y''] # sample_rows))"

lemma padded_decoded: "latin1 padded_upload = Some (quoted_table ([''  x'', ''y''] # sample_rows))"
  by (simp add: latin1_def padded_upload_def o_def)

lemma padded_read: "csv_reader_rows (quoted_table ([''  x'', ''y''] # sample_rows)) = foldr CsvRow ([''  x'', ''y''] # sample_rows) CsvEnd"
  by (rule quoted_table_rows) (simp add: sample_rows_def field_limit_def)

lemma padded_ingested:
  "ingest_csv latin1 sample_limits (Some ''y'') None padded_upload = ingest_csv latin1 sample_limits (Some ''y'') None sample_upload"
proof -
  have "csv_header sample_limits [''  x'', ''y''] = csv_header sample_limits [''x'', ''y'']"
    by (simp add: csv_header_def sample_limits_def text_defs)
  then show ?thesis
    by (simp add: ingest_csv_def decode_text_def sample_decoded sample_read padded_decoded padded_read ingest_table_def)
qed

lemma padded_feature_blocks_training_witness:
  "(\<exists>r. ingest_csv latin1 sample_limits (Some ''y'') None padded_upload = Inr r) \<and> rd_ready sample_readiness \<and>
   tabular_training_snapshot latin1 (TabularSnapshot sample_schema sample_readiness) (1 / 5) padded_upload =
     ingestion_error numeric_error"
proof -
  have "''x'' \<in> strip ` set [''  x'', ''y'']" by (simp add: strip_def lstrip_def py_isspace_def)
  moreover have "csv_reader_rows (quoted_table ([''  x'', ''y''] # sample_rows)) = CsvRow [''  x'', ''y''] (foldr CsvRow sample_rows CsvEnd)"
    by (simp add: padded_read)
  ultimately show ?thesis
    using padded_feature_blocks_training [OF padded_ingested [unfolded sample_ingested] _ padded_decoded, of sample_schema sample_readiness
        "[''  x'', ''y'']" "foldr CsvRow sample_rows CsvEnd" "''x''" "1 / 5"] sample_ready
    by (simp add: padded_ingested sample_ingested)
qed

end
