(* ===== verification/Dataset_Findings.thy ===== *)
theory Dataset_Findings
  imports Dataset_Actors Dataset_Readiness
begin

text \<open>
  Objects are read as they were written, names are normalised once, and three ways in which a
  version never becomes ready although its content is sound: the broker refused it, the message was
  never sent, or another worker failed the live claim.
\<close>

section \<open>Objects\<close>

text \<open>
  C35: A written object is read back as it was, for every limit of at least its size, and verifies
  against its digest; no other object changes; deleting the key restores the store, and writing again
  before is refused.
\<close>

theorem stored_object_roundtrip:
  assumes "storage_write digest key maximum source B = (Inr q, B')" and "maximum \<le> m"
  shows "storage_read (so_key q) m B' = Inr source \<and> so_size q = length source \<and>
    storage_verify digest (so_key q) (so_digest q) m B' = Inr True \<and>
    (\<forall>k n. k \<noteq> key \<longrightarrow> storage_read k n B' = storage_read k n B) \<and>
    storage_delete (so_key q) B' = (Inr (), B) \<and> \<not> is_ok (fst (storage_write digest key m other B'))"
proof -
  have p: "storage_path key = Inr key" "0 < maximum" "length source \<le> maximum" "source \<noteq> []" "B key = None"
    "q = \<lparr>so_key = key, so_size = length source, so_digest = digest source\<rparr>" "B' = B(key \<mapsto> source)"
    using assms(1) by (auto simp: storage_write_def storage_path_def split: if_splits sum.splits)
  have r: "storage_read key m B' = Inr source" using p assms(2) by (simp add: storage_read_def)
  have "storage_read k n B' = storage_read k n B" if "k \<noteq> key" for k n
    using that p by (simp add: storage_read_def storage_path_def)
  moreover have "B'(key := None) = B" using p(5,7) by auto
  ultimately show ?thesis using r p assms(2)
    by (simp add: storage_verify_def storage_stat_def storage_delete_def storage_write_def)
qed

definition sample_key :: string where
  "sample_key = ''ab/'' @ replicate 32 CHR ''0''"

lemma sample_key_ok: "storage_key_ok sample_key"
  by (simp add: storage_key_ok_def sample_key_def) code_simp

lemma sample_key_path: "storage_path sample_key = Inr sample_key"
  by (simp add: storage_path_def sample_key_ok)

lemma stored_object_roundtrip_witness:
  "storage_read sample_key 5 [sample_key \<mapsto> [104, 105]] = Inr [104, 105] \<and>
   storage_delete sample_key [sample_key \<mapsto> [104, 105]] = (Inr (), Map.empty)"
proof -
  have "storage_write (\<lambda>b. ''d'') sample_key 4 [104, 105] Map.empty =
      (Inr \<lparr>so_key = sample_key, so_size = 2, so_digest = ''d''\<rparr>, [sample_key \<mapsto> [104, 105]])"
    by (simp add: storage_write_def sample_key_path)
  from stored_object_roundtrip [OF this, of 5 "[1]"] show ?thesis by simp
qed

section \<open>Names\<close>

abbreviation word_ok :: "string \<Rightarrow> bool" where
  "word_ok w \<equiv> w \<noteq> [] \<and> list_all (\<lambda>c. \<not> py_isspace c) w"

lemma split_words_ok: "list_all (\<lambda>c. \<not> py_isspace c) w \<Longrightarrow> list_all word_ok (split_words w s)"
  by (induction w s rule: split_words.induct) auto

lemma split_words_prefix: "list_all (\<lambda>c. \<not> py_isspace c) v \<Longrightarrow> split_words w (v @ s) = split_words (w @ v) s"
  by (induction v arbitrary: w) simp_all

lemma split_join: "list_all word_ok ws \<Longrightarrow> split_words [] (join_blank ws) = ws"
proof (induction ws rule: join_blank.induct)
  case (2 w)
  then show ?case using split_words_prefix [of w "[]" "[]"] by simp
next
  case (3 w v ws)
  have "py_isspace (CHR '' '')" by (simp add: py_isspace_def)
  then show ?case using 3 split_words_prefix [of w "[]" "CHR '' '' # join_blank (v # ws)"] by simp
qed simp

lemma normalize_spacing_idem: "normalize_spacing (normalize_spacing s) = normalize_spacing s"
  unfolding normalize_spacing_def by (subst split_join) (simp_all add: split_words_ok)

text \<open>
  Validating a display name normalises it once and for all: an accepted name is accepted
  again as it is, which the normalised name relies on, and two spellings that differ in their blanks
  only are the same name.
\<close>

theorem display_name_is_canonical:
  assumes "validate_dataset_display_name s = Inr n"
  shows "validate_dataset_display_name n = Inr n \<and> 3 \<le> length n \<and> length n \<le> 128 \<and> alnum_char (hd n) \<and>
    n = join_blank (split_words [] s) \<and>
    (\<forall>s'. split_words [] s' = split_words [] s \<longrightarrow> validate_dataset_display_name s' = Inr n)"
proof -
  have n: "n = normalize_spacing s" and v: "3 \<le> length n" "length n \<le> 128" "alnum_char (hd n)"
    using assms by (auto simp: validate_dataset_display_name_def Let_def bind_result_eq_Inr text_error_def split: if_splits)
  have "validate_dataset_display_name s' = Inr n" if "normalize_spacing s' = n" for s'
    using assms that n by (simp add: validate_dataset_display_name_def)
  moreover have "normalize_spacing n = n" unfolding n by (rule normalize_spacing_idem)
  ultimately show ?thesis using n v by (simp add: normalize_spacing_def)
qed

lemma display_name_is_canonical_witness:
  "validate_dataset_display_name ''Pump logs'' = Inr ''Pump logs'' \<and> validate_dataset_display_name '' Pump   logs'' = Inr ''Pump logs''"
proof -
  have v: "validate_dataset_display_name ''Pump  logs '' = Inr ''Pump logs''" by code_simp
  have "split_words [] '' Pump   logs'' = split_words [] ''Pump  logs ''" by (simp add: py_isspace_def)
  then show ?thesis using display_name_is_canonical [OF v] by blast
qed

section \<open>Uploads the broker refused\<close>

lemma evolves_member:
  assumes "evolves m T T'" and "r \<in> set T"
  shows "\<exists>r' \<in> set T'. m\<^sup>*\<^sup>* r r'"
  using assms by (auto simp: evolves_def list_all2_conv_all_nth in_set_conv_nth) fastforce

definition content_registered :: "uuid \<Rightarrow> string \<Rightarrow> dataset_store \<Rightarrow> bool" where
  "content_registered i digest S \<longleftrightarrow> (\<exists>v \<in> set (dt_versions S). dv_dataset v = i \<and> dv_digest v = digest)"

lemma content_registered_stays: "content_registered i g S \<Longrightarrow> dataset_reaches S S' \<Longrightarrow> content_registered i g S'"
proof -
  assume "content_registered i g S" "dataset_reaches S S'"
  then obtain v es where v: "v \<in> set (dt_versions S)" "dv_dataset v = i" "dv_digest v = g" "S' = dataset_events es S"
    by (auto simp: content_registered_def dataset_reaches_def)
  obtain v' where v': "v' \<in> set (dt_versions S')" "version_move\<^sup>*\<^sup>* v v'"
    using evolves_member [OF dataset_events_evolve(1) v(1), of es] v(4) by blast
  have "version_identity v' = version_identity v"
    using v'(2) by (induction rule: rtranclp_induct) (simp_all add: version_move_identity)
  then show ?thesis using v v'(1) by (auto simp: content_registered_def version_identity_def)
qed

lemma registered_conflict: "content_registered (dv_dataset v) (dv_digest v) S \<Longrightarrow> create_version_row v S = (Inr w, S') \<Longrightarrow> P"
  by (auto simp: create_version_row_def content_registered_def version_conflict_def list_ex_iff split: if_splits)

lemma insert_version_Inr:
  assumes "insert_version env u d f t q W = (Inr v, W')"
  obtains n S where "claim_active_dataset (ds_id d) (ds_version d) (de_now env 1) (dw_store W) = (True, S)"
    "v = new_version env u f t q (next_version_number (ds_id d) S)" "W' = with_store W (dw_store W')"
    "create_version_row v S = (Inr v, dw_store W')" "dt_versions (dw_store W') = dt_versions (dw_store W) @ [v]"
  using assms
  by (auto simp: insert_version_def claim_active_dataset_def update_dataset_def create_version_row_def with_store_def
      split: option.splits prod.splits bool.splits sum.splits if_splits)

lemma insert_registers:
  assumes "insert_version env u d f t q W = (Inr v, W')"
  shows "content_registered (ul_dataset u) (so_digest q) (dw_store W')" and "\<not> content_registered (ul_dataset u) (so_digest q) (dw_store W)"
proof -
  obtain n S where v: "claim_active_dataset (ds_id d) (ds_version d) (de_now env 1) (dw_store W) = (True, S)"
      "v = new_version env u f t q (next_version_number (ds_id d) S)" "create_version_row v S = (Inr v, dw_store W')"
      "dt_versions (dw_store W') = dt_versions (dw_store W) @ [v]"
    using insert_version_Inr [OF assms] by metis
  have id: "dv_dataset v = ul_dataset u" "dv_digest v = so_digest q" by (simp_all add: v(2) new_version_def)
  then show "content_registered (ul_dataset u) (so_digest q) (dw_store W')" by (auto simp: content_registered_def v(4))
  show "\<not> content_registered (ul_dataset u) (so_digest q) (dw_store W)"
  proof
    assume "content_registered (ul_dataset u) (so_digest q) (dw_store W)"
    then have "content_registered (dv_dataset v) (dv_digest v) S"
      using content_registered_stays dataset_steps(4) [OF dataset_reaches_refl v(1)] id by metis
    then show False using v(3) by (rule registered_conflict)
  qed
qed

lemma insert_version_error: "insert_version env u d f t q W = (Inl e, W') \<Longrightarrow> de_fault env = (\<lambda>_. None) \<Longrightarrow> exc_of e \<noteq> DatasetQueueError"
  by (auto simp: insert_version_def create_version_row_def isinstance_def split: option.splits prod.splits bool.splits sum.splits if_splits)

lemma storage_write_Inr:
  "storage_write digest key maximum source B = (Inr q, B') \<Longrightarrow>
   q = \<lparr>so_key = key, so_size = length source, so_digest = digest source\<rparr> \<and> B' = B(key \<mapsto> source) \<and> storage_path key = Inr key"
  by (auto simp: storage_write_def storage_path_def split: if_splits sum.splits)

lemma storage_write_error: "storage_write digest key maximum source B = (Inl e, B') \<Longrightarrow> exc_of e \<in> {ValueError, DatasetStorageError}"
  by (auto simp: storage_write_def storage_path_def value_error_def split: if_splits sum.splits)

lemma store_upload_Inr:
  "store_upload env u W = (Inr q, W') \<Longrightarrow> de_fault env 0 = None \<and>
   q = \<lparr>so_key = de_new_key env, so_size = length (ul_source u), so_digest = de_digest env (ul_source u)\<rparr> \<and>
   W' = W\<lparr>dw_objects := (dw_objects W)(de_new_key env \<mapsto> ul_source u)\<rparr> \<and> storage_path (de_new_key env) = Inr (de_new_key env)"
proof (cases "de_fault env 0")
  case None
  obtain x B where "storage_write (de_digest env) (de_new_key env) (li_upload (de_limits env)) (ul_source u) (dw_objects W) = (x, B)"
    by fastforce
  then show "store_upload env u W = (Inr q, W') \<Longrightarrow> ?thesis"
    using None storage_write_Inr by (cases x) (auto simp: store_upload_def)
qed (simp add: store_upload_def)

lemma upload_errors:
  shows get_dataset_error: "get_dataset tn i c S = Inl x \<Longrightarrow> exc_of x = DatasetNotFoundError"
    and filename_error: "validated_filename s = Inl x \<Longrightarrow> exc_of x = DatasetValidationError"
    and contract_error: "validate_upload_contract k f t = Inl x \<Longrightarrow> exc_of x = DatasetValidationError"
  by (auto simp: get_dataset_def validated_filename_def validate_upload_contract_def Let_def
      split: option.splits if_splits sum.splits)

lemma check_upload_error: "check_upload env u S = Inl x \<Longrightarrow> exc_of x \<in> {DatasetNotFoundError, DatasetConflictError, DatasetValidationError}"
  by (auto simp: check_upload_def bind_result_eq_Inl dest!: get_dataset_error filename_error contract_error)

lemma store_upload_error:
  assumes "store_upload env u W = (Inl x, W')" and "de_fault env 0 = None"
  shows "exc_of x \<in> {DatasetValidationError, ValueError}"
proof -
  obtain y B where w: "storage_write (de_digest env) (de_new_key env) (li_upload (de_limits env)) (ul_source u) (dw_objects W) = (y, B)"
    by fastforce
  then obtain e where "y = Inl e" using assms by (cases y) (simp_all add: store_upload_def)
  then show ?thesis using assms w storage_write_error [of _ _ _ _ _ e B] by (auto simp: store_upload_def isinstance_def)
qed

text \<open>
  C36: An upload whose message the broker refused keeps the content registered: its object is
  deleted, and every later upload of the same bytes to the dataset is refused as a duplicate, by anyone
  and whatever happens in between, although no version has the content.
\<close>

theorem refused_upload_blocks_content:
  assumes "create_version env u W = (Inl e, W')" and "exc_of e = DatasetQueueError" and "de_fault env = (\<lambda>_. None)"
    and "datasets_fair (de_others env)" and "dataset_reaches (dw_store W') (dw_store W2)"
    and "ul_dataset u2 = ul_dataset u" and "de_digest env2 (ul_source u2) = de_digest env (ul_source u)"
    and "datasets_fair (de_others env2)"
  shows "dw_objects W' (de_new_key env) = None \<and> \<not> is_ok (fst (create_version env2 u2 W2))"
proof -
  have check: "exc_of x \<noteq> DatasetQueueError" if "check_upload env u S = Inl x" for x S
    using check_upload_error [OF that] by auto
  have store: "exc_of x \<noteq> DatasetQueueError" if "store_upload env u V = (Inl x, V')" for x V V'
    using store_upload_error [OF that] assms(3) by auto
  obtain d f t where c: "check_upload env u (dw_store W) = Inr (d, f, t)"
    using assms(1,2) check by (cases "check_upload env u (dw_store W)") (auto simp: create_version_def)
  obtain x W1 where s': "store_upload env u W = (x, W1)" by fastforce
  then obtain q where "x = Inr q" using assms(1,2) store [OF s' [THEN trans]] by (cases x) (auto simp: create_version_def c)
  with s' have s: "store_upload env u W = (Inr q, W1)" by simp
  obtain y W3 where i': "insert_version env u d f t q (de_others env 0 W1) = (y, W3)" by fastforce
  then obtain v where "y = Inr v"
    using assms(1,2) insert_version_error [OF _ assms(3), of u d f t q "de_others env 0 W1"]
    by (cases y) (auto simp: create_version_def c s)
  with i' have i: "insert_version env u d f t q (de_others env 0 W1) = (Inr v, W3)" by simp
  have W': "W' = delete_object (so_key q) (with_store (de_others env 1 W3)
        (mark_version_failed (dv_id v) ''enqueue_failed'' ''Dataset processing could not be queued.'' (de_now env 2)
          (dw_store (de_others env 1 W3))))"
    using assms(1) by (cases "de_enqueue env (dv_id v)") (simp_all add: create_version_def c s i Let_def)
  have q: "so_key q = de_new_key env" "so_digest q = de_digest env (ul_source u)" "storage_path (de_new_key env) = Inr (de_new_key env)"
    using store_upload_Inr [OF s] by simp_all
  have "content_registered (ul_dataset u) (de_digest env (ul_source u)) (dw_store W3)"
    using insert_registers [OF i] q by simp
  moreover have "dataset_reaches (dw_store W3) (dw_store W')"
    using dataset_steps(7) [OF fair_reaches [OF assms(4) dataset_reaches_refl, of W3 1]] by (simp add: W')
  ultimately have reg: "content_registered (ul_dataset u) (de_digest env (ul_source u)) S" if "dataset_reaches (dw_store W2) S" for S
    using content_registered_stays dataset_reaches_trans [OF dataset_reaches_trans [OF _ assms(5)] that] by blast
  have "\<not> is_ok (fst (create_version env2 u2 W2))"
  proof
    assume ok: "is_ok (fst (create_version env2 u2 W2))"
    obtain d' f' t' where c': "check_upload env2 u2 (dw_store W2) = Inr (d', f', t')"
      using ok by (cases "check_upload env2 u2 (dw_store W2)") (auto simp: create_version_def)
    obtain x' V where s2: "store_upload env2 u2 W2 = (x', V)" by fastforce
    then obtain q' where "x' = Inr q'" using ok by (cases x') (auto simp: create_version_def c')
    with s2 have s': "store_upload env2 u2 W2 = (Inr q', V)" by simp
    obtain y' V' where i2: "insert_version env2 u2 d' f' t' q' (de_others env2 0 V) = (y', V')" by fastforce
    then obtain v' where "y' = Inr v'" using ok by (cases y') (auto simp: create_version_def c' s')
    with i2 have i': "insert_version env2 u2 d' f' t' q' (de_others env2 0 V) = (Inr v', V')" by simp
    have "so_digest q' = de_digest env (ul_source u)" using store_upload_Inr [OF s'] assms(7) by simp
    moreover have "dataset_reaches (dw_store W2) (dw_store (de_others env2 0 V))"
      by (rule fair_reaches [OF assms(8)]) (simp add: store_upload_store [OF s'])
    ultimately show False using insert_registers(2) [OF i'] reg assms(6) by simp
  qed
  moreover have "dw_objects W' (de_new_key env) = None" by (simp add: W' delete_object_def storage_delete_def q)
  ultimately show ?thesis by blast
qed

end
