(* ===== verification/Dataset_Outcomes.thy ===== *)
theory Dataset_Outcomes
  imports Dataset_Findings
begin

text \<open>
  What becomes of an upload: a sample run of the service, versions whose message was never sent or
  whose live claim another worker fails, and the version that is processed and trained on.
\<close>

section \<open>A sample run\<close>

definition sample_dataset_env :: dataset_env where
  "sample_dataset_env = \<lparr>de_parents = \<lambda>_ _. True, de_referenced = \<lambda>_. False, de_normal_form = id, de_decode = latin1,
     de_digest = \<lambda>b. ''d'', de_new_id = 7, de_new_key = sample_key, de_now = int, de_enqueue = \<lambda>_. Inr ''m'',
     de_fault = \<lambda>_. None, de_timeout = False, de_tenant = None,
     de_limits = \<lparr>li_upload = 500, li_csv = sample_limits, li_document = 500, li_stale_seconds = 60, li_attempts = 3\<rparr>,
     de_others = \<lambda>_ W. W\<rparr>"

definition sample_request :: upload where
  "sample_request = \<lparr>ul_dataset = 1, ul_owner = None, ul_user = 2, ul_source = sample_upload, ul_filename = ''t.csv'',
     ul_media_type = ''text/csv'', ul_options = \<lparr>io_target = Some ''y'', io_split = None, io_fraction = 1 / 5\<rparr>\<rparr>"

definition sample_dataset :: dataset where
  "sample_dataset = \<lparr>ds_id = 1, ds_owner = 2, ds_company = 3, ds_name = ''Pumps'', ds_normalized = ''pumps'',
     ds_description = None, ds_kind = Tabular, ds_status = DatasetActive, ds_current = None, ds_version = 0,
     ds_created_at = 0, ds_updated_at = 0, ds_archived_at = None\<rparr>"

definition sample_world :: dataset_world where
  "sample_world = \<lparr>dw_store = dataset_events [NewDataset (\<lambda>_ _. True) sample_dataset] empty_datasets, dw_objects = Map.empty\<rparr>"

lemma idle_fair [simp]: "datasets_fair (\<lambda>_ W. W)"
  by (simp add: datasets_fair_def)

lemma sample_checked: "check_upload sample_dataset_env sample_request (dw_store sample_world) = Inr (sample_dataset, ''t.csv'', ''text/csv'')"
  by (simp add: check_upload_def sample_world_def sample_request_def sample_dataset_def sample_dataset_env_def get_dataset_def get_dataset_row_def
      empty_datasets_def fresh_dataset_def create_dataset_row_def dataset_visible_def guard_that_def) code_simp

lemma check_upload_cong: "de_tenant env' = de_tenant env \<Longrightarrow> check_upload env' u S = check_upload env u S"
  by (simp add: check_upload_def)

lemma sample_length: "length sample_upload < 500" "sample_upload \<noteq> []"
  by code_simp+

section \<open>Rows after an update\<close>

lemma lookup_update_version:
  assumes "\<And>v. version_identity (f v) = version_identity v"
  shows "lookup dv_id i (dt_versions (snd (update_version p f S))) =
    map_option (\<lambda>v. if p v then bump_version f v else v) (lookup dv_id i (dt_versions S))"
  using assms by (simp add: update_version_def lookup_update_where bump_version_def version_identity_def)

lemma lookup_update_dataset:
  assumes "\<And>d. dataset_identity (f d) = dataset_identity d"
  shows "lookup ds_id i (dt_datasets (snd (update_dataset p f S))) =
    map_option (\<lambda>d. if p d then bump_dataset f d else d) (lookup ds_id i (dt_datasets S))"
  using assms by (simp add: update_dataset_def lookup_update_where bump_dataset_def dataset_identity_def)

section \<open>Messages that were never sent\<close>

lemma update_version_other: "v \<in> set (dt_versions S) \<Longrightarrow> \<not> p v \<Longrightarrow> v \<in> set (dt_versions (snd (update_version p f S)))"
  by (auto simp: update_version_def set_update_where)

lemma never_enqueued_not_stale: "dv_status v = VersionPending \<Longrightarrow> dv_error_code v = None \<Longrightarrow> \<not> stale_version before v"
  by (simp add: stale_version_def)

lemma reconcile_ids_skips:
  assumes "de_others env = (\<lambda>_ W. W)" and "dv_status v = VersionPending" and "dv_error_code v = None"
  shows "v \<in> set (dt_versions (dw_store W)) \<Longrightarrow> v \<in> set (dt_versions (dw_store (snd (reconcile_ids env before k is W))))"
proof (induction "is" arbitrary: k W)
  case (Cons i "is")
  obtain b S where t: "reconcile_stale_version i before (li_attempts (de_limits env)) (de_now env k) (dw_store W) = (b, S)" by fastforce
  have "S = snd (reconcile_stale_version i before (li_attempts (de_limits env)) (de_now env k) (dw_store W))" by (simp add: t)
  then have "v \<in> set (dt_versions S)"
    using update_version_other [OF Cons.prems] never_enqueued_not_stale [OF assms(2,3)]
    by (simp add: reconcile_stale_version_def case_prod_beta)
  then have kept: "v \<in> set (dt_versions (dw_store (with_store W S)))" by simp
  show ?case using Cons.IH [OF kept] Cons.IH [OF Cons.prems] t by (cases b) (simp_all add: Let_def assms(1) case_prod_beta)
qed simp

lemma reconcile_skips:
  assumes "de_others env = (\<lambda>_ W. W)" and "dv_status v = VersionPending" and "dv_error_code v = None"
    and "v \<in> set (dt_versions (dw_store W))"
  shows "v \<in> set (dt_versions (dw_store (snd (reconcile_stale env W))))"
  unfolding reconcile_stale_def Let_def assms(1)
  by (rule reconcile_ids_skips [OF assms(1-3)])
     (simp add: fail_exhausted_stale_versions_def Let_def update_version_other [OF assms(4)] never_enqueued_not_stale [OF assms(2,3)])

text \<open>
  C37: A process that ends between the commit of an upload and its message strands the version. It
  is pending without an error code, which is not stale to the repository: however often and whenever
  reconciliation runs, the row stays as it is, and its dataset can no longer be archived.
\<close>

theorem lost_message_strands_version:
  assumes "insert_version env u d f t q W = (Inr v, W1)" and "\<forall>r \<in> set runs. de_others r = (\<lambda>_ V. V)"
    and "W2 = fold (\<lambda>r V. snd (reconcile_stale r V)) runs W1"
  shows "v \<in> set (dt_versions (dw_store W2)) \<and> dv_status v = VersionPending \<and>
    fst (archive_dataset_row ref (ul_dataset u) n now (dw_store W2)) = None"
proof -
  have v: "dv_status v = VersionPending" "dv_error_code v = None" "dv_dataset v = ul_dataset u" "v \<in> set (dt_versions (dw_store W1))"
    by (rule insert_version_Inr [OF assms(1)]; simp add: new_version_def)+
  have "v \<in> set (dt_versions (dw_store W2))"
    unfolding assms(3) using assms(2) v(4)
  proof (induction runs arbitrary: W1)
    case (Cons r runs)
    have "de_others r = (\<lambda>_ V. V)" using Cons.prems(1) by simp
    from Cons.IH [OF _ reconcile_skips [OF this v(1,2) Cons.prems(2)]] show ?case using Cons.prems(1) by simp
  qed simp
  then show ?thesis using v(1,3) by (auto simp: archive_dataset_row_def update_dataset_def versions_of_def list_ex_iff)
qed

definition sample_stored :: stored_object where
  "sample_stored = \<lparr>so_key = sample_key, so_size = 9, so_digest = ''d''\<rparr>"

definition sample_version :: dataset_version where
  "sample_version = new_version sample_dataset_env sample_request ''t.csv'' ''text/csv'' sample_stored 1"

definition uploaded_world :: dataset_world where
  "uploaded_world = \<lparr>dw_store = \<lparr>dt_datasets = [sample_dataset\<lparr>ds_version := 1, ds_updated_at := 1\<rparr>], dt_versions = [sample_version],
     dt_documents = [], dt_usage = []\<rparr>, dw_objects = Map.empty\<rparr>"

lemma sample_inserted:
  "insert_version sample_dataset_env sample_request sample_dataset ''t.csv'' ''text/csv'' sample_stored sample_world =
     (Inr sample_version, uploaded_world)"
  by (simp add: insert_version_def sample_dataset_env_def claim_active_dataset_def update_dataset_def sample_world_def empty_datasets_def
      create_dataset_row_def fresh_dataset_def sample_dataset_def bump_dataset_def create_version_row_def next_version_number_def
      versions_of_def new_version_def sample_version_def sample_stored_def sample_request_def with_store_def uploaded_world_def)

lemma lost_message_strands_version_witness:
  "sample_version \<in> set (dt_versions (dw_store (snd (reconcile_stale (sample_dataset_env\<lparr>de_now := \<lambda>_. 900000000\<rparr>) uploaded_world)))) \<and>
   dv_created_at sample_version = 1"
  using lost_message_strands_version [OF sample_inserted, of "[sample_dataset_env\<lparr>de_now := \<lambda>_. 900000000\<rparr>]"]
  by (simp add: sample_dataset_env_def sample_version_def new_version_def)

section \<open>Live claims that another worker fails\<close>


definition claimed_world :: dataset_world where
  "claimed_world = uploaded_world\<lparr>dw_store := dataset_events [ClaimVersion 7 5] (dw_store uploaded_world),
     dw_objects := [sample_key \<mapsto> sample_upload]\<rparr>"

definition reclaimed_world :: dataset_world where
  "reclaimed_world = claimed_world\<lparr>dw_store := dataset_events [RequeueVersion 7 90 3 99, ClaimVersion 7 100] (dw_store claimed_world)\<rparr>"

definition late_env :: dataset_env where
  "late_env = sample_dataset_env\<lparr>de_timeout := True, de_others := \<lambda>k W. if k = 1 then reclaimed_world else W\<rparr>"


section \<open>Refused uploads and published versions\<close>

definition refusing_env :: dataset_env where
  "refusing_env = sample_dataset_env\<lparr>de_enqueue := \<lambda>_. Inl (Exc RuntimeError ''down'')\<rparr>"

lemma sample_stored_upload:
  "store_upload sample_dataset_env sample_request W = (if dw_objects W sample_key = None
     then (Inr \<lparr>so_key = sample_key, so_size = length sample_upload, so_digest = ''d''\<rparr>,
       W\<lparr>dw_objects := (dw_objects W)(sample_key \<mapsto> sample_upload)\<rparr>)
     else (Inl (Exc DatasetValidationError ''The upload could not be stored safely.''), W))"
  using sample_length
  by (simp add: store_upload_def sample_dataset_env_def sample_request_def storage_write_def sample_key_path isinstance_def)

lemma refused_sample: "\<exists>e W'. create_version refusing_env sample_request sample_world = (Inl e, W') \<and> exc_of e = DatasetQueueError"
proof -
  have "check_upload refusing_env sample_request S = check_upload sample_dataset_env sample_request S" for S
    by (rule check_upload_cong) (simp add: refusing_env_def)
  moreover have "store_upload refusing_env sample_request sample_world =
      (Inr \<lparr>so_key = sample_key, so_size = length sample_upload, so_digest = ''d''\<rparr>,
       sample_world\<lparr>dw_objects := [sample_key \<mapsto> sample_upload]\<rparr>)"
    using sample_length
    by (simp add: store_upload_def refusing_env_def sample_dataset_env_def sample_request_def storage_write_def sample_key_path sample_world_def)
  ultimately show ?thesis using sample_length
    by (simp add: create_version_def sample_checked)
       (simp add: insert_version_def refusing_env_def sample_dataset_env_def claim_active_dataset_def update_dataset_def sample_world_def empty_datasets_def
      create_dataset_row_def fresh_dataset_def sample_dataset_def bump_dataset_def create_version_row_def next_version_number_def
      versions_of_def new_version_def sample_request_def with_store_def Let_def)
qed

lemma refused_upload_blocks_content_witness:
  "\<exists>W'. dw_objects W' sample_key = None \<and> snd (create_version refusing_env sample_request sample_world) = W' \<and>
     \<not> is_ok (fst (create_version sample_dataset_env sample_request W'))"
proof -
  obtain e W' where c: "create_version refusing_env sample_request sample_world = (Inl e, W')" "exc_of e = DatasetQueueError"
    using refused_sample by blast
  show ?thesis
    using refused_upload_blocks_content [OF c _ _ dataset_reaches_refl, of sample_request sample_dataset_env] c(1)
    by (simp add: refusing_env_def sample_dataset_env_def)
qed

section \<open>Samples of reachable stores\<close>

definition published_store :: dataset_store where
  "published_store = dataset_events [NewDataset (\<lambda>_ _. True) sample_dataset, NewVersion sample_version, ClaimVersion 7 5,
     PublishVersion 7 1 \<lparr>rv_results = no_results, rv_schema = NoSnapshot\<rparr> 6, SetCurrent 1 7 0 8] empty_datasets"

lemma published_store_rows:
  "dt_versions published_store = [sample_version\<lparr>dv_status := VersionReady, dv_started_at := Some 5, dv_ready_at := Some 6, dv_version := 2\<rparr>]"
  "dt_datasets published_store = [sample_dataset\<lparr>ds_current := Some 7, ds_updated_at := 8, ds_version := 1\<rparr>]"
  by (simp_all add: published_store_def empty_datasets_def fresh_dataset_def fresh_version_def dataset_operations sample_dataset_def
      sample_version_def new_version_def sample_dataset_env_def sample_stored_def sample_request_def ready_number_def
      current_allows_def no_results_def)

lemma reachable_datasets_consistent_witness:
  "\<exists>v \<in> set (dt_versions published_store). dv_id v = 7 \<and> dv_dataset v = 1 \<and> dv_status v = VersionReady"
proof -
  have "\<forall>d \<in> set (dt_datasets published_store). \<forall>c. ds_current d = Some c \<longrightarrow>
      (\<exists>v \<in> set (dt_versions published_store). dv_id v = c \<and> dv_dataset v = ds_id d \<and> dv_status v = VersionReady)"
    unfolding published_store_def using reachable_datasets_consistent by blast
  then show ?thesis by (simp add: published_store_rows sample_dataset_def)
qed

lemma published_versions_stay_witness:
  "\<exists>v \<in> set (dt_versions (dataset_events [FailVersion 7 ''x'' ''late'' 9, ArchiveDataset (\<lambda>_. False) 1 1 10] published_store)).
     dv_id v = 7 \<and> dv_status v = VersionReady"
proof -
  have "(\<forall>v \<in> set (dt_versions published_store). version_final v \<longrightarrow>
      v \<in> set (dt_versions (dataset_events [FailVersion 7 ''x'' ''late'' 9, ArchiveDataset (\<lambda>_. False) 1 1 10] published_store)))"
    using published_versions_stay [OF published_store_def refl] by blast
  then show ?thesis
    by (intro bexI [of _ "hd (dt_versions published_store)"])
       (simp_all add: published_store_rows sample_version_def new_version_def sample_dataset_env_def)
qed


end
