(* ===== verification/Drift_Engine.thy ===== *)
theory Drift_Engine
  imports Monitoring_Models
begin

text \<open>
  The drift engine of \<^verbatim>\<open>ml/monitoring/drift.py\<close>: the population stability index, the drift
  of features and predictions of a window of events against one reference profile, and the
  report. Floats are reals, so rounding is left out; raised exceptions are values.
\<close>

section \<open>Indices\<close>

definition psi_term :: "real \<Rightarrow> real \<Rightarrow> real" where
  "psi_term p q = (q - p) * ln (q / p)"

definition smoothed :: "real \<Rightarrow> int \<Rightarrow> int \<Rightarrow> real" where
  "smoothed eps whole n = max (real_of_int n / real_of_int whole) eps"

definition population_stability_index :: "int list \<Rightarrow> int list \<Rightarrow> real \<Rightarrow> real result" where
  "population_stability_index reference current eps =
     (if length reference \<noteq> length current \<or> reference = []
      then invalid ''PSI histograms must have equal non-zero lengths.''
      else if list_ex (\<lambda>c. c < 0) (reference @ current) then invalid ''PSI histogram counts must be non-negative.''
      else if sum_list reference = 0 \<or> sum_list current = 0 then invalid ''PSI histograms must contain observations.''
      else Inr (sum_list (map2 (\<lambda>r c. psi_term (smoothed eps (sum_list reference) r) (smoothed eps (sum_list current) c))
        reference current)))"

definition severity_at :: "real \<Rightarrow> drift_thresholds \<Rightarrow> drift_severity" where
  "severity_at x th = (if th_critical th \<le> x then SeverityCritical
     else if th_warning th \<le> x then SeverityWarning else SeverityStable)"

definition max_severity :: "drift_severity \<Rightarrow> drift_severity \<Rightarrow> drift_severity" where
  "max_severity s t = (if severity_order t \<le> severity_order s then s else t)"

definition aggregate_severity :: "drift_severity list \<Rightarrow> drift_severity" where
  "aggregate_severity ss =
     (if SeverityCritical \<in> set ss then SeverityCritical
      else if SeverityWarning \<in> set ss then SeverityWarning
      else if SeverityInsufficient \<in> set ss then SeverityInsufficient else SeverityStable)"

section \<open>Features\<close>

record feature_window =
  fw_bins :: "int list"
  fw_finite :: int
  fw_missing :: int
  fw_total :: int
  fw_out :: int
  fw_usable :: bool

definition empty_window :: "nat \<Rightarrow> feature_window" where
  "empty_window n = \<lparr>fw_bins = replicate n 0, fw_finite = 0, fw_missing = 0, fw_total = 0, fw_out = 0, fw_usable = True\<rparr>"

definition add_bins :: "int list \<Rightarrow> int list \<Rightarrow> int list" where
  "add_bins = map2 (+)"

text \<open>One pass of the loop over the events.\<close>

definition feature_event :: "nat \<Rightarrow> prediction_event \<Rightarrow> feature_window \<Rightarrow> feature_window" where
  "feature_event i e w =
     (if length (pe_profile e) \<le> i then w\<lparr>fw_usable := False\<rparr>
      else (let f = pe_profile e ! i;
                w1 = w\<lparr>fw_total := fw_total w + ns_count (fp_summary f), fw_missing := fw_missing w + ns_missing (fp_summary f),
                  fw_out := fw_out w + fp_out_of_range f\<rparr> in
        case fp_bins f of
          None \<Rightarrow> w1\<lparr>fw_usable := False\<rparr>
        | Some bins \<Rightarrow>
            if length bins \<noteq> length (fw_bins w) then w1\<lparr>fw_usable := False\<rparr>
            else w1\<lparr>fw_finite := fw_finite w + ns_finite (fp_summary f), fw_bins := add_bins (fw_bins w) bins\<rparr>))"

definition ratio :: "int \<Rightarrow> int \<Rightarrow> real option" where
  "ratio a b = (if b = 0 then None else Some (real_of_int a / real_of_int b))"

definition at_least :: "real option \<Rightarrow> real \<Rightarrow> bool" where
  "at_least x bound = (case x of None \<Rightarrow> False | Some y \<Rightarrow> bound \<le> y)"

definition feature_severity :: "real \<Rightarrow> real option \<Rightarrow> real option \<Rightarrow> drift_thresholds \<Rightarrow> drift_severity" where
  "feature_severity psi difference out th =
     (let s1 = severity_at psi th;
          s2 = (if at_least (map_option abs difference) (th_missing_rate th) then max_severity s1 SeverityWarning else s1) in
      if at_least out (th_out_of_range th) then max_severity s2 SeverityWarning else s2)"

definition feature_result ::
    "nat \<Rightarrow> numeric_reference \<Rightarrow> prediction_event list \<Rightarrow> int \<Rightarrow> drift_thresholds \<Rightarrow> feature_drift result" where
  "feature_result i reference events minimum th =
     (let w = fold (feature_event i) events (empty_window (length (nr_bins reference)));
          reference_rate = (case ratio (ns_missing (nr_summary reference)) (ns_count (nr_summary reference)) of
            None \<Rightarrow> 0 | Some r \<Rightarrow> r);
          difference = map_option (\<lambda>r. r - reference_rate) (ratio (fw_missing w) (fw_total w));
          out = ratio (fw_out w) (fw_finite w);
          drift = (\<lambda>psi severity. \<lparr>fd_index = i, fd_psi = psi, fd_reference_count = ns_finite (nr_summary reference),
            fd_current_count = fw_finite w, fd_missing_difference = difference, fd_out_of_range = out, fd_severity = severity\<rparr>) in
      if \<not> fw_usable w \<or> fw_finite w < minimum then Inr (drift None SeverityInsufficient)
      else bind_result (population_stability_index (nr_bins reference) (fw_bins w) (th_epsilon th)) (\<lambda>psi.
        Inr (drift (Some psi) (feature_severity psi difference out th))))"

section \<open>Predictions\<close>

definition weighted :: "numeric_summary list \<Rightarrow> (int \<times> real \<times> real) list" where
  "weighted ss = concat (map (\<lambda>s. case (ns_mean s, ns_deviation s) of
       (Some m, Some d) \<Rightarrow> if 0 < ns_finite s then [(ns_finite s, m, d)] else [] | _ \<Rightarrow> []) ss)"

definition combine_numeric_summaries :: "numeric_summary list \<Rightarrow> numeric_summary result" where
  "combine_numeric_summaries ss =
     (let count = sum_list (map ns_count ss); missing = sum_list (map ns_missing ss); finite = sum_list (map ns_finite ss) in
      if finite = 0
      then make_numeric_summary \<lparr>ns_count = count, ns_missing = missing, ns_finite = 0, ns_minimum = None, ns_maximum = None,
        ns_mean = None, ns_deviation = None, ns_quantiles = []\<rparr>
      else
        (let mean = sum_list (map (\<lambda>(n, m, d). real_of_int n * m) (weighted ss)) / real_of_int finite;
             second_moment = sum_list (map (\<lambda>(n, m, d). real_of_int n * (d ^ 2 + m ^ 2)) (weighted ss)) / real_of_int finite;
             minima = concat (map (\<lambda>s. case ns_minimum s of None \<Rightarrow> [] | Some x \<Rightarrow> [x]) ss);
             maxima = concat (map (\<lambda>s. case ns_maximum s of None \<Rightarrow> [] | Some x \<Rightarrow> [x]) ss) in
         if minima = [] \<or> maxima = [] then invalid ''min() arg is an empty sequence''
         else make_numeric_summary \<lparr>ns_count = count, ns_missing = missing, ns_finite = finite,
           ns_minimum = Some (Min (set minima)), ns_maximum = Some (Max (set maxima)), ns_mean = Some mean,
           ns_deviation = Some (sqrt (max (second_moment - mean ^ 2) 0)), ns_quantiles = []\<rparr>))"

record regression_window =
  rw_bins :: "int list"
  rw_summaries :: "numeric_summary list"
  rw_usable :: bool

definition regression_event :: "prediction_event \<Rightarrow> regression_window \<Rightarrow> regression_window" where
  "regression_event e w =
     (case pe_prediction e of
        Some (RegressionProfile s bins) \<Rightarrow>
          (let w1 = w\<lparr>rw_summaries := rw_summaries w @ [s]\<rparr> in
           case bins of None \<Rightarrow> w1\<lparr>rw_usable := False\<rparr>
           | Some bs \<Rightarrow> if length bs \<noteq> length (rw_bins w) then w1\<lparr>rw_usable := False\<rparr>
               else w1\<lparr>rw_bins := add_bins (rw_bins w) bs\<rparr>)
      | _ \<Rightarrow> w\<lparr>rw_usable := False\<rparr>)"

definition deviation_ratio :: "real option \<Rightarrow> real option \<Rightarrow> real option" where
  "deviation_ratio current reference =
     (case (current, reference) of
        (Some c, Some r) \<Rightarrow> if 0 < r then Some (c / r) else if c = r \<and> r = 0 then Some 1 else None
      | _ \<Rightarrow> None)"

definition regression_result ::
    "numeric_reference \<Rightarrow> prediction_event list \<Rightarrow> int \<Rightarrow> drift_thresholds \<Rightarrow> prediction_drift result" where
  "regression_result reference events minimum th =
     (let w = fold regression_event events \<lparr>rw_bins = replicate (length (nr_bins reference)) 0, rw_summaries = [], rw_usable = True\<rparr> in
      bind_result (combine_numeric_summaries (rw_summaries w)) (\<lambda>current.
      let drift = (\<lambda>psi shift r severity. \<lparr>pdr_distance = psi, pdr_mean_shift = shift, pdr_deviation_ratio = r,
            pdr_reference_count = ns_finite (nr_summary reference), pdr_current_count = ns_finite current, pdr_severity = severity\<rparr>) in
      if \<not> rw_usable w \<or> ns_finite current < minimum then Inr (drift None None None SeverityInsufficient)
      else bind_result (population_stability_index (nr_bins reference) (rw_bins w) (th_epsilon th)) (\<lambda>psi.
        Inr (drift (Some psi)
          (case (ns_mean current, ns_mean (nr_summary reference)) of (Some c, Some r) \<Rightarrow> Some (c - r) | _ \<Rightarrow> None)
          (deviation_ratio (ns_deviation current) (ns_deviation (nr_summary reference)))
          (severity_at psi th)))))"

record class_window =
  cw_counts :: "(string \<times> int) list"
  cw_other :: int
  cw_count :: int
  cw_usable :: bool

definition class_event :: "prediction_event \<Rightarrow> class_window \<Rightarrow> class_window" where
  "class_event e w =
     (case pe_prediction e of
        Some (ClassificationProfile p) \<Rightarrow>
          w\<lparr>cw_counts := cw_counts w @ cl_class_counts p, cw_other := cw_other w + cl_other p, cw_count := cw_count w + cl_count p\<rparr>
      | _ \<Rightarrow> w\<lparr>cw_usable := False\<rparr>)"

text \<open>A counter: what its updates have added up for a label.\<close>

definition counter_get :: "string \<Rightarrow> (string \<times> int) list \<Rightarrow> int" where
  "counter_get l cs = sum_list (map snd (filter (\<lambda>e. fst e = l) cs))"

definition total_variation :: "class_profile \<Rightarrow> (string \<times> int) list \<Rightarrow> int \<Rightarrow> int \<Rightarrow> real" where
  "total_variation reference counts other n =
     (let share = (\<lambda>a b. real_of_int a / real_of_int b);
          labels = remdups (map fst (cl_class_counts reference) @ map fst counts) in
      1 / 2 * (sum_list (map (\<lambda>l. \<bar>share (counter_get l (cl_class_counts reference)) (cl_count reference) - share (counter_get l counts) n\<bar>) labels) +
        \<bar>share (cl_other reference) (cl_count reference) - share other n\<bar>))"

definition classification_result ::
    "class_profile \<Rightarrow> prediction_event list \<Rightarrow> int \<Rightarrow> drift_thresholds \<Rightarrow> prediction_drift result" where
  "classification_result reference events minimum th =
     (let w = fold class_event events \<lparr>cw_counts = [], cw_other = 0, cw_count = 0, cw_usable = True\<rparr>;
          drift = (\<lambda>distance severity. \<lparr>pdr_distance = distance, pdr_mean_shift = None, pdr_deviation_ratio = None,
            pdr_reference_count = cl_count reference, pdr_current_count = cw_count w, pdr_severity = severity\<rparr>) in
      if \<not> cw_usable w \<or> cw_count w < minimum then Inr (drift None SeverityInsufficient)
      else if cl_count reference = 0 \<or> cw_count w = 0 then Inl (Exc OtherException ''division by zero'')
      else (let d = total_variation reference (cw_counts w) (cw_other w) (cw_count w) in
        Inr (drift (Some d) (severity_at d th))))"

definition prediction_result ::
    "prediction_reference \<Rightarrow> prediction_event list \<Rightarrow> int \<Rightarrow> drift_thresholds \<Rightarrow> prediction_drift result" where
  "prediction_result reference events minimum th =
     (case reference of RegressionReference r \<Rightarrow> regression_result r events minimum th
      | ClassificationReference p \<Rightarrow> classification_result p events minimum th)"

section \<open>The report\<close>

fun feature_results ::
    "nat \<Rightarrow> (int \<times> numeric_reference) list \<Rightarrow> prediction_event list \<Rightarrow> int \<Rightarrow> drift_thresholds \<Rightarrow> feature_drift list result" where
  "feature_results i [] events minimum th = Inr []"
| "feature_results i (f # fs) events minimum th =
     bind_result (feature_result i (snd f) events minimum th) (\<lambda>r.
     bind_result (feature_results (Suc i) fs events minimum th) (\<lambda>rs. Inr (r # rs)))"

definition partial_window_warning :: string where
  "partial_window_warning = ''Drift was calculated from only the newest matching events within the configured analysis limit.''"

definition comparable_events :: "reference_profile \<Rightarrow> prediction_event list \<Rightarrow> prediction_event list" where
  "comparable_events reference = filter (\<lambda>e. pe_status e = EventSucceeded \<and>
     pe_version e = Some (rf_version reference) \<and> pe_model_name e = rf_model_name reference)"

definition detect_drift ::
    "reference_profile \<Rightarrow> prediction_event list \<Rightarrow> timestamp \<Rightarrow> timestamp \<Rightarrow> int \<Rightarrow> drift_thresholds \<Rightarrow> timestamp \<Rightarrow> int \<Rightarrow>
     drift_report result" where
  "detect_drift reference events start_at end_at minimum th generated_at matched =
     (let analyzed = int (length events); truncated = analyzed < matched;
          successful = comparable_events reference events; n = sum_list (map pe_rows successful) in
      bind_result (feature_results 0 (rf_features reference) successful minimum th) (\<lambda>features.
      bind_result (prediction_result (rf_prediction reference) successful minimum th) (\<lambda>prediction.
      Inr \<lparr>dr_model_name = rf_model_name reference, dr_version = rf_version reference, dr_key = rf_key reference,
        dr_reference_count = rf_sample_count reference, dr_current_count = n, dr_start_at = start_at, dr_end_at = end_at,
        dr_features = features, dr_prediction = prediction,
        dr_status = (if n < minimum then SeverityInsufficient
          else aggregate_severity (map fd_severity features @ [pdr_severity prediction])),
        dr_thresholds = th, dr_generated_at = generated_at, dr_matched = matched, dr_analyzed = analyzed,
        dr_truncated = truncated, dr_warning = (if truncated then Some partial_window_warning else None)\<rparr>)))"

end
