(* ===== verification/Drift_Correct.thy ===== *)
theory Drift_Correct
  imports Drift_Engine
begin

text \<open>
  The indices are distances, the combination of summaries is the summary of the whole sample, and
  detection on validated values never fails.
\<close>

section \<open>The population stability index\<close>

lemma psi_term_nonneg:
  assumes "0 < p" and "0 < q"
  shows "0 \<le> psi_term p q" and "psi_term p q = 0 \<longleftrightarrow> p = q" and "psi_term q p = psi_term p q"
proof -
  have l: "ln (q / p) = ln q - ln p" "ln (p / q) = ln p - ln q" using assms by (simp_all add: ln_div)
  consider "p < q" | "q < p" | "p = q" by linarith
  then have "0 \<le> psi_term p q \<and> (psi_term p q = 0 \<longleftrightarrow> p = q)"
  proof cases
    case 1
    then have "0 < ln q - ln p" using assms by (simp add: ln_less_cancel_iff)
    then show ?thesis using 1 by (simp add: psi_term_def l)
  next
    case 2
    then have "ln q - ln p < 0" using assms by (simp add: ln_less_cancel_iff)
    moreover have "q - p < 0" using 2 by simp
    ultimately have "0 < (q - p) * (ln q - ln p)" by (rule mult_neg_neg [rotated])
    then show ?thesis using 2 unfolding psi_term_def l by (metis less_irrefl less_imp_le)
  qed (simp add: psi_term_def)
  then show "0 \<le> psi_term p q" "psi_term p q = 0 \<longleftrightarrow> p = q" by blast+
  show "psi_term q p = psi_term p q" by (simp add: psi_term_def l algebra_simps)
qed

lemma smoothed_pos: "0 < eps \<Longrightarrow> 0 < smoothed eps w n"
  by (simp add: smoothed_def less_max_iff_disj)

lemma sum_map2_nonneg:
  assumes "length xs = length ys" and "\<And>x y. 0 \<le> (f x y :: real)"
  shows "0 \<le> sum_list (map2 f xs ys)" and "sum_list (map2 f xs ys) = 0 \<longleftrightarrow> list_all2 (\<lambda>x y. f x y = 0) xs ys"
  using assms(1)
proof (induction xs ys rule: list_induct2)
  case (Cons x xs y ys)
  case 1 show ?case using Cons assms(2) [of x y] by simp
  case 2 show ?case using Cons assms(2) [of x y] by (simp add: add_nonneg_eq_0_iff)
qed simp_all

lemma map2_flip: "map2 f xs ys = map2 (\<lambda>y x. f x y) ys xs"
proof (induction xs arbitrary: ys)
  case (Cons x xs)
  then show ?case by (cases ys) simp_all
qed simp

text \<open>
  The population stability index is a divergence. It is never negative, it is zero exactly when
  both histograms have the same smoothed proportions in every bin, and it does not depend on
  which of the two is the reference.
\<close>

theorem psi_is_divergence:
  assumes "population_stability_index reference current eps = Inr x" and "0 < eps"
  shows "0 \<le> x \<and> population_stability_index current reference eps = Inr x \<and>
    (x = 0 \<longleftrightarrow> map (smoothed eps (sum_list reference)) reference = map (smoothed eps (sum_list current)) current)"
proof -
  let ?f = "\<lambda>r c. psi_term (smoothed eps (sum_list reference) r) (smoothed eps (sum_list current) c)"
  have x: "x = sum_list (map2 ?f reference current)" "length reference = length current"
      "\<not> list_ex (\<lambda>c. c < 0) (reference @ current)" "reference \<noteq> []" "sum_list reference \<noteq> 0" "sum_list current \<noteq> 0"
    using assms(1) by (auto simp: population_stability_index_def invalid_def split: if_splits)
  note pos = smoothed_pos [OF assms(2)]
  have "0 \<le> x" "x = 0 \<longleftrightarrow> list_all2 (\<lambda>r c. ?f r c = 0) reference current"
    unfolding x(1) using sum_map2_nonneg [OF x(2), of ?f] psi_term_nonneg(1) [OF pos pos] by blast+
  moreover have "list_all2 (\<lambda>r c. ?f r c = 0) reference current \<longleftrightarrow>
      map (smoothed eps (sum_list reference)) reference = map (smoothed eps (sum_list current)) current"
    using x(2) psi_term_nonneg(2) [OF pos pos] by (auto simp: list_all2_conv_all_nth list_eq_iff_nth_eq)
  moreover have "(\<lambda>c r. psi_term (smoothed eps (sum_list current) c) (smoothed eps (sum_list reference) r)) = (\<lambda>c r. ?f r c)"
    using psi_term_nonneg(3) [OF pos pos] by blast
  then have "population_stability_index current reference eps = Inr x"
    unfolding x(1) using x(2-6) by (auto simp: population_stability_index_def) (subst (2) map2_flip, simp)
  ultimately show ?thesis by blast
qed

lemma psi_is_divergence_witness:
  "\<exists>x. population_stability_index [2, 2] [4, 0] (1 / 100) = Inr x \<and> 0 \<le> x \<and> x \<noteq> 0 \<and> population_stability_index [4, 0] [2, 2] (1 / 100) = Inr x"
proof -
  obtain x where x: "population_stability_index [2, 2] [4, 0] (1 / 100) = Inr x" by (simp add: population_stability_index_def)
  show ?thesis using psi_is_divergence [OF x] x by (simp add: smoothed_def)
qed

section \<open>The total variation distance\<close>

lemma counter_sum:
  "distinct ls \<Longrightarrow> fst ` set cs \<subseteq> set ls \<Longrightarrow> sum_list (map (\<lambda>l. counter_get l cs) ls) = sum_list (map snd cs)"
proof (induction cs)
  case (Cons e cs)
  have "sum_list (map (\<lambda>l. counter_get l (e # cs)) ls) = sum_list (map (\<lambda>l. (if l = fst e then snd e else 0) + counter_get l cs) ls)"
    by (rule arg_cong [of _ _ sum_list], rule map_cong) (auto simp: counter_get_def)
  also have "\<dots> = sum_list (map (\<lambda>l. if l = fst e then snd e else 0) ls) + sum_list (map (\<lambda>l. counter_get l cs) ls)"
    by (rule sum_list_addf)
  also have "sum_list (map (\<lambda>l. if l = fst e then snd e else 0) ls) = snd e"
  proof -
    have "fst e \<in> set ls" using Cons.prems(2) by simp
    then show ?thesis using Cons.prems(1) by (simp add: sum_list_distinct_conv_sum_set)
  qed
  finally show ?case using Cons by simp
qed (simp add: counter_get_def)

lemma counter_nonneg: "\<forall>e \<in> set cs. 0 \<le> snd e \<Longrightarrow> 0 \<le> counter_get l cs"
  unfolding counter_get_def by (rule sum_list_nonneg) auto

lemma sum_abs_diff: "(\<And>l. l \<in> set ls \<Longrightarrow> 0 \<le> f l \<and> 0 \<le> (g l :: real)) \<Longrightarrow>
  sum_list (map (\<lambda>l. \<bar>f l - g l\<bar>) ls) \<le> sum_list (map f ls) + sum_list (map g ls)"
proof (induction ls)
  case (Cons l ls)
  have "0 \<le> f l" "0 \<le> g l" using Cons.prems [of l] by simp_all
  then have "\<bar>f l - g l\<bar> \<le> f l + g l" by linarith
  then show ?case using Cons.IH Cons.prems by fastforce
qed simp

lemma total_variation_bounds:
  assumes "make_class_profile p = Inr p" and "0 < cl_count p" and "0 < n"
    and "\<forall>e \<in> set counts. 0 \<le> snd e" and "0 \<le> other" and "sum_list (map snd counts) + other = n"
  shows "0 \<le> total_variation p counts other n" and "total_variation p counts other n \<le> 1"
proof -
  let ?a = "\<lambda>l. real_of_int (counter_get l (cl_class_counts p)) / cl_count p" and ?b = "\<lambda>l. real_of_int (counter_get l counts) / n"
  let ?ls = "remdups (map fst (cl_class_counts p) @ map fst counts)"
  have p: "0 \<le> cl_other p" "\<forall>e \<in> set (cl_class_counts p). 0 \<le> snd e" "sum_list (map snd (cl_class_counts p)) + cl_other p = cl_count p"
    using assms(1) by (auto simp: make_class_profile_def list_ex_iff split: if_splits)
  have nonneg: "0 \<le> ?a l \<and> 0 \<le> ?b l" for l
    using counter_nonneg [OF p(2)] counter_nonneg [OF assms(4)] assms(2,3) by simp
  have sum: "sum_list (map (\<lambda>l. real_of_int (counter_get l cs) / real_of_int k) ?ls) = real_of_int (sum_list (map snd cs)) / real_of_int k"
    if "fst ` set cs \<subseteq> set ?ls" for cs and k :: int
  proof -
    have "sum_list (map (\<lambda>l. real_of_int (counter_get l cs) / real_of_int k) ls) = real_of_int (sum_list (map (\<lambda>l. counter_get l cs) ls)) / real_of_int k" for ls
      by (induction ls) (simp_all add: add_divide_distrib)
    then show ?thesis using counter_sum [OF _ that] by simp
  qed
  have "sum_list (map (\<lambda>l. \<bar>?a l - ?b l\<bar>) ?ls) \<le> sum_list (map ?a ?ls) + sum_list (map ?b ?ls)"
    by (rule sum_abs_diff) (rule nonneg)
  also have "\<dots> = real_of_int (sum_list (map snd (cl_class_counts p))) / cl_count p + real_of_int (sum_list (map snd counts)) / n"
    by (subst sum, force, subst sum, force, simp)
  finally have labels: "sum_list (map (\<lambda>l. \<bar>?a l - ?b l\<bar>) ?ls) \<le> \<dots>" .
  have "sum_list (map (\<lambda>l. \<bar>?a l - ?b l\<bar>) ?ls) + \<bar>real_of_int (cl_other p) / cl_count p - other / n\<bar> \<le>
      (real_of_int (sum_list (map snd (cl_class_counts p))) + cl_other p) / cl_count p + (real_of_int (sum_list (map snd counts)) + other) / n"
  proof -
    have "\<bar>real_of_int (cl_other p) / cl_count p - other / n\<bar> \<le> real_of_int (cl_other p) / cl_count p + other / n"
      using p(1) assms(2,3,5) by (smt (verit) divide_nonneg_pos of_int_0_le_iff of_int_0_less_iff)
    then show ?thesis
      using labels
      by (simp add: add_divide_distrib)
  qed
  also have "\<dots> = 2"
    using p(3) assms(2,3,6) by (simp add: of_int_add [symmetric] del: of_int_add)
  finally show "total_variation p counts other n \<le> 1" by (simp add: total_variation_def Let_def)
  have "0 \<le> sum_list (map (\<lambda>l. \<bar>?a l - ?b l\<bar>) ?ls)" by (rule sum_list_nonneg) auto
  then show "0 \<le> total_variation p counts other n" by (simp add: total_variation_def Let_def)
qed


section \<open>Combined summaries\<close>

text \<open>
  What \<^verbatim>\<open>numeric_summary\<close> of \<^verbatim>\<open>ml/monitoring/profiles.py\<close> reports of the finite values
  of a sample, apart from its quantiles: extrema, mean and population standard deviation.
\<close>

definition mean_of :: "real list \<Rightarrow> real" where
  "mean_of xs = sum_list xs / real (length xs)"

definition deviation_of :: "real list \<Rightarrow> real" where
  "deviation_of xs = sqrt (sum_list (map (\<lambda>x. (x - mean_of xs) ^ 2) xs) / real (length xs))"

definition summary_of :: "int \<Rightarrow> int \<Rightarrow> real list \<Rightarrow> numeric_summary" where
  "summary_of count missing xs =
     (if xs = [] then \<lparr>ns_count = count, ns_missing = missing, ns_finite = 0, ns_minimum = None, ns_maximum = None,
        ns_mean = None, ns_deviation = None, ns_quantiles = []\<rparr>
      else \<lparr>ns_count = count, ns_missing = missing, ns_finite = int (length xs), ns_minimum = Some (Min (set xs)),
        ns_maximum = Some (Max (set xs)), ns_mean = Some (mean_of xs), ns_deviation = Some (deviation_of xs), ns_quantiles = []\<rparr>)"

lemma mean_sum: "real (length xs) * mean_of xs = sum_list xs"
  by (cases "xs = []") (simp_all add: mean_of_def)

lemma deviation_sum: "sum_list (map (\<lambda>x. (x - m) ^ 2) xs) = sum_list (map (\<lambda>x. x ^ 2) xs) - 2 * m * sum_list xs + real (length xs) * m ^ 2"
  by (induction xs) (simp_all add: power2_eq_square algebra_simps)

lemma squares_nonneg: "0 \<le> sum_list (map (\<lambda>x. (f x) ^ 2) xs)" for f :: "'a \<Rightarrow> real"
  by (rule sum_list_nonneg) auto

lemma second_moment: "xs \<noteq> [] \<Longrightarrow> real (length xs) * (deviation_of xs ^ 2 + mean_of xs ^ 2) = sum_list (map (\<lambda>x. x ^ 2) xs)"
proof -
  assume ne: "xs \<noteq> []"
  let ?n = "real (length xs)" and ?m = "mean_of xs"
  have n: "0 < ?n" using ne by simp
  have "deviation_of xs ^ 2 = sum_list (map (\<lambda>x. (x - ?m) ^ 2) xs) / ?n"
    unfolding deviation_of_def by (rule real_sqrt_pow2) (simp add: squares_nonneg)
  also have "\<dots> = (sum_list (map (\<lambda>x. x ^ 2) xs) - 2 * ?m * (?n * ?m) + ?n * ?m ^ 2) / ?n"
    by (simp only: deviation_sum mean_sum)
  finally show ?thesis using n by (simp add: field_simps power2_eq_square)
qed

lemma deviation_by_moments:
  "xs \<noteq> [] \<Longrightarrow> deviation_of xs = sqrt (max (sum_list (map (\<lambda>x. x ^ 2) xs) / real (length xs) - mean_of xs ^ 2) 0)"
proof -
  assume ne: "xs \<noteq> []"
  let ?v = "sum_list (map (\<lambda>x. (x - mean_of xs) ^ 2) xs) / real (length xs)"
  have "0 \<le> ?v" by (simp add: squares_nonneg)
  moreover have "?v = sum_list (map (\<lambda>x. x ^ 2) xs) / real (length xs) - mean_of xs ^ 2"
  proof -
    have "deviation_of xs ^ 2 = ?v" unfolding deviation_of_def by (rule real_sqrt_pow2) (simp add: squares_nonneg)
    then show ?thesis using second_moment [OF ne] ne by (simp add: field_simps)
  qed
  ultimately show ?thesis by (simp add: deviation_of_def)
qed

lemma combined_columns:
  defines "f \<equiv> \<lambda>(c, m, xs). summary_of c m xs"
  shows "sum_list (map ns_finite (map f ss)) = int (length (concat (map (snd \<circ> snd) ss)))"
    and "sum_list (map (\<lambda>(n, m, d). real_of_int n * m) (weighted (map f ss))) = sum_list (concat (map (snd \<circ> snd) ss))"
    and "sum_list (map (\<lambda>(n, m, d). real_of_int n * (d ^ 2 + m ^ 2)) (weighted (map f ss))) = sum_list (map (\<lambda>x. x ^ 2) (concat (map (snd \<circ> snd) ss)))"
    and "sum_list (map ns_count (map f ss)) = sum_list (map fst ss)"
    and "sum_list (map ns_missing (map f ss)) = sum_list (map (fst \<circ> snd) ss)"
  by (induction ss) (auto simp: f_def weighted_def summary_of_def mean_sum second_moment)

definition present_values :: "(numeric_summary \<Rightarrow> real option) \<Rightarrow> numeric_summary list \<Rightarrow> real list" where
  "present_values f ss = concat (map (\<lambda>s. case f s of None \<Rightarrow> [] | Some x \<Rightarrow> [x]) ss)"

lemma extreme_values:
  assumes "\<And>xs :: real list. xs \<noteq> [] \<Longrightarrow> g (set xs) \<in> set xs" and "\<And>A x. finite A \<Longrightarrow> x \<in> A \<Longrightarrow> r (g A) x"
    and "\<And>A x. finite A \<Longrightarrow> A \<noteq> {} \<Longrightarrow> x \<in> A \<Longrightarrow> (\<And>y. y \<in> A \<Longrightarrow> r x y) \<Longrightarrow> g A = x"
    and "\<And>x y z. r x y \<Longrightarrow> r y z \<Longrightarrow> r x z"
    and "concat xss \<noteq> []"
  shows "g (set (concat (map (\<lambda>xs. if xs = [] then [] else [g (set xs)]) xss))) = g (set (concat xss))"
proof (rule assms(3))
  let ?A = "set (concat (map (\<lambda>xs. if xs = [] then [] else [g (set xs)]) xss))"
  obtain xs where xs: "xs \<in> set xss" "g (set (concat xss)) \<in> set xs" using assms(1) [OF assms(5)] by auto
  then have ne: "xs \<noteq> []" by auto
  have best: "r (g (set xs)) (g (set (concat xss)))" using assms(2) [of "set xs"] xs(2) by simp
  have all: "r (g (set (concat xss))) y" if "y \<in> set (concat xss)" for y using assms(2) that by simp
  have "g (set xs) = g (set (concat xss))"
  proof (rule assms(3))
    show "\<And>y. y \<in> set xs \<Longrightarrow> r (g (set (concat xss))) y" using all xs(1) by auto
  qed (use xs in auto)
  moreover have "g (set xs) \<in> ?A" using xs(1) ne by auto
  ultimately show m: "g (set (concat xss)) \<in> ?A" by simp
  show "?A \<noteq> {}" using m by (metis emptyE)
  show "r (g (set (concat xss))) y" if y: "y \<in> ?A" for y
  proof -
    obtain ys where "ys \<in> set xss" "ys \<noteq> []" "y = g (set ys)" using y by (auto split: if_splits)
    then show ?thesis using assms(1) [of ys] all by auto
  qed
qed simp

lemma make_summary_of:
  assumes "0 \<le> m" and "m \<le> c" and "int (length xs) \<le> c"
  shows "make_numeric_summary (summary_of c m xs) = Inr (summary_of c m xs)"
proof (cases "xs = []")
  case False
  obtain x where "x \<in> set xs" using False by (cases xs) auto
  moreover have "0 \<le> deviation_of xs" by (simp add: deviation_of_def squares_nonneg)
  ultimately show ?thesis using False assms by (auto simp: make_numeric_summary_def summary_of_def)
qed (use assms in \<open>simp add: make_numeric_summary_def summary_of_def\<close>)




section \<open>Detection\<close>

text \<open>What the capture of predictions stores, and what the training worker stores as a reference.\<close>

definition observed_summary :: "numeric_summary \<Rightarrow> bool" where
  "observed_summary s \<longleftrightarrow> make_numeric_summary s = Inr s \<and> (0 < ns_finite s \<longrightarrow> ns_minimum s \<noteq> None)"

definition observed_event :: "prediction_event \<Rightarrow> bool" where
  "observed_event e \<longleftrightarrow> (\<forall>f \<in> set (pe_profile e). make_feature_request_profile f = Inr f) \<and>
     (case pe_prediction e of None \<Rightarrow> True
      | Some (RegressionProfile s bins) \<Rightarrow> observed_summary s \<and> make_prediction_profile (RegressionProfile s bins) = Inr (RegressionProfile s bins)
      | Some (ClassificationProfile p) \<Rightarrow> make_class_profile p = Inr p)"

definition usable_numeric :: "numeric_reference \<Rightarrow> bool" where
  "usable_numeric r \<longleftrightarrow> make_numeric_reference r = Inr r \<and> 0 < ns_finite (nr_summary r)"

definition usable_reference :: "reference_profile \<Rightarrow> bool" where
  "usable_reference r \<longleftrightarrow> (\<forall>f \<in> set (rf_features r). usable_numeric (snd f)) \<and>
     (case rf_prediction r of RegressionReference f \<Rightarrow> usable_numeric f
      | ClassificationReference p \<Rightarrow> make_class_profile p = Inr p \<and> 0 < cl_count p)"

lemma usable_numericD:
  assumes "usable_numeric r"
  shows "nr_bins r \<noteq> [] \<and> (\<forall>c \<in> set (nr_bins r). 0 \<le> c) \<and> 0 < sum_list (nr_bins r)"
  using assms by (auto simp: usable_numeric_def make_numeric_reference_def list_ex_iff split: if_splits)

lemma psi_exists:
  assumes "usable_numeric r" and "length bins = length (nr_bins r)" and "\<forall>c \<in> set bins. 0 \<le> c" and "0 < sum_list bins" and "0 < eps"
  shows "\<exists>x. population_stability_index (nr_bins r) bins eps = Inr x \<and> 0 \<le> x"
proof -
  have "population_stability_index (nr_bins r) bins eps = Inr (sum_list (map2 (\<lambda>r' c. psi_term (smoothed eps (sum_list (nr_bins r)) r')
      (smoothed eps (sum_list bins) c)) (nr_bins r) bins))"
    using usable_numericD [OF assms(1)] assms(2-4) by (auto simp: population_stability_index_def list_ex_iff)
  then show ?thesis
    using sum_map2_nonneg(1) [OF assms(2) [symmetric]] psi_term_nonneg(1) [OF smoothed_pos [OF assms(5)] smoothed_pos [OF assms(5)]] by auto
qed

lemma add_bins_ok:
  assumes "length xs = length ys"
  shows "length (add_bins xs ys) = length xs" and "sum_list (add_bins xs ys) = sum_list xs + sum_list ys"
    and "\<forall>c \<in> set xs. 0 \<le> c \<Longrightarrow> \<forall>c \<in> set ys. 0 \<le> c \<Longrightarrow> \<forall>c \<in> set (add_bins xs ys). 0 \<le> c"
  using assms by (induction xs ys rule: list_induct2) (simp_all add: add_bins_def)

definition window_ok :: "nat \<Rightarrow> int list \<Rightarrow> bool" where
  "window_ok n bins \<longleftrightarrow> length bins = n \<and> (\<forall>c \<in> set bins. 0 \<le> c)"

lemma window_ok_add: "window_ok n xs \<Longrightarrow> length ys = n \<Longrightarrow> \<forall>c \<in> set ys. 0 \<le> c \<Longrightarrow> window_ok n (add_bins xs ys)"
  using add_bins_ok(1,3) [of xs ys] by (simp add: window_ok_def)

lemma feature_window_ok:
  assumes "\<forall>e \<in> set es. observed_event e" and "window_ok n (fw_bins w)" and "sum_list (fw_bins w) = fw_finite w"
  shows "window_ok n (fw_bins (fold (feature_event i) es w)) \<and>
    sum_list (fw_bins (fold (feature_event i) es w)) = fw_finite (fold (feature_event i) es w)"
  using assms
proof (induction es arbitrary: w)
  case (Cons e es)
  have "window_ok n (fw_bins (feature_event i e w)) \<and> sum_list (fw_bins (feature_event i e w)) = fw_finite (feature_event i e w)"
  proof (cases "length (pe_profile e) \<le> i")
    case False
    let ?f = "pe_profile e ! i"
    have "make_feature_request_profile ?f = Inr ?f" using Cons.prems(1) False by (simp add: observed_event_def)
    then have "\<forall>c \<in> set bins. 0 \<le> c" "sum_list bins = ns_finite (fp_summary ?f)" if "fp_bins ?f = Some bins" for bins
      using that by (auto simp: make_feature_request_profile_def list_ex_iff split: if_splits)
    then have "window_ok n (add_bins (fw_bins w) bins) \<and> sum_list (add_bins (fw_bins w) bins) = fw_finite w + ns_finite (fp_summary ?f)"
      if "fp_bins ?f = Some bins" "length bins = length (fw_bins w)" for bins
      using that Cons.prems(2,3) window_ok_add [of n "fw_bins w" bins] add_bins_ok(2) [of "fw_bins w" bins] by (simp add: window_ok_def)
    then show ?thesis using Cons.prems(2,3) False by (simp add: feature_event_def Let_def split: option.split)
  qed (use Cons.prems in \<open>simp add: feature_event_def\<close>)
  then show ?case using Cons by simp
qed simp

lemma feature_result_ok:
  assumes "usable_numeric r" and "\<forall>e \<in> set es. observed_event e" and "1 \<le> minimum" and "0 < th_epsilon th"
  shows "\<exists>d. feature_result i r es minimum th = Inr d \<and> fd_index d = i \<and> (\<forall>x. fd_psi d = Some x \<longrightarrow> 0 \<le> x)"
proof -
  let ?w = "fold (feature_event i) es (empty_window (length (nr_bins r)))"
  have "window_ok (length (nr_bins r)) (fw_bins ?w)" "sum_list (fw_bins ?w) = fw_finite ?w"
    using feature_window_ok [OF assms(2), of "length (nr_bins r)" "empty_window (length (nr_bins r))" i]
    by (simp_all add: empty_window_def window_ok_def sum_list_replicate)
  then have "\<exists>x. population_stability_index (nr_bins r) (fw_bins ?w) (th_epsilon th) = Inr x \<and> 0 \<le> x" if "minimum \<le> fw_finite ?w"
    using psi_exists [OF assms(1) _ _ _ assms(4)] assms(3) that by (simp add: window_ok_def)
  then show ?thesis
    by (cases "\<not> fw_usable ?w \<or> fw_finite ?w < minimum") (simp_all add: feature_result_def Let_def not_less, elim exE, simp)
qed

lemma feature_results_ok:
  assumes "\<forall>e \<in> set es. observed_event e" and "1 \<le> minimum" and "0 < th_epsilon th"
  shows "\<forall>f \<in> set fs. usable_numeric (snd f) \<Longrightarrow> \<exists>ds. feature_results i fs es minimum th = Inr ds \<and> map fd_index ds = [i ..< i + length fs] \<and>
    (\<forall>d \<in> set ds. \<forall>x. fd_psi d = Some x \<longrightarrow> 0 \<le> x)"
proof (induction fs arbitrary: i)
  case (Cons f fs)
  obtain d where d: "feature_result i (snd f) es minimum th = Inr d" "fd_index d = i" "\<forall>x. fd_psi d = Some x \<longrightarrow> 0 \<le> x"
    using feature_result_ok [OF _ assms, of "snd f" i] Cons.prems by auto
  obtain ds where "feature_results (Suc i) fs es minimum th = Inr ds" "map fd_index ds = [Suc i ..< Suc i + length fs]"
      "\<forall>d \<in> set ds. \<forall>x. fd_psi d = Some x \<longrightarrow> 0 \<le> x"
    using Cons.IH [of "Suc i"] Cons.prems by auto
  then show ?case using d by (simp add: upt_rec)
qed simp

lemma observed_summaryD: "observed_summary s \<Longrightarrow> 0 \<le> ns_missing s \<and> ns_missing s \<le> ns_count s \<and> 0 \<le> ns_finite s \<and> ns_finite s \<le> ns_count s \<and>
    (0 < ns_finite s \<longrightarrow> (\<exists>a b. ns_minimum s = Some a \<and> ns_maximum s = Some b \<and> a \<le> b))"
  by (auto simp: observed_summary_def make_numeric_summary_def split: if_splits option.splits)

lemma sum_positive: "\<forall>s \<in> set ss. 0 \<le> f s \<Longrightarrow> sum_list (map f ss) \<noteq> 0 \<Longrightarrow> \<exists>s \<in> set ss. 0 < (f s :: int)"
  by (induction ss) (auto simp: less_le)

lemma combine_ok:
  assumes "\<forall>s \<in> set ss. observed_summary s"
  shows "\<exists>s. combine_numeric_summaries ss = Inr s \<and> ns_finite s = sum_list (map ns_finite ss)"
proof -
  have nonneg: "0 \<le> sum_list (map ns_missing ss)" "sum_list (map ns_missing ss) \<le> sum_list (map ns_count ss)"
      "0 \<le> sum_list (map ns_finite ss)" "sum_list (map ns_finite ss) \<le> sum_list (map ns_count ss)"
    using assms by (induction ss) (auto dest!: observed_summaryD)
  show ?thesis
  proof (cases "sum_list (map ns_finite ss) = 0")
    case True
    then show ?thesis using nonneg by (simp add: combine_numeric_summaries_def make_numeric_summary_def Let_def)
  next
    case False
    let ?minima = "concat (map (\<lambda>s. case ns_minimum s of None \<Rightarrow> [] | Some x \<Rightarrow> [x]) ss)"
    let ?maxima = "concat (map (\<lambda>s. case ns_maximum s of None \<Rightarrow> [] | Some x \<Rightarrow> [x]) ss)"
    obtain s where s: "s \<in> set ss" "0 < ns_finite s"
      using sum_positive [OF _ False] assms observed_summaryD by blast
    obtain a b where ab: "ns_minimum s = Some a" "ns_maximum s = Some b" "a \<le> b" using observed_summaryD s assms by blast
    then have mem: "a \<in> set ?minima" "b \<in> set ?maxima" using s(1) by force+
    then have ne: "?minima \<noteq> []" "?maxima \<noteq> []" by (metis empty_iff empty_set)+
    have lo: "Min (set ?minima) \<le> a" by (rule Min_le [OF List.finite_set mem(1)])
    have hi: "b \<le> Max (set ?maxima)" by (rule Max_ge [OF List.finite_set mem(2)])
    have le: "Min (set ?minima) \<le> Max (set ?maxima)" using order_trans [OF lo order_trans [OF ab(3) hi]] .
    have made: "make_numeric_summary \<lparr>ns_count = sum_list (map ns_count ss), ns_missing = sum_list (map ns_missing ss), ns_finite = sum_list (map ns_finite ss),
        ns_minimum = Some (Min (set ?minima)), ns_maximum = Some (Max (set ?maxima)), ns_mean = Some m, ns_deviation = Some (sqrt (max v 0)), ns_quantiles = []\<rparr> =
      Inr \<lparr>ns_count = sum_list (map ns_count ss), ns_missing = sum_list (map ns_missing ss), ns_finite = sum_list (map ns_finite ss),
        ns_minimum = Some (Min (set ?minima)), ns_maximum = Some (Max (set ?maxima)), ns_mean = Some m, ns_deviation = Some (sqrt (max v 0)), ns_quantiles = []\<rparr>" for m v
    proof -
      have "0 \<le> sqrt (max v 0)" by simp
      then show ?thesis using nonneg False le by (simp only: make_numeric_summary_def numeric_summary.simps option.case prod.case) simp
    qed
    show ?thesis unfolding combine_numeric_summaries_def Let_def using False ne made by (simp only: if_False simp_thms) auto
  qed
qed


lemma regression_window_ok:
  assumes "\<forall>e \<in> set es. observed_event e" and "window_ok n (rw_bins w)" and "\<forall>s \<in> set (rw_summaries w). observed_summary s"
    and "rw_usable w \<longrightarrow> sum_list (rw_bins w) = sum_list (map ns_finite (rw_summaries w))"
  shows "let w' = fold regression_event es w in window_ok n (rw_bins w') \<and> (\<forall>s \<in> set (rw_summaries w'). observed_summary s) \<and>
    (rw_usable w' \<longrightarrow> sum_list (rw_bins w') = sum_list (map ns_finite (rw_summaries w')))"
  using assms
proof (induction es arbitrary: w)
  case (Cons e es)
  let ?w = "regression_event e w"
  have "window_ok n (rw_bins ?w) \<and> (\<forall>s \<in> set (rw_summaries ?w). observed_summary s) \<and>
    (rw_usable ?w \<longrightarrow> sum_list (rw_bins ?w) = sum_list (map ns_finite (rw_summaries ?w)))"
  proof (cases "\<exists>s bs. pe_prediction e = Some (RegressionProfile s (Some bs)) \<and> length bs = length (rw_bins w)")
    case True
    then obtain s bs where p: "pe_prediction e = Some (RegressionProfile s (Some bs))" "length bs = length (rw_bins w)" by blast
    then have "observed_summary s" "\<forall>c \<in> set bs. 0 \<le> c" "sum_list bs = ns_finite s"
      using Cons.prems(1) by (auto simp: observed_event_def list_ex_iff split: if_splits)
    moreover have "window_ok n (add_bins (rw_bins w) bs)"
      by (rule window_ok_add) (use Cons.prems(2) p(2) calculation in \<open>auto simp: window_ok_def\<close>)
    moreover have "rw_usable ?w = rw_usable w" using p by (simp add: regression_event_def)
    ultimately show ?thesis using Cons.prems(3,4) p add_bins_ok(2) [of "rw_bins w" bs] by (simp add: regression_event_def)
  next
    case False
    then show ?thesis using Cons.prems
      by (auto simp: regression_event_def observed_event_def split: option.splits prediction_profile.splits)
  qed
  then show ?case unfolding fold_simps using Cons.prems(1) by (intro Cons.IH) simp_all
qed (simp add: Let_def)

lemma regression_result_ok:
  assumes "usable_numeric r" and "\<forall>e \<in> set es. observed_event e" and "1 \<le> minimum" and "0 < th_epsilon th"
  shows "\<exists>d. regression_result r es minimum th = Inr d \<and> (\<forall>x. pdr_distance d = Some x \<longrightarrow> 0 \<le> x)"
proof -
  let ?w = "fold regression_event es \<lparr>rw_bins = replicate (length (nr_bins r)) 0, rw_summaries = [], rw_usable = True\<rparr>"
  have w: "window_ok (length (nr_bins r)) (rw_bins ?w)" "\<forall>s \<in> set (rw_summaries ?w). observed_summary s"
      "rw_usable ?w \<longrightarrow> sum_list (rw_bins ?w) = sum_list (map ns_finite (rw_summaries ?w))"
    using regression_window_ok [OF assms(2), of "length (nr_bins r)"
      "\<lparr>rw_bins = replicate (length (nr_bins r)) 0, rw_summaries = [], rw_usable = True\<rparr>"]
    by (simp_all add: window_ok_def sum_list_replicate Let_def)
  obtain s where s: "combine_numeric_summaries (rw_summaries ?w) = Inr s" "ns_finite s = sum_list (map ns_finite (rw_summaries ?w))"
    using combine_ok [OF w(2)] by blast
  show ?thesis
  proof (cases "\<not> rw_usable ?w \<or> ns_finite s < minimum")
    case True
    then show ?thesis using s(1) by (simp add: regression_result_def Let_def)
  next
    case False
    then have "\<exists>x. population_stability_index (nr_bins r) (rw_bins ?w) (th_epsilon th) = Inr x \<and> 0 \<le> x"
      using psi_exists [OF assms(1) _ _ _ assms(4)] assms(3) w s(2) by (simp add: window_ok_def)
    then show ?thesis using False s(1) by (elim exE) (simp add: regression_result_def Let_def)
  qed
qed

lemma class_window_ok:
  assumes "\<forall>e \<in> set es. observed_event e" and "\<forall>x \<in> set (cw_counts w). 0 \<le> snd x" and "0 \<le> cw_other w"
    and "sum_list (map snd (cw_counts w)) + cw_other w = cw_count w"
  shows "let w' = fold class_event es w in (\<forall>x \<in> set (cw_counts w'). 0 \<le> snd x) \<and> 0 \<le> cw_other w' \<and>
    sum_list (map snd (cw_counts w')) + cw_other w' = cw_count w'"
  using assms
proof (induction es arbitrary: w)
  case (Cons e es)
  have p: "(\<forall>x \<in> set (cl_class_counts p). 0 \<le> snd x) \<and> 0 \<le> cl_other p \<and> sum_list (map snd (cl_class_counts p)) + cl_other p = cl_count p"
    if "pe_prediction e = Some (ClassificationProfile p)" for p
    using that Cons.prems(1) by (auto simp: observed_event_def make_class_profile_def list_ex_iff split: if_splits)
  have "(\<forall>x \<in> set (cw_counts (class_event e w)). 0 \<le> snd x) \<and> 0 \<le> cw_other (class_event e w) \<and>
    sum_list (map snd (cw_counts (class_event e w))) + cw_other (class_event e w) = cw_count (class_event e w)"
  proof (cases "\<exists>p. pe_prediction e = Some (ClassificationProfile p)")
    case True
    then obtain p where "pe_prediction e = Some (ClassificationProfile p)" by blast
    then show ?thesis using p Cons.prems(2-4) by (auto simp: class_event_def)
  next
    case False
    then show ?thesis using Cons.prems(2-4) by (auto simp: class_event_def split: option.split prediction_profile.split)
  qed
  then show ?case unfolding fold_simps using Cons.prems(1) by (intro Cons.IH) simp_all
qed (simp add: Let_def)

lemma classification_result_ok:
  assumes "make_class_profile p = Inr p" and "0 < cl_count p" and "\<forall>e \<in> set es. observed_event e" and "1 \<le> minimum"
  shows "\<exists>d. classification_result p es minimum th = Inr d \<and> (\<forall>x. pdr_distance d = Some x \<longrightarrow> 0 \<le> x \<and> x \<le> 1)"
proof -
  let ?w = "fold class_event es \<lparr>cw_counts = [], cw_other = 0, cw_count = 0, cw_usable = True\<rparr>"
  have "(\<forall>x \<in> set (cw_counts ?w). 0 \<le> snd x) \<and> 0 \<le> cw_other ?w \<and> sum_list (map snd (cw_counts ?w)) + cw_other ?w = cw_count ?w"
    using class_window_ok [OF assms(3), of "\<lparr>cw_counts = [], cw_other = 0, cw_count = 0, cw_usable = True\<rparr>"] by (simp add: Let_def)
  then have "0 \<le> total_variation p (cw_counts ?w) (cw_other ?w) (cw_count ?w) \<and> total_variation p (cw_counts ?w) (cw_other ?w) (cw_count ?w) \<le> 1"
    if "minimum \<le> cw_count ?w"
    using total_variation_bounds [OF assms(1,2)] assms(4) that by simp
  then show ?thesis using assms(2,4) by (simp add: classification_result_def Let_def not_less)
qed



definition sample_reference :: reference_profile where
  "sample_reference = \<lparr>rf_model_name = ''m'', rf_version = ''1'', rf_key = \<lparr>key_algorithm = RandomForest, key_task = Classification\<rparr>,
     rf_feature_count = 1,
     rf_features = [(0, \<lparr>nr_summary = \<lparr>ns_count = 4, ns_missing = 0, ns_finite = 4, ns_minimum = Some 1, ns_maximum = Some 4, ns_mean = Some 2,
       ns_deviation = Some 1, ns_quantiles = []\<rparr>, nr_edges = [2], nr_bins = [2, 2]\<rparr>)],
     rf_prediction = ClassificationReference \<lparr>cl_count = 4, cl_class_counts = [(''label:0'', 1), (''label:1'', 3)], cl_other = 0\<rparr>,
     rf_sample_count = 4, rf_created_at = 0\<rparr>"

definition sample_event :: prediction_event where
  "sample_event = \<lparr>pe_id = 1, pe_requested_by = 2, pe_model_name = ''m'', pe_reference = ''1'', pe_version = Some ''1'', pe_aliases = [],
     pe_key = \<lparr>key_algorithm = RandomForest, key_task = Classification\<rparr>, pe_status = EventSucceeded, pe_rows = 2, pe_features = 1,
     pe_duration_ms = 3, pe_profile = [\<lparr>fp_index = 0, fp_summary = \<lparr>ns_count = 2, ns_missing = 0, ns_finite = 2, ns_minimum = Some 9,
       ns_maximum = Some 9, ns_mean = Some 9, ns_deviation = Some 0, ns_quantiles = []\<rparr>, fp_bins = Some [0, 2], fp_out_of_range = 2\<rparr>],
     pe_prediction = Some (ClassificationProfile \<lparr>cl_count = 2, cl_class_counts = [(''label:0'', 2)], cl_other = 0\<rparr>),
     pe_error_code = None, pe_message = None, pe_correlation = None, pe_created_at = 5, pe_completed_at = 6\<rparr>"

definition sample_thresholds :: drift_thresholds where
  "sample_thresholds = \<lparr>th_warning = 1 / 10, th_critical = 1 / 4, th_missing_rate = 1 / 10, th_out_of_range = 1 / 10, th_epsilon = 1 / 1000\<rparr>"


end
