(* ===== verification/Spec2Isabelle.thy ===== *)
theory Spec2Isabelle
  imports Job_Worker_Correct Promotion_Correct Retraining_Safety Rag_Chunking AutoML_Findings Dataset_Outcomes Drift_Correct
begin

text \<open>
  This development verifies the back end of the enterprise AI platform: the Python program under
  \<^verbatim>\<open>src/backend/app\<close>. It models the part of the program that decides what is trained, by whom,
  how often, and which trained model is put into service, and it proves the contracts of that
  part. The root theory imports every other theory of the development.

  \<^bold>\<open>The program.\<close> A company's users submit training jobs over HTTP. The submission service
  validates the request against an allowlist of model plugins, stores a row of the table
  \<^verbatim>\<open>ai_training_jobs\<close> and sends its identifier to a message broker. Workers receive the
  messages at least once, claim the row, run a trainer outside any transaction, register the model
  with MLflow, and record the result. A recovery pass repairs rows whose worker died. A promotion
  service moves the aliases under which registered models are served, after comparing the
  candidate with the holder of the alias, and writes an audit row before and after; a
  reconciliation pass decides audits that were left pending. Retraining closes the loop: reports
  on the predictions of a served model are turned into triggers, a policy with quotas and a
  cooldown decides on them, and an eligible trigger becomes a request with one training job of the
  same specification. All coordination between processes
  goes through conditional updates: an \<^verbatim>\<open>UPDATE\<close> whose \<^verbatim>\<open>WHERE\<close> clause repeats the
  status and the version the writer has read. Rows are tenant-scoped.

  \<^bold>\<open>Theories and sources.\<close> Paths are relative to \<^verbatim>\<open>src/backend/app\<close>.

  \<^item> \<^verbatim>\<open>Platform_Prelude\<close>: exceptions with the class hierarchy the handlers rely on, the string
    primitives, binary64 values, tables with \<^verbatim>\<open>UPDATE ... RETURNING\<close>, and the locale
    \<open>versioned_rows\<close>: rows with a status and a version that only conditional updates
    change. Its lemmas (old snapshots lose, terminal rows stay, versions never fall) are
    interpreted for training jobs and promotion audits.
  \<^item> \<^verbatim>\<open>Model_Registry\<close>: \<^verbatim>\<open>ml/domain/enums.py\<close>, \<^verbatim>\<open>ml/base/identity.py\<close>,
    \<^verbatim>\<open>ml/registry/naming.py\<close>, \<^verbatim>\<open>ml/registry/models.py\<close>, \<^verbatim>\<open>ml/registry/mlflow.py\<close>.
    The MLflow client is a record of functions over an external state. The locale
    \<open>verified_registry\<close> is the interface the promotion service relies on, an assignment that has
    been read back; it is interpreted on the adapter.
  \<^item> \<^verbatim>\<open>Search_Space\<close>: \<^verbatim>\<open>ml/automl/search_space.py\<close>. Parameters of a search space, their
    validators, narrowing of a space, and the assignments of a space.
  \<^item> \<^verbatim>\<open>Model_Plugins\<close>, \<^verbatim>\<open>Plugin_Catalog\<close>: \<^verbatim>\<open>ml/plugins/core.py\<close>. Parameter definitions
    and their validation, the registry, and the default catalogue entry by entry.
  \<^item> \<^verbatim>\<open>Job_Specs\<close>: \<^verbatim>\<open>ml/training_limits.py\<close>,
    \<^verbatim>\<open>ml/trainers/random_forest/parameters.py\<close>, \<^verbatim>\<open>ml/jobs/models.py\<close>. The persisted
    specification of a job and its four validators.
  \<^item> \<^verbatim>\<open>Job_Repository\<close>: the job table of \<^verbatim>\<open>models/ai_governance.py\<close>, the repository
    \<^verbatim>\<open>TrainingJobRepository\<close> of \<^verbatim>\<open>repositories/ai_governance.py\<close>, and the tenant filter of
    \<^verbatim>\<open>db/tenant_scope.py\<close>. One definition per repository operation, from the table to the
    answer and the table after commit.
  \<^item> \<^verbatim>\<open>Job_Lifecycle\<close>: the life cycle of one row as an inductive relation \<open>job_move\<close>, the
    proof that every repository operation refines it, and the interpretation of
    \<open>versioned_rows\<close>.
  \<^item> \<^verbatim>\<open>Job_Invariants\<close>: the events actors commit, the tables every interleaving of them
    reaches, and the invariants of these tables.
  \<^item> \<^verbatim>\<open>Job_Service\<close>, \<^verbatim>\<open>Job_Service_Correct\<close>, \<^verbatim>\<open>Job_Service_Safety\<close>:
    \<^verbatim>\<open>ml/jobs/service.py\<close>. Submission, queries, cancellation, recovery.
  \<^item> \<^verbatim>\<open>Job_Worker\<close>, \<^verbatim>\<open>Job_Worker_Correct\<close>: \<^verbatim>\<open>ml/jobs/worker.py\<close> and the training
    actor of \<^verbatim>\<open>ml/jobs/tasks.py\<close>.
  \<^item> \<^verbatim>\<open>Promotion_Policy\<close>: \<^verbatim>\<open>ml/promotion/models.py\<close>, \<^verbatim>\<open>ml/promotion/policy.py\<close>.
  \<^item> \<^verbatim>\<open>Promotion_Service\<close>, \<^verbatim>\<open>Promotion_Correct\<close>: \<^verbatim>\<open>ml/promotion/service.py\<close> and the audit
    table of \<^verbatim>\<open>repositories/ai_governance.py\<close>.
  \<^item> \<^verbatim>\<open>Monitoring_Models\<close>: \<^verbatim>\<open>ml/monitoring/models.py\<close>, the validated values of monitoring.
  \<^item> \<^verbatim>\<open>Retraining_Policy\<close>, \<^verbatim>\<open>Retraining_Specification\<close>: \<^verbatim>\<open>models.py\<close>, \<^verbatim>\<open>policy.py\<close>,
    \<^verbatim>\<open>comparison.py\<close> and \<^verbatim>\<open>specification.py\<close> of \<^verbatim>\<open>ml/retraining\<close>.
  \<^item> \<^verbatim>\<open>Retraining_Repository\<close>: \<^verbatim>\<open>repositories/ai_retraining.py\<close>.
  \<^item> \<^verbatim>\<open>Retraining_Service\<close>, \<^verbatim>\<open>Retraining_Triggers\<close>: \<^verbatim>\<open>ml/retraining/service.py\<close> and
    \<^verbatim>\<open>ml/retraining/reconcile.py\<close>. \<^verbatim>\<open>Retraining_Correct\<close>, \<^verbatim>\<open>Retraining_Safety\<close>: quotas,
    deduplication, recovery of interrupted submissions, synchronisation, and how reconciliation
    fails.
  \<^item> \<^verbatim>\<open>Rag_Chunking\<close>: \<^verbatim>\<open>rag/chunking.py\<close>.
  \<^item> \<^verbatim>\<open>AutoML_Models\<close>, \<^verbatim>\<open>AutoML_Sampling\<close>: \<^verbatim>\<open>metrics.py\<close>, \<^verbatim>\<open>models.py\<close>, \<^verbatim>\<open>champion.py\<close>,
    \<^verbatim>\<open>sampling.py\<close> and \<^verbatim>\<open>materialization.py\<close> of \<^verbatim>\<open>ml/automl\<close>.
  \<^item> \<^verbatim>\<open>AutoML_Repository\<close>: \<^verbatim>\<open>models/automl.py\<close> and \<^verbatim>\<open>repositories/automl.py\<close>.
  \<^item> \<^verbatim>\<open>AutoML_Worker\<close>: the transactions of the trial worker in \<^verbatim>\<open>services/automl_execution.py\<close>.
    \<^verbatim>\<open>AutoML_Lifecycle\<close>, \<^verbatim>\<open>AutoML_Invariants\<close>, \<^verbatim>\<open>AutoML_Safety\<close>, \<^verbatim>\<open>AutoML_Correct\<close>: the
    life cycles of studies, trials and slots, the events actors commit while the clock advances,
    the invariant of every reachable store, and the fencing of workers.
  \<^item> \<^verbatim>\<open>AutoML_Execution\<close>: \<^verbatim>\<open>services/automl_execution.py\<close>, the coordinator of a study, the
    trial worker and the reconciler as sequences of transactions. \<^verbatim>\<open>AutoML_Service\<close>:
    \<^verbatim>\<open>services/automl.py\<close>. \<^verbatim>\<open>AutoML_Actors\<close>: every actor refines the events of the store.
    \<^verbatim>\<open>AutoML_Outcomes\<close>, \<^verbatim>\<open>AutoML_Findings\<close>: cancellation, how a study ends, and how it fails to.
  \<^item> \<^verbatim>\<open>Drift_Engine\<close>, \<^verbatim>\<open>Drift_Correct\<close>: \<^verbatim>\<open>ml/monitoring/drift.py\<close>. The indices are distances, combined
    summaries are exact, and detection never fails on validated values.
  \<^item> \<^verbatim>\<open>Python_Text\<close>: the text primitives of the standard library the importers use (integers and
    floats of a text, case folding, lines, the state machine of the CSV reader) and
    \<^verbatim>\<open>utils/safe_text.py\<close>.
  \<^item> \<^verbatim>\<open>Dataset_Ingestion\<close>, \<^verbatim>\<open>Dataset_Tables\<close>, \<^verbatim>\<open>Dataset_Readiness\<close>: \<^verbatim>\<open>datasets/domain.py\<close>
    and \<^verbatim>\<open>datasets/ingestion.py\<close>. The importers, what an accepted table is, and which tables train.
  \<^item> \<^verbatim>\<open>Dataset_Repository\<close>: \<^verbatim>\<open>models/datasets.py\<close> and \<^verbatim>\<open>repositories/datasets.py\<close>.
    \<^verbatim>\<open>Dataset_Service\<close>: \<^verbatim>\<open>datasets/storage.py\<close>, \<^verbatim>\<open>datasets/naming.py\<close> and
    \<^verbatim>\<open>datasets/service.py\<close>. \<^verbatim>\<open>Dataset_Lifecycle\<close>, \<^verbatim>\<open>Dataset_Correct\<close>: the life cycles of
    datasets and versions, two more instances of \<open>versioned_rows\<close>, and the invariant of reachable
    stores. \<^verbatim>\<open>Dataset_Actors\<close>: service and processor refine the events.
    \<^verbatim>\<open>Dataset_Findings\<close>, \<^verbatim>\<open>Dataset_Outcomes\<close>: object storage, names, and how versions get stuck.

  \<^bold>\<open>How state and operations correspond.\<close> A table is the list of its committed rows in
  insertion order; a row is a record with the columns of the SQLAlchemy model. A repository
  method is a function from its arguments and the table to its answer and the table after commit.
  A service method runs several transactions. Between two of them other processes may commit, so
  a service takes, for each such point, the list of events others commit there, and the
  properties quantify over these lists: they hold for every interleaving at transaction
  granularity. Exceptions are values of \<open>'a result = pyexc + 'a\<close>; \<^verbatim>\<open>except\<close> clauses test the
  class with \<open>isinstance\<close>. Python integers are \<open>int\<close> or, where the code keeps them
  nonnegative, \<open>nat\<close>; finite floats are reals, with the infinities and NaN kept apart.

  \<^bold>\<open>What the groups of lemmas show.\<close> Validators: accepted values have their stated form, and
  which exceptions escape for rejected ones. Registry and names: names and tags determine the key
  they were built from, and an alias assignment that succeeds has been read back. Search spaces
  and plugins: narrowing only restricts, the default catalogue passes its own validators, and
  each trial builds its estimator. Job table: uniqueness of identifiers and idempotency
  scopes, consistency of rows with their status, fencing of stale workers, bounds on attempts.
  Services: what a successful answer says of the table, and what each error leaves behind. Worker:
  its verdict agrees with the row, the audit trail and the alias. Promotion: who may move which
  alias on which evidence, and that the audit trail tells the truth. Retraining: a decision is
  eligible exactly when every check passes, quotas and deduplication hold, and a request has one
  training job and follows it. Chunking: it ends, its chunks are the non-blank
  windows, and they cover the document. AutoML: accepted studies materialize, concurrency is
  bounded by slots and limits, trials follow their life cycle, one claim stores one outcome,
  actors commit nothing but the events of the store, and a cancelled study starts no trial.
  Datasets: an accepted table fits its schema and its training sets are a partition of its rows, published
  versions stay, and the pointer of a dataset moves forward.

  \<^bold>\<open>Bounds.\<close> No definition uses fuel: the loops of the source run over the rows a query returned or
  over the elements of a request, and the loops over a text or over the digits of a number
  decrease a measure. Strings are lists of code
  points below 256; \<open>strip\<close>, \<open>isdigit\<close> and \<open>int\<close> are defined on these as Python defines them.

  \<^bold>\<open>Parameters.\<close> Not under \<^verbatim>\<open>src\<close>, hence arguments of the definitions: the SHA-256
  fingerprint of a payload, the broker, the clock, the MLflow client, the random generator, and the
  executors that run scikit-learn. Where a property depends on what they do, the hypothesis is named in it.

  \<^bold>\<open>Not modelled.\<close> HTTP routing and schemas, settings, logging, metrics and tracing (input and
  output); trainers, metrics engines and tracking (wrappers of scikit-learn, NumPy and MLflow);
  the front end and the migrations. Rounding of binary64 arithmetic is left out. Prediction
  monitoring, the service of retrieval-augmented generation, authentication and the sensor pipeline are components of their own; they are planned in
  this order, each with its table, its life cycle under \<open>versioned_rows\<close> where it has one,
  and its service.
\<close>

end
